(* ===== verification/Prelude.thy ===== *)
theory Prelude
  imports Main "HOL-Library.Word" "HOL-Library.Sublist"
begin

text \<open>
  Shared vocabulary of the development: machine integers, the string operations of
  Rust's standard library that the sources use, Rust's \<open>Result\<close> as a sum, and SQL tables
  as lists of rows.

  A Rust \<open>String\<close> is its sequence of UTF-8 bytes, one \<^typ>\<open>char\<close> per byte, so that
  \<open>length\<close> is \<open>str::len\<close>. An \<open>i64\<close> is an \<^typ>\<open>int\<close>; where the sources compute with
  values that can leave the 64-bit range the result passes through \<open>i64_wrap\<close> (the
  release profile wraps). A \<open>u64\<close> is a \<open>64 word\<close>.
\<close>

named_theorems table_simps \<open>rewriting of the SQL table operations\<close>
named_theorems str_simps \<open>evaluation of the string operations\<close>

named_theorems frames \<open>which table a transaction writes\<close>

section \<open>Machine integers\<close>

type_synonym u64 = "64 word"
type_synonym i64 = int
type_synonym byte = "8 word"

abbreviation i64_max :: int where "i64_max \<equiv> 9223372036854775807"
abbreviation i64_min :: int where "i64_min \<equiv> - 9223372036854775808"

definition in_i64 :: "int \<Rightarrow> bool" where
  "in_i64 i \<longleftrightarrow> i64_min \<le> i \<and> i \<le> i64_max"

definition i64_wrap :: "int \<Rightarrow> i64" where
  "i64_wrap i = (i + 9223372036854775808) mod 18446744073709551616 - 9223372036854775808"

text \<open>\<open>as i64\<close> and \<open>as u64\<close> casts reinterpret the two's complement bits.\<close>

definition u64_as_i64 :: "u64 \<Rightarrow> i64" where
  "u64_as_i64 w = i64_wrap (uint w)"

definition i64_as_u64 :: "i64 \<Rightarrow> u64" where
  "i64_as_u64 i = word_of_int i"

definition saturating_sub :: "u64 \<Rightarrow> u64 \<Rightarrow> u64" where
  "saturating_sub a b = (if b \<le> a then a - b else 0)"

section \<open>Strings\<close>

definition digit_char :: "nat \<Rightarrow> char" where
  "digit_char d = char_of (48 + d)"

fun dec_of_nat :: "nat \<Rightarrow> string" where
  "dec_of_nat n = (if n < 10 then [digit_char n]
                   else dec_of_nat (n div 10) @ [digit_char (n mod 10)])"

definition fmt_int :: "int \<Rightarrow> string" where
  "fmt_int i = (if i < 0 then ''-'' @ dec_of_nat (nat (- i)) else dec_of_nat (nat i))"

definition is_digit :: "char \<Rightarrow> bool" where
  "is_digit c \<longleftrightarrow> 48 \<le> (of_char c :: nat) \<and> (of_char c :: nat) \<le> 57"

definition digit_val :: "char \<Rightarrow> nat" where
  "digit_val c = of_char c - 48"

text \<open>The digits of a decimal numeral; \<open>None\<close> at the first character that is none.\<close>

fun parse_digits :: "nat \<Rightarrow> string \<Rightarrow> nat option" where
  "parse_digits acc [] = Some acc"
| "parse_digits acc (c # cs) =
     (if is_digit c then parse_digits (10 * acc + digit_val c) cs else None)"

text \<open>\<open>str::parse::<u64>()\<close>: an optional plus sign, at least one digit, no overflow.\<close>

definition parse_u64 :: "string \<Rightarrow> u64 option" where
  "parse_u64 s =
     (let ds = (case s of [] \<Rightarrow> [] | c # cs \<Rightarrow> if c = CHR ''+'' then cs else c # cs)
      in if ds = [] then None
         else (case parse_digits 0 ds of
                 None \<Rightarrow> None
               | Some n \<Rightarrow> if n < 18446744073709551616 then Some (of_nat n) else None))"

lemma parse_u64_code [code]:
  "parse_u64 s =
     (let ds = (case s of [] \<Rightarrow> [] | c # cs \<Rightarrow> if c = CHR ''+'' then cs else c # cs)
      in if ds = [] then None
         else (case parse_digits 0 ds of
                 None \<Rightarrow> None
               | Some n \<Rightarrow> if int n < 18446744073709551616 then Some (of_nat n) else None))"
  unfolding parse_u64_def Let_def by (simp split: option.split)

definition strip_prefix :: "string \<Rightarrow> string \<Rightarrow> string option" where
  "strip_prefix p s = (if prefix p s then Some (drop (length p) s) else None)"

text \<open>The UTF-8 encodings of the code points with the Unicode property White_Space.\<close>

definition white_space :: "string list" where
  "white_space =
     [[CHR 9], [CHR 10], [CHR 11], [CHR 12], [CHR 13], [CHR 32],
      [CHR 0xC2, CHR 0x85], [CHR 0xC2, CHR 0xA0], [CHR 0xE1, CHR 0x9A, CHR 0x80]]
     @ map (\<lambda>i. [CHR 0xE2, CHR 0x80, char_of (128 + i)]) [0..<11]
     @ [[CHR 0xE2, CHR 0x80, CHR 0xA8], [CHR 0xE2, CHR 0x80, CHR 0xA9],
        [CHR 0xE2, CHR 0x80, CHR 0xAF], [CHR 0xE2, CHR 0x81, CHR 0x9F],
        [CHR 0xE3, CHR 0x80, CHR 0x80]]"

text \<open>\<open>s.trim().is_empty()\<close>: the string is a sequence of white space characters.\<close>

function is_blank :: "string \<Rightarrow> bool" where
  "is_blank s =
     (if s = [] then True
      else (case find (\<lambda>w. w \<noteq> [] \<and> prefix w s) white_space of
              None \<Rightarrow> False
            | Some w \<Rightarrow> is_blank (drop (length w) s)))"
  by pat_completeness auto
termination
  by (relation "measure length") (auto simp: find_Some_iff)

declare is_blank.simps [simp del]
declare dec_of_nat.simps [simp del]

text \<open>The byte-wise order SQLite uses on TEXT values (collation BINARY).\<close>

fun text_less :: "string \<Rightarrow> string \<Rightarrow> bool" where
  "text_less _ [] = False"
| "text_less [] (_ # _) = True"
| "text_less (a # as) (b # bs) =
     ((of_char a :: nat) < of_char b \<or> (a = b \<and> text_less as bs))"

text \<open>\<open>ORDER BY c ASC\<close> on a TEXT column: rows that agree keep their rowid order.\<close>

fun text_insort :: "('r \<Rightarrow> string) \<Rightarrow> 'r \<Rightarrow> 'r list \<Rightarrow> 'r list" where
  "text_insort key r [] = [r]"
| "text_insort key r (q # qs) =
     (if text_less (key r) (key q) then r # q # qs else q # text_insort key r qs)"

definition order_by_text :: "('r \<Rightarrow> string) \<Rightarrow> 'r list \<Rightarrow> 'r list" where
  "order_by_text key rows = fold (text_insort key) rows []"

text \<open>\<open>ORDER BY c DESC LIMIT 1\<close> on a TEXT column.\<close>

fun newest_by_text :: "('r \<Rightarrow> string) \<Rightarrow> 'r list \<Rightarrow> 'r option" where
  "newest_by_text key [] = None"
| "newest_by_text key (r # rs) =
     (case newest_by_text key rs of
        None \<Rightarrow> Some r
      | Some q \<Rightarrow> if text_less (key r) (key q) then Some q else Some r)"

lemma text_insort_set [simp]: "set (text_insort key r rs) = insert r (set rs)"
  by (induction key r rs rule: text_insort.induct) auto

lemma text_insort_length [simp]: "length (text_insort key r rs) = Suc (length rs)"
  by (induction key r rs rule: text_insort.induct) auto

lemma order_by_text_set [simp]: "set (order_by_text key rs) = set rs"
proof -
  have "set (fold (text_insort key) rs qs) = set rs \<union> set qs" for qs
    by (induction rs arbitrary: qs) auto
  then show ?thesis by (simp add: order_by_text_def)
qed

lemma newest_by_text_mem: "newest_by_text key rs = Some r \<Longrightarrow> r \<in> set rs"
  by (induction rs arbitrary: r) (auto split: option.splits if_splits)

lemma newest_by_text_None [simp]: "newest_by_text key rs = None \<longleftrightarrow> rs = []"
  by (cases rs) (auto split: option.splits)

section \<open>Results\<close>

text \<open>\<open>Result<T, E>\<close> is \<open>'e + 'a\<close> with \<open>Inl\<close> the error; \<open>and_then\<close> is the \<open>?\<close> operator.\<close>

definition and_then :: "'e + 'a \<Rightarrow> ('a \<Rightarrow> 'e + 'b) \<Rightarrow> 'e + 'b" where
  "and_then r f = (case r of Inl e \<Rightarrow> Inl e | Inr a \<Rightarrow> f a)"

definition ok_or :: "'e \<Rightarrow> 'a option \<Rightarrow> 'e + 'a" where
  "ok_or e x = (case x of None \<Rightarrow> Inl e | Some a \<Rightarrow> Inr a)"

definition unwrap_or :: "'a \<Rightarrow> 'a option \<Rightarrow> 'a" where
  "unwrap_or d x = (case x of None \<Rightarrow> d | Some a \<Rightarrow> a)"

definition is_ok :: "'e + 'a \<Rightarrow> bool" where
  "is_ok r \<longleftrightarrow> (case r of Inl _ \<Rightarrow> False | Inr _ \<Rightarrow> True)"

text \<open>A \<open>for\<close> loop over a state whose body may leave with \<open>?\<close>.\<close>

fun try_fold :: "('a \<Rightarrow> 's \<Rightarrow> 'e + 's) \<Rightarrow> 'a list \<Rightarrow> 's \<Rightarrow> 'e + 's" where
  "try_fold f [] s = Inr s"
| "try_fold f (x # xs) s = and_then (f x s) (try_fold f xs)"

text \<open>\<open>iter().map(f).collect::<Result<Vec<_>, _>>()\<close>.\<close>

fun try_map :: "('a \<Rightarrow> 'e + 'b) \<Rightarrow> 'a list \<Rightarrow> 'e + 'b list" where
  "try_map f [] = Inr []"
| "try_map f (x # xs) = and_then (f x) (\<lambda>y. and_then (try_map f xs) (\<lambda>ys. Inr (y # ys)))"

lemma and_then_simps [simp]:
  "and_then (Inl e) f = Inl e"
  "and_then (Inr a) f = f a"
  by (simp_all add: and_then_def)

lemma and_then_Inr_iff: "and_then r f = Inr b \<longleftrightarrow> (\<exists>a. r = Inr a \<and> f a = Inr b)"
  by (cases r) auto

lemma and_then_InrE [elim!]:
  assumes "and_then r f = Inr b"
  obtains a where "r = Inr a" and "f a = Inr b"
  using assms by (auto simp: and_then_Inr_iff)

lemma ok_or_simps [simp]:
  "ok_or e None = Inl e"
  "ok_or e (Some a) = Inr a"
  by (simp_all add: ok_or_def)

lemma ok_or_Inr_iff [simp]: "ok_or e x = Inr a \<longleftrightarrow> x = Some a"
  by (cases x) auto

lemma unwrap_or_simps [simp]:
  "unwrap_or d None = d"
  "unwrap_or d (Some a) = a"
  by (simp_all add: unwrap_or_def)

lemma is_ok_simps [simp]: "is_ok (Inr a)" "\<not> is_ok (Inl e)"
  by (simp_all add: is_ok_def)

lemma try_fold_invariant:
  assumes "try_fold f xs s = Inr t" and "P s"
    and "\<And>x s t. x \<in> set xs \<Longrightarrow> P s \<Longrightarrow> f x s = Inr t \<Longrightarrow> P t"
  shows "P t"
  using assms
proof (induction xs arbitrary: s)
  case (Cons x xs)
  from Cons.prems(1) obtain u where u: "f x s = Inr u" "try_fold f xs u = Inr t" by auto
  with Cons.prems have "P u" by auto
  with u Cons.prems(3) show ?case by (intro Cons.IH [of u]) auto
qed simp

lemma try_map_Inr_iff: "try_map f xs = Inr ys \<longleftrightarrow> list_all2 (\<lambda>x y. f x = Inr y) xs ys"
proof (induction xs arbitrary: ys)
  case (Cons x xs)
  then show ?case by (cases ys) (auto simp: and_then_Inr_iff)
qed auto

section \<open>SQL tables\<close>

text \<open>
  A table is the list of its rows in insertion (rowid) order. \<open>tbl_get\<close> is
  \<open>SELECT ... WHERE key = ?\<close>, \<open>tbl_update\<close> is \<open>UPDATE ... WHERE p\<close>, \<open>rows_affected\<close> the
  number of rows it matches, and \<open>tbl_insert\<close> is \<open>INSERT\<close>, which fails on a key that a
  row already has (PRIMARY KEY).
\<close>

definition tbl_get :: "('r \<Rightarrow> 'k) \<Rightarrow> 'k \<Rightarrow> 'r list \<Rightarrow> 'r option" where
  "tbl_get key k rows = find (\<lambda>r. key r = k) rows"

definition tbl_update :: "('r \<Rightarrow> bool) \<Rightarrow> ('r \<Rightarrow> 'r) \<Rightarrow> 'r list \<Rightarrow> 'r list" where
  "tbl_update p f rows = map (\<lambda>r. if p r then f r else r) rows"

definition rows_affected :: "('r \<Rightarrow> bool) \<Rightarrow> 'r list \<Rightarrow> nat" where
  "rows_affected p rows = length (filter p rows)"

definition tbl_insert :: "('r \<Rightarrow> 'k) \<Rightarrow> 'r \<Rightarrow> 'r list \<Rightarrow> 'r list option" where
  "tbl_insert key r rows = (if key r \<in> key ` set rows then None else Some (rows @ [r]))"

definition keys_distinct :: "('r \<Rightarrow> 'k) \<Rightarrow> 'r list \<Rightarrow> bool" where
  "keys_distinct key rows \<longleftrightarrow> distinct (map key rows)"

lemma tbl_get_simps [table_simps]:
  "tbl_get key k [] = None"
  "tbl_get key k (r # rs) = (if key r = k then Some r else tbl_get key k rs)"
  by (simp_all add: tbl_get_def)

lemma tbl_get_append [table_simps]:
  "tbl_get key k (xs @ ys) = (case tbl_get key k xs of None \<Rightarrow> tbl_get key k ys | Some r \<Rightarrow> Some r)"
  by (induction xs) (auto simp: table_simps)

lemma tbl_get_None_iff: "tbl_get key k rows = None \<longleftrightarrow> k \<notin> key ` set rows"
  by (induction rows) (auto simp: table_simps)

lemma tbl_get_SomeD: "tbl_get key k rows = Some r \<Longrightarrow> r \<in> set rows \<and> key r = k"
  by (induction rows) (auto simp: table_simps split: if_splits)

lemma tbl_get_mem:
  assumes "keys_distinct key rows" and "r \<in> set rows"
  shows "tbl_get key (key r) rows = Some r"
  using assms by (induction rows) (auto simp: table_simps keys_distinct_def)

lemma rows_affected_pos: "0 < rows_affected p rows \<longleftrightarrow> (\<exists>r \<in> set rows. p r)"
  by (auto simp: rows_affected_def filter_empty_conv)

lemma rows_affected_key: "rows_affected (\<lambda>r. key r = k) rows = 0 \<longleftrightarrow> tbl_get key k rows = None"
  by (auto simp: rows_affected_def filter_empty_conv tbl_get_None_iff)

lemma tbl_update_mem:
  "r \<in> set (tbl_update p f rows) \<longleftrightarrow> (\<exists>q \<in> set rows. r = (if p q then f q else q))"
  by (auto simp: tbl_update_def)

lemma tbl_update_length [simp]: "length (tbl_update p f rows) = length rows"
  by (simp add: tbl_update_def)

lemma tbl_insert_Some_iff:
  "tbl_insert key r rows = Some rows' \<longleftrightarrow> key r \<notin> key ` set rows \<and> rows' = rows @ [r]"
  by (auto simp: tbl_insert_def)

lemma tbl_insert_keys:
  "tbl_insert key r rows = Some rows' \<Longrightarrow> keys_distinct key rows \<Longrightarrow> keys_distinct key rows'"
  by (auto simp: tbl_insert_Some_iff keys_distinct_def)

text \<open>
  What an update statement that leaves the key column alone promises: the keys of the
  table, which rows exist, and the row read back.
\<close>

locale keyed_update =
  fixes key :: "'r \<Rightarrow> 'k" and upd :: "'r \<Rightarrow> 'r"
  assumes key_upd: "key (upd r) = key r"
begin

lemma map_key: "map key (tbl_update p upd rows) = map key rows"
  by (simp add: tbl_update_def key_upd)

lemma key_set: "key ` set (tbl_update p upd rows) = key ` set rows"
  using map_key [of p rows] by (metis list.set_map)

lemma keys_distinct: "keys_distinct key (tbl_update p upd rows) = keys_distinct key rows"
  by (simp add: keys_distinct_def map_key)

lemma get_update:
  "tbl_get key k (tbl_update (\<lambda>r. key r = j) upd rows) =
     (if k = j then map_option upd (tbl_get key k rows) else tbl_get key k rows)"
  by (induction rows) (auto simp: table_simps tbl_update_def key_upd)

lemma get_update_None:
  "tbl_get key k (tbl_update p upd rows) = None \<longleftrightarrow> tbl_get key k rows = None"
  by (simp add: tbl_get_None_iff key_set)

end

text \<open>
  What an insertion keyed by a unique column promises: it succeeds on a fresh key only, the
  key is there afterwards, and no other row is touched.
\<close>

locale keyed_insert =
  fixes key :: "'i \<Rightarrow> 'k" and get :: "'k \<Rightarrow> 's \<Rightarrow> 'r option"
    and ins :: "'i \<Rightarrow> 's \<Rightarrow> 'e + ('a \<times> 's)"
  assumes ins_fresh: "ins i s = Inr (a, t) \<Longrightarrow> get (key i) s = None"
    and ins_there: "ins i s = Inr (a, t) \<Longrightarrow> get (key i) t \<noteq> None"
    and ins_other: "ins i s = Inr (a, t) \<Longrightarrow> k \<noteq> key i \<Longrightarrow> get k t = get k s"
begin

lemma ins_keeps: "ins i s = Inr (a, t) \<Longrightarrow> get k s = Some r \<Longrightarrow> get k t = Some r"
  using ins_fresh ins_other by (metis option.distinct(1))

lemma ins_once: "ins i s = Inr (a, t) \<Longrightarrow> key j = key i \<Longrightarrow> \<exists>e. ins j t = Inl e"
  using ins_there ins_fresh by (metis sum.exhaust surj_pair)

end

section \<open>Facts on integers and strings\<close>

lemma i64_wrap_id: "in_i64 i \<Longrightarrow> i64_wrap i = i"
  by (simp add: in_i64_def i64_wrap_def)

lemma i64_wrap_range: "in_i64 (i64_wrap i)"
  using pos_mod_bound [of 18446744073709551616 "i + 9223372036854775808"]
    pos_mod_sign [of 18446744073709551616 "i + 9223372036854775808"]
  by (auto simp: i64_wrap_def in_i64_def)

lemma u64_as_i64_small: "uint w \<le> i64_max \<Longrightarrow> u64_as_i64 w = uint w"
  by (simp add: u64_as_i64_def i64_wrap_id in_i64_def order_trans [OF _ uint_ge_0])

lemma of_char_digit_char: "d < 10 \<Longrightarrow> (of_char (digit_char d) :: nat) = 48 + d"
  by (simp add: digit_char_def)

lemma is_digit_digit_char [simp]: "d < 10 \<Longrightarrow> is_digit (digit_char d)"
  by (simp add: is_digit_def of_char_digit_char)

lemma digit_val_digit_char [simp]: "d < 10 \<Longrightarrow> digit_val (digit_char d) = d"
  by (simp add: digit_val_def of_char_digit_char)

lemma parse_digits_append:
  "parse_digits acc (xs @ ys) =
     (case parse_digits acc xs of None \<Rightarrow> None | Some n \<Rightarrow> parse_digits n ys)"
  by (induction acc xs rule: parse_digits.induct) auto

lemma parse_digits_dec: "parse_digits 0 (dec_of_nat n) = Some n"
proof (induction n rule: dec_of_nat.induct)
  case (1 n)
  show ?case
    using 1 by (cases "n < 10")
      (simp_all add: dec_of_nat.simps [of n] parse_digits_append)
qed

lemma dec_of_nat_hd: "\<exists>c cs. dec_of_nat n = c # cs \<and> is_digit c"
proof (induction n rule: dec_of_nat.induct)
  case (1 n)
  then show ?case
    by (cases "n < 10") (auto simp: dec_of_nat.simps [of n])
qed

lemma parse_u64_dec: "n < 2 ^ 64 \<Longrightarrow> parse_u64 (dec_of_nat n) = Some (of_nat n)"
proof -
  assume n: "n < 2 ^ 64"
  obtain c cs where c: "dec_of_nat n = c # cs" "is_digit c"
    using dec_of_nat_hd [of n] by blast
  then have "c \<noteq> CHR ''+''" by (auto simp: is_digit_def)
  with n c parse_digits_dec [of n] show ?thesis
    by (simp add: parse_u64_def)
qed

lemma strip_prefix_append [simp]: "strip_prefix p (p @ s) = Some s"
  by (simp add: strip_prefix_def)

lemma strip_prefix_Some_iff: "strip_prefix p s = Some t \<longleftrightarrow> s = p @ t"
  by (auto simp: strip_prefix_def prefix_def)

lemma is_blank_Nil [simp]: "is_blank []"
  by (simp add: is_blank.simps)

lemma text_less_irrefl [simp]: "\<not> text_less s s"
  by (induction s) auto

lemma text_less_trans: "text_less a b \<Longrightarrow> text_less b c \<Longrightarrow> text_less a c"
proof (induction a b arbitrary: c rule: text_less.induct)
  case (2 b bs)
  then show ?case by (cases c) auto
next
  case (3 a as b bs)
  then show ?case by (cases c) auto
qed simp

end
