(* ===== verification/F64.thy ===== *)
theory F64
  imports Prelude Complex_Main "HOL-Library.Log_Nat"
begin

text \<open>
  Rust's \<open>f64\<close>: IEEE 754 binary64 with round-to-nearest, ties to even. A finite value is
  the rational number it denotes; the two zeros are identified, since the sources only
  compare, add, multiply, divide and convert. Every arithmetic operation is the exact
  rational operation followed by \<open>f64_round\<close>. The lemmas bound the rounding error and show
  where rounding is exact, which is what the energy computations of the kernel rest on.
\<close>

datatype f64 = Fin rat | PosInf | NegInf | NaN

section \<open>Rounding\<close>

definition round_half_even :: "rat \<Rightarrow> int" where
  "round_half_even x =
     (let f = \<lfloor>x\<rfloor>; d = x - of_int f
      in if d < 1 / 2 then f else if 1 / 2 < d then f + 1 else if even f then f else f + 1)"

text \<open>The binary exponent of a positive rational: \<open>2 powi e \<le> x < 2 powi (e + 1)\<close>.\<close>

definition ilog2 :: "rat \<Rightarrow> int" where
  "ilog2 x =
     (let (n, d) = quotient_of x; e = bitlen n - bitlen d
      in if 2 powi e \<le> x then e else e - 1)"

text \<open>The spacing of the binary64 numbers around a positive rational.\<close>

definition ulp :: "rat \<Rightarrow> rat" where
  "ulp x = 2 powi (max (ilog2 x) (-1022) - 52)"

definition f64_round :: "rat \<Rightarrow> f64" where
  "f64_round x =
     (if x = 0 then Fin 0
      else let q = ulp \<bar>x\<bar>; r = of_int (round_half_even (x / q)) * q
           in if \<bar>r\<bar> < 2 ^ 1024 then Fin r else if 0 < x then PosInf else NegInf)"

section \<open>Operations\<close>

definition f64_of_int :: "int \<Rightarrow> f64" where
  "f64_of_int i = f64_round (of_int i)"

definition f64_neg_sign :: "f64 \<Rightarrow> bool" where
  "f64_neg_sign a = (case a of Fin x \<Rightarrow> x < 0 | NegInf \<Rightarrow> True | _ \<Rightarrow> False)"

definition f64_is_zero :: "f64 \<Rightarrow> bool" where
  "f64_is_zero a = (a = Fin 0)"

definition f64_inf :: "bool \<Rightarrow> f64" where
  "f64_inf neg = (if neg then NegInf else PosInf)"

fun f64_add :: "f64 \<Rightarrow> f64 \<Rightarrow> f64" where
  "f64_add (Fin x) (Fin y) = f64_round (x + y)"
| "f64_add NaN _ = NaN"
| "f64_add _ NaN = NaN"
| "f64_add PosInf NegInf = NaN"
| "f64_add NegInf PosInf = NaN"
| "f64_add PosInf _ = PosInf"
| "f64_add _ PosInf = PosInf"
| "f64_add NegInf _ = NegInf"
| "f64_add _ NegInf = NegInf"

fun f64_mul :: "f64 \<Rightarrow> f64 \<Rightarrow> f64" where
  "f64_mul (Fin x) (Fin y) = f64_round (x * y)"
| "f64_mul NaN _ = NaN"
| "f64_mul _ NaN = NaN"
| "f64_mul a b = (if f64_is_zero a \<or> f64_is_zero b then NaN
                  else f64_inf (f64_neg_sign a \<noteq> f64_neg_sign b))"

text \<open>
  Division by zero gives a signed infinity in IEEE 754; with the zeros identified the sign
  is that of the dividend. The sources never divide by zero (\<open>produce_tick\<close> returns before
  when the total of the shares is not positive).
\<close>

fun f64_div :: "f64 \<Rightarrow> f64 \<Rightarrow> f64" where
  "f64_div (Fin x) (Fin y) =
     (if y = 0 then (if x = 0 then NaN else f64_inf (x < 0)) else f64_round (x / y))"
| "f64_div NaN _ = NaN"
| "f64_div _ NaN = NaN"
| "f64_div (Fin x) _ = Fin 0"
| "f64_div a (Fin y) = f64_inf (f64_neg_sign a \<noteq> (y < 0))"
| "f64_div _ _ = NaN"

text \<open>Comparisons are false on NaN.\<close>

fun f64_less :: "f64 \<Rightarrow> f64 \<Rightarrow> bool" where
  "f64_less NaN _ = False"
| "f64_less _ NaN = False"
| "f64_less (Fin x) (Fin y) = (x < y)"
| "f64_less NegInf b = (b \<noteq> NegInf)"
| "f64_less a NegInf = False"
| "f64_less a PosInf = (a \<noteq> PosInf)"
| "f64_less PosInf b = False"

definition f64_le :: "f64 \<Rightarrow> f64 \<Rightarrow> bool" where
  "f64_le a b \<longleftrightarrow> f64_less a b \<or> (a = b \<and> a \<noteq> NaN)"

definition f64_is_finite :: "f64 \<Rightarrow> bool" where
  "f64_is_finite a = (case a of Fin _ \<Rightarrow> True | _ \<Rightarrow> False)"

text \<open>
  \<open>floor\<close>, \<open>ceil\<close> and \<open>round\<close> (half away from zero) return integral values, which need no
  further rounding when they are converted: \<open>as i64\<close> saturates and takes NaN to 0.
\<close>

definition sat_i64 :: "int \<Rightarrow> i64" where
  "sat_i64 i = max i64_min (min i64_max i)"

definition round_half_away :: "rat \<Rightarrow> int" where
  "round_half_away x = (if 0 \<le> x then \<lfloor>x + 1 / 2\<rfloor> else \<lceil>x - 1 / 2\<rceil>)"

definition f64_to_i64_by :: "(rat \<Rightarrow> int) \<Rightarrow> f64 \<Rightarrow> i64" where
  "f64_to_i64_by g a =
     (case a of Fin x \<Rightarrow> sat_i64 (g x) | PosInf \<Rightarrow> i64_max | NegInf \<Rightarrow> i64_min | NaN \<Rightarrow> 0)"

abbreviation f64_floor_i64 :: "f64 \<Rightarrow> i64" where "f64_floor_i64 \<equiv> f64_to_i64_by floor"
abbreviation f64_ceil_i64 :: "f64 \<Rightarrow> i64" where "f64_ceil_i64 \<equiv> f64_to_i64_by ceiling"
abbreviation f64_round_i64 :: "f64 \<Rightarrow> i64" where "f64_round_i64 \<equiv> f64_to_i64_by round_half_away"

section \<open>Facts on rounding\<close>

lemma round_half_even_near:
  assumes "0 \<le> d" and "d < 1 / 2"
  shows "round_half_even (of_int n + d) = n"
proof -
  have "\<lfloor>of_int n + d\<rfloor> = n" using assms by (simp add: floor_eq_iff)
  then show ?thesis using assms by (simp add: round_half_even_def)
qed

lemma round_half_even_of_int [simp]: "round_half_even (of_int n) = n"
  using round_half_even_near [of 0 n] by simp

lemma round_half_even_error: "\<bar>of_int (round_half_even x) - x\<bar> \<le> 1 / 2"
proof -
  define d where "d = x - of_int \<lfloor>x\<rfloor>"
  have "0 \<le> d" "d < 1" using floor_correct [of x] by (auto simp: d_def)
  moreover have "x = of_int \<lfloor>x\<rfloor> + d" by (simp add: d_def)
  ultimately show ?thesis
    unfolding round_half_even_def Let_def d_def [symmetric] by (auto simp: abs_if)
qed

lemma bitlen_pos_bounds:
  assumes "0 < (n::int)"
  shows "(2::rat) powi (bitlen n - 1) \<le> of_int n" and "(of_int n :: rat) < 2 powi (bitlen n)"
proof -
  have b: "2 ^ nat (bitlen n - 1) \<le> n" "n < 2 ^ nat (bitlen n)"
    using bitlen_bounds [OF assms] by auto
  have p: "0 < bitlen n"
    using assms floorlog_eq_zero_iff [of 2 "nat n"] by (simp add: bitlen_def)
  from b(1) have "(of_int (2 ^ nat (bitlen n - 1)) :: rat) \<le> of_int n" by (simp only: of_int_le_iff)
  then show "(2::rat) powi (bitlen n - 1) \<le> of_int n"
    using p by (simp add: power_int_nonneg_exp)
  from b(2) have "(of_int n :: rat) < of_int (2 ^ nat (bitlen n))" by (simp only: of_int_less_iff)
  then show "(of_int n :: rat) < 2 powi (bitlen n)"
    using p by (simp add: power_int_nonneg_exp)
qed

lemma ilog2_bounds:
  assumes "0 < x"
  shows "2 powi (ilog2 x) \<le> x" and "x < 2 powi (ilog2 x + 1)"
proof -
  obtain n d where q: "quotient_of x = (n, d)" by fastforce
  then have x: "x = of_int n / of_int d" and d: "0 < d"
    by (auto simp: quotient_of_div quotient_of_denom_pos)
  with assms have n: "0 < n" by (simp add: zero_less_divide_iff)
  let ?e = "bitlen n - bitlen d"
  have "(2::rat) powi (bitlen n - 1) * of_int d < of_int n * 2 powi (bitlen d)"
    by (rule mult_le_less_imp_less [OF bitlen_pos_bounds(1) [OF n] bitlen_pos_bounds(2) [OF d]])
      (use d in auto)
  then have lo: "2 powi (?e - 1) < x"
    using d unfolding x by (simp add: field_simps power_int_diff power_int_add)
  have "of_int n * (2::rat) powi (bitlen d - 1) < 2 powi (bitlen n) * of_int d"
    by (rule mult_less_le_imp_less [OF bitlen_pos_bounds(2) [OF n] bitlen_pos_bounds(1) [OF d]])
      (use n in auto)
  then have hi: "x < 2 powi (?e + 1)"
    using d unfolding x by (simp add: field_simps power_int_diff power_int_add)
  show "2 powi (ilog2 x) \<le> x" "x < 2 powi (ilog2 x + 1)"
    using lo hi by (auto simp: ilog2_def q Let_def)
qed

lemma ulp_pos [simp]: "0 < ulp x"
  by (simp add: ulp_def)

lemma ulp_ne0 [simp]: "ulp x \<noteq> 0"
  using ulp_pos [of x] by (rule less_imp_neq [THEN not_sym])

lemma power_int_2_mono: "a \<le> b \<Longrightarrow> (2::rat) powi a \<le> 2 powi b"
  by (rule power_int_increasing) auto

lemma ulp_le:
  assumes "x < 2 powi (e + 1)" and "0 < x" and "- 1022 \<le> e"
  shows "ulp x \<le> 2 powi (e - 52)"
proof -
  have "\<not> e + 1 \<le> ilog2 x"
    using power_int_2_mono [of "e + 1" "ilog2 x"] ilog2_bounds(1) [OF assms(2)] assms(1) by auto
  then show ?thesis
    using assms(3) unfolding ulp_def by (intro power_int_2_mono) auto
qed

text \<open>Every multiple of a spacing is a multiple of a smaller one.\<close>

lemma int_multiple_ulp:
  assumes "ulp x \<le> 1"
  shows "\<exists>m. of_int k = of_int m * ulp x"
proof -
  let ?e = "max (ilog2 x) (-1022) - 52"
  have "?e \<le> 0"
  proof (rule ccontr)
    assume "\<not> ?e \<le> 0"
    then have "(2::rat) powi 1 \<le> 2 powi ?e" by (intro power_int_2_mono) auto
    with assms show False by (simp add: ulp_def)
  qed
  then have "(of_int k :: rat) = of_int (k * 2 ^ nat (- ?e)) * 2 powi ?e"
    by (simp add: power_int_def power_inverse [symmetric] field_simps)
  then show ?thesis unfolding ulp_def by blast
qed

lemma f64_round_Fin:
  assumes "0 < x" and "x < 2 powi 1023"
  shows "f64_round x = Fin (of_int (round_half_even (x / ulp x)) * ulp x)"
    and "\<bar>of_int (round_half_even (x / ulp x)) * ulp x - x\<bar> \<le> ulp x / 2"
proof -
  let ?r = "of_int (round_half_even (x / ulp x)) * ulp x"
  have "\<bar>?r - x\<bar> = \<bar>of_int (round_half_even (x / ulp x)) - x / ulp x\<bar> * ulp x"
    by (simp add: left_diff_distrib abs_mult_pos [OF less_imp_le [OF ulp_pos]])
  also have "\<dots> \<le> 1 / 2 * ulp x"
    by (rule mult_right_mono [OF round_half_even_error]) (simp add: less_imp_le)
  finally show err: "\<bar>?r - x\<bar> \<le> ulp x / 2" by simp
  have "ulp x \<le> 2 powi (1022 - 52)" by (rule ulp_le) (use assms in auto)
  also have "\<dots> \<le> 2 powi 1022" by (rule power_int_2_mono) simp
  finally have u: "ulp x \<le> 2 powi 1022" .
  have "\<bar>?r\<bar> \<le> x + ulp x / 2" using err assms(1) by linarith
  also have "\<dots> < 2 powi 1023 + 2 powi 1022"
    using assms(2) u ulp_pos [of x] by linarith
  also have "\<dots> \<le> (2::rat) ^ 1024"
    by (simp add: power_int_def)
  finally show "f64_round x = Fin ?r"
    using assms(1) by (simp add: f64_round_def Let_def)
qed

text \<open>Integers up to \<open>2 ^ 53\<close> are exact.\<close>

lemma ulp_le_one:
  assumes "0 < x" and "x < 2 ^ 53"
  shows "ulp x \<le> 1"
  using ulp_le [of x 52] assms by (simp add: power_int_def)

lemma f64_round_int:
  assumes "0 < x" and "x < 2 ^ 53" and "x = of_int k + d * ulp x" and "0 \<le> d" and "d < 1 / 2"
  shows "f64_round x = Fin (of_int k)"
proof -
  obtain m where m: "of_int k = of_int m * ulp x"
    using int_multiple_ulp [OF ulp_le_one [OF assms(1,2)]] by blast
  have "x / ulp x = of_int m + d"
  proof -
    have "x / ulp x = (of_int m * ulp x + d * ulp x) / ulp x" using assms(3) m by simp
    also have "\<dots> = of_int m + d" using ulp_ne0 [of x] by (simp add: add_divide_distrib)
    finally show ?thesis .
  qed
  then have "round_half_even (x / ulp x) = m"
    using round_half_even_near assms(4,5) by metis
  moreover have "x < 2 powi 1023"
    using assms(2) by (rule less_le_trans) (simp add: power_int_def)
  ultimately show ?thesis
    using f64_round_Fin(1) [OF assms(1)] m by simp
qed

lemma f64_of_int_exact:
  assumes "0 \<le> i" and "i < 2 ^ 53"
  shows "f64_of_int i = Fin (of_int i)"
proof (cases "i = 0")
  case False
  with assms have "0 < (of_int i :: rat)" by simp
  moreover have "(of_int i :: rat) < 2 ^ 53"
    using assms(2) by (metis of_int_less_iff of_int_numeral of_int_power)
  ultimately show ?thesis
    using f64_round_int [of "of_int i" i 0] by (simp add: f64_of_int_def)
qed (simp add: f64_of_int_def f64_round_def)

lemma f64_to_i64_by_range: "in_i64 (f64_to_i64_by g a)"
  by (auto simp: f64_to_i64_by_def sat_i64_def in_i64_def split: f64.splits)

text \<open>The relative error of rounding in the normal range is at most half a unit in 53 bits.\<close>

definition unit_roundoff :: rat where
  "unit_roundoff = 1 / 2 ^ 53"

lemma f64_round_rel:
  assumes "2 powi (- 1022) \<le> x" and "x < 2 powi 1023"
  obtains r where "f64_round x = Fin r" "x * (1 - unit_roundoff) \<le> r"
    "r \<le> x * (1 + unit_roundoff)"
proof -
  have pos: "0 < x" by (rule less_le_trans [OF _ assms(1)]) simp
  let ?r = "of_int (round_half_even (x / ulp x)) * ulp x"
  have "\<not> ilog2 x + 1 \<le> - 1022"
    using power_int_2_mono [of "ilog2 x + 1" "- 1022"] ilog2_bounds(2) [OF pos] assms(1) by auto
  then have "ulp x = 2 powi (ilog2 x) * 2 powi (- 52)"
    by (simp add: ulp_def power_int_diff power_int_minus field_simps)
  moreover have "2 powi (ilog2 x) \<le> x" by (rule ilog2_bounds(1) [OF pos])
  ultimately have "ulp x / 2 \<le> x * unit_roundoff"
    by (simp add: unit_roundoff_def power_int_minus)
  with f64_round_Fin(2) [OF pos assms(2)] have err: "\<bar>?r - x\<bar> \<le> x * unit_roundoff" by linarith
  show thesis
  proof (rule that)
    show "f64_round x = Fin ?r" by (rule f64_round_Fin(1) [OF pos assms(2)])
    show "x * (1 - unit_roundoff) \<le> ?r" "?r \<le> x * (1 + unit_roundoff)"
      using err unfolding abs_le_iff right_diff_distrib distrib_left by linarith+
  qed
qed

section \<open>A fifth, rounded up\<close>

text \<open>
  The constant \<open>0.2\<close> is slightly above a fifth. Multiplying an integer below \<open>2 ^ 50\<close> by it
  and rounding up still gives the exact fifth rounded up: the excess is below half a unit in
  the last place.
\<close>

definition fifth :: rat where
  "fifth = 3602879701896397 / 2 ^ 54"

lemma f64_fifth: "f64_round (1 / 5) = Fin fifth"
  unfolding fifth_def by code_simp

lemma of_int_mult_fifth: "of_int (5 * k + m) * fifth =
    of_int k + of_int m / 5 + of_int (5 * k + m) / (5 * 2 ^ 54)"
  by (simp add: fifth_def field_simps)

lemma half_ulp_gr: "0 < x \<Longrightarrow> x / 2 ^ 54 < ulp x / 2"
proof -
  assume x: "0 < x"
  have "x < 2 powi (ilog2 x + 1)" by (rule ilog2_bounds(2) [OF x])
  also have "\<dots> \<le> 2 powi (max (ilog2 x) (- 1022) + 1)" by (rule power_int_2_mono) simp
  also have "\<dots> = ulp x * 2 ^ 53"
    unfolding ulp_def by (simp add: power_int_add power_int_diff power_int_def [of _ 52])
  finally show ?thesis by (simp add: field_simps)
qed

lemma of_int_le_power: "c \<le> 2 ^ n \<Longrightarrow> (of_int c :: rat) \<le> 2 ^ n"
  by (metis of_int_le_iff of_int_numeral of_int_power)

lemma round_fifth_multiple:
  assumes "0 < k" "k \<le> 2 ^ 48"
  shows "f64_round (of_int (5 * k) * fifth) = Fin (of_int k)"
proof -
  let ?x = "of_int (5 * k) * fifth"
  have x: "?x = of_int k + of_int k / 2 ^ 54" using of_int_mult_fifth [of k 0] by simp
  have pos: "0 < ?x" using assms(1) by (simp add: fifth_def)
  have up: "?x < 2 ^ 53" unfolding x using of_int_le_power [OF assms(2)] by simp
  have "of_int k / 2 ^ 54 \<le> ?x / 2 ^ 54" using x assms(1) by (simp add: divide_right_mono)
  then have half: "of_int k / 2 ^ 54 < ulp ?x / 2" using half_ulp_gr [OF pos] by linarith
  show ?thesis
  proof (rule f64_round_int [OF pos up, where d = "of_int k / 2 ^ 54 / ulp ?x"])
    show "?x = of_int k + of_int k / 2 ^ 54 / ulp ?x * ulp ?x" using x by simp
    show "0 \<le> of_int k / 2 ^ 54 / ulp ?x" using assms(1) by (simp add: less_imp_le)
    show "of_int k / 2 ^ 54 / ulp ?x < 1 / 2" using half by (simp add: divide_less_eq)
  qed
qed

lemma round_fifth_between:
  assumes "0 \<le> k" "k < 2 ^ 48" "0 < m" "m < 5"
  obtains r where "f64_round (of_int (5 * k + m) * fifth) = Fin r" "\<lceil>r\<rceil> = k + 1"
proof -
  let ?c = "of_int (5 * k + m) :: rat"
  let ?x = "?c * fifth"
  let ?r = "of_int (round_half_even (?x / ulp ?x)) * ulp ?x"
  have c: "0 < ?c" "?c \<le> 2 ^ 51"
  proof -
    show "0 < ?c" using assms by (simp only: of_int_0_less_iff)
    show "?c \<le> 2 ^ 51" by (rule of_int_le_power) (use assms in simp)
  qed
  have pos: "0 < ?x" using c(1) by (simp add: fifth_def)
  have "?x \<le> 2 ^ 51 * fifth" using c(2) by (rule mult_right_mono) (simp add: fifth_def)
  also have "\<dots> < 2 ^ 49" by (simp add: fifth_def)
  finally have up: "?x < 2 ^ 49" .
  have "?x < 2 powi 1023" using up by (rule less_le_trans) (simp add: power_int_def)
  note rr = f64_round_Fin [OF pos this]
  have "ulp ?x \<le> 2 powi (48 - 52)" using up by (intro ulp_le pos) (simp_all add: power_int_def)
  then have u: "ulp ?x \<le> 1 / 16" by (simp add: power_int_def power_one_over)
  have m: "(1 :: rat) \<le> of_int m" "(of_int m :: rat) \<le> 4" using assms(3,4) by simp_all
  have t: "0 \<le> ?c / (5 * 2 ^ 54)" "?c / (5 * 2 ^ 54) \<le> 1 / 32"
    using c by (simp_all add: divide_le_eq del: of_int_add of_int_mult)
  have e: "?r - ?x \<le> 1 / 32" "?x - ?r \<le> 1 / 32" using rr(2) u by linarith+
  note x = of_int_mult_fifth [of k m]
  have "of_int k < ?r" using x m t e by linarith
  moreover have "?r \<le> of_int k + 1" using x m t e by linarith
  ultimately have "\<lceil>?r\<rceil> = k + 1" by (intro ceiling_unique) simp_all
  with rr(1) show thesis by (rule that)
qed

lemma ceil_fifth:
  assumes "0 < c" "c \<le> 2 ^ 50"
  shows "f64_ceil_i64 (f64_mul (f64_of_int c) (f64_round (1 / 5))) = (c + 4) div 5"
proof -
  define k m where "k = c div 5" and "m = c mod 5"
  have c: "c = 5 * k + m" "0 \<le> m" "m < 5" "0 \<le> k" "k < 2 ^ 48"
    using assms by (auto simp: k_def m_def)
  have "f64_mul (f64_of_int c) (f64_round (1 / 5)) = f64_round (of_int c * fifth)"
    using assms by (simp add: f64_of_int_exact f64_fifth)
  moreover obtain r where "f64_round (of_int c * fifth) = Fin r" "\<lceil>r\<rceil> = k + (if m = 0 then 0 else 1)"
    using round_fifth_multiple [of k] round_fifth_between [of k m] c assms(1)
    by (cases "m = 0") auto
  moreover have "sat_i64 (k + (if m = 0 then 0 else 1)) = k + (if m = 0 then 0 else 1)"
    using c by (simp add: sat_i64_def)
  moreover have "(c + 4) div 5 = k + (if m = 0 then 0 else 1)" using c by auto
  ultimately show ?thesis by (simp add: f64_to_i64_by_def)
qed

end
