(* ===== verification/Json.thy ===== *)
theory Json
  imports F64
begin

text \<open>
  The payload data type \<open>serde_json::Value\<close> and the accessors the sources use on it.
  A number is one of the three representations the crate documents (a non-negative
  integer as \<open>u64\<close>, a negative one as \<open>i64\<close>, or an \<open>f64\<close>). An object is the association
  list of its entries in key order, as the default \<open>BTreeMap\<close> representation keeps them.
  Printing and parsing of JSON text are parameters of the definitions that use them.
\<close>

datatype number = PosInt u64 | NegInt i64 | Float f64

datatype json =
    JNull
  | JBool bool
  | JNumber number
  | JString string
  | JArray "json list"
  | JObject "(string \<times> json) list"

section \<open>Accessors\<close>

definition vget :: "json \<Rightarrow> string \<Rightarrow> json option" where
  "vget v k = (case v of JObject kvs \<Rightarrow> map_of kvs k | _ \<Rightarrow> None)"

definition as_object :: "json \<Rightarrow> (string \<times> json) list option" where
  "as_object v = (case v of JObject kvs \<Rightarrow> Some kvs | _ \<Rightarrow> None)"

definition as_str :: "json \<Rightarrow> string option" where
  "as_str v = (case v of JString s \<Rightarrow> Some s | _ \<Rightarrow> None)"

definition as_bool :: "json \<Rightarrow> bool option" where
  "as_bool v = (case v of JBool b \<Rightarrow> Some b | _ \<Rightarrow> None)"

definition as_u64 :: "json \<Rightarrow> u64 option" where
  "as_u64 v = (case v of JNumber (PosInt n) \<Rightarrow> Some n | _ \<Rightarrow> None)"

definition as_i64 :: "json \<Rightarrow> i64 option" where
  "as_i64 v =
     (case v of
        JNumber (PosInt n) \<Rightarrow> if uint n \<le> i64_max then Some (uint n) else None
      | JNumber (NegInt i) \<Rightarrow> Some i
      | _ \<Rightarrow> None)"

definition as_f64 :: "json \<Rightarrow> f64 option" where
  "as_f64 v =
     (case v of
        JNumber (PosInt n) \<Rightarrow> Some (f64_of_int (uint n))
      | JNumber (NegInt i) \<Rightarrow> Some (f64_of_int i)
      | JNumber (Float f) \<Rightarrow> Some f
      | _ \<Rightarrow> None)"

text \<open>\<open>payload.get(k).and_then(Value::as_str)\<close> and its like.\<close>

definition get_str :: "json \<Rightarrow> string \<Rightarrow> string option" where
  "get_str v k = Option.bind (vget v k) as_str"

definition get_i64 :: "json \<Rightarrow> string \<Rightarrow> i64 option" where
  "get_i64 v k = Option.bind (vget v k) as_i64"

definition get_bool :: "json \<Rightarrow> string \<Rightarrow> bool option" where
  "get_bool v k = Option.bind (vget v k) as_bool"

section \<open>Building objects\<close>

text \<open>Insertion into the key-ordered map: replace the entry or put it in its place.\<close>

fun obj_insert :: "string \<Rightarrow> 'v \<Rightarrow> (string \<times> 'v) list \<Rightarrow> (string \<times> 'v) list" where
  "obj_insert k v [] = [(k, v)]"
| "obj_insert k v ((k', v') # kvs) =
     (if k = k' then (k, v) # kvs
      else if text_less k k' then (k, v) # (k', v') # kvs
      else (k', v') # obj_insert k v kvs)"

text \<open>The \<open>json!\<close> macro on an object literal: its entries inserted in turn.\<close>

definition json_obj :: "(string \<times> json) list \<Rightarrow> json" where
  "json_obj kvs = JObject (fold (\<lambda>(k, v). obj_insert k v) kvs [])"

definition json_i64 :: "i64 \<Rightarrow> json" where
  "json_i64 i = JNumber (if 0 \<le> i then PosInt (word_of_int i) else NegInt i)"

definition json_u64 :: "u64 \<Rightarrow> json" where
  "json_u64 n = JNumber (PosInt n)"

definition json_opt_str :: "string option \<Rightarrow> json" where
  "json_opt_str x = (case x of None \<Rightarrow> JNull | Some s \<Rightarrow> JString s)"

definition json_strings :: "string list \<Rightarrow> json" where
  "json_strings xs = JArray (map JString xs)"

section \<open>Facts\<close>

lemma map_of_obj_insert [simp]: "map_of (obj_insert k v kvs) = (map_of kvs)(k \<mapsto> v)"
  by (induction k v kvs rule: obj_insert.induct) (auto simp: fun_eq_iff)

lemma map_of_fold_insert:
  "map_of (fold (\<lambda>(k, v). obj_insert k v) kvs m) = map_of m ++ map_of (rev kvs)"
  by (induction kvs arbitrary: m)
    (auto simp: fun_eq_iff map_add_def split: option.splits)

lemma vget_json_obj: "vget (json_obj kvs) k = map_of (rev kvs) k"
  by (simp add: vget_def json_obj_def map_of_fold_insert)

lemma vget_JObject [simp]: "vget (JObject kvs) k = map_of kvs k"
  by (simp add: vget_def)

lemma vget_simps [simp]:
  "vget JNull k = None"
  "vget (JBool b) k = None"
  "vget (JNumber n) k = None"
  "vget (JString s) k = None"
  "vget (JArray vs) k = None"
  by (simp_all add: vget_def)

lemma as_simps [simp]:
  "as_str (JString s) = Some s"
  "as_bool (JBool b) = Some b"
  "as_u64 (JNumber (PosInt n)) = Some n"
  "as_object (JObject kvs) = Some kvs"
  by (simp_all add: as_str_def as_bool_def as_u64_def as_object_def)

lemma as_str_opt [simp]: "as_str (json_opt_str x) = x"
  by (simp add: as_str_def json_opt_str_def split: option.splits)

lemma as_i64_json_i64 [simp]: "in_i64 i \<Longrightarrow> as_i64 (json_i64 i) = Some i"
  by (auto simp: as_i64_def json_i64_def in_i64_def uint_word_of_int_eq take_bit_int_eq_self)

lemma as_i64_in_i64:
  assumes "as_i64 v = Some i" and "\<And>j. v = JNumber (NegInt j) \<Longrightarrow> in_i64 j"
  shows "in_i64 i"
proof -
  have "in_i64 (uint n)" if "uint n \<le> i64_max" for n :: u64
    using that uint_ge_0 [of n] unfolding in_i64_def by linarith
  with assms show ?thesis
    by (auto simp: as_i64_def split: json.splits number.splits if_splits)
qed

end
