(* ===== verification/Errors.thy ===== *)
theory Errors
  imports Json
begin

text \<open>
  \<open>punkgo-core/src/errors.rs\<close>: the kernel's error type, its display text and the structured
  payload of an error response. The three transparent variants carry the text of the
  wrapped error. Text in messages is built as the sources build it; the \<open>Debug\<close> form of a
  list of strings is written without the escapes of \<open>str::escape_debug\<close>.
\<close>

datatype kernel_error =
    InvalidRequest string
  | PolicyViolation string
  | ActorNotFound string
  | InsufficientEnergy string i64 i64
  | ActorFrozen string
  | BoundaryViolation string
  | AuthorizationRequired string
  | HoldTriggered string string
  | ExecutePayloadInvalid string
  | Audit string
  | Io string
  | Db string
  | Json string

type_synonym 'a kernel_result = "kernel_error + 'a"

fun error_to_string :: "kernel_error \<Rightarrow> string" where
  "error_to_string (InvalidRequest d) = ''invalid request: '' @ d"
| "error_to_string (PolicyViolation d) = ''policy violation: '' @ d"
| "error_to_string (ActorNotFound a) = ''actor not found: '' @ a"
| "error_to_string (InsufficientEnergy a r v) =
     ''insufficient energy: actor='' @ a @ '', required='' @ fmt_int r @
     '', available='' @ fmt_int v"
| "error_to_string (ActorFrozen a) = ''actor frozen: '' @ a"
| "error_to_string (BoundaryViolation d) = ''boundary violation: '' @ d"
| "error_to_string (AuthorizationRequired d) = ''authorization required: '' @ d"
| "error_to_string (HoldTriggered h a) =
     ''hold triggered: hold_id='' @ h @ '', agent='' @ a"
| "error_to_string (ExecutePayloadInvalid d) = ''execute payload invalid: '' @ d"
| "error_to_string (Audit d) = ''audit error: '' @ d"
| "error_to_string (Io e) = e"
| "error_to_string (Db e) = e"
| "error_to_string (Json e) = e"

fun error_type :: "kernel_error \<Rightarrow> string" where
  "error_type (InvalidRequest _) = ''InvalidRequest''"
| "error_type (PolicyViolation _) = ''PolicyViolation''"
| "error_type (ActorNotFound _) = ''ActorNotFound''"
| "error_type (InsufficientEnergy _ _ _) = ''InsufficientEnergy''"
| "error_type (ActorFrozen _) = ''ActorFrozen''"
| "error_type (BoundaryViolation _) = ''BoundaryViolation''"
| "error_type (AuthorizationRequired _) = ''AuthorizationRequired''"
| "error_type (HoldTriggered _ _) = ''HoldTriggered''"
| "error_type (ExecutePayloadInvalid _) = ''ExecutePayloadInvalid''"
| "error_type (Audit _) = ''Audit''"
| "error_type (Io _) = ''Io''"
| "error_type (Db _) = ''Db''"
| "error_type (Json _) = ''Json''"

text \<open>The fields that follow \<open>error_type\<close> and \<open>message\<close> in the payload of each variant.\<close>

fun error_fields :: "kernel_error \<Rightarrow> (string \<times> json) list" where
  "error_fields (InvalidRequest d) = [(''detail'', JString d)]"
| "error_fields (PolicyViolation d) = [(''detail'', JString d)]"
| "error_fields (ActorNotFound a) = [(''actor_id'', JString a)]"
| "error_fields (InsufficientEnergy a r v) =
     [(''actor_id'', JString a), (''required'', json_i64 r), (''available'', json_i64 v)]"
| "error_fields (ActorFrozen a) = [(''actor_id'', JString a)]"
| "error_fields (BoundaryViolation d) = [(''detail'', JString d)]"
| "error_fields (AuthorizationRequired d) = [(''detail'', JString d)]"
| "error_fields (HoldTriggered h a) = [(''hold_id'', JString h), (''agent_id'', JString a)]"
| "error_fields (ExecutePayloadInvalid d) = [(''detail'', JString d)]"
| "error_fields (Audit d) = [(''detail'', JString d)]"
| "error_fields (Io _) = []"
| "error_fields (Db _) = []"
| "error_fields (Json _) = []"

definition to_error_payload :: "kernel_error \<Rightarrow> json" where
  "to_error_payload e =
     json_obj ([(''error_type'', JString (error_type e)),
                (''message'', JString (error_to_string e))] @ error_fields e)"

section \<open>Text pieces shared by the messages\<close>

text \<open>The UTF-8 bytes of the section sign and of the em dash.\<close>

definition section_sign :: string where
  "section_sign = [CHR 0xC2, CHR 0xA7]"

definition em_dash :: string where
  "em_dash = [CHR 0xE2, CHR 0x80, CHR 0x94]"

definition pip001 :: "string \<Rightarrow> string" where
  "pip001 n = ''(PIP-001 '' @ section_sign @ n @ '')''"

definition debug_str :: "string \<Rightarrow> string" where
  "debug_str s = [CHR 34] @ s @ [CHR 34]"

fun debug_list :: "string list \<Rightarrow> string" where
  "debug_list [] = []"
| "debug_list [x] = debug_str x"
| "debug_list (x # xs) = debug_str x @ '', '' @ debug_list xs"

definition debug_strs :: "string list \<Rightarrow> string" where
  "debug_strs xs = ''['' @ debug_list xs @ '']''"

section \<open>Facts\<close>

text \<open>A client recovers the variant and its fields from the payload.\<close>

lemma error_payload_type: "get_str (to_error_payload e) ''error_type'' = Some (error_type e)"
  by (cases e) (simp_all add: to_error_payload_def get_str_def vget_json_obj)

lemma error_payload_message:
  "get_str (to_error_payload e) ''message'' = Some (error_to_string e)"
  by (cases e) (simp_all add: to_error_payload_def get_str_def vget_json_obj)

lemma error_payload_hold:
  "get_str (to_error_payload (HoldTriggered h a)) ''hold_id'' = Some h"
  "get_str (to_error_payload (HoldTriggered h a)) ''agent_id'' = Some a"
  by (simp_all add: to_error_payload_def get_str_def vget_json_obj)

end
