(* ===== verification/Action.thy ===== *)
theory Action
  imports Errors
begin

text \<open>
  \<open>punkgo-core/src/action.rs\<close>: the four action types, the action record, the energy quote
  and the payload hash. Printing a payload (\<open>serde_json::to_vec\<close>) and SHA-256 are
  parameters; \<open>None\<close> of the printer is its error.
\<close>

unbundle bit_operations_syntax

datatype action_type = Observe | Create | Mutate | Execute

definition is_state_changing :: "action_type \<Rightarrow> bool" where
  "is_state_changing t \<longleftrightarrow> t \<noteq> Observe"

fun action_type_str :: "action_type \<Rightarrow> string" where
  "action_type_str Observe = ''observe''"
| "action_type_str Create = ''create''"
| "action_type_str Mutate = ''mutate''"
| "action_type_str Execute = ''execute''"

record action =
  act_actor_id :: string
  act_type :: action_type
  act_target :: string
  act_payload :: json
  act_timestamp :: "string option"

definition append_cost :: "(json \<Rightarrow> byte list option) \<Rightarrow> json \<Rightarrow> u64" where
  "append_cost to_vec payload =
     (let payload_bytes = (case to_vec payload of
                             None \<Rightarrow> 0 | Some v \<Rightarrow> word_of_nat (length v))
      in 1 + payload_bytes div 1024)"

definition quote_cost :: "(json \<Rightarrow> byte list option) \<Rightarrow> action \<Rightarrow> u64" where
  "quote_cost to_vec a =
     (let action_cost =
            (case act_type a of
               Observe \<Rightarrow> 0
             | Create \<Rightarrow> 10
             | Mutate \<Rightarrow> 15
             | Execute \<Rightarrow>
                 25 + unwrap_or 0 (Option.bind (vget (act_payload a) ''output_bytes'') as_u64)
                        div 256)
      in action_cost + append_cost to_vec (act_payload a))"

definition hex_lut :: string where
  "hex_lut = ''0123456789abcdef''"

definition bytes_to_hex :: "byte list \<Rightarrow> string" where
  "bytes_to_hex bs =
     concat (map (\<lambda>b. [hex_lut ! unat (drop_bit 4 b), hex_lut ! unat (b AND 15)]) bs)"

definition payload_hash_hex ::
  "(json \<Rightarrow> byte list option) \<Rightarrow> (byte list \<Rightarrow> byte list) \<Rightarrow> action \<Rightarrow> string kernel_result" where
  "payload_hash_hex to_vec sha256 a =
     (case to_vec (act_payload a) of
        None \<Rightarrow> Inl (Json ''serialization error'')
      | Some bs \<Rightarrow> Inr (bytes_to_hex (sha256 bs)))"

section \<open>The quote fits and is positive\<close>

text \<open>
  No sum or quotient in the quote wraps, and the quote survives the cast to \<open>i64\<close>: the
  surcharge is below \<open>2 ^ 56\<close> and the storage cost below \<open>2 ^ 54\<close>.
\<close>

definition quote_nat :: "(json \<Rightarrow> byte list option) \<Rightarrow> action \<Rightarrow> nat" where
  "quote_nat to_vec a =
     (case act_type a of
        Observe \<Rightarrow> 0 | Create \<Rightarrow> 10 | Mutate \<Rightarrow> 15
      | Execute \<Rightarrow>
          25 + unat (unwrap_or 0 (Option.bind (vget (act_payload a) ''output_bytes'') as_u64))
                 div 256)
     + (1 + (case to_vec (act_payload a) of
               None \<Rightarrow> 0 | Some v \<Rightarrow> (length v mod 2 ^ 64) div 1024))"

lemma unat_div_u64_less: "unat (w :: u64) div 2 ^ k < 2 ^ (64 - k)" if "k \<le> 64"
proof -
  have "unat w < 2 ^ (64 - k) * 2 ^ k"
    using unsigned_less [of w, where ?'a = nat] that by (simp flip: power_add)
  then show ?thesis by (rule less_mult_imp_div_less)
qed

lemma append_cost_nat:
  "unat (append_cost to_vec p) =
     1 + (case to_vec p of None \<Rightarrow> 0 | Some v \<Rightarrow> (length v mod 2 ^ 64) div 1024)"
  "unat (append_cost to_vec p) \<le> 2 ^ 54"
proof -
  have *: "unat (1 + w div 1024) = 1 + unat w div 1024" "1 + unat w div 1024 \<le> 2 ^ 54"
    for w :: u64
  proof -
    have "unat w div 1024 < 2 ^ 54" using unat_div_u64_less [of 10 w] by simp
    then show "unat (1 + w div 1024) = 1 + unat w div 1024" "1 + unat w div 1024 \<le> 2 ^ 54"
      by (simp_all add: unat_word_ariths unat_div)
  qed
  show "unat (append_cost to_vec p) =
     1 + (case to_vec p of None \<Rightarrow> 0 | Some v \<Rightarrow> (length v mod 2 ^ 64) div 1024)"
    by (simp add: append_cost_def Let_def * unat_of_nat split: option.splits)
  show "unat (append_cost to_vec p) \<le> 2 ^ 54"
    unfolding append_cost_def Let_def *(1) by (rule *(2))
qed

lemma quote_cost_bound:
  "unat (quote_cost to_vec a) = quote_nat to_vec a" "quote_nat to_vec a < 2 ^ 57"
proof -
  let ?w = "unwrap_or 0 (Option.bind (vget (act_payload a) ''output_bytes'') as_u64)"
  have w: "unat ?w div 256 < 2 ^ 56" using unat_div_u64_less [of 8 ?w] by simp
  have e: "unat (25 + ?w div 256) = 25 + unat ?w div 256"
    using w by (simp add: unat_word_ariths unat_div)
  note A = append_cost_nat [of to_vec "act_payload a"]
  show "unat (quote_cost to_vec a) = quote_nat to_vec a"
    using w e A(2) unfolding quote_cost_def quote_nat_def Let_def A(1) [symmetric]
    by (cases "act_type a") (simp_all add: unat_word_ariths)
  show "quote_nat to_vec a < 2 ^ 57"
    using w A(2) unfolding quote_nat_def A(1) [symmetric]
    by (cases "act_type a") simp_all
qed

lemma quote_nat_pos: "0 < quote_nat to_vec a"
  by (simp add: quote_nat_def)

text \<open>The quote as the pipeline uses it: \<open>quote_cost(&action) as i64\<close>.\<close>

lemma quote_cost_as_i64: "u64_as_i64 (quote_cost to_vec a) = int (quote_nat to_vec a)"
proof -
  have "uint (quote_cost to_vec a) = int (quote_nat to_vec a)"
    using quote_cost_bound(1) [of to_vec a] by (metis of_nat_unat)
  with quote_cost_bound(2) [of to_vec a] show ?thesis
    by (simp add: u64_as_i64_small)
qed

section \<open>Hexadecimal text\<close>

lemma length_bytes_to_hex [simp]: "length (bytes_to_hex bs) = 2 * length bs"
  by (induction bs) (auto simp: bytes_to_hex_def)

lemma nibble_bounds: "unat (drop_bit 4 (b :: byte)) < 16" "unat (b AND 15) < 16"
proof -
  have "unat b div 2 ^ 4 < 16"
    using unsigned_less [of b, where ?'a = nat] by (simp add: less_mult_imp_div_less)
  then show "unat (drop_bit 4 b) < 16" by (simp add: drop_bit_eq_div unat_div)
  have "unat (b AND 15) \<le> unat (15 :: byte)"
    by (rule word_and_le1 [THEN word_le_nat_alt [THEN iffD1]])
  then show "unat (b AND 15) < 16" by simp
qed

lemma bytes_to_hex_chars: "set (bytes_to_hex bs) \<subseteq> set hex_lut"
proof -
  have "hex_lut ! i \<in> set hex_lut" if "i < 16" for i
    using that by (intro nth_mem) (simp add: hex_lut_def)
  then show ?thesis
    using nibble_bounds by (auto simp: bytes_to_hex_def)
qed

lemma action_type_str_inject [simp]: "action_type_str t = action_type_str u \<longleftrightarrow> t = u"
  by (cases t; cases u) simp_all

end
