(* ===== verification/Actor.thy ===== *)
theory Actor
  imports Action
begin

text \<open>
  \<open>punkgo-core/src/actor.rs\<close>: actor types and status, the actor record, the specification
  of a new actor, lifecycle operations, derived identities and lineage. The text codes of
  the enums, which the database columns hold, satisfy one contract (\<open>text_code\<close>).
\<close>

datatype actor_type = Human | Agent

fun actor_type_str :: "actor_type \<Rightarrow> string" where
  "actor_type_str Human = ''human''"
| "actor_type_str Agent = ''agent''"

definition actor_type_parse :: "string \<Rightarrow> actor_type option" where
  "actor_type_parse s =
     (if s = ''human'' then Some Human else if s = ''agent'' then Some Agent else None)"

datatype actor_status = Active | Frozen

fun actor_status_str :: "actor_status \<Rightarrow> string" where
  "actor_status_str Active = ''active''"
| "actor_status_str Frozen = ''frozen''"

definition actor_status_parse :: "string \<Rightarrow> actor_status option" where
  "actor_status_parse s =
     (if s = ''active'' then Some Active else if s = ''frozen'' then Some Frozen else None)"

record writable_target =
  wt_target :: string
  wt_actions :: "string list"

record actor_record =
  ar_actor_id :: string
  ar_actor_type :: actor_type
  ar_creator_id :: "string option"
  ar_lineage :: "string list"
  ar_purpose :: "string option"
  ar_status :: actor_status
  ar_writable_targets :: "writable_target list"
  ar_energy_share :: f64
  ar_reduction_policy :: string
  ar_created_at :: string
  ar_updated_at :: string

record create_actor_spec =
  cs_actor_id :: string
  cs_actor_type :: actor_type
  cs_creator_id :: string
  cs_lineage :: "string list"
  cs_purpose :: "string option"
  cs_writable_targets :: "writable_target list"
  cs_energy_balance :: i64
  cs_energy_share :: f64
  cs_reduction_policy :: string

datatype lifecycle_op =
    Freeze "string option"
  | Unfreeze
  | Terminate "string option"
  | UpdateEnergyShare f64

text \<open>
  \<open>sanitize_purpose\<close> works on characters; a non-ASCII character is one hyphen there and
  one hyphen per byte here, which the collapse of consecutive hyphens makes the same.
\<close>

definition is_ascii_alphanumeric :: "char \<Rightarrow> bool" where
  "is_ascii_alphanumeric c \<longleftrightarrow>
     (let n = (of_char c :: nat)
      in 48 \<le> n \<and> n \<le> 57 \<or> 65 \<le> n \<and> n \<le> 90 \<or> 97 \<le> n \<and> n \<le> 122)"

definition to_ascii_lowercase :: "char \<Rightarrow> char" where
  "to_ascii_lowercase c =
     (let n = (of_char c :: nat) in if 65 \<le> n \<and> n \<le> 90 then char_of (n + 32) else c)"

fun collapse_hyphens :: "bool \<Rightarrow> string \<Rightarrow> string" where
  "collapse_hyphens prev_hyphen [] = []"
| "collapse_hyphens prev_hyphen (c # cs) =
     (if c = CHR ''-''
      then (if prev_hyphen then [] else [c]) @ collapse_hyphens True cs
      else c # collapse_hyphens False cs)"

definition trim_hyphens :: "string \<Rightarrow> string" where
  "trim_hyphens s =
     rev (dropWhile (\<lambda>c. c = CHR ''-'') (rev (dropWhile (\<lambda>c. c = CHR ''-'') s)))"

definition sanitize_purpose :: "string \<Rightarrow> string" where
  "sanitize_purpose purpose =
     trim_hyphens (collapse_hyphens False
       (map (\<lambda>c. if is_ascii_alphanumeric c \<or> c = CHR ''-''
                 then to_ascii_lowercase c else CHR ''-'') purpose))"

definition derive_agent_id :: "string \<Rightarrow> string \<Rightarrow> i64 \<Rightarrow> string" where
  "derive_agent_id creator_id purpose seq =
     creator_id @ ''/'' @ sanitize_purpose purpose @ ''/'' @ fmt_int seq"

definition build_lineage :: "actor_type \<Rightarrow> string \<Rightarrow> string list \<Rightarrow> string list" where
  "build_lineage creator_type creator_id creator_lineage =
     (case creator_type of Human \<Rightarrow> [creator_id] | Agent \<Rightarrow> [creator_id])"

section \<open>Text codes\<close>

text \<open>What \<open>as_str\<close> and \<open>parse\<close> of an enum promise each other.\<close>

locale text_code =
  fixes to_text :: "'a \<Rightarrow> string" and of_text :: "string \<Rightarrow> 'a option"
  assumes parse_print: "of_text (to_text x) = Some x"
    and parse_sound: "of_text s = Some x \<Longrightarrow> s = to_text x"
begin

lemma print_inject: "to_text x = to_text y \<longleftrightarrow> x = y"
  using parse_print by (metis option.inject)

lemma parse_iff: "of_text s = Some x \<longleftrightarrow> s = to_text x"
  using parse_print parse_sound by auto

lemma parse_None: "of_text s = None \<longleftrightarrow> s \<notin> range to_text"
  using parse_print parse_sound by (metis option.distinct(1) option.exhaust rangeE rangeI)

end

interpretation actor_type_code: text_code actor_type_str actor_type_parse
proof
  show "actor_type_parse (actor_type_str x) = Some x" for x
    by (cases x) (simp_all add: actor_type_parse_def)
  show "s = actor_type_str x" if "actor_type_parse s = Some x" for s x
    using that by (auto simp: actor_type_parse_def split: if_splits)
qed

interpretation actor_status_code: text_code actor_status_str actor_status_parse
proof
  show "actor_status_parse (actor_status_str x) = Some x" for x
    by (cases x) (simp_all add: actor_status_parse_def)
  show "s = actor_status_str x" if "actor_status_parse s = Some x" for s x
    using that by (auto simp: actor_status_parse_def split: if_splits)
qed

section \<open>Derived identities\<close>

lemma collapse_set: "set (collapse_hyphens b s) \<subseteq> set s"
  by (induction b s rule: collapse_hyphens.induct) auto

lemma trim_hyphens_set: "set (trim_hyphens s) \<subseteq> set s"
  unfolding trim_hyphens_def
  by (metis (no_types, lifting) set_dropWhileD set_rev subsetI)

definition id_char :: "char \<Rightarrow> bool" where
  "id_char c \<longleftrightarrow>
     (let n = (of_char c :: nat) in 48 \<le> n \<and> n \<le> 57 \<or> 97 \<le> n \<and> n \<le> 122 \<or> n = 45)"

lemma lowercase_id_char:
  "id_char (if is_ascii_alphanumeric c \<or> c = CHR ''-'' then to_ascii_lowercase c else CHR ''-'')"
  by (auto simp: id_char_def is_ascii_alphanumeric_def to_ascii_lowercase_def Let_def)

text \<open>The purpose segment of a derived identity holds lower-case letters, digits and hyphens
  only, so it adds no path separator.\<close>

lemma sanitize_purpose_chars: "c \<in> set (sanitize_purpose p) \<Longrightarrow> id_char c"
proof -
  let ?f = "\<lambda>c. if is_ascii_alphanumeric c \<or> c = CHR ''-'' then to_ascii_lowercase c
                else CHR ''-''"
  assume "c \<in> set (sanitize_purpose p)"
  then have "c \<in> ?f ` set p"
    unfolding sanitize_purpose_def
    using trim_hyphens_set collapse_set by (metis (no_types, lifting) list.set_map subsetD)
  then obtain x where "c = ?f x" by blast
  then show "id_char c" using lowercase_id_char [of x] by (simp only:)
qed

lemma sanitize_no_slash: "CHR ''/'' \<notin> set (sanitize_purpose p)"
  using sanitize_purpose_chars [of "CHR ''/''" p] by (auto simp: id_char_def)

text \<open>No two adjacent hyphens are left.\<close>

fun no_double_hyphen :: "bool \<Rightarrow> string \<Rightarrow> bool" where
  "no_double_hyphen prev_hyphen [] = True"
| "no_double_hyphen prev_hyphen (c # cs) =
     (\<not> (prev_hyphen \<and> c = CHR ''-'') \<and> no_double_hyphen (c = CHR ''-'') cs)"

lemma collapse_no_double: "no_double_hyphen b (collapse_hyphens b s)"
  by (induction b s rule: collapse_hyphens.induct) auto

end
