(* ===== verification/Boundary.thy ===== *)
theory Boundary
  imports Actor
begin

text \<open>
  \<open>punkgo-core/src/boundary.rs\<close>: which targets an actor may write. The glob compiler of the
  \<open>globset\<close> crate (with \<open>literal_separator(true)\<close>) is the parameter \<open>glob\<close>: \<open>None\<close> for a
  pattern it refuses, otherwise the matcher.
\<close>

type_synonym glob_compiler = "string \<Rightarrow> (string \<Rightarrow> bool) option"

definition privileged_prefixes :: "string list" where
  "privileged_prefixes = [''system/'', ''ledger/'']"

definition glob_match :: "glob_compiler \<Rightarrow> string \<Rightarrow> string \<Rightarrow> bool" where
  "glob_match glob pattern target =
     (case glob pattern of None \<Rightarrow> False | Some matcher \<Rightarrow> matcher target)"

definition is_privileged_target :: "string \<Rightarrow> bool" where
  "is_privileged_target target = list_ex (\<lambda>p. prefix p target) privileged_prefixes"

definition check_privileged_access :: "actor_record \<Rightarrow> string \<Rightarrow> unit kernel_result" where
  "check_privileged_access actor target =
     (if list_ex (\<lambda>wt. wt_target wt = ''**'') (ar_writable_targets actor) then Inr ()
      else Inl (BoundaryViolation
        (''actor '' @ ar_actor_id actor @ '' denied access to privileged target '' @ target)))"

definition check_writable_boundary ::
  "glob_compiler \<Rightarrow> actor_record \<Rightarrow> string \<Rightarrow> action_type \<Rightarrow> unit kernel_result" where
  "check_writable_boundary glob actor target act_ty =
     (if act_ty = Observe then Inr ()
      else if is_privileged_target target
      then and_then (check_privileged_access actor target) (\<lambda>_. Inr ())
      else let action_str = action_type_str act_ty
           in if list_ex (\<lambda>wt. glob_match glob (wt_target wt) target
                               \<and> list_ex (\<lambda>a. a = action_str) (wt_actions wt))
                         (ar_writable_targets actor)
              then Inr ()
              else Inl (BoundaryViolation
                (''actor '' @ ar_actor_id actor @ '' has no writable_target granting ''
                 @ action_str @ '' on '' @ target)))"

definition pattern_covers :: "glob_compiler \<Rightarrow> string \<Rightarrow> string \<Rightarrow> bool" where
  "pattern_covers glob parent_pattern child_pattern =
     (if parent_pattern = ''**'' then True
      else if parent_pattern = child_pattern then True
      else glob_match glob parent_pattern child_pattern)"

definition wt_covered :: "glob_compiler \<Rightarrow> actor_record \<Rightarrow> writable_target \<Rightarrow> bool" where
  "wt_covered glob parent child_wt =
     list_ex (\<lambda>parent_wt.
        pattern_covers glob (wt_target parent_wt) (wt_target child_wt)
        \<and> list_all (\<lambda>child_action. list_ex (\<lambda>pa. pa = child_action) (wt_actions parent_wt))
                   (wt_actions child_wt))
       (ar_writable_targets parent)"

definition validate_child_targets ::
  "glob_compiler \<Rightarrow> actor_record \<Rightarrow> writable_target list \<Rightarrow> unit kernel_result" where
  "validate_child_targets glob parent child_targets =
     try_fold (\<lambda>child_wt _.
        if wt_covered glob parent child_wt then Inr ()
        else Inl (BoundaryViolation
          (''child writable_target '' @ [CHR 39] @ wt_target child_wt @ [CHR 39] @
           '' with actions '' @ debug_strs (wt_actions child_wt)
           @ '' exceeds parent boundary'')))
       child_targets ()"

section \<open>What the boundary grants\<close>

definition grants :: "glob_compiler \<Rightarrow> actor_record \<Rightarrow> string \<Rightarrow> action_type \<Rightarrow> bool" where
  "grants glob actor target act_ty \<longleftrightarrow>
     (\<exists>wt \<in> set (ar_writable_targets actor).
        glob_match glob (wt_target wt) target \<and> action_type_str act_ty \<in> set (wt_actions wt))"

definition has_wildcard :: "actor_record \<Rightarrow> bool" where
  "has_wildcard actor \<longleftrightarrow> ''**'' \<in> wt_target ` set (ar_writable_targets actor)"

lemma check_privileged_ok: "is_ok (check_privileged_access actor target) \<longleftrightarrow> has_wildcard actor"
  by (force simp: check_privileged_access_def has_wildcard_def list_ex_iff)

lemma check_writable_boundary_iff:
  "is_ok (check_writable_boundary glob actor target t) \<longleftrightarrow>
     (t = Observe
      \<or> (is_privileged_target target \<and> has_wildcard actor)
      \<or> (\<not> is_privileged_target target \<and> grants glob actor target t))"
proof -
  have "is_ok (and_then r (\<lambda>_. Inr ())) = is_ok r" for r :: "kernel_error + unit"
    by (cases r) auto
  then show ?thesis
    using check_privileged_ok [of actor target]
    by (auto simp: check_writable_boundary_def grants_def list_ex_iff Let_def)
qed

text \<open>The only error a boundary check gives is a boundary violation.\<close>

lemma check_writable_boundary_error:
  "check_writable_boundary glob actor target t = Inl e \<Longrightarrow> \<exists>m. e = BoundaryViolation m"
  by (auto simp: check_writable_boundary_def check_privileged_access_def and_then_def Let_def
      split: if_splits)

lemma try_fold_check:
  "try_fold (\<lambda>x _. if P x then Inr () else Inl (err x)) xs () = Inr () \<longleftrightarrow> (\<forall>x \<in> set xs. P x)"
  by (induction xs) auto

lemma validate_child_targets_iff:
  "validate_child_targets glob parent child_targets = Inr () \<longleftrightarrow>
     (\<forall>c \<in> set child_targets. wt_covered glob parent c)"
  unfolding validate_child_targets_def by (rule try_fold_check)

lemma wt_covered_iff:
  "wt_covered glob parent c \<longleftrightarrow>
     (\<exists>p \<in> set (ar_writable_targets parent).
        pattern_covers glob (wt_target p) (wt_target c) \<and> set (wt_actions c) \<subseteq> set (wt_actions p))"
  by (auto simp: wt_covered_def list_ex_iff list_all_iff)

end
