(* ===== verification/Consent.thy ===== *)
theory Consent
  imports Boundary
begin

text \<open>
  \<open>punkgo-core/src/consent.rs\<close>: authorization modes, envelopes and their checks (coverage,
  checkpoints, reduction, time expiry) and hold rules.
\<close>

datatype authorization_mode = ManInTheLoop | ManOnTheLoop

datatype envelope_status = EnvActive | EnvExpired | EnvRevoked

fun envelope_status_str :: "envelope_status \<Rightarrow> string" where
  "envelope_status_str EnvActive = ''active''"
| "envelope_status_str EnvExpired = ''expired''"
| "envelope_status_str EnvRevoked = ''revoked''"

definition envelope_status_parse :: "string \<Rightarrow> envelope_status option" where
  "envelope_status_parse s =
     (if s = ''active'' then Some EnvActive
      else if s = ''expired'' then Some EnvExpired
      else if s = ''revoked'' then Some EnvRevoked else None)"

datatype checkpoint_level = Report | Halt

record hold_rule =
  rule_target :: string
  rule_actions :: "string list"

record envelope_spec =
  es_actor_id :: string
  es_grantor_id :: string
  es_budget :: i64
  es_targets :: "string list"
  es_actions :: "string list"
  es_duration_secs :: "i64 option"
  es_report_every :: "i64 option"
  es_hold_on :: "hold_rule list"
  es_hold_timeout_secs :: "i64 option"

record envelope_record =
  en_envelope_id :: string
  en_actor_id :: string
  en_grantor_id :: string
  en_parent_envelope_id :: "string option"
  en_budget :: i64
  en_budget_consumed :: i64
  en_targets :: "string list"
  en_actions :: "string list"
  en_duration_secs :: "i64 option"
  en_report_every :: "i64 option"
  en_hold_on :: "hold_rule list"
  en_hold_timeout_secs :: "i64 option"
  en_status :: envelope_status
  en_last_report_at :: i64
  en_created_at :: string
  en_expires_at :: "string option"
  en_updated_at :: string

definition check_hold_trigger ::
  "glob_compiler \<Rightarrow> hold_rule list \<Rightarrow> string \<Rightarrow> string \<Rightarrow> bool" where
  "check_hold_trigger glob hold_on target act_ty =
     list_ex (\<lambda>rule. glob_match glob (rule_target rule) target
                     \<and> list_ex (\<lambda>a. a = act_ty) (rule_actions rule)) hold_on"

definition determine_authorization_mode :: "actor_record \<Rightarrow> authorization_mode" where
  "determine_authorization_mode actor =
     (case ar_actor_type actor of Human \<Rightarrow> ManInTheLoop | Agent \<Rightarrow> ManOnTheLoop)"

definition check_authorization ::
  "actor_record \<Rightarrow> envelope_record option \<Rightarrow> authorization_mode kernel_result" where
  "check_authorization actor envelope =
     (let mode = determine_authorization_mode actor
      in case mode of
           ManInTheLoop \<Rightarrow> Inr mode
         | ManOnTheLoop \<Rightarrow>
             and_then (ok_or (AuthorizationRequired
                 (''agent '' @ ar_actor_id actor @
                  '' requires an active envelope to perform state-changing actions ''
                  @ pip001 ''11'')) envelope)
               (\<lambda>env. if en_status env \<noteq> EnvActive
                 then Inl (AuthorizationRequired
                   (''agent '' @ ar_actor_id actor @ '' envelope '' @ en_envelope_id env @ '' is ''
                    @ envelope_status_str (en_status env) @ '' (not active)''))
                 else Inr mode))"

definition check_envelope_covers ::
  "glob_compiler \<Rightarrow> envelope_record \<Rightarrow> string \<Rightarrow> string \<Rightarrow> unit kernel_result" where
  "check_envelope_covers glob env target act =
     (if \<not> list_ex (\<lambda>a. a = act) (en_actions env)
      then Inl (AuthorizationRequired
        (''envelope '' @ en_envelope_id env @ '' does not permit action '' @ [CHR 39] @ act @
         [CHR 39] @ '' (allowed: '' @ debug_strs (en_actions env) @ '')''))
      else if \<not> list_ex (\<lambda>pattern. glob_match glob pattern target) (en_targets env)
      then Inl (AuthorizationRequired
        (''envelope '' @ en_envelope_id env @ '' does not cover target '' @ [CHR 39] @ target @
         [CHR 39] @ '' (allowed patterns: '' @ debug_strs (en_targets env) @ '')''))
      else let remaining = i64_wrap (en_budget env - en_budget_consumed env)
           in if remaining \<le> 0
              then Inl (AuthorizationRequired
                (''envelope '' @ en_envelope_id env @ '' budget exhausted (budget='' @
                 fmt_int (en_budget env) @ '', consumed='' @ fmt_int (en_budget_consumed env)
                 @ '')''))
              else Inr ())"

text \<open>Integer division of Rust truncates towards zero.\<close>

definition i64_div :: "i64 \<Rightarrow> i64 \<Rightarrow> i64" where
  "i64_div a b = sgn a * sgn b * (\<bar>a\<bar> div \<bar>b\<bar>)"

definition check_checkpoint :: "envelope_record \<Rightarrow> i64 \<Rightarrow> checkpoint_level option" where
  "check_checkpoint env new_consumed =
     (let total_consumed = i64_wrap (en_budget_consumed env + new_consumed)
      in if total_consumed \<ge> en_budget env then Some Halt
         else (case en_report_every env of
                 None \<Rightarrow> None
               | Some report_interval \<Rightarrow>
                   if report_interval > 0
                   then (let prev_report_count = i64_div (en_budget_consumed env) report_interval;
                             new_report_count = i64_div total_consumed report_interval
                         in if new_report_count > prev_report_count then Some Report else None)
                   else None))"

definition reduction_budget ::
  "envelope_record \<Rightarrow> envelope_spec \<Rightarrow> unit kernel_result" where
  "reduction_budget parent child =
     (let parent_remaining = i64_wrap (en_budget parent - en_budget_consumed parent)
      in if es_budget child > parent_remaining
         then Inl (AuthorizationRequired
           (''child envelope budget '' @ fmt_int (es_budget child) @ '' exceeds parent remaining ''
            @ fmt_int parent_remaining @ '' '' @ pip001 ''11''))
         else Inr ())"

definition reduction_actions ::
  "envelope_record \<Rightarrow> envelope_spec \<Rightarrow> unit kernel_result" where
  "reduction_actions parent child =
     try_fold (\<lambda>child_action _.
        if list_ex (\<lambda>pa. pa = child_action) (en_actions parent) then Inr ()
        else Inl (AuthorizationRequired
          (''child envelope action '' @ [CHR 39] @ child_action @ [CHR 39] @
           '' not in parent actions '' @ debug_strs (en_actions parent) @ '' '' @ pip001 ''11'')))
       (es_actions child) ()"

definition reduction_targets ::
  "glob_compiler \<Rightarrow> envelope_record \<Rightarrow> envelope_spec \<Rightarrow> unit kernel_result" where
  "reduction_targets glob parent child =
     try_fold (\<lambda>child_target _.
        if list_ex (\<lambda>parent_target. glob_match glob parent_target child_target
                      \<or> parent_target = ''**'' \<or> parent_target = child_target) (en_targets parent)
        then Inr ()
        else Inl (AuthorizationRequired
          (''child envelope target '' @ [CHR 39] @ child_target @ [CHR 39] @
           '' not covered by parent targets '' @ debug_strs (en_targets parent) @ '' ''
           @ pip001 ''11'')))
       (es_targets child) ()"

definition validate_envelope_reduction ::
  "glob_compiler \<Rightarrow> envelope_record \<Rightarrow> envelope_spec \<Rightarrow> unit kernel_result" where
  "validate_envelope_reduction glob parent child =
     and_then (reduction_budget parent child) (\<lambda>_.
     and_then (reduction_actions parent child) (\<lambda>_.
       reduction_targets glob parent child))"

definition is_envelope_expired :: "envelope_record \<Rightarrow> u64 \<Rightarrow> bool" where
  "is_envelope_expired env now_millis =
     (case en_expires_at env of
        None \<Rightarrow> False
      | Some expires_at \<Rightarrow>
          (case parse_u64 expires_at of
             None \<Rightarrow> False
           | Some expires_ms \<Rightarrow> now_millis \<ge> expires_ms))"

section \<open>The order of checkpoint levels\<close>

text \<open>\<open>Halt\<close> is above \<open>Report\<close>; a checkpoint reports the highest level that is due.\<close>

instantiation checkpoint_level :: linorder
begin

definition less_eq_checkpoint_level :: "checkpoint_level \<Rightarrow> checkpoint_level \<Rightarrow> bool" where
  "less_eq_checkpoint_level a b \<longleftrightarrow> a = Report \<or> b = Halt"

definition less_checkpoint_level :: "checkpoint_level \<Rightarrow> checkpoint_level \<Rightarrow> bool" where
  "less_checkpoint_level a b \<longleftrightarrow> a = Report \<and> b = Halt"

instance
proof
  fix x y z :: checkpoint_level
  show "(x < y) = (x \<le> y \<and> \<not> y \<le> x)" "x \<le> x" "x \<le> y \<or> y \<le> x"
    by (cases x; cases y; simp add: less_eq_checkpoint_level_def less_checkpoint_level_def)+
  show "x \<le> y \<Longrightarrow> y \<le> z \<Longrightarrow> x \<le> z" "x \<le> y \<Longrightarrow> y \<le> x \<Longrightarrow> x = y"
    by (cases x; cases y; cases z; simp add: less_eq_checkpoint_level_def)+
qed

end

interpretation envelope_status_code: text_code envelope_status_str envelope_status_parse
proof
  show "envelope_status_parse (envelope_status_str x) = Some x" for x
    by (cases x) (simp_all add: envelope_status_parse_def)
  show "s = envelope_status_str x" if "envelope_status_parse s = Some x" for s x
    using that by (auto simp: envelope_status_parse_def split: if_splits)
qed

section \<open>What the checks decide\<close>

lemma check_authorization_iff:
  "check_authorization actor env = Inr mode \<longleftrightarrow>
     mode = determine_authorization_mode actor
     \<and> (ar_actor_type actor = Agent \<longrightarrow> (\<exists>e. env = Some e \<and> en_status e = EnvActive))"
  by (cases "ar_actor_type actor"; cases env)
    (auto simp: check_authorization_def determine_authorization_mode_def Let_def)

lemma check_envelope_covers_iff:
  assumes "in_i64 (en_budget env - en_budget_consumed env)"
  shows "check_envelope_covers glob env target act = Inr () \<longleftrightarrow>
     act \<in> set (en_actions env)
     \<and> (\<exists>p \<in> set (en_targets env). glob_match glob p target)
     \<and> en_budget_consumed env < en_budget env"
  using assms by (auto simp: check_envelope_covers_def list_ex_iff Let_def i64_wrap_id)

lemma reduction_actions_iff:
  "reduction_actions parent child = Inr () \<longleftrightarrow> set (es_actions child) \<subseteq> set (en_actions parent)"
  unfolding reduction_actions_def try_fold_check by (auto simp: list_ex_iff)

lemma reduction_targets_iff:
  "reduction_targets glob parent child = Inr () \<longleftrightarrow>
     (\<forall>t \<in> set (es_targets child). \<exists>p \<in> set (en_targets parent).
        glob_match glob p t \<or> p = ''**'' \<or> p = t)"
  unfolding reduction_targets_def try_fold_check by (auto simp: list_ex_iff)

lemma validate_envelope_reduction_iff:
  assumes "in_i64 (en_budget parent - en_budget_consumed parent)"
  shows "validate_envelope_reduction glob parent child = Inr () \<longleftrightarrow>
     es_budget child \<le> en_budget parent - en_budget_consumed parent
     \<and> set (es_actions child) \<subseteq> set (en_actions parent)
     \<and> (\<forall>t \<in> set (es_targets child). \<exists>p \<in> set (en_targets parent).
          glob_match glob p t \<or> p = ''**'' \<or> p = t)"
proof -
  have "reduction_budget parent child = Inr () \<longleftrightarrow>
      es_budget child \<le> en_budget parent - en_budget_consumed parent"
    using assms by (simp add: reduction_budget_def Let_def i64_wrap_id not_less)
  then show ?thesis
    by (simp add: validate_envelope_reduction_def and_then_Inr_iff reduction_actions_iff
        reduction_targets_iff)
qed

lemma i64_div_nonneg: "0 \<le> a \<Longrightarrow> 0 < b \<Longrightarrow> i64_div a b = a div b"
  by (cases "a = 0") (auto simp: i64_div_def)

end
