(* ===== verification/Policy.thy ===== *)
theory Policy
  imports Consent
begin

text \<open>
  \<open>punkgo-core/src/policy.rs\<close>, \<open>stellar.rs\<close> and \<open>protocol.rs\<close>: validation of an action, the
  visibility gates (all-transparent), the energy rate anchored to hardware, and the IPC
  envelopes. Reading and parsing the configuration file are parameters.
\<close>

section \<open>Action validation\<close>

definition check_visibility :: "string \<Rightarrow> string \<Rightarrow> unit kernel_result" where
  "check_visibility actor_id target = Inr ()"

definition check_read_access :: "string \<Rightarrow> string \<Rightarrow> unit kernel_result" where
  "check_read_access actor_id query_kind = Inr ()"

definition validate_action ::
  "(json \<Rightarrow> byte list option) \<Rightarrow> action \<Rightarrow> unit kernel_result" where
  "validate_action to_vec a =
     (if is_blank (act_actor_id a)
      then Inl (PolicyViolation ''actor_id cannot be empty'')
      else if is_blank (act_target a)
      then Inl (PolicyViolation ''target cannot be empty'')
      else if is_state_changing (act_type a) \<and> quote_cost to_vec a = 0
      then Inl (PolicyViolation ''state-changing action must have positive cost'')
      else if act_type a = Observe
      then check_visibility (act_actor_id a) (act_target a)
      else Inr ())"

section \<open>Stellar configuration\<close>

definition tops_scale_factor :: f64 where
  "tops_scale_factor = f64_round 1"

definition min_energy_per_tick :: i64 where
  "min_energy_per_tick = 26"

definition default_int8_tops :: f64 where
  "default_int8_tops = f64_round 100"

record stellar_config =
  sc_gpu_model :: string
  sc_cpu_model :: string
  sc_int8_tops :: f64
  sc_energy_per_tick :: "i64 option"
  sc_tick_interval_ms :: u64
  sc_luminosity_source :: string

definition stellar_default :: stellar_config where
  "stellar_default =
     \<lparr>sc_gpu_model = ''unknown'', sc_cpu_model = ''unknown'',
      sc_int8_tops = default_int8_tops, sc_energy_per_tick = None,
      sc_tick_interval_ms = 1000, sc_luminosity_source = ''config''\<rparr>"

definition compute_energy_per_tick :: "f64 \<Rightarrow> i64" where
  "compute_energy_per_tick int8_tops =
     (let raw = f64_round_i64 (f64_mul int8_tops tops_scale_factor)
      in max raw min_energy_per_tick)"

definition effective_energy_per_tick :: "stellar_config \<Rightarrow> i64" where
  "effective_energy_per_tick cfg =
     (case sc_energy_per_tick cfg of
        Some e \<Rightarrow> e
      | None \<Rightarrow> compute_energy_per_tick (sc_int8_tops cfg))"

text \<open>
  \<open>file\<close> is \<open>None\<close> when the path does not exist, otherwise the outcome of reading it;
  \<open>toml\<close> is the TOML decoder; \<open>show_f64\<close> the display of a float in the message.
\<close>

definition load_stellar_config ::
  "string \<Rightarrow> (string + string) option \<Rightarrow> (string \<Rightarrow> string + stellar_config) \<Rightarrow>
   (f64 \<Rightarrow> string) \<Rightarrow> stellar_config kernel_result" where
  "load_stellar_config path file toml show_f64 =
     (case file of
        None \<Rightarrow> Inr stellar_default
      | Some (Inl e) \<Rightarrow> Inl (PolicyViolation
          (''failed to read stellar config at '' @ path @ '': '' @ e))
      | Some (Inr contents) \<Rightarrow>
          (case toml contents of
             Inl e \<Rightarrow> Inl (PolicyViolation
               (''failed to parse stellar config at '' @ path @ '': '' @ e))
           | Inr cfg \<Rightarrow>
               if (case sc_energy_per_tick cfg of
                     None \<Rightarrow> False | Some ept \<Rightarrow> ept < min_energy_per_tick)
               then Inl (PolicyViolation
                 (''stellar config: energy_per_tick ('' @
                  fmt_int (unwrap_or 0 (sc_energy_per_tick cfg)) @ '') is below minimum ('' @
                  fmt_int min_energy_per_tick @ '')''))
               else if f64_le (sc_int8_tops cfg) (Fin 0)
               then Inl (PolicyViolation
                 (''stellar config: int8_tops ('' @ show_f64 (sc_int8_tops cfg)
                  @ '') must be positive''))
               else Inr cfg))"

text \<open>
  \<open>to_toml\<close> is the TOML printer, \<open>write\<close> the outcome of writing the text to the path
  (\<open>Some\<close> its error).
\<close>

definition save_default_stellar_config ::
  "string \<Rightarrow> (stellar_config \<Rightarrow> string + string) \<Rightarrow> (string \<Rightarrow> string \<Rightarrow> string option) \<Rightarrow>
   unit kernel_result" where
  "save_default_stellar_config path to_toml write =
     (case to_toml stellar_default of
        Inl e \<Rightarrow> Inl (PolicyViolation (''failed to serialize default stellar config: '' @ e))
      | Inr toml_str \<Rightarrow>
          (case write path toml_str of
             Some e \<Rightarrow> Inl (PolicyViolation
               (''failed to write stellar config at '' @ path @ '': '' @ e))
           | None \<Rightarrow> Inr ()))"

section \<open>IPC envelopes\<close>

datatype request_type = Quote | Submit | Read

record request_envelope =
  rq_request_id :: string
  rq_request_type :: request_type
  rq_payload :: json

record response_envelope =
  rs_request_id :: string
  rs_status :: string
  rs_payload :: json

definition response_ok :: "string \<Rightarrow> json \<Rightarrow> response_envelope" where
  "response_ok request_id payload =
     \<lparr>rs_request_id = request_id, rs_status = ''ok'', rs_payload = payload\<rparr>"

definition response_err_structured :: "string \<Rightarrow> kernel_error \<Rightarrow> response_envelope" where
  "response_err_structured request_id e =
     \<lparr>rs_request_id = request_id, rs_status = ''error'', rs_payload = to_error_payload e\<rparr>"

definition response_err :: "string \<Rightarrow> string \<Rightarrow> response_envelope" where
  "response_err request_id msg =
     \<lparr>rs_request_id = request_id, rs_status = ''error'',
      rs_payload = json_obj [(''error_type'', JString ''Unknown''), (''message'', JString msg)]\<rparr>"

section \<open>Facts\<close>

lemma quote_cost_nonzero: "quote_cost to_vec a \<noteq> 0"
  using quote_cost_bound(1) [of to_vec a] quote_nat_pos [of to_vec a] by auto

text \<open>The positive-cost guard never fires: validation only rejects blank identifiers.\<close>

lemma validate_action_iff:
  "validate_action to_vec a = Inr () \<longleftrightarrow>
     \<not> is_blank (act_actor_id a) \<and> \<not> is_blank (act_target a)"
  by (auto simp: validate_action_def check_visibility_def quote_cost_nonzero)

lemma compute_energy_ge: "26 \<le> compute_energy_per_tick t"
  by (simp add: compute_energy_per_tick_def min_energy_per_tick_def Let_def)

lemma load_stellar_ge:
  assumes "load_stellar_config path file toml show_f64 = Inr cfg"
  shows "26 \<le> effective_energy_per_tick cfg"
  using assms compute_energy_ge
  by (auto simp: load_stellar_config_def effective_energy_per_tick_def stellar_default_def
      min_energy_per_tick_def not_less split: option.splits sum.splits if_splits)

end
