(* ===== verification/Database.thy ===== *)
theory Database
  imports Policy
begin

text \<open>
  The SQLite schema of \<open>state/store.rs\<close> as a record of tables, transactions, and the code
  outside the repository that the kernel calls.

  A table is a list of rows; TEXT columns that hold JSON or an enum code hold that text. A
  transaction is a function that returns either an error, and then no statement of it has
  an effect (rollback on drop), or a value and the new database. The kernel's handlers run
  several transactions in turn: an error of one leaves the commits of the earlier ones.
  Faults of the database engine itself (disk, lock timeouts) are not modelled; constraint
  violations are.
\<close>

section \<open>Code outside the repository\<close>

type_synonym hash = "byte list"

text \<open>
  \<open>json_text\<close> and \<open>json_parse\<close> are \<open>serde_json::to_string\<close> and \<open>from_str::<Value>\<close>;
  the \<open>de_\<close> fields are \<open>from_value\<close> at the type in their name; \<open>sql_like\<close> is SQLite's
  \<open>text LIKE pattern\<close> (pattern first); the \<open>tlog\<close> fields are the functions of \<open>tlog_tiles\<close>,
  whose proofs read stored hashes through a reader; \<open>checkpoint_bytes\<close> is
  \<open>Checkpoint::new(origin, size, root, extension)\<close> followed by \<open>to_bytes\<close>, \<open>hash_show\<close> the
  display of a hash. \<open>hex_encode\<close> and \<open>hex_decode\<close> are those of the \<open>hex\<close> crate. Of
  \<open>ed25519_dalek\<close>, \<open>ed_sign seed\<close> signs a message, \<open>ed_public seed\<close> is the public key,
  \<open>ed_key\<close> tells whether 32 bytes are a key and \<open>ed_verify key message signature\<close> verifies.
\<close>

record ext =
  glob :: glob_compiler
  json_text :: "json \<Rightarrow> string option"
  json_parse :: "string \<Rightarrow> json option"
  de_strings :: "json \<Rightarrow> string list option"
  de_wts :: "json \<Rightarrow> writable_target list option"
  de_rules :: "json \<Rightarrow> hold_rule list option"
  de_action :: "json \<Rightarrow> action option"
  sha256 :: "byte list \<Rightarrow> byte list"
  sql_like :: "string \<Rightarrow> string \<Rightarrow> bool"
  stored_hash_index :: "nat \<Rightarrow> nat \<Rightarrow> nat"
  node_hash :: "hash \<Rightarrow> hash \<Rightarrow> hash"
  tree_hash :: "nat \<Rightarrow> (nat \<Rightarrow> hash option) \<Rightarrow> string + hash"
  prove_record :: "nat \<Rightarrow> nat \<Rightarrow> (nat \<Rightarrow> hash option) \<Rightarrow> string + hash list"
  prove_tree :: "nat \<Rightarrow> nat \<Rightarrow> (nat \<Rightarrow> hash option) \<Rightarrow> string + hash list"
  hash_show :: "hash \<Rightarrow> string"
  checkpoint_bytes :: "string \<Rightarrow> nat \<Rightarrow> hash \<Rightarrow> string \<Rightarrow> string option"
  hex_encode :: "byte list \<Rightarrow> string"
  hex_decode :: "string \<Rightarrow> byte list option"
  ed_sign :: "byte list \<Rightarrow> byte list \<Rightarrow> byte list"
  ed_public :: "byte list \<Rightarrow> byte list"
  ed_key :: "byte list \<Rightarrow> bool"
  ed_verify :: "byte list \<Rightarrow> byte list \<Rightarrow> byte list \<Rightarrow> bool"

definition str_bytes :: "string \<Rightarrow> byte list" where
  "str_bytes s = map of_char s"

text \<open>\<open>serde_json::to_vec\<close>: the bytes of the text.\<close>

definition json_vec :: "ext \<Rightarrow> json \<Rightarrow> byte list option" where
  "json_vec x v = map_option str_bytes (json_text x v)"

definition wt_to_value :: "writable_target \<Rightarrow> json" where
  "wt_to_value w =
     json_obj [(''target'', JString (wt_target w)), (''actions'', json_strings (wt_actions w))]"

definition rule_to_value :: "hold_rule \<Rightarrow> json" where
  "rule_to_value r =
     json_obj [(''target'', JString (rule_target r)), (''actions'', json_strings (rule_actions r))]"

section \<open>Rows\<close>

record ledger_row =
  lr_actor_id :: string
  lr_balance :: i64
  lr_reserved :: i64
  lr_updated_at :: string

text \<open>An event, in memory (payload a value) and as a row (payload its JSON text).\<close>

record 'p event_rec =
  ev_id :: string
  ev_log_index :: i64
  ev_event_hash :: string
  ev_actor_id :: string
  ev_action_type :: string
  ev_target :: string
  ev_payload :: 'p
  ev_payload_hash :: string
  ev_artifact_hash :: "string option"
  ev_reserved_energy :: i64
  ev_settled_energy :: i64
  ev_timestamp :: string

type_synonym event_record = "json event_rec"
type_synonym event_row = "string event_rec"

record checkpoint_row =
  cp_tree_size :: i64
  cp_root_hash :: string
  cp_checkpoint_text :: string
  cp_created_at :: string

record actor_row =
  a_actor_id :: string
  a_actor_type :: string
  a_creator_id :: "string option"
  a_lineage :: string
  a_purpose :: "string option"
  a_status :: string
  a_writable_targets :: string
  a_energy_share :: f64
  a_reduction_policy :: string
  a_created_at :: string
  a_updated_at :: string

record envelope_row =
  e_envelope_id :: string
  e_actor_id :: string
  e_grantor_id :: string
  e_parent_envelope_id :: "string option"
  e_budget :: i64
  e_budget_consumed :: i64
  e_targets :: string
  e_actions :: string
  e_duration_secs :: "i64 option"
  e_report_every :: "i64 option"
  e_hold_on :: string
  e_hold_timeout_secs :: "i64 option"
  e_status :: string
  e_last_report_at :: i64
  e_created_at :: string
  e_expires_at :: "string option"
  e_updated_at :: string

record hold_row =
  h_hold_id :: string
  h_envelope_id :: string
  h_agent_id :: string
  h_trigger_target :: string
  h_trigger_action :: string
  h_pending_payload :: string
  h_status :: string
  h_decision :: "string option"
  h_instruction :: "string option"
  h_triggered_at :: string
  h_resolved_at :: "string option"

record db =
  events :: "event_row list"
  energy_ledger :: "ledger_row list"
  system_meta :: "(string \<times> string) list"
  audit_hashes :: "(nat \<times> hash) list"
  audit_checkpoints :: "checkpoint_row list"
  actors :: "actor_row list"
  envelopes :: "envelope_row list"
  hold_requests :: "hold_row list"

text \<open>The tables right after \<open>init_schema\<close> on a new file.\<close>

definition init_schema :: db where
  "init_schema =
     \<lparr>events = [], energy_ledger = [], system_meta = [], audit_hashes = [],
      audit_checkpoints = [], actors = [], envelopes = [], hold_requests = []\<rparr>"

section \<open>Transactions\<close>

type_synonym 'a tx = "db \<Rightarrow> kernel_error + ('a \<times> db)"
type_synonym 'a handler = "db \<Rightarrow> 'a kernel_result \<times> db"

definition tx_return :: "'a \<Rightarrow> 'a tx" where
  "tx_return a s = Inr (a, s)"

definition tx_bind :: "'a tx \<Rightarrow> ('a \<Rightarrow> 'b tx) \<Rightarrow> 'b tx" where
  "tx_bind m f s = and_then (m s) (\<lambda>(a, t). f a t)"

definition tx_fail :: "kernel_error \<Rightarrow> 'a tx" where
  "tx_fail e s = Inl e"

text \<open>\<open>begin\<close>, the statements, \<open>commit\<close>.\<close>

definition run_tx :: "'a tx \<Rightarrow> 'a handler" where
  "run_tx m s = (case m s of Inl e \<Rightarrow> (Inl e, s) | Inr (a, t) \<Rightarrow> (Inr a, t))"

text \<open>A handler's \<open>?\<close>: the error leaves the handler with the commits made so far.\<close>

definition h_bind :: "'a handler \<Rightarrow> ('a \<Rightarrow> 'b handler) \<Rightarrow> 'b handler" where
  "h_bind m f s = (case m s of (Inl e, t) \<Rightarrow> (Inl e, t) | (Inr a, t) \<Rightarrow> f a t)"

definition h_return :: "'a \<Rightarrow> 'a handler" where
  "h_return a s = (Inr a, s)"

text \<open>A pure step of a handler (validation, a read) that may leave with an error.\<close>

definition h_lift :: "'a kernel_result \<Rightarrow> 'a handler" where
  "h_lift r s = (r, s)"

section \<open>Reasoning about transactions and handlers\<close>

lemma tx_bind_Inr_iff:
  "tx_bind m f s = Inr (b, u) \<longleftrightarrow> (\<exists>a t. m s = Inr (a, t) \<and> f a t = Inr (b, u))"
  by (auto simp: tx_bind_def and_then_Inr_iff)

lemma tx_bind_InrE [elim!]:
  assumes "tx_bind m f s = Inr (b, u)"
  obtains a t where "m s = Inr (a, t)" and "f a t = Inr (b, u)"
  using assms by (auto simp: tx_bind_Inr_iff)

lemma tx_simps [simp]:
  "tx_return a s = Inr (a, s)"
  "tx_fail e s = Inl e"
  by (simp_all add: tx_return_def tx_fail_def)

text \<open>
  A contract of a predicate on databases: a transaction or handler keeps it, whatever the
  outcome. The invariants of the kernel are instances.
\<close>

definition tx_keeps :: "(db \<Rightarrow> bool) \<Rightarrow> 'a tx \<Rightarrow> bool" where
  "tx_keeps I m \<longleftrightarrow> (\<forall>s a t. I s \<longrightarrow> m s = Inr (a, t) \<longrightarrow> I t)"

definition h_keeps :: "(db \<Rightarrow> bool) \<Rightarrow> 'a handler \<Rightarrow> bool" where
  "h_keeps I m \<longleftrightarrow> (\<forall>s. I s \<longrightarrow> I (snd (m s)))"

lemma tx_keepsI: "(\<And>s a t. I s \<Longrightarrow> m s = Inr (a, t) \<Longrightarrow> I t) \<Longrightarrow> tx_keeps I m"
  by (auto simp: tx_keeps_def)

lemma tx_keepsD: "tx_keeps I m \<Longrightarrow> I s \<Longrightarrow> m s = Inr (a, t) \<Longrightarrow> I t"
  by (auto simp: tx_keeps_def)

lemma tx_keeps_return [intro!]: "tx_keeps I (tx_return a)"
  by (auto intro!: tx_keepsI)

lemma tx_keeps_fail [intro!]: "tx_keeps I (tx_fail e)"
  by (auto intro!: tx_keepsI)

lemma tx_keeps_bind [intro!]:
  "tx_keeps I m \<Longrightarrow> (\<And>a. tx_keeps I (f a)) \<Longrightarrow> tx_keeps I (tx_bind m f)"
  by (auto intro!: tx_keepsI dest: tx_keepsD)

lemma tx_keeps_if [intro!]:
  "(b \<Longrightarrow> tx_keeps I m) \<Longrightarrow> (\<not> b \<Longrightarrow> tx_keeps I n) \<Longrightarrow> tx_keeps I (if b then m else n)"
  by simp

lemma h_keeps_run [intro!]: "tx_keeps I m \<Longrightarrow> h_keeps I (run_tx m)"
  by (auto simp: h_keeps_def run_tx_def dest: tx_keepsD split: sum.splits)

lemma h_keeps_bind [intro!]:
  "h_keeps I m \<Longrightarrow> (\<And>a. h_keeps I (f a)) \<Longrightarrow> h_keeps I (h_bind m f)"
  unfolding h_keeps_def h_bind_def
  by (auto split: prod.splits sum.splits)

lemma h_keeps_return [intro!]: "h_keeps I (h_return a)"
  by (simp add: h_keeps_def h_return_def)

lemma h_keeps_lift [intro!]: "h_keeps I (h_lift r)"
  by (simp add: h_keeps_def h_lift_def)

lemma h_keeps_if [intro!]:
  "(b \<Longrightarrow> h_keeps I m) \<Longrightarrow> (\<not> b \<Longrightarrow> h_keeps I n) \<Longrightarrow> h_keeps I (if b then m else n)"
  by simp

text \<open>
  The other kind of contract: a preorder on databases that every successful transaction, or
  successful handler, respects (the log grows, holds advance, fewer holds are pending).
\<close>

definition tx_rel :: "(db \<Rightarrow> db \<Rightarrow> bool) \<Rightarrow> 'a tx \<Rightarrow> bool" where
  "tx_rel R m \<longleftrightarrow> (\<forall>s a t. m s = Inr (a, t) \<longrightarrow> R s t)"

definition h_rel :: "(db \<Rightarrow> db \<Rightarrow> bool) \<Rightarrow> 'a handler \<Rightarrow> bool" where
  "h_rel R m \<longleftrightarrow> (\<forall>s a t. m s = (Inr a, t) \<longrightarrow> R s t)"

lemma tx_relI: "(\<And>s a t. m s = Inr (a, t) \<Longrightarrow> R s t) \<Longrightarrow> tx_rel R m"
  by (auto simp: tx_rel_def)

lemma tx_relD: "tx_rel R m \<Longrightarrow> m s = Inr (a, t) \<Longrightarrow> R s t"
  by (auto simp: tx_rel_def)

lemma h_relI: "(\<And>s a t. m s = (Inr a, t) \<Longrightarrow> R s t) \<Longrightarrow> h_rel R m"
  by (auto simp: h_rel_def)

lemma h_relD: "h_rel R m \<Longrightarrow> m s = (Inr a, t) \<Longrightarrow> R s t"
  by (auto simp: h_rel_def)

lemma h_bind_InrE [elim!]:
  assumes "h_bind m f s = (Inr b, u)"
  obtains a t where "m s = (Inr a, t)" and "f a t = (Inr b, u)"
  using assms by (auto simp: h_bind_def split: prod.splits sum.splits)

lemma h_lift_InrE [elim!]: "h_lift r s = (Inr a, t) \<Longrightarrow> (r = Inr a \<Longrightarrow> t = s \<Longrightarrow> P) \<Longrightarrow> P"
  by (simp add: h_lift_def)

lemma h_simps [simp]:
  "h_return a s = (Inr a, s)"
  "h_lift r s = (r, s)"
  by (simp_all add: h_return_def h_lift_def)

lemma run_tx_Inr_iff: "run_tx m s = (Inr a, t) \<longleftrightarrow> m s = Inr (a, t)"
  by (auto simp: run_tx_def split: sum.splits prod.splits)

locale evolution =
  fixes R :: "db \<Rightarrow> db \<Rightarrow> bool"
  assumes rel_refl: "R s s" and rel_trans: "R s t \<Longrightarrow> R t u \<Longrightarrow> R s u"
begin

lemma tx_return_rel: "tx_rel R (tx_return a)"
  by (auto intro!: tx_relI rel_refl)

lemma tx_bind_rel: "tx_rel R m \<Longrightarrow> (\<And>a. tx_rel R (f a)) \<Longrightarrow> tx_rel R (tx_bind m f)"
  by (auto intro!: tx_relI dest!: tx_relD intro: rel_trans)

lemma h_return_rel: "h_rel R (h_return a)"
  by (auto intro!: h_relI rel_refl)

lemma h_lift_rel: "h_rel R (h_lift r)"
  by (auto intro!: h_relI rel_refl)

lemma run_tx_rel: "tx_rel R m \<Longrightarrow> h_rel R (run_tx m)"
  by (auto intro!: h_relI simp: run_tx_Inr_iff dest: tx_relD)

lemma h_bind_rel: "h_rel R m \<Longrightarrow> (\<And>a. h_rel R (f a)) \<Longrightarrow> h_rel R (h_bind m f)"
  by (auto intro!: h_relI dest!: h_relD intro: rel_trans)

text \<open>A sequence of steps that each respect the preorder respects it.\<close>

lemma rtranclp_rel: "step\<^sup>*\<^sup>* s t \<Longrightarrow> (\<And>s t. step s t \<Longrightarrow> R s t) \<Longrightarrow> R s t"
  by (induction rule: rtranclp_induct) (auto intro: rel_refl rel_trans)

end

end
