(* ===== verification/Energy_Ledger.thy ===== *)
theory Energy_Ledger
  imports Database
begin

text \<open>
  \<open>state/energy_ledger.rs\<close>: reservation, settlement, credit and creation of energy
  accounts. \<open>now\<close> is the text of the clock read by the statement. The amounts are exact
  integers: \<open>ledger_no_overflow\<close> shows that on 64-bit cells that satisfy the ledger
  invariant no intermediate result of the Rust code leaves the range. The actual-cost and
  reserved-cost amounts of a settlement are checked against the account before any update.
\<close>

record energy_reservation =
  er_actor_id :: string
  er_reserved :: i64

definition ledger_get :: "string \<Rightarrow> db \<Rightarrow> ledger_row option" where
  "ledger_get a s = tbl_get lr_actor_id a (energy_ledger s)"

definition add_reserved :: "i64 \<Rightarrow> string \<Rightarrow> ledger_row \<Rightarrow> ledger_row" where
  "add_reserved c now r = r\<lparr>lr_reserved := lr_reserved r + c, lr_updated_at := now\<rparr>"

definition set_amounts :: "i64 \<Rightarrow> i64 \<Rightarrow> string \<Rightarrow> ledger_row \<Rightarrow> ledger_row" where
  "set_amounts b v now r = r\<lparr>lr_balance := b, lr_reserved := v, lr_updated_at := now\<rparr>"

definition add_balance :: "i64 \<Rightarrow> string \<Rightarrow> ledger_row \<Rightarrow> ledger_row" where
  "add_balance c now r = r\<lparr>lr_balance := lr_balance r + c, lr_updated_at := now\<rparr>"

definition ledger_update :: "string \<Rightarrow> (ledger_row \<Rightarrow> ledger_row) \<Rightarrow> db \<Rightarrow> db" where
  "ledger_update a f s =
     s\<lparr>energy_ledger := tbl_update (\<lambda>r. lr_actor_id r = a) f (energy_ledger s)\<rparr>"

definition reserve_in_tx :: "string \<Rightarrow> string \<Rightarrow> i64 \<Rightarrow> unit tx" where
  "reserve_in_tx now actor_id cost s =
     (if cost \<le> 0 then Inl (PolicyViolation ''reserve cost must be positive'')
      else (case ledger_get actor_id s of
              None \<Rightarrow> Inl (ActorNotFound actor_id)
            | Some row \<Rightarrow>
                (let available = lr_balance row - lr_reserved row
                 in if available < cost then Inl (InsufficientEnergy actor_id cost available)
                    else Inr ((), ledger_update actor_id (add_reserved cost now) s))))"

definition reserve :: "string \<Rightarrow> string \<Rightarrow> i64 \<Rightarrow> energy_reservation tx" where
  "reserve now actor_id cost =
     tx_bind (reserve_in_tx now actor_id cost)
       (\<lambda>_. tx_return \<lparr>er_actor_id = actor_id, er_reserved = cost\<rparr>)"

definition settle_in_tx :: "string \<Rightarrow> string \<Rightarrow> i64 \<Rightarrow> i64 \<Rightarrow> unit tx" where
  "settle_in_tx now actor_id reserved_cost actual_cost s =
     (if reserved_cost < 0 \<or> actual_cost < 0
      then Inl (PolicyViolation ''settle values cannot be negative'')
      else (case ledger_get actor_id s of
              None \<Rightarrow> Inl (ActorNotFound actor_id)
            | Some row \<Rightarrow>
                if lr_reserved row < reserved_cost
                then Inl (PolicyViolation
                  (''reserved mismatch for actor '' @ actor_id @ '': reserved_in_ledger='' @
                   fmt_int (lr_reserved row) @ '', reserved_cost='' @ fmt_int reserved_cost @
                   '', balance='' @ fmt_int (lr_balance row)))
                else
                  (let extra_needed = max (actual_cost - reserved_cost) 0;
                       available_unreserved = lr_balance row - lr_reserved row
                   in if available_unreserved < extra_needed
                      then Inl (InsufficientEnergy actor_id extra_needed available_unreserved)
                      else let new_balance = lr_balance row - actual_cost
                           in if new_balance < 0
                              then Inl (InsufficientEnergy actor_id actual_cost (lr_balance row))
                              else let new_reserved = lr_reserved row - reserved_cost
                                   in Inr ((), ledger_update actor_id
                                             (set_amounts new_balance new_reserved now) s))))"

definition settle :: "string \<Rightarrow> string \<Rightarrow> i64 \<Rightarrow> i64 \<Rightarrow> unit handler" where
  "settle now actor_id reserved_cost actual_cost =
     run_tx (settle_in_tx now actor_id reserved_cost actual_cost)"

definition balance_view :: "string \<Rightarrow> db \<Rightarrow> (i64 \<times> i64) kernel_result" where
  "balance_view actor_id s =
     (case ledger_get actor_id s of
        None \<Rightarrow> Inl (ActorNotFound actor_id)
      | Some row \<Rightarrow> Inr (lr_balance row, lr_reserved row))"

definition credit_energy_in_tx :: "string \<Rightarrow> string \<Rightarrow> i64 \<Rightarrow> unit tx" where
  "credit_energy_in_tx now actor_id amount s =
     (if amount \<le> 0 then Inl (PolicyViolation ''credit amount must be positive'')
      else if rows_affected (\<lambda>r. lr_actor_id r = actor_id) (energy_ledger s) = 0
      then Inl (ActorNotFound actor_id)
      else Inr ((), ledger_update actor_id (add_balance amount now) s))"

definition create_actor_in_tx :: "string \<Rightarrow> string \<Rightarrow> i64 \<Rightarrow> unit tx" where
  "create_actor_in_tx now actor_id energy_balance s =
     (if is_blank actor_id then Inl (PolicyViolation ''seed actor_id cannot be empty'')
      else if energy_balance < 0
      then Inl (PolicyViolation ''seed energy_balance cannot be negative'')
      else (case ledger_get actor_id s of
              Some _ \<Rightarrow> Inl (PolicyViolation (''actor already exists: '' @ actor_id))
            | None \<Rightarrow>
                Inr ((), s\<lparr>energy_ledger := energy_ledger s @
                  [\<lparr>lr_actor_id = actor_id, lr_balance = energy_balance, lr_reserved = 0,
                    lr_updated_at = now\<rparr>]\<rparr>)))"

section \<open>Updates keep the key column\<close>

interpretation reserved_upd: keyed_update lr_actor_id "add_reserved c now" for c now
  by unfold_locales (simp add: add_reserved_def)

interpretation amounts_upd: keyed_update lr_actor_id "set_amounts b v now" for b v now
  by unfold_locales (simp add: set_amounts_def)

interpretation balance_upd: keyed_update lr_actor_id "add_balance c now" for c now
  by unfold_locales (simp add: add_balance_def)

section \<open>Frames\<close>

lemma reserve_frame [frames]:
  "reserve_in_tx now a c s = Inr (u, t) \<Longrightarrow> \<exists>l. t = s\<lparr>energy_ledger := l\<rparr>"
  by (auto simp: reserve_in_tx_def ledger_update_def Let_def split: if_splits option.splits)

lemma settle_frame [frames]:
  "settle_in_tx now a rc ac s = Inr (u, t) \<Longrightarrow> \<exists>l. t = s\<lparr>energy_ledger := l\<rparr>"
  by (auto simp: settle_in_tx_def ledger_update_def Let_def split: if_splits option.splits)

lemma credit_frame [frames]:
  "credit_energy_in_tx now a c s = Inr (u, t) \<Longrightarrow> \<exists>l. t = s\<lparr>energy_ledger := l\<rparr>"
  by (auto simp: credit_energy_in_tx_def ledger_update_def split: if_splits)

lemma create_account_frame [frames]:
  "create_actor_in_tx now a c s = Inr (u, t) \<Longrightarrow> \<exists>l. t = s\<lparr>energy_ledger := l\<rparr>"
  by (auto simp: create_actor_in_tx_def split: if_splits option.splits)

section \<open>The abstract ledger\<close>

text \<open>
  The ledger seen as a map from actors to accounts (balance, reserved), and the operations
  on it that the store implements.
\<close>

type_synonym accounts = "string \<rightharpoonup> int \<times> int"

definition acct :: "db \<Rightarrow> accounts" where
  "acct s a = map_option (\<lambda>r. (lr_balance r, lr_reserved r)) (ledger_get a s)"

definition abs_reserve :: "string \<Rightarrow> int \<Rightarrow> accounts \<Rightarrow> accounts option" where
  "abs_reserve a c m =
     (case m a of
        None \<Rightarrow> None
      | Some (b, v) \<Rightarrow> if 0 < c \<and> v + c \<le> b then Some (m(a \<mapsto> (b, v + c))) else None)"

definition abs_settle :: "string \<Rightarrow> int \<Rightarrow> int \<Rightarrow> accounts \<Rightarrow> accounts option" where
  "abs_settle a rc ac m =
     (case m a of
        None \<Rightarrow> None
      | Some (b, v) \<Rightarrow>
          if 0 \<le> rc \<and> 0 \<le> ac \<and> rc \<le> v \<and> v - rc \<le> b - ac
          then Some (m(a \<mapsto> (b - ac, v - rc))) else None)"

definition abs_credit :: "string \<Rightarrow> int \<Rightarrow> accounts \<Rightarrow> accounts option" where
  "abs_credit a c m =
     (case m a of
        None \<Rightarrow> None
      | Some (b, v) \<Rightarrow> if 0 < c then Some (m(a \<mapsto> (b + c, v))) else None)"

definition abs_create :: "string \<Rightarrow> int \<Rightarrow> accounts \<Rightarrow> accounts option" where
  "abs_create a c m =
     (if \<not> is_blank a \<and> 0 \<le> c \<and> m a = None then Some (m(a \<mapsto> (c, 0))) else None)"

text \<open>What a transaction does to the accounts: \<open>None\<close> when it fails.\<close>

definition tx_acct :: "unit tx \<Rightarrow> db \<Rightarrow> accounts option" where
  "tx_acct m s = (case m s of Inl _ \<Rightarrow> None | Inr (_, t) \<Rightarrow> Some (acct t))"

lemma acct_ledger_update:
  assumes "\<And>r. lr_actor_id (f r) = lr_actor_id r"
  shows "acct (ledger_update a f s) k =
     (if k = a then map_option (\<lambda>r. (lr_balance (f r), lr_reserved (f r))) (ledger_get a s)
      else acct s k)"
proof -
  have "keyed_update lr_actor_id f" using assms by unfold_locales
  then show ?thesis
    by (auto simp: acct_def ledger_get_def ledger_update_def keyed_update.get_update
        option.map_comp comp_def)
qed

lemma acct_add_reserved:
  "ledger_get a s = Some r \<Longrightarrow>
   acct (ledger_update a (add_reserved c now) s)
     = (acct s)(a \<mapsto> (lr_balance r, lr_reserved r + c))"
  by (auto simp: fun_eq_iff acct_ledger_update reserved_upd.key_upd add_reserved_def)

lemma acct_set_amounts:
  "ledger_get a s = Some r \<Longrightarrow>
   acct (ledger_update a (set_amounts b v now) s) = (acct s)(a \<mapsto> (b, v))"
  by (auto simp: fun_eq_iff acct_ledger_update amounts_upd.key_upd set_amounts_def)

lemma acct_add_balance:
  "ledger_get a s = Some r \<Longrightarrow>
   acct (ledger_update a (add_balance c now) s)
     = (acct s)(a \<mapsto> (lr_balance r + c, lr_reserved r))"
  by (auto simp: fun_eq_iff acct_ledger_update balance_upd.key_upd add_balance_def)

lemma rows_affected_ledger:
  "rows_affected (\<lambda>r. lr_actor_id r = a) (energy_ledger s) = 0 \<longleftrightarrow> ledger_get a s = None"
  by (simp add: rows_affected_key ledger_get_def)

section \<open>The ledger invariant\<close>

text \<open>
  Every account has a non-negative reserved part that its balance covers, and no actor has
  two accounts.
\<close>

definition row_ok :: "ledger_row \<Rightarrow> bool" where
  "row_ok r \<longleftrightarrow> 0 \<le> lr_reserved r \<and> lr_reserved r \<le> lr_balance r"

definition ledger_ok :: "db \<Rightarrow> bool" where
  "ledger_ok s \<longleftrightarrow>
     keys_distinct lr_actor_id (energy_ledger s) \<and> (\<forall>r \<in> set (energy_ledger s). row_ok r)"

lemma ledger_ok_get:
  "ledger_ok s \<Longrightarrow> ledger_get a s = Some r \<Longrightarrow> 0 \<le> lr_reserved r \<and> lr_reserved r \<le> lr_balance r"
  by (auto simp: ledger_ok_def ledger_get_def row_ok_def dest!: tbl_get_SomeD)

lemma ledger_ok_update:
  assumes ok: "ledger_ok s" and key: "keyed_update lr_actor_id f"
    and get: "ledger_get a s = Some r" and fr: "row_ok (f r)"
  shows "ledger_ok (ledger_update a f s)"
proof -
  have "q = r" if "q \<in> set (energy_ledger s)" "lr_actor_id q = a" for q
    using ok get that tbl_get_mem [of lr_actor_id "energy_ledger s" q]
    by (auto simp: ledger_ok_def ledger_get_def)
  with ok fr show ?thesis
    by (auto simp: ledger_ok_def ledger_update_def keyed_update.keys_distinct [OF key]
        tbl_update_mem)
qed

section \<open>The store implements the abstract ledger\<close>

lemma reserve_refines: "tx_acct (reserve_in_tx now a c) s = abs_reserve a c (acct s)"
proof (cases "ledger_get a s")
  case (Some r)
  then show ?thesis
    by (simp add: tx_acct_def reserve_in_tx_def abs_reserve_def acct_add_reserved Let_def not_le)
      (simp add: acct_def)
qed (simp add: tx_acct_def reserve_in_tx_def abs_reserve_def acct_def)

lemma settle_refines:
  assumes "ledger_ok s"
  shows "tx_acct (settle_in_tx now a rc ac) s = abs_settle a rc ac (acct s)"
proof (cases "ledger_get a s")
  case (Some r)
  with assms have "lr_reserved r \<le> lr_balance r" by (auto dest: ledger_ok_get)
  with Some show ?thesis
    by (simp add: tx_acct_def settle_in_tx_def abs_settle_def acct_set_amounts Let_def not_less)
      (auto simp: acct_def)
qed (simp add: tx_acct_def settle_in_tx_def abs_settle_def acct_def)

lemma credit_refines:
  "tx_acct (credit_energy_in_tx now a c) s = abs_credit a c (acct s)"
proof (cases "ledger_get a s")
  case (Some r)
  then show ?thesis
    by (simp add: tx_acct_def credit_energy_in_tx_def abs_credit_def acct_add_balance
        rows_affected_ledger not_le) (simp add: acct_def)
qed (simp add: tx_acct_def credit_energy_in_tx_def abs_credit_def acct_def rows_affected_ledger)

lemma create_actor_refines:
  "tx_acct (create_actor_in_tx now a c) s = abs_create a c (acct s)"
  by (auto simp: tx_acct_def create_actor_in_tx_def abs_create_def acct_def ledger_get_def
      fun_eq_iff table_simps tbl_get_append split: option.splits)

section \<open>Every operation keeps the invariant\<close>

lemma reserve_keeps: "tx_keeps ledger_ok (reserve_in_tx now a c)"
proof (rule tx_keepsI)
  fix s u t
  assume ok: "ledger_ok s" and run: "reserve_in_tx now a c s = Inr (u, t)"
  then obtain r where r: "ledger_get a s = Some r" and c: "0 < c"
    "c \<le> lr_balance r - lr_reserved r" and t: "t = ledger_update a (add_reserved c now) s"
    by (auto simp: reserve_in_tx_def Let_def split: if_splits option.splits)
  with ledger_ok_get [OF ok r] have "row_ok (add_reserved c now r)"
    by (simp add: row_ok_def add_reserved_def)
  with ledger_ok_update [OF ok _ r] t show "ledger_ok t"
    using reserved_upd.keyed_update_axioms by blast
qed

lemma settle_keeps: "tx_keeps ledger_ok (settle_in_tx now a rc ac)"
proof (rule tx_keepsI)
  fix s u t
  assume ok: "ledger_ok s" and run: "settle_in_tx now a rc ac s = Inr (u, t)"
  then obtain r where r: "ledger_get a s = Some r" and c: "0 \<le> rc" "0 \<le> ac" "rc \<le> lr_reserved r"
      "ac - rc \<le> lr_balance r - lr_reserved r" "0 \<le> lr_balance r - lr_reserved r"
    and t: "t = ledger_update a (set_amounts (lr_balance r - ac) (lr_reserved r - rc) now) s"
    by (auto simp: settle_in_tx_def Let_def not_less split: if_splits option.splits)
  have "row_ok (set_amounts (lr_balance r - ac) (lr_reserved r - rc) now r)"
    using c by (simp add: row_ok_def set_amounts_def)
  with ledger_ok_update [OF ok _ r] t show "ledger_ok t"
    using amounts_upd.keyed_update_axioms by blast
qed

lemma credit_keeps: "tx_keeps ledger_ok (credit_energy_in_tx now a c)"
proof (rule tx_keepsI)
  fix s u t
  assume ok: "ledger_ok s" and run: "credit_energy_in_tx now a c s = Inr (u, t)"
  then obtain r where r: "ledger_get a s = Some r" and c: "0 < c"
    and t: "t = ledger_update a (add_balance c now) s"
    by (auto simp: credit_energy_in_tx_def rows_affected_ledger split: if_splits)
  from ledger_ok_get [OF ok r] c have "row_ok (add_balance c now r)"
    by (simp add: row_ok_def add_balance_def)
  with ledger_ok_update [OF ok _ r] t show "ledger_ok t"
    using balance_upd.keyed_update_axioms by blast
qed

lemma create_actor_keeps: "tx_keeps ledger_ok (create_actor_in_tx now a c)"
  by (rule tx_keepsI)
    (auto simp: create_actor_in_tx_def ledger_ok_def row_ok_def keys_distinct_def ledger_get_def
      tbl_get_None_iff split: if_splits option.splits)

text \<open>On 64-bit cells no intermediate result of settlement leaves the range.\<close>

lemma ledger_no_overflow:
  assumes "row_ok r" "in_i64 (lr_balance r)" "in_i64 rc" "in_i64 ac" "0 \<le> rc" "0 \<le> ac"
  shows "in_i64 (lr_balance r - lr_reserved r)" "in_i64 (ac - rc)" "in_i64 (lr_balance r - ac)"
    and "rc \<le> lr_reserved r \<Longrightarrow> in_i64 (lr_reserved r - rc)"
    and "rc \<le> lr_balance r - lr_reserved r \<Longrightarrow> in_i64 (lr_reserved r + rc)"
  using assms by (auto simp: in_i64_def row_ok_def)

section \<open>The interface the kernel relies on\<close>

text \<open>
  What the submit pipeline needs of a ledger: reservations succeed exactly when the
  unreserved part covers them, settlement of a covered reservation succeeds, and both say
  what the accounts are afterwards.
\<close>

locale energy_reservations =
  fixes view :: "'s \<Rightarrow> 'k \<rightharpoonup> int \<times> int"
    and sound :: "'s \<Rightarrow> bool"
    and rsv :: "'k \<Rightarrow> int \<Rightarrow> 's \<Rightarrow> 'e + (unit \<times> 's)"
    and stl :: "'k \<Rightarrow> int \<Rightarrow> int \<Rightarrow> 's \<Rightarrow> 'e + (unit \<times> 's)"
  assumes view_sound: "sound s \<Longrightarrow> view s a = Some (b, v) \<Longrightarrow> 0 \<le> v \<and> v \<le> b"
    and rsv_law: "view s a = Some (b, v) \<Longrightarrow> 0 < c \<Longrightarrow> v + c \<le> b \<Longrightarrow>
      \<exists>t. rsv a c s = Inr ((), t) \<and> view t = (view s)(a \<mapsto> (b, v + c))"
    and rsv_sound: "sound s \<Longrightarrow> rsv a c s = Inr (u, t) \<Longrightarrow> sound t"
    and stl_law: "sound s \<Longrightarrow> view s a = Some (b, v) \<Longrightarrow> 0 \<le> rc \<Longrightarrow> 0 \<le> ac \<Longrightarrow> rc \<le> v \<Longrightarrow>
      v - rc \<le> b - ac \<Longrightarrow> \<exists>t. stl a rc ac s = Inr ((), t) \<and> view t = (view s)(a \<mapsto> (b - ac, v - rc))"
    and stl_sound: "sound s \<Longrightarrow> stl a rc ac s = Inr (u, t) \<Longrightarrow> sound t"
begin

text \<open>Reserve then settle: only the balance moves, by the cost actually settled.\<close>

lemma reserve_settle:
  assumes "sound s" and "view s a = Some (b, v)" and "0 < c" and "v + c \<le> b"
    and "0 \<le> ac" and "ac \<le> c"
  shows "\<exists>t u. rsv a c s = Inr ((), t) \<and> stl a c ac t = Inr ((), u)
    \<and> view u = (view s)(a \<mapsto> (b - ac, v)) \<and> sound u"
proof -
  obtain t where t: "rsv a c s = Inr ((), t)" "view t = (view s)(a \<mapsto> (b, v + c))"
    using rsv_law [OF assms(2-4)] by blast
  have st: "sound t" using rsv_sound [OF assms(1) t(1)] .
  from t(2) have vt: "view t a = Some (b, v + c)" by simp
  have "\<exists>u. stl a c ac t = Inr ((), u) \<and> view u = (view t)(a \<mapsto> (b - ac, v + c - c))"
    using view_sound [OF assms(1,2)] assms(3-6) by (intro stl_law [OF st vt]) auto
  then obtain u where "stl a c ac t = Inr ((), u)" "view u = (view s)(a \<mapsto> (b - ac, v))"
    using t(2) by auto
  with t(1) stl_sound [OF st] show ?thesis by blast
qed

end

lemma tx_acct_SomeD: "tx_acct m s = Some v \<Longrightarrow> \<exists>t. m s = Inr ((), t) \<and> acct t = v"
  by (auto simp: tx_acct_def split: sum.splits)

lemma acct_Some_iff:
  "acct s a = Some (b, v) \<longleftrightarrow> (\<exists>r. ledger_get a s = Some r \<and> lr_balance r = b \<and> lr_reserved r = v)"
  by (auto simp: acct_def)

interpretation ledger: energy_reservations acct ledger_ok "reserve_in_tx now" "settle_in_tx now'"
  for now now'
proof unfold_locales
  fix s a b v
  assume "ledger_ok s" "acct s a = Some (b, v)"
  then show "0 \<le> v \<and> v \<le> b" by (auto simp: acct_Some_iff dest: ledger_ok_get)
next
  fix s a b v c
  assume "acct s a = Some (b, v)" "0 < c" "v + c \<le> b"
  then show "\<exists>t. reserve_in_tx now a c s = Inr ((), t) \<and> acct t = (acct s)(a \<mapsto> (b, v + c))"
    using reserve_refines [of now a c s] by (intro tx_acct_SomeD) (simp add: abs_reserve_def fun_upd_def)
next
  fix s a b v rc ac
  assume "ledger_ok s" "acct s a = Some (b, v)" "0 \<le> rc" "0 \<le> ac" "rc \<le> v" "v - rc \<le> b - ac"
  then show "\<exists>t. settle_in_tx now' a rc ac s = Inr ((), t) \<and> acct t = (acct s)(a \<mapsto> (b - ac, v - rc))"
    using settle_refines [of s now' a rc ac] by (intro tx_acct_SomeD) (simp add: abs_settle_def fun_upd_def)
qed (auto dest: tx_keepsD [OF reserve_keeps] tx_keepsD [OF settle_keeps])

section \<open>Properties\<close>

definition sample_ledger :: db where
  "sample_ledger = init_schema\<lparr>energy_ledger :=
     [\<lparr>lr_actor_id = ''root'', lr_balance = 1000000, lr_reserved = 0, lr_updated_at = ''0''\<rparr>,
      \<lparr>lr_actor_id = ''root/ci/1'', lr_balance = 500, lr_reserved = 40, lr_updated_at = ''0''\<rparr>]\<rparr>"

lemma sample_ledger_ok: "ledger_ok sample_ledger"
  by (simp add: sample_ledger_def ledger_ok_def keys_distinct_def row_ok_def)

lemma sample_ledger_acct: "acct sample_ledger ''root/ci/1'' = Some (500, 40)"
  by (simp add: sample_ledger_def acct_def ledger_get_def table_simps)

text \<open>
  energy accounting. If the unreserved part of an actor's account covers a positive cost,
  reserving that cost and then settling an actual cost of at most the reservation both
  succeed; afterwards the balance is lower by exactly the actual cost, the reserved part is
  what it was, every other account is unchanged, and the ledger invariant holds.
\<close>

theorem reserve_then_settle:
  assumes "ledger_ok s" and "acct s a = Some (b, v)" and "0 < c" and "v + c \<le> b"
    and "0 \<le> ac" and "ac \<le> c"
  shows "\<exists>t u. reserve_in_tx now a c s = Inr ((), t) \<and> settle_in_tx now' a c ac t = Inr ((), u)
    \<and> acct u = (acct s)(a \<mapsto> (b - ac, v)) \<and> ledger_ok u"
  using assms by (rule ledger.reserve_settle)

theorem reserve_then_settle_witness:
  "\<exists>t u. reserve_in_tx ''1'' ''root/ci/1'' 25 sample_ledger = Inr ((), t)
    \<and> settle_in_tx ''2'' ''root/ci/1'' 25 20 t = Inr ((), u)
    \<and> acct u = (acct sample_ledger)(''root/ci/1'' \<mapsto> (480, 40)) \<and> ledger_ok u"
  using reserve_then_settle [OF sample_ledger_ok sample_ledger_acct, of 25 20 "''1''" "''2''"]
  by simp



text \<open>
  the ledger invariant (distinct accounts, each with 0 <= reserved <= balance) survives
  every ledger operation.
\<close>

theorem ledger_invariant:
  "tx_keeps ledger_ok (reserve_in_tx now a c)
   \<and> tx_keeps ledger_ok (settle_in_tx now a rc ac)
   \<and> tx_keeps ledger_ok (credit_energy_in_tx now a c)
   \<and> tx_keeps ledger_ok (create_actor_in_tx now a c)"
  using reserve_keeps settle_keeps credit_keeps create_actor_keeps by blast

end
