(* ===== verification/Event_Log.thy ===== *)
theory Event_Log
  imports Energy_Ledger
begin

text \<open>
  \<open>state/event_log.rs\<close>: the append-only event log. An event gets the next index and its
  hash inside the transaction that inserts it. The canonical encoding is the JSON text of
  the canonical fields, in their alphabetical order, \<open>artifact_hash\<close> left out when absent.
\<close>

definition serde_error :: kernel_error where
  "serde_error = Json ''serialization error''"

definition canonical_event :: "'p event_rec \<Rightarrow> json" where
  "canonical_event ev =
     JObject ([(''action_type'', JString (ev_action_type ev)),
               (''actor_id'', JString (ev_actor_id ev))]
            @ (case ev_artifact_hash ev of
                 None \<Rightarrow> [] | Some h \<Rightarrow> [(''artifact_hash'', JString h)])
            @ [(''event_id'', JString (ev_id ev)),
               (''log_index'', json_i64 (ev_log_index ev)),
               (''payload_hash'', JString (ev_payload_hash ev)),
               (''reserved_energy'', json_i64 (ev_reserved_energy ev)),
               (''settled_energy'', json_i64 (ev_settled_energy ev)),
               (''timestamp'', JString (ev_timestamp ev)),
               (''v'', JString ''punkgo-event-v1'')])"

definition compute_event_hash :: "ext \<Rightarrow> 'p event_rec \<Rightarrow> string kernel_result" where
  "compute_event_hash x ev =
     and_then (ok_or serde_error (json_vec x (canonical_event ev)))
       (\<lambda>json_bytes. Inr (bytes_to_hex (sha256 x (0 # json_bytes))))"

text \<open>\<open>SELECT COALESCE(MAX(log_index), -1) + 1\<close>.\<close>

definition next_log_index :: "db \<Rightarrow> i64" where
  "next_log_index s =
     (if events s = [] then - 1 else Max (ev_log_index ` set (events s))) + 1"

definition event_to_row :: "string \<Rightarrow> event_record \<Rightarrow> event_row" where
  "event_to_row payload_json ev =
     \<lparr>ev_id = ev_id ev, ev_log_index = ev_log_index ev, ev_event_hash = ev_event_hash ev,
      ev_actor_id = ev_actor_id ev, ev_action_type = ev_action_type ev,
      ev_target = ev_target ev, ev_payload = payload_json,
      ev_payload_hash = ev_payload_hash ev, ev_artifact_hash = ev_artifact_hash ev,
      ev_reserved_energy = ev_reserved_energy ev, ev_settled_energy = ev_settled_energy ev,
      ev_timestamp = ev_timestamp ev\<rparr>"

definition row_to_event :: "ext \<Rightarrow> event_row \<Rightarrow> event_record" where
  "row_to_event x row =
     \<lparr>ev_id = ev_id row, ev_log_index = ev_log_index row, ev_event_hash = ev_event_hash row,
      ev_actor_id = ev_actor_id row, ev_action_type = ev_action_type row,
      ev_target = ev_target row, ev_payload = unwrap_or JNull (json_parse x (ev_payload row)),
      ev_payload_hash = ev_payload_hash row, ev_artifact_hash = ev_artifact_hash row,
      ev_reserved_energy = ev_reserved_energy row, ev_settled_energy = ev_settled_energy row,
      ev_timestamp = ev_timestamp row\<rparr>"

definition insert_event :: "event_row \<Rightarrow> unit tx" where
  "insert_event row s =
     (if ev_id row \<in> ev_id ` set (events s)
         \<or> ev_log_index row \<in> ev_log_index ` set (events s)
      then Inl (Db ''UNIQUE constraint failed: events'')
      else Inr ((), s\<lparr>events := events s @ [row]\<rparr>))"

text \<open>The event is updated in place in the source; here the completed event is returned.\<close>

definition assign_and_insert :: "ext \<Rightarrow> event_record \<Rightarrow> event_record tx" where
  "assign_and_insert x ev s =
     (let ev1 = ev\<lparr>ev_log_index := next_log_index s\<rparr>
      in and_then (compute_event_hash x ev1) (\<lambda>event_hash.
         let ev2 = ev1\<lparr>ev_event_hash := event_hash\<rparr>
         in and_then (ok_or serde_error (json_text x (ev_payload ev2))) (\<lambda>payload_json.
              tx_bind (insert_event (event_to_row payload_json ev2)) (\<lambda>_. tx_return ev2) s)))"

definition append_in_tx :: "ext \<Rightarrow> event_record \<Rightarrow> event_record tx" where
  "append_in_tx x ev = assign_and_insert x ev"

definition append_event :: "ext \<Rightarrow> event_record \<Rightarrow> event_record handler" where
  "append_event x ev = run_tx (assign_and_insert x ev)"

section \<open>Queries\<close>

text \<open>\<open>LIMIT\<close>: a negative bound is no bound.\<close>

definition sql_limit :: "i64 \<Rightarrow> 'a list \<Rightarrow> 'a list" where
  "sql_limit n xs = (if n < 0 then xs else take (nat n) xs)"

definition by_index_desc :: "event_row list \<Rightarrow> event_row list" where
  "by_index_desc rows = rev (sort_key ev_log_index rows)"

definition list_recent :: "ext \<Rightarrow> i64 \<Rightarrow> db \<Rightarrow> event_record list" where
  "list_recent x limit s = map (row_to_event x) (sql_limit limit (by_index_desc (events s)))"

definition list_by_actor :: "ext \<Rightarrow> string \<Rightarrow> i64 \<Rightarrow> db \<Rightarrow> event_record list" where
  "list_by_actor x actor_id limit s =
     map (row_to_event x)
       (sql_limit limit (by_index_desc (filter (\<lambda>r. ev_actor_id r = actor_id) (events s))))"

definition query_events ::
  "ext \<Rightarrow> string option \<Rightarrow> i64 option \<Rightarrow> i64 option \<Rightarrow> i64 \<Rightarrow> db \<Rightarrow> event_record list" where
  "query_events x actor_id before_index after_index limit s =
     (let conditions =
            (case actor_id of None \<Rightarrow> [] | Some a \<Rightarrow> [\<lambda>r. ev_actor_id r = a])
          @ (case before_index of None \<Rightarrow> [] | Some b \<Rightarrow> [\<lambda>r. ev_log_index r < b])
          @ (case after_index of None \<Rightarrow> [] | Some a \<Rightarrow> [\<lambda>r. ev_log_index r > a])
      in map (row_to_event x)
           (sql_limit limit
             (by_index_desc (filter (\<lambda>r. list_all (\<lambda>c. c r) conditions) (events s)))))"

definition event_count :: "db \<Rightarrow> i64" where
  "event_count s = int (length (events s))"

section \<open>The log invariant\<close>

text \<open>
  The events carry the indexes 0, 1, 2, ... in insertion order, their ids are distinct, and
  each carries the hash of its own canonical encoding.
\<close>

definition contiguous :: "('r \<Rightarrow> int) \<Rightarrow> 'r list \<Rightarrow> bool" where
  "contiguous idx rs \<longleftrightarrow> map idx rs = map int [0..<length rs]"

definition sealed :: "ext \<Rightarrow> event_row \<Rightarrow> bool" where
  "sealed x r \<longleftrightarrow> compute_event_hash x r = Inr (ev_event_hash r)"

definition log_ok :: "ext \<Rightarrow> db \<Rightarrow> bool" where
  "log_ok x s \<longleftrightarrow>
     contiguous ev_log_index (events s) \<and> distinct (map ev_id (events s))
     \<and> list_all (sealed x) (events s)"

lemma contiguous_snoc:
  "contiguous idx (rs @ [r]) \<longleftrightarrow> contiguous idx rs \<and> idx r = int (length rs)"
  by (auto simp: contiguous_def)

lemma contiguous_nth: "contiguous idx rs \<Longrightarrow> i < length rs \<Longrightarrow> idx (rs ! i) = int i"
  by (metis contiguous_def length_map nth_map nth_upt add_0 diff_zero length_upt)

lemma contiguous_set: "contiguous idx rs \<Longrightarrow> idx ` set rs = int ` {0..<length rs}"
  by (metis contiguous_def image_set set_upt)

lemma next_log_index_contiguous:
  assumes "contiguous ev_log_index (events s)"
  shows "next_log_index s = int (length (events s))"
proof (cases "events s" rule: rev_cases)
  case (snoc rs r)
  have "Max (int ` {0..<Suc n}) = int n" for n by (rule Max_eqI) auto
  with snoc contiguous_set [OF assms] show ?thesis by (simp add: next_log_index_def)
qed (simp add: next_log_index_def)

text \<open>The encoding reads neither the payload nor the hash field.\<close>

lemma compute_event_hash_row:
  "compute_event_hash x (event_to_row p ev) = compute_event_hash x (ev\<lparr>ev_event_hash := h\<rparr>)"
  by (simp add: compute_event_hash_def canonical_event_def event_to_row_def)

lemma assign_and_insert_Inr:
  assumes "assign_and_insert x ev s = Inr (ev', t)"
  obtains h p where
    "ev' = ev\<lparr>ev_log_index := next_log_index s, ev_event_hash := h\<rparr>"
    "json_text x (ev_payload ev) = Some p"
    "t = s\<lparr>events := events s @ [event_to_row p ev']\<rparr>"
    "ev_id ev \<notin> ev_id ` set (events s)"
    "sealed x (event_to_row p ev')"
proof -
  let ?e = "ev\<lparr>ev_log_index := next_log_index s\<rparr>"
  obtain h p where h: "compute_event_hash x ?e = Inr h"
    and p: "json_text x (ev_payload ev) = Some p"
    and t: "t = s\<lparr>events := events s @ [event_to_row p ev']\<rparr>" "ev_id ev \<notin> ev_id ` set (events s)"
    and e: "ev' = ev\<lparr>ev_log_index := next_log_index s, ev_event_hash := h\<rparr>"
    using assms
    by (auto simp: assign_and_insert_def insert_event_def event_to_row_def Let_def
        tx_bind_Inr_iff split: if_splits)
  have "compute_event_hash x (event_to_row p ev') = compute_event_hash x ?e"
    using e by (simp add: compute_event_hash_def canonical_event_def event_to_row_def)
  with h e p t show thesis by (intro that) (auto simp: sealed_def event_to_row_def)
qed

lemma append_frame [frames]:
  "append_in_tx x ev s = Inr (ev', t) \<Longrightarrow> \<exists>r. t = s\<lparr>events := events s @ [r]\<rparr>"
  by (auto simp: append_in_tx_def elim!: assign_and_insert_Inr)

lemma append_log_ok: "tx_keeps (log_ok x) (append_in_tx x ev)"
proof (rule tx_keepsI)
  fix s ev' t
  assume ok: "log_ok x s" and run: "append_in_tx x ev s = Inr (ev', t)"
  from run [unfolded append_in_tx_def] show "log_ok x t"
    using ok by (elim assign_and_insert_Inr)
      (auto simp: log_ok_def contiguous_snoc next_log_index_contiguous event_to_row_def)
qed

section \<open>The interface of an append-only log\<close>

definition drop_value :: "'e + ('a \<times> 's) \<Rightarrow> 'e + 's" where
  "drop_value r = and_then r (\<lambda>(_, t). Inr t)"

lemma drop_value_Inr_iff: "drop_value r = Inr t \<longleftrightarrow> (\<exists>a. r = Inr (a, t))"
  by (auto simp: drop_value_def and_then_Inr_iff)

locale append_log =
  fixes entries :: "'s \<Rightarrow> 'r list" and idx :: "'r \<Rightarrow> int"
    and app :: "'e \<Rightarrow> 's \<Rightarrow> 'err + ('o \<times> 's)"
  assumes app_one: "app e s = Inr (a, t) \<Longrightarrow> \<exists>r. entries t = entries s @ [r]"
    and app_index: "app e s = Inr (a, t) \<Longrightarrow> contiguous idx (entries s) \<Longrightarrow>
      idx (last (entries t)) = int (length (entries s))"
begin

text \<open>A run of appends extends the log, one entry each, and leaves no index gap.\<close>

lemma run_extends:
  assumes "try_fold (\<lambda>e s. drop_value (app e s)) es s = Inr t"
  shows "\<exists>rs. entries t = entries s @ rs \<and> length rs = length es"
  using assms
proof (induction es arbitrary: s)
  case (Cons e es)
  from Cons.prems obtain a u where u: "app e s = Inr (a, u)"
    "try_fold (\<lambda>e s. drop_value (app e s)) es u = Inr t"
    by (auto simp: and_then_Inr_iff drop_value_Inr_iff)
  from Cons.IH [OF u(2)] app_one [OF u(1)] show ?case by fastforce
qed simp

lemma run_contiguous:
  assumes "try_fold (\<lambda>e s. drop_value (app e s)) es s = Inr t"
    and "contiguous idx (entries s)"
  shows "contiguous idx (entries t)"
proof (rule try_fold_invariant [OF assms(1), of "\<lambda>s. contiguous idx (entries s)"])
  show "contiguous idx (entries s)" by (fact assms(2))
next
  fix e s t
  assume c: "contiguous idx (entries s)" and "drop_value (app e s) = Inr t"
  then obtain a where a: "app e s = Inr (a, t)" by (auto simp: drop_value_Inr_iff)
  from app_one [OF a] app_index [OF a c] c show "contiguous idx (entries t)"
    by (auto simp: contiguous_snoc)
qed

end

interpretation event_log: append_log events ev_log_index "append_in_tx x" for x
proof unfold_locales
  fix e s a t
  assume "append_in_tx x e s = Inr (a, t)"
  then show "\<exists>r. events t = events s @ [r]"
    by (auto simp: append_in_tx_def elim!: assign_and_insert_Inr)
next
  fix e s a t
  assume "append_in_tx x e s = Inr (a, t)" "contiguous ev_log_index (events s)"
  then show "ev_log_index (last (events t)) = int (length (events s))"
    by (auto simp: append_in_tx_def event_to_row_def next_log_index_contiguous
        elim!: assign_and_insert_Inr)
qed

section \<open>Reading the log back\<close>

lemma contiguous_sorted: "contiguous ev_log_index rs \<Longrightarrow> sorted (map ev_log_index rs)"
  unfolding contiguous_def by (simp add: sorted_iff_nth_mono)

lemma by_index_desc_contiguous:
  assumes "contiguous ev_log_index rs"
  shows "by_index_desc (filter P rs) = rev (filter P rs)"
proof -
  have "sort_key ev_log_index rs = rs"
    using contiguous_sorted [OF assms] by (simp add: sorted_sort_id sort_key_id_if_sorted)
  then show ?thesis by (simp add: by_index_desc_def flip: filter_sort)
qed

text \<open>On the log, the newest events first means the reverse of insertion order.\<close>

lemma query_events_rev:
  assumes "log_ok x s"
  shows "query_events x a b c n s =
     map (row_to_event x) (sql_limit n (rev (filter (\<lambda>r.
       (\<forall>k. a = Some k \<longrightarrow> ev_actor_id r = k) \<and> (\<forall>k. b = Some k \<longrightarrow> ev_log_index r < k)
       \<and> (\<forall>k. c = Some k \<longrightarrow> k < ev_log_index r)) (events s))))"
  using assms
  by (simp add: query_events_def log_ok_def by_index_desc_contiguous Let_def split: option.splits)

lemma row_to_event_to_row:
  assumes "json_parse x p = Some (ev_payload ev)"
  shows "row_to_event x (event_to_row p ev) = ev"
  using assms by (simp add: row_to_event_def event_to_row_def)

end
