(* ===== verification/Signing.thy ===== *)
theory Signing
  imports Database
begin

text \<open>
  \<open>signing.rs\<close>: the kernel's Ed25519 key, kept as its 32-byte seed in a file, and the
  extension line of a signed checkpoint. Files are a map from paths to contents; faults of
  the file system are not modelled. The random seed of a new key is an argument.
\<close>

type_synonym files = "string list \<rightharpoonup> byte list"
type_synonym signing_key = "byte list"

definition generate_and_save ::
  "byte list \<Rightarrow> string list \<Rightarrow> files \<Rightarrow> (string + signing_key) \<times> files" where
  "generate_and_save seed path fs = (Inr seed, fs(path \<mapsto> seed))"

definition load_key :: "string list \<Rightarrow> files \<Rightarrow> string + signing_key" where
  "load_key path fs =
     (case fs path of
        None \<Rightarrow> Inl ''failed to read signing key''
      | Some bytes \<Rightarrow>
          if length bytes = 32 then Inr bytes
          else Inl ''signing key must be exactly 32 bytes'')"

definition load_or_generate ::
  "byte list \<Rightarrow> string list \<Rightarrow> files \<Rightarrow> (string + signing_key) \<times> files" where
  "load_or_generate seed path fs =
     (if fs path \<noteq> None then (load_key path fs, fs) else generate_and_save seed path fs)"

definition sign :: "ext \<Rightarrow> signing_key \<Rightarrow> byte list \<Rightarrow> byte list" where
  "sign x sk msg = ed_sign x sk msg"

definition public_key_hex :: "ext \<Rightarrow> signing_key \<Rightarrow> string" where
  "public_key_hex x sk = hex_encode x (ed_public x sk)"

definition verify_own :: "ext \<Rightarrow> signing_key \<Rightarrow> byte list \<Rightarrow> byte list \<Rightarrow> bool" where
  "verify_own x sk msg sig_bytes = ed_verify x (ed_public x sk) msg sig_bytes"

definition sign_checkpoint :: "ext \<Rightarrow> signing_key \<Rightarrow> byte list \<Rightarrow> string" where
  "sign_checkpoint x sk body =
     (let sig = sign x sk body
      in ''sig/ed25519:'' @ public_key_hex x sk @ '':'' @ hex_encode x sig @ [CHR 10])"

definition verify_checkpoint_signature :: "ext \<Rightarrow> string \<Rightarrow> byte list \<Rightarrow> string \<Rightarrow> bool" where
  "verify_checkpoint_signature x pubkey_hex msg sig_hex =
     (case hex_decode x pubkey_hex of
        None \<Rightarrow> False
      | Some pk_bytes \<Rightarrow>
          if length pk_bytes \<noteq> 32 then False
          else if \<not> ed_key x pk_bytes then False
          else (case hex_decode x sig_hex of
                  None \<Rightarrow> False
                | Some sig_bytes \<Rightarrow>
                    if length sig_bytes \<noteq> 64 then False
                    else ed_verify x pk_bytes msg sig_bytes))"

text \<open>\<open>str::split_once(':')\<close>.\<close>

fun split_once :: "char \<Rightarrow> string \<Rightarrow> (string \<times> string) option" where
  "split_once c [] = None"
| "split_once c (d # ds) =
     (if d = c then Some ([], ds)
      else map_option (\<lambda>(a, b). (d # a, b)) (split_once c ds))"

definition strip_newline :: "string \<Rightarrow> string" where
  "strip_newline s = (if s \<noteq> [] \<and> last s = CHR 10 then butlast s else s)"

definition parse_sig_extension :: "string \<Rightarrow> (string \<times> string) option" where
  "parse_sig_extension line =
     Option.bind (strip_prefix ''sig/ed25519:'' line) (\<lambda>rest.
     Option.bind (split_once (CHR '':'') (strip_newline rest)) (\<lambda>(pubkey, sig).
       if length pubkey = 64 \<and> length sig = 128 then Some (pubkey, sig) else None))"

section \<open>Facts\<close>

lemma split_once_append: "c \<notin> set a \<Longrightarrow> split_once c (a @ c # b) = Some (a, b)"
  by (induction a) auto

lemma split_once_SomeD: "split_once c s = Some (a, b) \<Longrightarrow> s = a @ c # b \<and> c \<notin> set a"
  by (induction c s arbitrary: a rule: split_once.induct) (auto split: if_splits)

text \<open>
  What the code relies on of the hex and Ed25519 crates: encoding gives two characters per
  byte, none of them a colon, and decoding inverts it; keys have 32 bytes, signatures 64,
  and a signature verifies under the public key of its seed.
\<close>

definition hex_laws :: "ext \<Rightarrow> bool" where
  "hex_laws x \<longleftrightarrow>
     (\<forall>bs. length (hex_encode x bs) = 2 * length bs \<and> CHR '':'' \<notin> set (hex_encode x bs)
           \<and> hex_decode x (hex_encode x bs) = Some bs)"

definition ed_laws :: "ext \<Rightarrow> bool" where
  "ed_laws x \<longleftrightarrow>
     (\<forall>sk msg. length (ed_public x sk) = 32 \<and> ed_key x (ed_public x sk)
        \<and> length (ed_sign x sk msg) = 64 \<and> ed_verify x (ed_public x sk) msg (ed_sign x sk msg))"

lemma parse_sign_checkpoint:
  assumes "hex_laws x" and "ed_laws x"
  shows "parse_sig_extension (sign_checkpoint x sk body)
    = Some (public_key_hex x sk, hex_encode x (sign x sk body))"
proof -
  let ?pk = "public_key_hex x sk" and ?sig = "hex_encode x (sign x sk body)"
  have len: "length ?pk = 64" "length ?sig = 128" and colon: "CHR '':'' \<notin> set ?pk"
    using assms by (auto simp: hex_laws_def ed_laws_def public_key_hex_def sign_def)
  have "strip_newline (?pk @ '':'' @ ?sig @ [CHR 10]) = ?pk @ CHR '':'' # ?sig"
    by (simp add: strip_newline_def butlast_append)
  with split_once_append [OF colon] len show ?thesis
    by (simp add: parse_sig_extension_def sign_checkpoint_def Let_def strip_prefix_def)
qed

lemma verify_sign_checkpoint:
  assumes "hex_laws x" and "ed_laws x"
  shows "verify_checkpoint_signature x (public_key_hex x sk) body (hex_encode x (sign x sk body))"
  using assms
  by (simp add: verify_checkpoint_signature_def hex_laws_def ed_laws_def public_key_hex_def sign_def)

lemma load_after_generate:
  assumes "length seed = 32"
  shows "load_or_generate seed' path (snd (load_or_generate seed path fs))
    = (fst (load_or_generate seed path fs), snd (load_or_generate seed path fs))"
  using assms by (auto simp: load_or_generate_def generate_and_save_def load_key_def)

end
