(* ===== verification/Blob_Store.thy ===== *)
theory Blob_Store
  imports Signing
begin

text \<open>
  \<open>state/blob_store.rs\<close>: content-addressed storage. A path is the list of its components;
  directories are implicit in the map of files.
\<close>

definition oid_prefix :: string where
  "oid_prefix = ''sha256:''"

definition sha256_hex :: "ext \<Rightarrow> byte list \<Rightarrow> string" where
  "sha256_hex x data = bytes_to_hex (sha256 x data)"

definition oid_to_path :: "string list \<Rightarrow> string \<Rightarrow> string list" where
  "oid_to_path base hex = base @ [''sha256'', take 2 hex, take 2 (drop 2 hex), hex]"

definition is_ascii_hexdigit :: "char \<Rightarrow> bool" where
  "is_ascii_hexdigit c \<longleftrightarrow>
     (let n = (of_char c :: nat) in 48 \<le> n \<and> n \<le> 57 \<or> 65 \<le> n \<and> n \<le> 70 \<or> 97 \<le> n \<and> n \<le> 102)"

definition parse_oid :: "string \<Rightarrow> string kernel_result" where
  "parse_oid oid =
     (case strip_prefix oid_prefix oid of
        None \<Rightarrow> Inl (PolicyViolation
          (''invalid OID format (expected sha256:<hex>): '' @ oid))
      | Some hex \<Rightarrow>
          if length hex \<noteq> 64 \<or> \<not> list_all is_ascii_hexdigit hex
          then Inl (PolicyViolation (''invalid OID hex (expected 64 hex chars): '' @ oid))
          else Inr hex)"

text \<open>The temporary file of \<open>put\<close> and the rename over it.\<close>

definition blob_put :: "ext \<Rightarrow> string list \<Rightarrow> byte list \<Rightarrow> files \<Rightarrow> string \<times> files" where
  "blob_put x base data fs =
     (let hex = sha256_hex x data;
          oid = oid_prefix @ hex;
          path = oid_to_path base hex
      in if fs path \<noteq> None then (oid, fs)
         else let tmp_path = butlast path @ [''.tmp-'' @ hex];
                  fs1 = fs(tmp_path \<mapsto> data);
                  fs2 = (fs1(tmp_path := None))(path := fs1 tmp_path)
              in (oid, fs2))"

definition blob_get :: "string list \<Rightarrow> string \<Rightarrow> files \<Rightarrow> byte list kernel_result" where
  "blob_get base oid fs =
     and_then (parse_oid oid) (\<lambda>hex.
       case fs (oid_to_path base hex) of
         None \<Rightarrow> Inl (PolicyViolation (''blob not found: '' @ oid))
       | Some data \<Rightarrow> Inr data)"

definition blob_exists :: "string list \<Rightarrow> string \<Rightarrow> files \<Rightarrow> bool" where
  "blob_exists base oid fs =
     (case parse_oid oid of Inl _ \<Rightarrow> False | Inr hex \<Rightarrow> fs (oid_to_path base hex) \<noteq> None)"

section \<open>Identifiers\<close>

lemma oid_to_path_inject [simp]: "oid_to_path base h = oid_to_path base h' \<longleftrightarrow> h = h'"
  by (auto simp: oid_to_path_def)

lemma hex_lut_hexdigit: "c \<in> set hex_lut \<Longrightarrow> is_ascii_hexdigit c"
  by (auto simp: hex_lut_def is_ascii_hexdigit_def)

lemma hexdigit_bytes_to_hex: "list_all is_ascii_hexdigit (bytes_to_hex bs)"
  using bytes_to_hex_chars [of bs] hex_lut_hexdigit by (auto simp: list_all_iff)

lemma parse_oid_Inr_iff:
  "parse_oid oid = Inr hex \<longleftrightarrow>
     oid = oid_prefix @ hex \<and> length hex = 64 \<and> list_all is_ascii_hexdigit hex"
  by (cases "strip_prefix oid_prefix oid")
    (auto simp: parse_oid_def strip_prefix_Some_iff)

lemma parse_oid_sha256:
  "length (sha256 x data) = 32 \<Longrightarrow> parse_oid (oid_prefix @ sha256_hex x data) = Inr (sha256_hex x data)"
  unfolding parse_oid_Inr_iff by (simp add: sha256_hex_def hexdigit_bytes_to_hex)

section \<open>The store invariant\<close>

text \<open>Every blob file that an identifier can name holds content with that hash.\<close>

definition hex_name :: "string \<Rightarrow> bool" where
  "hex_name h \<longleftrightarrow> list_all is_ascii_hexdigit h"

definition blobs_ok :: "ext \<Rightarrow> string list \<Rightarrow> files \<Rightarrow> bool" where
  "blobs_ok x base fs \<longleftrightarrow>
     (\<forall>h data. hex_name h \<longrightarrow> fs (oid_to_path base h) = Some data \<longrightarrow> sha256_hex x data = h)"

text \<open>A blob path is never a temporary path: hexadecimal names do not start with a dot.\<close>

lemma tmp_path_ne:
  "hex_name h' \<Longrightarrow> oid_to_path base h' \<noteq> butlast (oid_to_path base h) @ [''.tmp-'' @ h]"
  by (auto simp: oid_to_path_def butlast_append hex_name_def is_ascii_hexdigit_def)

lemma blob_put_at:
  assumes "hex_name h"
  shows "snd (blob_put x base data fs) (oid_to_path base h) =
    (if h = sha256_hex x data \<and> fs (oid_to_path base h) = None then Some data
     else fs (oid_to_path base h))"
  using assms tmp_path_ne [OF assms] by (auto simp: blob_put_def Let_def)

lemma blob_put_ok: "blobs_ok x base fs \<Longrightarrow> blobs_ok x base (snd (blob_put x base data fs))"
  unfolding blobs_ok_def by (auto simp: blob_put_at)

lemma blob_put_oid: "fst (blob_put x base data fs) = oid_prefix @ sha256_hex x data"
  by (simp add: blob_put_def Let_def)

lemma hex_name_sha256: "hex_name (sha256_hex x data)"
  by (simp add: hex_name_def sha256_hex_def hexdigit_bytes_to_hex)

text \<open>What \<open>get\<close> returns has the hash the identifier names.\<close>

lemma blob_get_integrity:
  assumes "blobs_ok x base fs" and "blob_get base oid fs = Inr data"
  shows "oid = oid_prefix @ sha256_hex x data"
  using assms
  by (auto simp: blob_get_def parse_oid_Inr_iff blobs_ok_def hex_name_def split: option.splits)

lemma blob_get_put:
  assumes "length (sha256 x data) = 32"
  shows "\<exists>data'. blob_get base (fst (blob_put x base data fs)) (snd (blob_put x base data fs)) = Inr data'
    \<and> (fs (oid_to_path base (sha256_hex x data)) = None \<longrightarrow> data' = data)"
  using parse_oid_sha256 [OF assms]
  by (auto simp: blob_get_def blob_put_oid blob_put_at hex_name_sha256 split: option.splits)

end
