(* ===== verification/Audit_Log.thy ===== *)
theory Audit_Log
  imports Event_Log Blob_Store
begin

text \<open>
  \<open>audit.rs\<close>: the Merkle tree over the event hashes. The hash of every complete subtree is
  stored under the index that \<open>tlog::stored_hash_index\<close> gives to (level, position); a new
  leaf completes the subtrees that end at it. Indexes are natural numbers: the casts between
  \<open>u64\<close> and the INTEGER column keep every index below \<open>2 ^ 63\<close>.
\<close>

datatype audit_error =
    ADb string
  | AProof string
  | ACheckpoint
  | AHashNotFound nat
  | AInvalidHex string
  | ANoCheckpoint

type_synonym 'a audit_tx = "db \<Rightarrow> audit_error + ('a \<times> db)"

fun audit_error_str :: "audit_error \<Rightarrow> string" where
  "audit_error_str (ADb e) = ''database error: '' @ e"
| "audit_error_str (AProof e) = ''proof error: '' @ e"
| "audit_error_str ACheckpoint = ''malformed checkpoint''"
| "audit_error_str (AHashNotFound i) = ''hash not found at index '' @ dec_of_nat i"
| "audit_error_str (AInvalidHex h) = ''invalid hex hash: '' @ h"
| "audit_error_str ANoCheckpoint = ''no checkpoint exists yet''"

record audit_log =
  al_origin :: string
  al_signing_key :: "signing_key option"

section \<open>Hexadecimal hashes\<close>

definition hex_digit_val :: "char \<Rightarrow> nat option" where
  "hex_digit_val c =
     (let n = (of_char c :: nat)
      in if 48 \<le> n \<and> n \<le> 57 then Some (n - 48)
         else if 97 \<le> n \<and> n \<le> 102 then Some (n - 87)
         else if 65 \<le> n \<and> n \<le> 70 then Some (n - 55)
         else None)"

text \<open>\<open>u8::from_str_radix(_, 16)\<close> on two characters; a plus sign in front is accepted.\<close>

definition u8_from_hex_pair :: "char \<Rightarrow> char \<Rightarrow> byte option" where
  "u8_from_hex_pair c d =
     (if c = CHR ''+'' then map_option of_nat (hex_digit_val d)
      else Option.bind (hex_digit_val c) (\<lambda>h. map_option (\<lambda>l. of_nat (16 * h + l)) (hex_digit_val d)))"

fun hex_pairs :: "string \<Rightarrow> byte list option" where
  "hex_pairs (c # d # cs) =
     Option.bind (u8_from_hex_pair c d) (\<lambda>b. map_option (\<lambda>bs. b # bs) (hex_pairs cs))"
| "hex_pairs _ = Some []"

definition hex_to_hash :: "string \<Rightarrow> audit_error + hash" where
  "hex_to_hash hex =
     (if length hex \<noteq> 64 then Inl (AInvalidHex hex)
      else ok_or (AInvalidHex hex) (hex_pairs hex))"

definition hash_to_hex :: "hash \<Rightarrow> string" where
  "hash_to_hex h = bytes_to_hex h"

section \<open>Stored hashes\<close>

definition row_to_hash :: "hash option \<Rightarrow> nat \<Rightarrow> audit_error + hash" where
  "row_to_hash row idx =
     (case row of
        Some bytes \<Rightarrow> if length bytes \<noteq> 32 then Inl (AHashNotFound idx) else Inr bytes
      | None \<Rightarrow> Inl (AHashNotFound idx))"

definition read_hash_in_tx :: "nat \<Rightarrow> db \<Rightarrow> audit_error + hash" where
  "read_hash_in_tx idx s = row_to_hash (map_of (audit_hashes s) idx) idx"

definition load_all_hashes :: "db \<Rightarrow> nat \<Rightarrow> hash option" where
  "load_all_hashes s = map_of (audit_hashes s)"

text \<open>\<open>INSERT OR REPLACE\<close> of one row.\<close>

definition put_hash :: "nat \<times> hash \<Rightarrow> (nat \<times> hash) list \<Rightarrow> (nat \<times> hash) list" where
  "put_hash row tbl = filter (\<lambda>r. fst r \<noteq> fst row) tbl @ [row]"

text \<open>The \<open>while\<close> loop over the levels at which the new leaf completes a subtree.\<close>

function leaf_loop ::
  "ext \<Rightarrow> db \<Rightarrow> nat \<Rightarrow> nat \<Rightarrow> hash \<Rightarrow> (nat \<times> hash) list \<Rightarrow> audit_error + (nat \<times> hash) list" where
  "leaf_loop x s n level current to_store =
     (if (n div 2 ^ level) mod 2 = 1
      then let n_at_level = n div 2 ^ level;
               left_idx = stored_hash_index x level (n_at_level - 1)
           in and_then (read_hash_in_tx left_idx s) (\<lambda>left.
                let parent = node_hash x left current;
                    parent_idx = stored_hash_index x (level + 1) (n_at_level div 2)
                in leaf_loop x s n (level + 1) parent (to_store @ [(parent_idx, parent)]))
      else Inr to_store)"
  by pat_completeness auto
termination
proof (relation "measure (\<lambda>(x, s, n, level, current, to_store). n div 2 ^ level)")
  fix x :: ext and s :: db and n level :: nat
  fix current left parent :: hash and to_store :: "(nat \<times> hash) list" and n_at parent_idx :: nat
  assume odd: "(n div 2 ^ level) mod 2 = 1"
  let ?m = "n div 2 ^ level"
  have "n div 2 ^ (level + 1) = ?m div 2"
    by (metis Suc_eq_plus1 div_mult2_eq power_Suc2)
  moreover have "?m div 2 < ?m" using odd by (cases "?m = 0") simp_all
  ultimately show "((x, s, n, level + 1, parent, to_store @ [(parent_idx, parent)]),
      (x, s, n, level, current, to_store))
      \<in> measure (\<lambda>(x, s, n, level, current, to_store). n div 2 ^ level)"
    by simp
qed simp

declare leaf_loop.simps [simp del]

definition append_leaf_in_tx :: "ext \<Rightarrow> nat \<Rightarrow> string \<Rightarrow> unit audit_tx" where
  "append_leaf_in_tx x log_index leaf_hash_hex s =
     and_then (hex_to_hash leaf_hash_hex) (\<lambda>leaf.
     and_then (leaf_loop x s log_index 0 leaf [(stored_hash_index x 0 log_index, leaf)]) (\<lambda>to_store.
       Inr ((), s\<lparr>audit_hashes := fold put_hash to_store (audit_hashes s)\<rparr>)))"

text \<open>The same in a transaction of its own, which a failure rolls back.\<close>

definition append_leaf :: "ext \<Rightarrow> nat \<Rightarrow> string \<Rightarrow> db \<Rightarrow> (audit_error + unit) \<times> db" where
  "append_leaf x log_index leaf_hash_hex s =
     (case append_leaf_in_tx x log_index leaf_hash_hex s of
        Inl e \<Rightarrow> (Inl e, s)
      | Inr (u, t) \<Rightarrow> (Inr u, t))"

section \<open>Checkpoints and proofs\<close>

definition put_checkpoint :: "checkpoint_row \<Rightarrow> checkpoint_row list \<Rightarrow> checkpoint_row list" where
  "put_checkpoint row tbl = filter (\<lambda>r. cp_tree_size r \<noteq> cp_tree_size row) tbl @ [row]"

definition map_err :: "('a \<Rightarrow> 'b) \<Rightarrow> 'a + 'c \<Rightarrow> 'b + 'c" where
  "map_err f r = (case r of Inl e \<Rightarrow> Inl (f e) | Inr a \<Rightarrow> Inr a)"

definition make_checkpoint_in_tx ::
  "ext \<Rightarrow> audit_log \<Rightarrow> string \<Rightarrow> nat \<Rightarrow> checkpoint_row audit_tx" where
  "make_checkpoint_in_tx x al now tree_size s =
     (let reader = load_all_hashes s
      in and_then (map_err AProof (tree_hash x tree_size reader)) (\<lambda>tree_root.
         let root_hex = hash_to_hex tree_root;
             extension =
               (case al_signing_key al of
                  Some sk \<Rightarrow>
                    sign_checkpoint x sk (str_bytes
                      (al_origin al @ [CHR 10] @ dec_of_nat tree_size @ [CHR 10]
                       @ hash_show x tree_root @ [CHR 10]))
                | None \<Rightarrow> [])
         in and_then (ok_or ACheckpoint
                       (checkpoint_bytes x (al_origin al) tree_size tree_root extension)) (\<lambda>cp_text.
            let row = \<lparr>cp_tree_size = int tree_size, cp_root_hash = root_hex,
                       cp_checkpoint_text = cp_text, cp_created_at = now\<rparr>
            in Inr (row, s\<lparr>audit_checkpoints := put_checkpoint row (audit_checkpoints s)\<rparr>))))"

text \<open>\<open>ORDER BY tree_size DESC LIMIT 1\<close>.\<close>

definition latest_row :: "checkpoint_row list \<Rightarrow> checkpoint_row option" where
  "latest_row rows =
     (case rev (sort_key cp_tree_size rows) of [] \<Rightarrow> None | r # _ \<Rightarrow> Some r)"

definition latest_checkpoint :: "db \<Rightarrow> audit_error + checkpoint_row" where
  "latest_checkpoint s = ok_or ANoCheckpoint (latest_row (audit_checkpoints s))"

definition audit_tree_size :: "db \<Rightarrow> nat" where
  "audit_tree_size s =
     (case latest_row (audit_checkpoints s) of None \<Rightarrow> 0 | Some r \<Rightarrow> nat (cp_tree_size r))"

definition inclusion_proof :: "ext \<Rightarrow> nat \<Rightarrow> nat \<Rightarrow> db \<Rightarrow> audit_error + string list" where
  "inclusion_proof x log_index tree_size s =
     and_then (map_err AProof (prove_record x tree_size log_index (load_all_hashes s)))
       (\<lambda>proof. Inr (map hash_to_hex proof))"

definition consistency_proof :: "ext \<Rightarrow> nat \<Rightarrow> nat \<Rightarrow> db \<Rightarrow> audit_error + string list" where
  "consistency_proof x old_size new_size s =
     and_then (map_err AProof (prove_tree x new_size old_size (load_all_hashes s)))
       (\<lambda>proof. Inr (map hash_to_hex proof))"

definition ensure_checkpoint :: "ext \<Rightarrow> audit_log \<Rightarrow> string \<Rightarrow> nat \<Rightarrow> unit audit_tx" where
  "ensure_checkpoint x al now count s =
     (if count = 0 then Inr ((), s)
      else let current = audit_tree_size s
           in if current \<ge> count then Inr ((), s)
              else and_then (make_checkpoint_in_tx x al now count s) (\<lambda>(_, t). Inr ((), t)))"

lemma leaf_frame [frames]:
  "append_leaf_in_tx x n h s = Inr (u, t) \<Longrightarrow> \<exists>hs. t = s\<lparr>audit_hashes := hs\<rparr>"
  by (auto simp: append_leaf_in_tx_def)

lemma checkpoint_frame [frames]:
  "make_checkpoint_in_tx x al now n s = Inr (r, t) \<Longrightarrow> \<exists>cs. t = s\<lparr>audit_checkpoints := cs\<rparr>"
  by (auto simp: make_checkpoint_in_tx_def Let_def)

section \<open>Hexadecimal round trip\<close>

lemma hex_digit_val_lut: "i < 16 \<Longrightarrow> hex_digit_val (hex_lut ! i) = Some i"
proof -
  have "list_all (\<lambda>i. hex_digit_val (hex_lut ! i) = Some i) [0..<16]"
    by (simp add: upt_rec hex_lut_def hex_digit_val_def)
  then show "i < 16 \<Longrightarrow> hex_digit_val (hex_lut ! i) = Some i" by (simp add: list_all_iff)
qed

lemma plus_not_lut: "i < 16 \<Longrightarrow> hex_lut ! i \<noteq> CHR ''+''"
  using hex_digit_val_lut [of i] by (auto simp: hex_digit_val_def)

lemma byte_nibbles: "of_nat (16 * unat (drop_bit 4 b) + unat (b AND 15)) = (b :: byte)"
proof -
  have "b AND 15 = take_bit 4 b" by (simp add: take_bit_eq_mask mask_numeral)
  then have "unat (b AND 15) = unat b mod 16" by (simp add: take_bit_eq_mod unat_mod)
  moreover have "unat (drop_bit 4 b) = unat b div 16" by (simp add: drop_bit_eq_div unat_div)
  ultimately show ?thesis by (simp add: mult_div_mod_eq)
qed

lemma u8_from_hex_pair_lut:
  "u8_from_hex_pair (hex_lut ! unat (drop_bit 4 b)) (hex_lut ! unat (b AND 15)) = Some b"
  using nibble_bounds [of b] byte_nibbles [of b]
  by (simp add: u8_from_hex_pair_def hex_digit_val_lut plus_not_lut)

lemma hex_pairs_bytes_to_hex: "hex_pairs (bytes_to_hex bs) = Some bs"
  by (induction bs) (simp_all add: bytes_to_hex_def u8_from_hex_pair_lut)

lemma hex_to_hash_of_hex: "length h = 32 \<Longrightarrow> hex_to_hash (hash_to_hex h) = Inr h"
  by (simp add: hex_to_hash_def hash_to_hex_def hex_pairs_bytes_to_hex)

lemma hex_pairs_length: "hex_pairs cs = Some bs \<Longrightarrow> length bs = length cs div 2"
  by (induction cs arbitrary: bs rule: hex_pairs.induct) (auto split: bind_splits)

lemma hex_to_hash_length: "hex_to_hash h = Inr bs \<Longrightarrow> length bs = 32"
  using hex_pairs_length [of h bs] by (auto simp: hex_to_hash_def split: if_splits)

section \<open>The stored hashes are the Merkle tree\<close>

text \<open>
  The specification: the hash of the complete subtree at a level and position over the leaf
  hashes. \<open>tree_stored\<close> says that every complete subtree over the first \<open>n\<close> leaves is stored
  under its index.
\<close>

fun sub_hash :: "(hash \<Rightarrow> hash \<Rightarrow> hash) \<Rightarrow> (nat \<Rightarrow> hash) \<Rightarrow> nat \<Rightarrow> nat \<Rightarrow> hash" where
  "sub_hash nh L 0 k = L k"
| "sub_hash nh L (Suc l) k = nh (sub_hash nh L l (2 * k)) (sub_hash nh L l (2 * k + 1))"

definition tree_stored :: "ext \<Rightarrow> (nat \<Rightarrow> hash) \<Rightarrow> nat \<Rightarrow> db \<Rightarrow> bool" where
  "tree_stored x L n s \<longleftrightarrow>
     (\<forall>l k. (k + 1) * 2 ^ l \<le> n \<longrightarrow>
        map_of (audit_hashes s) (stored_hash_index x l k) = Some (sub_hash (node_hash x) L l k))"

text \<open>
  What the code relies on of \<open>tlog_tiles\<close>: distinct subtrees have distinct indexes, and a
  hash has 32 bytes.
\<close>

definition tlog_laws :: "ext \<Rightarrow> bool" where
  "tlog_laws x \<longleftrightarrow>
     (\<forall>l k l' k'. stored_hash_index x l k = stored_hash_index x l' k' \<longrightarrow> l = l' \<and> k = k')
     \<and> (\<forall>a b. length (node_hash x a b) = 32)"

lemma tlog_index_eq:
  "tlog_laws x \<Longrightarrow> stored_hash_index x l k = stored_hash_index x l' k' \<longleftrightarrow> l = l' \<and> k = k'"
  unfolding tlog_laws_def by blast

lemma node_hash_length: "tlog_laws x \<Longrightarrow> length (node_hash x a b) = 32"
  unfolding tlog_laws_def by blast

lemma sub_hash_length:
  "tlog_laws x \<Longrightarrow> (\<And>k. length (L k) = 32) \<Longrightarrow> length (sub_hash (node_hash x) L l k) = 32"
  by (cases l) (simp_all add: node_hash_length)

lemma sub_hash_odd:
  assumes "odd k"
  shows "sub_hash nh L (Suc l) (k div 2) = nh (sub_hash nh L l (k - 1)) (sub_hash nh L l k)"
  using assms by (auto elim!: oddE)

lemma sub_hash_cong:
  "(\<And>j. j < (k + 1) * 2 ^ l \<Longrightarrow> L j = L' j) \<Longrightarrow> sub_hash nh L l k = sub_hash nh L' l k"
proof (induction l arbitrary: k)
  case (Suc l)
  have "sub_hash nh L l (2 * k) = sub_hash nh L' l (2 * k)"
    "sub_hash nh L l (2 * k + 1) = sub_hash nh L' l (2 * k + 1)"
    by (rule Suc.IH, rule Suc.prems, simp add: algebra_simps)+
  then show ?case by simp
qed simp

text \<open>The subtree at level \<open>l\<close> that ends at leaf \<open>n\<close>, and when the loop climbs further.\<close>

lemma ends_at:
  fixes n l :: nat
  assumes "2 ^ l dvd n + 1"
  shows "(n div 2 ^ l + 1) * 2 ^ l = n + 1"
    and "odd (n div 2 ^ l) \<longleftrightarrow> 2 ^ Suc l dvd n + 1"
proof -
  obtain m where m: "n + 1 = 2 ^ l * m" using assms by (auto elim: dvdE)
  then have "0 < m" by (cases m) auto
  then obtain j where j: "m = Suc j" by (cases m) auto
  have n: "n = 2 ^ l * j + (2 ^ l - 1)" using m j by (simp add: algebra_simps)
  have "n div 2 ^ l = j" unfolding n by (subst div_mult_self4) simp_all
  moreover have "2 ^ Suc l dvd n + 1 \<longleftrightarrow> 2 dvd m"
    unfolding m power_Suc2 by simp
  ultimately show "(n div 2 ^ l + 1) * 2 ^ l = n + 1" "odd (n div 2 ^ l) \<longleftrightarrow> 2 ^ Suc l dvd n + 1"
    using m j by (simp_all add: mult.commute)
qed

lemma read_stored:
  assumes "tlog_laws x" "\<And>k. length (L k) = 32" "tree_stored x L n s" "(k + 1) * 2 ^ l \<le> n"
  shows "read_hash_in_tx (stored_hash_index x l k) s = Inr (sub_hash (node_hash x) L l k)"
  using assms sub_hash_length [OF assms(1,2)]
  by (simp add: read_hash_in_tx_def row_to_hash_def tree_stored_def)

definition path_row :: "ext \<Rightarrow> (nat \<Rightarrow> hash) \<Rightarrow> nat \<Rightarrow> nat \<Rightarrow> nat \<times> hash" where
  "path_row x L n l =
     (stored_hash_index x l (n div 2 ^ l), sub_hash (node_hash x) L l (n div 2 ^ l))"

lemma leaf_loop_path:
  assumes "tlog_laws x" "\<And>k. length (L k) = 32" "tree_stored x L n s" "2 ^ l dvd n + 1"
    and "current = sub_hash (node_hash x) L l (n div 2 ^ l)"
  shows "\<exists>T \<ge> l. \<not> 2 ^ Suc T dvd n + 1 \<and> 2 ^ T dvd n + 1 \<and>
    leaf_loop x s n l current acc = Inr (acc @ map (path_row x L n) [Suc l..<Suc T])"
  using assms(4,5)
proof (induction "n div 2 ^ l" arbitrary: l current acc rule: less_induct)
  case less
  let ?k = "n div 2 ^ l"
  show ?case
  proof (cases "odd ?k")
    case True
    have up: "2 ^ Suc l dvd n + 1" using ends_at(2) [OF less.prems(1)] True by simp
    have half: "n div 2 ^ Suc l = ?k div 2" by (metis div_mult2_eq power_Suc2)
    have left: "read_hash_in_tx (stored_hash_index x l (?k - 1)) s
        = Inr (sub_hash (node_hash x) L l (?k - 1))"
    proof (rule read_stored [OF assms(1-3)])
      have "(?k + 1) * 2 ^ l = n + 1" by (rule ends_at(1) [OF less.prems(1)])
      then show "(?k - 1 + 1) * 2 ^ l \<le> n" using True by (auto elim!: oddE simp: algebra_simps)
    qed
    have parent: "node_hash x (sub_hash (node_hash x) L l (?k - 1)) current
        = sub_hash (node_hash x) L (Suc l) (n div 2 ^ Suc l)"
      unfolding half less.prems(2) by (rule sub_hash_odd [OF True, symmetric])
    have "?k div 2 < ?k" using True by (cases "?k = 0") simp_all
    then obtain T where "T \<ge> Suc l" "\<not> 2 ^ Suc T dvd n + 1" "2 ^ T dvd n + 1"
      and "leaf_loop x s n (Suc l) (sub_hash (node_hash x) L (Suc l) (n div 2 ^ Suc l))
        (acc @ [path_row x L n (Suc l)])
        = Inr ((acc @ [path_row x L n (Suc l)]) @ map (path_row x L n) [Suc (Suc l)..<Suc T])"
      using less.hyps [OF _ up refl] half by metis
    moreover have "leaf_loop x s n l current acc =
        leaf_loop x s n (Suc l) (sub_hash (node_hash x) L (Suc l) (n div 2 ^ Suc l))
          (acc @ [path_row x L n (Suc l)])"
      using True left parent half
      by (subst leaf_loop.simps) (simp add: Let_def path_row_def odd_iff_mod_2_eq_one)
    ultimately show ?thesis by (intro exI [of _ T]) (simp add: upt_rec [of "Suc l"])
  next
    case False
    then have "leaf_loop x s n l current acc = Inr acc"
      by (subst leaf_loop.simps) (simp add: odd_iff_mod_2_eq_one)
    with False ends_at(2) [OF less.prems(1)] less.prems(1) show ?thesis
      by (intro exI [of _ l]) simp
  qed
qed

lemma map_of_put_hash: "map_of (put_hash r tbl) = (map_of tbl)(fst r \<mapsto> snd r)"
proof -
  have "map_of (filter (\<lambda>q. fst q \<noteq> k) tbl) = (map_of tbl)(k := None)" for k
    by (induction tbl) auto
  then show ?thesis by (cases r) (auto simp: put_hash_def map_add_def fun_eq_iff split: option.splits)
qed

lemma map_of_put_hashes:
  "map_of (fold put_hash rows tbl) i =
     (case map_of (rev rows) i of None \<Rightarrow> map_of tbl i | Some h \<Rightarrow> Some h)"
  by (induction rows arbitrary: tbl) (auto simp: map_of_put_hash split: option.splits)

text \<open>Storing the rows of the path from a new leaf completes the tree.\<close>

lemma path_rows_complete:
  assumes laws: "tlog_laws x" and tree: "tree_stored x L n s"
    and T: "\<not> 2 ^ Suc T dvd n + 1" "2 ^ T dvd n + 1" and le: "(k + 1) * 2 ^ l \<le> Suc n"
  shows "map_of (fold put_hash (map (path_row x L n) [0..<Suc T]) (audit_hashes s)) (stored_hash_index x l k)
    = Some (sub_hash (node_hash x) L l k)"
proof -
  let ?rows = "map (path_row x L n) [0..<Suc T]"
  have dist: "distinct (map fst (rev ?rows))"
    using tlog_index_eq [OF laws] by (auto simp: path_row_def distinct_map inj_on_def rev_map)
  have below: "2 ^ l dvd n + 1 \<Longrightarrow> l \<le> T" for l
    using T(1) by (meson dvd_trans le_imp_power_dvd not_less_eq_eq)
  show ?thesis
  proof (cases "(k + 1) * 2 ^ l = Suc n")
    case True
    then have d: "2 ^ l dvd n + 1" by (metis Suc_eq_plus1 dvd_triv_right)
    have "k = n div 2 ^ l" using True ends_at(1) [OF d] by (metis Suc_eq_plus1 add_right_cancel
      mult_cancel2 power_not_zero zero_neq_numeral)
    then have "(stored_hash_index x l k, sub_hash (node_hash x) L l k) \<in> set (rev ?rows)"
      using below [OF d] by (auto simp: path_row_def simp del: upt_Suc)
    then have "map_of (rev ?rows) (stored_hash_index x l k) = Some (sub_hash (node_hash x) L l k)"
      by (rule map_of_is_SomeI [OF dist])
    then show ?thesis by (simp add: map_of_put_hashes del: upt_Suc rev_map)
  next
    case False
    have "stored_hash_index x l k \<notin> fst ` set (rev ?rows)"
    proof
      assume "stored_hash_index x l k \<in> fst ` set (rev ?rows)"
      then have "l \<le> T" "k = n div 2 ^ l" by (auto simp: path_row_def tlog_index_eq [OF laws])
      then have "(k + 1) * 2 ^ l = n + 1"
        using ends_at(1) [of l n] T(2) by (metis dvd_trans le_imp_power_dvd)
      with False show False by simp
    qed
    then have "map_of (rev ?rows) (stored_hash_index x l k) = None"
      by (simp add: map_of_eq_None_iff)
    moreover have "map_of (audit_hashes s) (stored_hash_index x l k) = Some (sub_hash (node_hash x) L l k)"
      using tree le False by (simp add: tree_stored_def)
    ultimately show ?thesis by (simp add: map_of_put_hashes del: upt_Suc rev_map)
  qed
qed

lemma append_leaf_tree:
  assumes laws: "tlog_laws x" and len: "\<And>k. length (L k) = 32" and tree: "tree_stored x L n s"
    and leaf: "hex_to_hash hex = Inr (L n)"
  shows "\<exists>hs. append_leaf_in_tx x n hex s = Inr ((), s\<lparr>audit_hashes := hs\<rparr>)
    \<and> tree_stored x L (Suc n) (s\<lparr>audit_hashes := hs\<rparr>)"
proof -
  obtain T where T: "\<not> 2 ^ Suc T dvd n + 1" "2 ^ T dvd n + 1"
    and loop: "leaf_loop x s n 0 (L n) [path_row x L n 0] =
      Inr ([path_row x L n 0] @ map (path_row x L n) [Suc 0..<Suc T])"
    using leaf_loop_path [OF laws len tree, of 0 "L n" "[path_row x L n 0]"] by auto
  let ?rows = "map (path_row x L n) [0..<Suc T]"
  have rows: "[path_row x L n 0] @ map (path_row x L n) [Suc 0..<Suc T] = ?rows"
    by (simp add: upt_rec [of 0])
  let ?t = "s\<lparr>audit_hashes := fold put_hash ?rows (audit_hashes s)\<rparr>"
  have "tree_stored x L (Suc n) ?t"
    using path_rows_complete [OF laws tree T] by (simp add: tree_stored_def del: upt_Suc)
  moreover have "append_leaf_in_tx x n hex s = Inr ((), ?t)"
    using loop rows leaf by (simp add: append_leaf_in_tx_def path_row_def)
  ultimately show ?thesis by blast
qed

text \<open>Appending the leaves of a log one after the other builds its tree.\<close>

lemma append_leaf_tree_db:
  assumes "tlog_laws x" "\<And>k. length (L k) = 32" "tree_stored x L n s" "hex_to_hash hex = Inr (L n)"
  shows "\<exists>t. append_leaf x n hex s = (Inr (), t) \<and> tree_stored x L (Suc n) t"
  using append_leaf_tree [OF assms] by (auto simp: append_leaf_def)

end
