(* ===== verification/Actor_Store.thy ===== *)
theory Actor_Store
  imports Event_Log
begin

text \<open>
  \<open>state/actor_store.rs\<close>: the actors table. Decoding a JSON column is parsing followed by
  the decoder of the column's type; the detail text of a decoding error is left out.
\<close>

definition from_text :: "ext \<Rightarrow> (json \<Rightarrow> 'a option) \<Rightarrow> string \<Rightarrow> 'a option" where
  "from_text x de t = Option.bind (json_parse x t) de"

definition row_to_actor_record :: "ext \<Rightarrow> actor_row \<Rightarrow> actor_record kernel_result" where
  "row_to_actor_record x row =
     and_then (ok_or (PolicyViolation (''invalid actor_type in DB: '' @ a_actor_type row))
                (actor_type_parse (a_actor_type row))) (\<lambda>ty.
     and_then (ok_or (PolicyViolation (''invalid actor status in DB: '' @ a_status row))
                (actor_status_parse (a_status row))) (\<lambda>status.
     and_then (ok_or (PolicyViolation ''invalid lineage JSON: '')
                (from_text x (de_strings x) (a_lineage row))) (\<lambda>lineage.
     and_then (ok_or (PolicyViolation ''invalid writable_targets JSON: '')
                (from_text x (de_wts x) (a_writable_targets row))) (\<lambda>targets.
       Inr \<lparr>ar_actor_id = a_actor_id row, ar_actor_type = ty, ar_creator_id = a_creator_id row,
            ar_lineage = lineage, ar_purpose = a_purpose row, ar_status = status,
            ar_writable_targets = targets, ar_energy_share = a_energy_share row,
            ar_reduction_policy = a_reduction_policy row, ar_created_at = a_created_at row,
            ar_updated_at = a_updated_at row\<rparr>))))"

definition actor_row_get :: "string \<Rightarrow> db \<Rightarrow> actor_row option" where
  "actor_row_get actor_id s = tbl_get a_actor_id actor_id (actors s)"

definition actor_get :: "ext \<Rightarrow> string \<Rightarrow> db \<Rightarrow> actor_record option kernel_result" where
  "actor_get x actor_id s =
     (case actor_row_get actor_id s of
        Some row \<Rightarrow> and_then (row_to_actor_record x row) (\<lambda>r. Inr (Some r))
      | None \<Rightarrow> Inr None)"

definition actor_exists :: "string \<Rightarrow> db \<Rightarrow> bool" where
  "actor_exists actor_id s \<longleftrightarrow> actor_row_get actor_id s \<noteq> None"

definition actor_is_active :: "string \<Rightarrow> db \<Rightarrow> bool" where
  "actor_is_active actor_id s =
     (case actor_row_get actor_id s of
        Some row \<Rightarrow> a_status row = ''active'' | None \<Rightarrow> False)"

text \<open>A NaN share would be stored as NULL, which the column refuses.\<close>

definition actor_create_in_tx :: "ext \<Rightarrow> string \<Rightarrow> create_actor_spec \<Rightarrow> unit tx" where
  "actor_create_in_tx x now spec s =
     (if is_blank (cs_actor_id spec) then Inl (PolicyViolation ''actor_id cannot be empty'')
      else if actor_row_get (cs_actor_id spec) s \<noteq> None
      then Inl (PolicyViolation (''actor already exists: '' @ cs_actor_id spec))
      else
        and_then (ok_or (PolicyViolation ''failed to serialize lineage: '')
                   (json_text x (json_strings (cs_lineage spec)))) (\<lambda>lineage_json.
        and_then (ok_or (PolicyViolation ''failed to serialize writable_targets: '')
                   (json_text x (JArray (map wt_to_value (cs_writable_targets spec)))))
          (\<lambda>targets_json.
        if cs_energy_share spec = NaN then Inl (Db ''NOT NULL constraint failed: actors'')
        else Inr ((), s\<lparr>actors := actors s @
          [\<lparr>a_actor_id = cs_actor_id spec, a_actor_type = actor_type_str (cs_actor_type spec),
            a_creator_id = Some (cs_creator_id spec), a_lineage = lineage_json,
            a_purpose = cs_purpose spec, a_status = ''active'',
            a_writable_targets = targets_json, a_energy_share = cs_energy_share spec,
            a_reduction_policy = cs_reduction_policy spec, a_created_at = now,
            a_updated_at = now\<rparr>]\<rparr>))))"

definition with_status :: "string \<Rightarrow> string \<Rightarrow> actor_row \<Rightarrow> actor_row" where
  "with_status status now row = row\<lparr>a_status := status, a_updated_at := now\<rparr>"

definition with_share :: "f64 \<Rightarrow> string \<Rightarrow> actor_row \<Rightarrow> actor_row" where
  "with_share share now row = row\<lparr>a_energy_share := share, a_updated_at := now\<rparr>"

definition actor_update :: "string \<Rightarrow> (actor_row \<Rightarrow> actor_row) \<Rightarrow> unit tx" where
  "actor_update actor_id f s =
     (if rows_affected (\<lambda>r. a_actor_id r = actor_id) (actors s) = 0
      then Inl (ActorNotFound actor_id)
      else Inr ((), s\<lparr>actors := tbl_update (\<lambda>r. a_actor_id r = actor_id) f (actors s)\<rparr>))"

definition actor_set_status_in_tx :: "string \<Rightarrow> string \<Rightarrow> actor_status \<Rightarrow> unit tx" where
  "actor_set_status_in_tx now actor_id status =
     actor_update actor_id (with_status (actor_status_str status) now)"

definition update_energy_share_in_tx :: "string \<Rightarrow> string \<Rightarrow> f64 \<Rightarrow> unit tx" where
  "update_energy_share_in_tx now actor_id share =
     (if \<not> f64_is_finite share \<or> f64_less share (Fin 0)
      then tx_fail (PolicyViolation ''energy_share must be a finite non-negative number'')
      else actor_update actor_id (with_share share now))"

definition next_sequence :: "ext \<Rightarrow> string \<Rightarrow> string \<Rightarrow> db \<Rightarrow> i64" where
  "next_sequence x creator_id purpose s =
     (let pattern = creator_id @ ''/'' @ purpose @ ''/%''
      in int (length (filter (\<lambda>r. sql_like x pattern (a_actor_id r)) (actors s))) + 1)"

definition list_active_with_shares :: "db \<Rightarrow> (string \<times> f64) list" where
  "list_active_with_shares s =
     map (\<lambda>r. (a_actor_id r, a_energy_share r))
       (filter (\<lambda>r. a_status r = ''active'' \<and> f64_less (Fin 0) (a_energy_share r)
                    \<and> a_actor_type r = ''agent'') (actors s))"

definition list_children :: "ext \<Rightarrow> string \<Rightarrow> db \<Rightarrow> actor_record list kernel_result" where
  "list_children x parent_id s =
     try_map (row_to_actor_record x) (filter (\<lambda>r. a_creator_id r = Some parent_id) (actors s))"

definition descendant_rows :: "ext \<Rightarrow> string \<Rightarrow> db \<Rightarrow> actor_row list" where
  "descendant_rows x ancestor_id s =
     (let lineage_pattern = [CHR ''%'', CHR 34] @ ancestor_id @ [CHR 34, CHR ''%'']
      in filter (\<lambda>r. sql_like x lineage_pattern (a_lineage r) \<and> a_status r = ''active'') (actors s))"

definition list_descendants :: "ext \<Rightarrow> string \<Rightarrow> db \<Rightarrow> actor_record list kernel_result" where
  "list_descendants x ancestor_id s = try_map (row_to_actor_record x) (descendant_rows x ancestor_id s)"

section \<open>Contracts\<close>

interpretation status_upd: keyed_update a_actor_id "with_status st now" for st now
  by unfold_locales (simp add: with_status_def)

interpretation share_upd: keyed_update a_actor_id "with_share sh now" for sh now
  by unfold_locales (simp add: with_share_def)

lemma actor_create_Inr:
  assumes "actor_create_in_tx x now spec s = Inr (u, t)"
  obtains lj tj where
    "json_text x (json_strings (cs_lineage spec)) = Some lj"
    "json_text x (JArray (map wt_to_value (cs_writable_targets spec))) = Some tj"
    "actor_row_get (cs_actor_id spec) s = None"
    "t = s\<lparr>actors := actors s @
      [\<lparr>a_actor_id = cs_actor_id spec, a_actor_type = actor_type_str (cs_actor_type spec),
        a_creator_id = Some (cs_creator_id spec), a_lineage = lj,
        a_purpose = cs_purpose spec, a_status = ''active'',
        a_writable_targets = tj, a_energy_share = cs_energy_share spec,
        a_reduction_policy = cs_reduction_policy spec, a_created_at = now,
        a_updated_at = now\<rparr>]\<rparr>"
  using assms by (auto simp: actor_create_in_tx_def split: if_splits)

interpretation actor_ins: keyed_insert cs_actor_id actor_row_get "actor_create_in_tx x now" for x now
  by unfold_locales
    (auto elim!: actor_create_Inr simp: actor_row_get_def table_simps split: option.splits)

lemma actor_update_Inr:
  "actor_update a f s = Inr (u, t) \<longleftrightarrow>
     actor_row_get a s \<noteq> None \<and> t = s\<lparr>actors := tbl_update (\<lambda>r. a_actor_id r = a) f (actors s)\<rparr>"
  by (auto simp: actor_update_def rows_affected_key actor_row_get_def)

lemma actor_create_frame [frames]:
  "actor_create_in_tx x now spec s = Inr (u, t) \<Longrightarrow> \<exists>as. t = s\<lparr>actors := as\<rparr>"
  by (auto elim!: actor_create_Inr)

lemma actor_status_frame [frames]:
  "actor_set_status_in_tx now a st s = Inr (u, t) \<Longrightarrow> \<exists>as. t = s\<lparr>actors := as\<rparr>"
  by (auto simp: actor_set_status_in_tx_def actor_update_Inr)

lemma actor_share_frame [frames]:
  "update_energy_share_in_tx now a sh s = Inr (u, t) \<Longrightarrow> \<exists>as. t = s\<lparr>actors := as\<rparr>"
  by (auto simp: update_energy_share_in_tx_def actor_update_Inr split: if_splits)

text \<open>What a status change does, read through \<open>actor_row_get\<close>.\<close>

lemma actor_set_status_get:
  assumes "actor_set_status_in_tx now a st s = Inr (u, t)"
  shows "actor_row_get k t =
    (if k = a then map_option (with_status (actor_status_str st) now) (actor_row_get a s)
     else actor_row_get k s)"
  using assms
  by (auto simp: actor_set_status_in_tx_def actor_update_Inr actor_row_get_def status_upd.get_update)

lemma actor_set_status_succeeds:
  "actor_exists a s \<Longrightarrow> \<exists>t. actor_set_status_in_tx now a st s = Inr ((), t)"
  by (auto simp: actor_set_status_in_tx_def actor_update_def actor_exists_def rows_affected_key
      actor_row_get_def)

text \<open>Decoding inverts the encoding of the columns of one actor.\<close>

definition columns_roundtrip :: "ext \<Rightarrow> create_actor_spec \<Rightarrow> bool" where
  "columns_roundtrip x spec \<longleftrightarrow>
     (\<forall>t. json_text x (json_strings (cs_lineage spec)) = Some t \<longrightarrow>
        from_text x (de_strings x) t = Some (cs_lineage spec))
     \<and> (\<forall>t. json_text x (JArray (map wt_to_value (cs_writable_targets spec))) = Some t \<longrightarrow>
        from_text x (de_wts x) t = Some (cs_writable_targets spec))"

definition spec_record :: "string \<Rightarrow> create_actor_spec \<Rightarrow> actor_record" where
  "spec_record now spec =
     \<lparr>ar_actor_id = cs_actor_id spec, ar_actor_type = cs_actor_type spec,
      ar_creator_id = Some (cs_creator_id spec), ar_lineage = cs_lineage spec,
      ar_purpose = cs_purpose spec, ar_status = Active,
      ar_writable_targets = cs_writable_targets spec, ar_energy_share = cs_energy_share spec,
      ar_reduction_policy = cs_reduction_policy spec, ar_created_at = now, ar_updated_at = now\<rparr>"

lemma actor_create_get:
  assumes "actor_create_in_tx x now spec s = Inr (u, t)" and "columns_roundtrip x spec"
  shows "actor_get x (cs_actor_id spec) t = Inr (Some (spec_record now spec))"
  using assms
  by (auto elim!: actor_create_Inr simp: actor_get_def actor_row_get_def table_simps
      row_to_actor_record_def columns_roundtrip_def spec_record_def
      actor_type_code.parse_print actor_status_parse_def)

lemma actor_get_SomeD:
  assumes "actor_get x a s = Inr (Some r)"
  obtains row where "actor_row_get a s = Some row" "row_to_actor_record x row = Inr r"
    "ar_actor_id r = a" "ar_status r = Active \<longleftrightarrow> a_status row = ''active''"
proof -
  obtain row where row: "actor_row_get a s = Some row" "row_to_actor_record x row = Inr r"
    using assms by (auto simp: actor_get_def split: option.splits)
  then have "a_actor_id row = a" by (auto simp: actor_row_get_def dest: tbl_get_SomeD)
  with row that show thesis
    by (force simp: row_to_actor_record_def actor_status_parse_def split: if_splits)
qed

end
