(* ===== verification/Envelope_Store.thy ===== *)
theory Envelope_Store
  imports Actor_Store
begin

text \<open>
  \<open>state/envelope_store.rs\<close>: the envelopes and hold_requests tables. \<open>now\<close> is the text of
  the clock the operation reads.
\<close>

record new_hold_request =
  nh_hold_id :: string
  nh_envelope_id :: string
  nh_agent_id :: string
  nh_trigger_target :: string
  nh_trigger_action :: string
  nh_pending_payload :: json

section \<open>Envelopes\<close>

definition row_to_envelope_record :: "ext \<Rightarrow> envelope_row \<Rightarrow> envelope_record kernel_result" where
  "row_to_envelope_record x row =
     and_then (ok_or (PolicyViolation (''invalid envelope status in DB: '' @ e_status row))
                (envelope_status_parse (e_status row))) (\<lambda>status.
     and_then (ok_or (PolicyViolation ''invalid targets JSON: '')
                (from_text x (de_strings x) (e_targets row))) (\<lambda>targets.
     and_then (ok_or (PolicyViolation ''invalid actions JSON: '')
                (from_text x (de_strings x) (e_actions row))) (\<lambda>actions.
     and_then (ok_or (PolicyViolation ''invalid hold_on JSON: '')
                (from_text x (de_rules x) (e_hold_on row))) (\<lambda>hold_on.
       Inr \<lparr>en_envelope_id = e_envelope_id row, en_actor_id = e_actor_id row,
            en_grantor_id = e_grantor_id row, en_parent_envelope_id = e_parent_envelope_id row,
            en_budget = e_budget row, en_budget_consumed = e_budget_consumed row,
            en_targets = targets, en_actions = actions, en_duration_secs = e_duration_secs row,
            en_report_every = e_report_every row, en_hold_on = hold_on,
            en_hold_timeout_secs = e_hold_timeout_secs row, en_status = status,
            en_last_report_at = e_last_report_at row, en_created_at = e_created_at row,
            en_expires_at = e_expires_at row, en_updated_at = e_updated_at row\<rparr>))))"

text \<open>\<open>now_ms + (d as u64) * 1000\<close> in 64-bit arithmetic.\<close>

definition expires_after :: "string \<Rightarrow> i64 \<Rightarrow> string" where
  "expires_after now d =
     (let now_ms = unwrap_or 0 (parse_u64 now);
          expires_ms = now_ms + i64_as_u64 d * 1000
      in dec_of_nat (unat expires_ms))"

definition envelope_row_get :: "string \<Rightarrow> db \<Rightarrow> envelope_row option" where
  "envelope_row_get envelope_id s = tbl_get e_envelope_id envelope_id (envelopes s)"

definition new_envelope_row ::
  "string \<Rightarrow> string \<Rightarrow> envelope_spec \<Rightarrow> string option \<Rightarrow> string \<Rightarrow> string \<Rightarrow> string \<Rightarrow> envelope_row" where
  "new_envelope_row now envelope_id spec parent_id targets_json actions_json hold_on_json =
     \<lparr>e_envelope_id = envelope_id, e_actor_id = es_actor_id spec,
      e_grantor_id = es_grantor_id spec, e_parent_envelope_id = parent_id,
      e_budget = es_budget spec, e_budget_consumed = 0, e_targets = targets_json,
      e_actions = actions_json, e_duration_secs = es_duration_secs spec,
      e_report_every = es_report_every spec, e_hold_on = hold_on_json,
      e_hold_timeout_secs = es_hold_timeout_secs spec, e_status = ''active'',
      e_last_report_at = 0, e_created_at = now,
      e_expires_at = map_option (expires_after now) (es_duration_secs spec),
      e_updated_at = now\<rparr>"

definition new_envelope_record ::
  "string \<Rightarrow> string \<Rightarrow> envelope_spec \<Rightarrow> string option \<Rightarrow> envelope_record" where
  "new_envelope_record now envelope_id spec parent_id =
     \<lparr>en_envelope_id = envelope_id, en_actor_id = es_actor_id spec,
      en_grantor_id = es_grantor_id spec, en_parent_envelope_id = parent_id,
      en_budget = es_budget spec, en_budget_consumed = 0, en_targets = es_targets spec,
      en_actions = es_actions spec, en_duration_secs = es_duration_secs spec,
      en_report_every = es_report_every spec, en_hold_on = es_hold_on spec,
      en_hold_timeout_secs = es_hold_timeout_secs spec, en_status = EnvActive,
      en_last_report_at = 0, en_created_at = now,
      en_expires_at = map_option (expires_after now) (es_duration_secs spec),
      en_updated_at = now\<rparr>"

definition envelope_create_in_tx ::
  "ext \<Rightarrow> string \<Rightarrow> string \<Rightarrow> envelope_spec \<Rightarrow> string option \<Rightarrow> envelope_record tx" where
  "envelope_create_in_tx x now envelope_id spec parent_id s =
     and_then (ok_or (PolicyViolation ''failed to serialize targets: '')
                (json_text x (json_strings (es_targets spec)))) (\<lambda>targets_json.
     and_then (ok_or (PolicyViolation ''failed to serialize actions: '')
                (json_text x (json_strings (es_actions spec)))) (\<lambda>actions_json.
     and_then (ok_or (PolicyViolation ''failed to serialize hold_on: '')
                (json_text x (JArray (map rule_to_value (es_hold_on spec))))) (\<lambda>hold_on_json.
       if envelope_row_get envelope_id s \<noteq> None
       then Inl (Db ''UNIQUE constraint failed: envelopes.envelope_id'')
       else Inr (new_envelope_record now envelope_id spec parent_id,
                 s\<lparr>envelopes := envelopes s @
                   [new_envelope_row now envelope_id spec parent_id
                      targets_json actions_json hold_on_json]\<rparr>))))"

definition get_active_for_actor ::
  "ext \<Rightarrow> string \<Rightarrow> db \<Rightarrow> envelope_record option kernel_result" where
  "get_active_for_actor x actor_id s =
     (case newest_by_text e_created_at
             (filter (\<lambda>r. e_actor_id r = actor_id \<and> e_status r = ''active'') (envelopes s)) of
        Some row \<Rightarrow> and_then (row_to_envelope_record x row) (\<lambda>e. Inr (Some e))
      | None \<Rightarrow> Inr None)"

definition envelope_get :: "ext \<Rightarrow> string \<Rightarrow> db \<Rightarrow> envelope_record option kernel_result" where
  "envelope_get x envelope_id s =
     (case envelope_row_get envelope_id s of
        Some row \<Rightarrow> and_then (row_to_envelope_record x row) (\<lambda>e. Inr (Some e))
      | None \<Rightarrow> Inr None)"

definition with_consumed :: "i64 \<Rightarrow> string \<Rightarrow> envelope_row \<Rightarrow> envelope_row" where
  "with_consumed c now r = r\<lparr>e_budget_consumed := c, e_updated_at := now\<rparr>"

definition with_env_status :: "string \<Rightarrow> string \<Rightarrow> envelope_row \<Rightarrow> envelope_row" where
  "with_env_status st now r = r\<lparr>e_status := st, e_updated_at := now\<rparr>"

definition with_report :: "i64 \<Rightarrow> string \<Rightarrow> envelope_row \<Rightarrow> envelope_row" where
  "with_report n now r = r\<lparr>e_last_report_at := n, e_updated_at := now\<rparr>"

definition envelope_update :: "string \<Rightarrow> (envelope_row \<Rightarrow> envelope_row) \<Rightarrow> db \<Rightarrow> db" where
  "envelope_update envelope_id f s =
     s\<lparr>envelopes := tbl_update (\<lambda>r. e_envelope_id r = envelope_id) f (envelopes s)\<rparr>"

definition consume_budget_in_tx :: "string \<Rightarrow> string \<Rightarrow> i64 \<Rightarrow> i64 tx" where
  "consume_budget_in_tx now envelope_id amount s =
     (case envelope_row_get envelope_id s of
        None \<Rightarrow> Inl (PolicyViolation (''envelope not found: '' @ envelope_id))
      | Some row \<Rightarrow>
          (let new_consumed = i64_wrap (e_budget_consumed row + amount)
           in if new_consumed > e_budget row
              then Inl (AuthorizationRequired
                (''envelope '' @ envelope_id @ '' budget exceeded: budget='' @
                 fmt_int (e_budget row) @ '', already_consumed='' @
                 fmt_int (e_budget_consumed row) @ '', requested='' @ fmt_int amount))
              else Inr (new_consumed,
                        envelope_update envelope_id (with_consumed new_consumed now) s)))"

definition envelope_set_status_in_tx :: "string \<Rightarrow> string \<Rightarrow> envelope_status \<Rightarrow> unit tx" where
  "envelope_set_status_in_tx now envelope_id status s =
     (if rows_affected (\<lambda>r. e_envelope_id r = envelope_id) (envelopes s) = 0
      then Inl (PolicyViolation (''envelope not found: '' @ envelope_id))
      else Inr ((), envelope_update envelope_id
                      (with_env_status (envelope_status_str status) now) s))"

definition envelope_set_status :: "string \<Rightarrow> string \<Rightarrow> envelope_status \<Rightarrow> unit handler" where
  "envelope_set_status now envelope_id status =
     run_tx (envelope_set_status_in_tx now envelope_id status)"

definition check_and_expire :: "ext \<Rightarrow> u64 \<Rightarrow> string \<Rightarrow> string \<Rightarrow> bool handler" where
  "check_and_expire x now_ms now envelope_id s =
     h_bind (h_lift (envelope_get x envelope_id s)) (\<lambda>envelope.
       case envelope of
         None \<Rightarrow> h_return False
       | Some env \<Rightarrow>
           if en_status env \<noteq> EnvActive then h_return False
           else if is_envelope_expired env now_ms
           then h_bind (envelope_set_status now envelope_id EnvExpired) (\<lambda>_. h_return True)
           else h_return False) s"

definition update_checkpoint_tracking :: "string \<Rightarrow> string \<Rightarrow> i64 \<Rightarrow> unit handler" where
  "update_checkpoint_tracking now envelope_id last_report_at s =
     (Inr (), envelope_update envelope_id (with_report last_report_at now) s)"

section \<open>Hold requests\<close>

definition hold_to_json :: "ext \<Rightarrow> hold_row \<Rightarrow> json" where
  "hold_to_json x r =
     json_obj
       [(''hold_id'', JString (h_hold_id r)),
        (''envelope_id'', JString (h_envelope_id r)),
        (''agent_id'', JString (h_agent_id r)),
        (''trigger_target'', JString (h_trigger_target r)),
        (''trigger_action'', JString (h_trigger_action r)),
        (''pending_payload'', unwrap_or JNull (json_parse x (h_pending_payload r))),
        (''status'', JString (h_status r)),
        (''decision'', json_opt_str (h_decision r)),
        (''instruction'', json_opt_str (h_instruction r)),
        (''triggered_at'', JString (h_triggered_at r)),
        (''resolved_at'', json_opt_str (h_resolved_at r))]"

definition hold_row_get :: "string \<Rightarrow> db \<Rightarrow> hold_row option" where
  "hold_row_get hold_id s = tbl_get h_hold_id hold_id (hold_requests s)"

definition get_hold_request :: "ext \<Rightarrow> string \<Rightarrow> db \<Rightarrow> json option" where
  "get_hold_request x hold_id s = map_option (hold_to_json x) (hold_row_get hold_id s)"

definition list_pending_holds :: "ext \<Rightarrow> string option \<Rightarrow> db \<Rightarrow> json list" where
  "list_pending_holds x agent_id s =
     map (hold_to_json x) (order_by_text h_triggered_at
       (case agent_id of
          Some a \<Rightarrow> filter (\<lambda>r. h_status r = ''pending'' \<and> h_agent_id r = a) (hold_requests s)
        | None \<Rightarrow> filter (\<lambda>r. h_status r = ''pending'') (hold_requests s)))"

definition list_pending_holds_for_envelope :: "ext \<Rightarrow> string \<Rightarrow> db \<Rightarrow> json list" where
  "list_pending_holds_for_envelope x envelope_id s =
     map (hold_to_json x) (order_by_text h_triggered_at
       (filter (\<lambda>r. h_status r = ''pending'' \<and> h_envelope_id r = envelope_id) (hold_requests s)))"

definition create_hold_request_in_tx :: "ext \<Rightarrow> string \<Rightarrow> new_hold_request \<Rightarrow> unit tx" where
  "create_hold_request_in_tx x now req s =
     and_then (ok_or serde_error (json_text x (nh_pending_payload req))) (\<lambda>payload_json.
       if hold_row_get (nh_hold_id req) s \<noteq> None
       then Inl (Db ''UNIQUE constraint failed: hold_requests.hold_id'')
       else if envelope_row_get (nh_envelope_id req) s = None
       then Inl (Db ''FOREIGN KEY constraint failed'')
       else Inr ((), s\<lparr>hold_requests := hold_requests s @
         [\<lparr>h_hold_id = nh_hold_id req, h_envelope_id = nh_envelope_id req,
           h_agent_id = nh_agent_id req, h_trigger_target = nh_trigger_target req,
           h_trigger_action = nh_trigger_action req, h_pending_payload = payload_json,
           h_status = ''pending'', h_decision = None, h_instruction = None,
           h_triggered_at = now, h_resolved_at = None\<rparr>]\<rparr>))"

definition decision_status :: "string \<Rightarrow> string option" where
  "decision_status decision =
     (if decision = ''approve'' then Some ''approved''
      else if decision = ''reject'' then Some ''rejected''
      else if decision = ''timed_out'' then Some ''timed_out'' else None)"

definition with_resolution ::
  "string \<Rightarrow> string \<Rightarrow> string option \<Rightarrow> string \<Rightarrow> hold_row \<Rightarrow> hold_row" where
  "with_resolution status decision instruction now r =
     r\<lparr>h_status := status, h_decision := Some decision, h_instruction := instruction,
       h_resolved_at := Some now\<rparr>"

definition resolve_hold_request_in_tx ::
  "string \<Rightarrow> string \<Rightarrow> string \<Rightarrow> string option \<Rightarrow> unit tx" where
  "resolve_hold_request_in_tx now hold_id decision instruction s =
     (case decision_status decision of
        None \<Rightarrow> Inl (PolicyViolation
          (''invalid hold decision: '' @ decision @ ''; must be '' @ [CHR 39] @ ''approve'' @ [CHR 39]
           @ '', '' @ [CHR 39] @ ''reject'' @ [CHR 39] @ '', or '' @ [CHR 39] @ ''timed_out''
           @ [CHR 39]))
      | Some status \<Rightarrow>
          (let p = (\<lambda>r. h_hold_id r = hold_id \<and> h_status r = ''pending'')
           in if rows_affected p (hold_requests s) = 0
              then Inl (PolicyViolation
                (''hold_request '' @ hold_id @ '' not found or already resolved''))
              else Inr ((), s\<lparr>hold_requests :=
                     tbl_update p (with_resolution status decision instruction now)
                       (hold_requests s)\<rparr>)))"

section \<open>Contracts\<close>

interpretation consumed_upd: keyed_update e_envelope_id "with_consumed c now" for c now
  by unfold_locales (simp add: with_consumed_def)

interpretation env_status_upd: keyed_update e_envelope_id "with_env_status st now" for st now
  by unfold_locales (simp add: with_env_status_def)

interpretation report_upd: keyed_update e_envelope_id "with_report n now" for n now
  by unfold_locales (simp add: with_report_def)

interpretation resolution_upd: keyed_update h_hold_id "with_resolution st d i now" for st d i now
  by unfold_locales (simp add: with_resolution_def)

lemma envelope_create_Inr:
  assumes "envelope_create_in_tx x now eid spec parent s = Inr (env, t)"
  obtains tj aj hj where
    "json_text x (json_strings (es_targets spec)) = Some tj"
    "json_text x (json_strings (es_actions spec)) = Some aj"
    "json_text x (JArray (map rule_to_value (es_hold_on spec))) = Some hj"
    "envelope_row_get eid s = None" "env = new_envelope_record now eid spec parent"
    "t = s\<lparr>envelopes := envelopes s @ [new_envelope_row now eid spec parent tj aj hj]\<rparr>"
  using assms by (auto simp: envelope_create_in_tx_def split: if_splits)

interpretation envelope_ins: keyed_insert fst envelope_row_get
  "\<lambda>i. envelope_create_in_tx x now (fst i) (fst (snd i)) (snd (snd i))" for x now
  by unfold_locales
    (auto elim!: envelope_create_Inr simp: envelope_row_get_def new_envelope_row_def table_simps
      split: option.splits)

lemma create_hold_Inr:
  assumes "create_hold_request_in_tx x now req s = Inr (u, t)"
  obtains pj where "json_text x (nh_pending_payload req) = Some pj"
    "hold_row_get (nh_hold_id req) s = None" "envelope_row_get (nh_envelope_id req) s \<noteq> None"
    "t = s\<lparr>hold_requests := hold_requests s @
       [\<lparr>h_hold_id = nh_hold_id req, h_envelope_id = nh_envelope_id req,
         h_agent_id = nh_agent_id req, h_trigger_target = nh_trigger_target req,
         h_trigger_action = nh_trigger_action req, h_pending_payload = pj,
         h_status = ''pending'', h_decision = None, h_instruction = None,
         h_triggered_at = now, h_resolved_at = None\<rparr>]\<rparr>"
  using assms by (auto simp: create_hold_request_in_tx_def split: if_splits)

interpretation hold_ins: keyed_insert nh_hold_id hold_row_get "create_hold_request_in_tx x now"
  for x now
  by unfold_locales
    (auto elim!: create_hold_Inr simp: hold_row_get_def table_simps split: option.splits)

lemma envelope_create_frame [frames]:
  "envelope_create_in_tx x now eid spec parent s = Inr (env, t) \<Longrightarrow> \<exists>es. t = s\<lparr>envelopes := es\<rparr>"
  by (auto elim!: envelope_create_Inr)

lemma consume_frame [frames]:
  "consume_budget_in_tx now eid c s = Inr (n, t) \<Longrightarrow> \<exists>es. t = s\<lparr>envelopes := es\<rparr>"
  by (auto simp: consume_budget_in_tx_def envelope_update_def Let_def
      split: option.splits if_splits)

lemma env_status_frame [frames]:
  "envelope_set_status_in_tx now eid st s = Inr (u, t) \<Longrightarrow> \<exists>es. t = s\<lparr>envelopes := es\<rparr>"
  by (auto simp: envelope_set_status_in_tx_def envelope_update_def split: if_splits)

lemma create_hold_frame [frames]:
  "create_hold_request_in_tx x now req s = Inr (u, t) \<Longrightarrow> \<exists>hs. t = s\<lparr>hold_requests := hs\<rparr>"
  by (auto elim!: create_hold_Inr)

lemma resolve_frame [frames]:
  "resolve_hold_request_in_tx now hid d i s = Inr (u, t) \<Longrightarrow> \<exists>hs. t = s\<lparr>hold_requests := hs\<rparr>"
  by (auto simp: resolve_hold_request_in_tx_def Let_def split: option.splits if_splits)

section \<open>Holds are resolved once\<close>

definition pending :: "hold_row \<Rightarrow> bool" where
  "pending r \<longleftrightarrow> h_status r = ''pending''"

definition pending_count :: "db \<Rightarrow> nat" where
  "pending_count s = length (filter pending (hold_requests s))"

text \<open>
  How the hold table may evolve: no row disappears, what triggered a hold never changes, and
  a resolved hold is final.
\<close>

definition hold_advance :: "hold_row \<Rightarrow> hold_row \<Rightarrow> bool" where
  "hold_advance r q \<longleftrightarrow>
     h_envelope_id q = h_envelope_id r \<and> h_agent_id q = h_agent_id r
     \<and> h_trigger_target q = h_trigger_target r \<and> h_trigger_action q = h_trigger_action r
     \<and> h_pending_payload q = h_pending_payload r \<and> (\<not> pending r \<longrightarrow> q = r)"

definition holds_advance :: "db \<Rightarrow> db \<Rightarrow> bool" where
  "holds_advance s t \<longleftrightarrow>
     (\<forall>hid r. hold_row_get hid s = Some r \<longrightarrow>
        (\<exists>q. hold_row_get hid t = Some q \<and> hold_advance r q))"

lemma hold_advance_refl [simp]: "hold_advance r r"
  by (simp add: hold_advance_def)

lemma hold_advance_trans: "hold_advance r q \<Longrightarrow> hold_advance q p \<Longrightarrow> hold_advance r p"
  by (auto simp: hold_advance_def)

lemma holds_advance_refl [simp]: "holds_advance s s"
  by (auto simp: holds_advance_def)

lemma holds_advance_trans: "holds_advance s t \<Longrightarrow> holds_advance t u \<Longrightarrow> holds_advance s u"
  unfolding holds_advance_def by (meson hold_advance_trans)

lemma holds_advance_same: "hold_requests t = hold_requests s \<Longrightarrow> holds_advance s t"
  by (auto simp: holds_advance_def hold_row_get_def)

interpretation holds_evolve: evolution holds_advance
  using holds_advance_trans by unfold_locales auto

interpretation pending_evolve: evolution "\<lambda>s t. pending_count t \<le> pending_count s"
  by unfold_locales auto

lemma decision_status_not_pending: "decision_status d = Some st \<Longrightarrow> st \<noteq> ''pending''"
  by (auto simp: decision_status_def split: if_splits)

lemma resolve_Inr:
  assumes "resolve_hold_request_in_tx now hid d i s = Inr (u, t)"
  obtains st where "decision_status d = Some st"
    "\<exists>r \<in> set (hold_requests s). h_hold_id r = hid \<and> pending r"
    "t = s\<lparr>hold_requests := tbl_update (\<lambda>r. h_hold_id r = hid \<and> h_status r = ''pending'')
            (with_resolution st d i now) (hold_requests s)\<rparr>"
  using assms
  by (auto simp: resolve_hold_request_in_tx_def pending_def Let_def rows_affected_pos
      split: option.splits if_splits)

lemma get_resolved:
  "tbl_get h_hold_id k (tbl_update (\<lambda>r. h_hold_id r = hid \<and> h_status r = ''pending'') f rows) =
     map_option (\<lambda>r. if k = hid \<and> pending r then f r else r) (tbl_get h_hold_id k rows)"
  if "\<And>r. h_hold_id (f r) = h_hold_id r"
  using that by (induction rows) (auto simp: table_simps tbl_update_def pending_def)

lemma resolve_advances:
  "resolve_hold_request_in_tx now hid d i s = Inr (u, t) \<Longrightarrow> holds_advance s t"
  by (elim resolve_Inr)
    (auto simp: holds_advance_def hold_row_get_def get_resolved resolution_upd.key_upd
      hold_advance_def with_resolution_def)

lemma create_hold_advances:
  "create_hold_request_in_tx x now req s = Inr (u, t) \<Longrightarrow> holds_advance s t"
  unfolding holds_advance_def using hold_ins.ins_keeps hold_advance_refl by blast

text \<open>A resolution leaves strictly fewer holds pending.\<close>

lemma filter_tbl_update_less:
  assumes "r \<in> set rows" "p r" "P r" "\<And>r. P r \<Longrightarrow> p r \<Longrightarrow> \<not> P (f r)" "\<And>r. p r \<Longrightarrow> P r"
  shows "length (filter P (tbl_update p f rows)) < length (filter P rows)"
proof -
  have le: "length (filter P (tbl_update p f rs)) \<le> length (filter P rs)" for rs
    using assms(4,5) by (induction rs) (auto simp: tbl_update_def)
  from assms(1) show ?thesis
  proof (induction rows)
    case (Cons q rs)
    show ?case
    proof (cases "q = r")
      case True
      with assms(2-4) le [of rs] show ?thesis by (simp add: tbl_update_def)
    next
      case False
      with Cons have "length (filter P (tbl_update p f rs)) < length (filter P rs)" by auto
      then show ?thesis using assms(4,5) by (auto simp: tbl_update_def)
    qed
  qed simp
qed

lemma resolve_pending_less:
  assumes "resolve_hold_request_in_tx now hid d i s = Inr (u, t)"
  shows "pending_count t < pending_count s"
proof -
  obtain st r where st: "decision_status d = Some st"
    and r: "r \<in> set (hold_requests s)" "h_hold_id r = hid" "pending r"
    and t: "t = s\<lparr>hold_requests := tbl_update (\<lambda>r. h_hold_id r = hid \<and> h_status r = ''pending'')
            (with_resolution st d i now) (hold_requests s)\<rparr>"
    using assms by (auto elim!: resolve_Inr)
  have "length (filter pending (tbl_update (\<lambda>r. h_hold_id r = hid \<and> h_status r = ''pending'')
      (with_resolution st d i now) (hold_requests s))) < length (filter pending (hold_requests s))"
    using r decision_status_not_pending [OF st]
    by (intro filter_tbl_update_less [of r]) (auto simp: pending_def with_resolution_def)
  then show ?thesis by (simp add: pending_count_def t)
qed

lemma resolve_get:
  assumes "resolve_hold_request_in_tx now hid d i s = Inr (u, t)" "hold_row_get hid s = Some r"
    and "pending r"
  shows "\<exists>st. decision_status d = Some st
    \<and> hold_row_get hid t = Some (with_resolution st d i now r)"
  using assms
  by (elim resolve_Inr) (auto simp: hold_row_get_def get_resolved resolution_upd.key_upd)

text \<open>A hold that is not pending cannot be resolved again.\<close>

lemma resolve_twice:
  assumes "resolve_hold_request_in_tx now hid d i s = Inr (u, t)"
  shows "\<exists>e. resolve_hold_request_in_tx now' hid d' i' t = Inl e"
proof -
  obtain st where st: "decision_status d = Some st"
    and t: "t = s\<lparr>hold_requests := tbl_update (\<lambda>r. h_hold_id r = hid \<and> h_status r = ''pending'')
            (with_resolution st d i now) (hold_requests s)\<rparr>"
    using assms by (elim resolve_Inr)
  have "\<not> (h_hold_id r = hid \<and> h_status r = ''pending'')"
    if mem: "r \<in> set (hold_requests t)" for r
  proof -
    obtain q where "r = (if h_hold_id q = hid \<and> h_status q = ''pending''
        then with_resolution st d i now q else q)"
      using mem unfolding t by (auto simp: tbl_update_mem)
    then show ?thesis
      using decision_status_not_pending [OF st] by (cases "h_hold_id q = hid \<and> h_status q = ''pending''")
        (simp_all add: with_resolution_def)
  qed
  then have "rows_affected (\<lambda>r. h_hold_id r = hid \<and> h_status r = ''pending'') (hold_requests t) = 0"
    by (simp add: rows_affected_def filter_empty_conv)
  then show ?thesis
    by (cases "decision_status d'") (simp_all add: resolve_hold_request_in_tx_def Let_def)
qed

section \<open>Budgets\<close>

definition budget_ok :: "envelope_row \<Rightarrow> bool" where
  "budget_ok r \<longleftrightarrow> e_budget_consumed r \<le> e_budget r"

text \<open>Consumption stays within the budget, whatever the amount.\<close>

lemma consume_budget_Inr:
  assumes "consume_budget_in_tx now eid amount s = Inr (c, t)"
  obtains r where "envelope_row_get eid s = Some r"
    "c = i64_wrap (e_budget_consumed r + amount)" "c \<le> e_budget r"
    "t = envelope_update eid (with_consumed c now) s"
  using assms
  by (auto simp: consume_budget_in_tx_def Let_def not_less split: option.splits if_splits)

definition budgets_ok :: "db \<Rightarrow> bool" where
  "budgets_ok s \<longleftrightarrow>
     keys_distinct e_envelope_id (envelopes s) \<and> list_all budget_ok (envelopes s)"

lemma envelope_row_unique:
  assumes "keys_distinct e_envelope_id (envelopes s)" "envelope_row_get eid s = Some r"
    "q \<in> set (envelopes s)" "e_envelope_id q = eid"
  shows "q = r"
  using assms tbl_get_mem [of e_envelope_id "envelopes s" q] by (simp add: envelope_row_get_def)

lemma consume_budgets_ok: "tx_keeps budgets_ok (consume_budget_in_tx now eid amount)"
proof (rule tx_keepsI)
  fix s c t
  assume ok: "budgets_ok s" and run: "consume_budget_in_tx now eid amount s = Inr (c, t)"
  then obtain r where r: "envelope_row_get eid s = Some r" "c \<le> e_budget r"
    and t: "t = envelope_update eid (with_consumed c now) s"
    by (auto elim: consume_budget_Inr)
  have "budget_ok (if e_envelope_id q = eid then with_consumed c now q else q)"
    if q: "q \<in> set (envelopes s)" for q
  proof (cases "e_envelope_id q = eid")
    case True
    with ok q r(1) have "q = r" by (intro envelope_row_unique) (auto simp: budgets_ok_def)
    with r(2) True show ?thesis by (simp add: budget_ok_def with_consumed_def)
  next
    case False
    with ok q show ?thesis by (auto simp: budgets_ok_def list_all_iff)
  qed
  with ok show "budgets_ok t"
    by (auto simp: budgets_ok_def t envelope_update_def consumed_upd.keys_distinct list_all_iff
        tbl_update_mem)
qed

lemma budgets_ok_env_update:
  assumes "keyed_update e_envelope_id f"
    and "\<And>r. e_budget (f r) = e_budget r \<and> e_budget_consumed (f r) = e_budget_consumed r"
    and "budgets_ok s"
  shows "budgets_ok (envelope_update eid f s)"
  using assms
  by (auto simp: budgets_ok_def envelope_update_def keyed_update.keys_distinct list_all_iff
      tbl_update_mem budget_ok_def)

lemma env_status_budgets_ok: "tx_keeps budgets_ok (envelope_set_status_in_tx now eid st)"
  by (rule tx_keepsI)
    (auto simp: envelope_set_status_in_tx_def with_env_status_def split: if_splits
      intro!: budgets_ok_env_update env_status_upd.keyed_update_axioms)

lemma envelope_create_budgets_ok:
  assumes "0 \<le> es_budget spec"
  shows "tx_keeps budgets_ok (envelope_create_in_tx x now eid spec parent)"
  using assms
  by (intro tx_keepsI)
    (auto elim!: envelope_create_Inr simp: budgets_ok_def keys_distinct_def new_envelope_row_def
      budget_ok_def envelope_row_get_def tbl_get_None_iff)

section \<open>Expiry\<close>

lemma parse_expires_after:
  "parse_u64 (expires_after now d) = Some (unwrap_or 0 (parse_u64 now) + i64_as_u64 d * 1000)"
proof -
  let ?e = "unwrap_or 0 (parse_u64 now) + i64_as_u64 d * 1000"
  have "unat ?e < 2 ^ 64" using unsigned_less [of ?e, where ?'a = nat] by simp
  then show ?thesis unfolding expires_after_def Let_def by (subst parse_u64_dec) simp_all
qed

text \<open>
  Without a wrap of the 64-bit sum, a new envelope is expired exactly from its creation time
  plus its duration on.
\<close>

lemma new_envelope_expired_iff:
  assumes "es_duration_secs spec = Some d" "0 \<le> d"
    and "now0 < 2 ^ 64" "int now0 + d * 1000 < 2 ^ 64"
  shows "is_envelope_expired (new_envelope_record (dec_of_nat now0) eid spec parent) now
    \<longleftrightarrow> int now0 + d * 1000 \<le> uint now"
proof -
  have p: "parse_u64 (dec_of_nat now0) = Some (of_nat now0)" using assms(3) by (rule parse_u64_dec)
  let ?e = "(of_nat now0 :: u64) + i64_as_u64 d * 1000"
  have "?e = word_of_int (int now0 + d * 1000)" by (simp add: i64_as_u64_def)
  then have "uint ?e = int now0 + d * 1000"
    using assms by (simp only: uint_word_of_int_eq) (simp add: take_bit_int_eq_self)
  then show ?thesis
    using assms(1) p
    by (simp add: is_envelope_expired_def new_envelope_record_def parse_expires_after word_le_def)
qed

end
