(* ===== verification/Lifecycle.thy ===== *)
theory Lifecycle
  imports Envelope_Store
begin

text \<open>
  \<open>runtime/lifecycle.rs\<close>: freeze, unfreeze and share updates of actors. \<open>ck i\<close> is the
  \<open>i\<close>-th reading of the clock. The descendants of a frozen actor are listed through another
  connection of the pool, so in the state before the freeze transaction.
\<close>

definition parse_op :: "string \<Rightarrow> json \<Rightarrow> lifecycle_op option" where
  "parse_op op_str payload =
     (let reason = get_str payload ''reason''
      in if op_str = ''freeze'' then Some (Freeze reason)
         else if op_str = ''unfreeze'' then Some Unfreeze
         else if op_str = ''terminate'' then Some (Terminate reason)
         else if op_str = ''update_energy_share''
         then map_option UpdateEnergyShare (Option.bind (vget payload ''energy_share'') as_f64)
         else None)"

definition parse_lifecycle_op :: "string \<Rightarrow> json \<Rightarrow> (string \<times> lifecycle_op) option" where
  "parse_lifecycle_op target payload =
     Option.bind (strip_prefix ''actor/'' target) (\<lambda>actor_id.
       if actor_id = [] then None
       else Option.bind (get_str payload ''op'') (\<lambda>op_str.
            map_option (\<lambda>op. (actor_id, op)) (parse_op op_str payload)))"

definition validate_lifecycle_authorization ::
  "actor_record \<Rightarrow> actor_record \<Rightarrow> lifecycle_op \<Rightarrow> unit kernel_result" where
  "validate_lifecycle_authorization initiator target op =
     (if ar_actor_type target = Human
      then Inl (PolicyViolation ''cannot perform lifecycle operations on human actors'')
      else if ar_actor_type initiator = Agent
      then Inl (PolicyViolation
        (''agent '' @ ar_actor_id initiator @ '' cannot perform lifecycle operations '' @ em_dash
         @ '' only humans can manage agents '' @ pip001 ''5''))
      else if ar_actor_type initiator = Human
      then (if ar_actor_id initiator \<in> set (ar_lineage target) then Inr ()
            else Inl (PolicyViolation
              (''human '' @ ar_actor_id initiator @ '' cannot manage actor ''
               @ ar_actor_id target @ '' (not in lineage)'')))
      else Inl (PolicyViolation ''lifecycle authorization denied''))"

text \<open>The loop that freezes the descendants; \<open>i\<close> counts the clock readings.\<close>

fun freeze_each :: "(nat \<Rightarrow> string) \<Rightarrow> nat \<Rightarrow> actor_record list \<Rightarrow> string list tx" where
  "freeze_each ck i [] = tx_return []"
| "freeze_each ck i (d # ds) =
     tx_bind (actor_set_status_in_tx (ck i) (ar_actor_id d) Frozen) (\<lambda>_.
     tx_bind (freeze_each ck (Suc i) ds) (\<lambda>ids. tx_return (ar_actor_id d # ids)))"

definition execute_freeze :: "ext \<Rightarrow> (nat \<Rightarrow> string) \<Rightarrow> string \<Rightarrow> string list handler" where
  "execute_freeze x ck target_id s0 =
     run_tx
       (tx_bind (actor_set_status_in_tx (ck 0) target_id Frozen) (\<lambda>_ s.
          and_then (list_descendants x target_id s0) (\<lambda>descendants.
            tx_bind (freeze_each ck 1 descendants) (\<lambda>ids. tx_return (target_id # ids)) s)))
       s0"

definition execute_unfreeze :: "(nat \<Rightarrow> string) \<Rightarrow> string \<Rightarrow> unit handler" where
  "execute_unfreeze ck target_id = run_tx (actor_set_status_in_tx (ck 0) target_id Active)"

definition execute_update_energy_share ::
  "(nat \<Rightarrow> string) \<Rightarrow> string \<Rightarrow> f64 \<Rightarrow> unit handler" where
  "execute_update_energy_share ck target_id energy_share =
     run_tx (update_energy_share_in_tx (ck 0) target_id energy_share)"

definition check_lineage_active :: "string list \<Rightarrow> db \<Rightarrow> unit kernel_result" where
  "check_lineage_active lineage s =
     try_fold (\<lambda>ancestor_id _.
        if actor_is_active ancestor_id s then Inr ()
        else Inl (PolicyViolation
          (''lineage ancestor '' @ ancestor_id @ '' is not active (PIP-001 '' @ section_sign
           @ ''7: delegator absence)'')))
       lineage ()"

section \<open>Facts\<close>

lemma check_lineage_active_iff:
  "check_lineage_active lineage s = Inr () \<longleftrightarrow> (\<forall>a \<in> set lineage. actor_is_active a s)"
  unfolding check_lineage_active_def by (rule try_fold_check)

lemma validate_lifecycle_iff:
  "validate_lifecycle_authorization i t op = Inr () \<longleftrightarrow>
     ar_actor_type i = Human \<and> ar_actor_type t = Agent \<and> ar_actor_id i \<in> set (ar_lineage t)"
  by (cases "ar_actor_type i"; cases "ar_actor_type t")
    (auto simp: validate_lifecycle_authorization_def)

text \<open>The status column of an actor, and what a run of status changes does to it.\<close>

definition status_of :: "db \<Rightarrow> string \<Rightarrow> string option" where
  "status_of s k = map_option a_status (actor_row_get k s)"

lemma status_of_set:
  assumes "actor_set_status_in_tx now a st s = Inr (u, t)"
  shows "status_of t k = (if k = a then Some (actor_status_str st) else status_of s k)"
proof -
  have "actor_row_get a s \<noteq> None"
    using assms by (auto simp: actor_set_status_in_tx_def actor_update_Inr)
  with actor_set_status_get [OF assms, of k] show ?thesis
    by (auto simp: status_of_def with_status_def)
qed

lemma freeze_each_ids: "freeze_each ck i ds s = Inr (ids, t) \<Longrightarrow> ids = map ar_actor_id ds"
  by (induction ck i ds arbitrary: s ids rule: freeze_each.induct) auto

lemma freeze_each_status:
  assumes "freeze_each ck i ds s = Inr (ids, t)"
  shows "status_of t k = (if k \<in> set ids then Some ''frozen'' else status_of s k)"
  using assms
  by (induction ck i ds arbitrary: s ids rule: freeze_each.induct)
    (auto simp: status_of_set)

lemma execute_freeze_Inr:
  assumes "execute_freeze x ck a s = (Inr ids, t)"
  obtains ds s1 where "list_descendants x a s = Inr ds"
    "actor_set_status_in_tx (ck 0) a Frozen s = Inr ((), s1)"
    "freeze_each ck 1 ds s1 = Inr (map ar_actor_id ds, t)" "ids = a # map ar_actor_id ds"
  using assms
  by (auto simp: execute_freeze_def run_tx_def tx_bind_def and_then_def tx_return_def
      split: sum.splits prod.splits dest: freeze_each_ids)

lemma list_descendants_ids:
  assumes "list_descendants x a s = Inr ds"
  shows "map ar_actor_id ds = map a_actor_id (descendant_rows x a s)"
proof -
  have "list_all2 (\<lambda>r d. row_to_actor_record x r = Inr d) (descendant_rows x a s) ds"
    using assms by (simp add: list_descendants_def try_map_Inr_iff)
  then have "list_all2 (\<lambda>r d. a_actor_id r = ar_actor_id d) (descendant_rows x a s) ds"
    by (rule list_all2_mono) (auto simp: row_to_actor_record_def)
  then show ?thesis by (induction rule: list_all2_induct) auto
qed

lemma execute_freeze_status:
  assumes "execute_freeze x ck a s = (Inr ids, t)"
  shows "ids = a # map a_actor_id (descendant_rows x a s)"
    and "status_of t k = (if k \<in> set ids then Some ''frozen'' else status_of s k)"
proof -
  obtain ds s1 where ds: "list_descendants x a s = Inr ds"
    and s1: "actor_set_status_in_tx (ck 0) a Frozen s = Inr ((), s1)"
    and t: "freeze_each ck 1 ds s1 = Inr (map ar_actor_id ds, t)"
    and ids: "ids = a # map ar_actor_id ds"
    using assms by (rule execute_freeze_Inr)
  show "ids = a # map a_actor_id (descendant_rows x a s)"
    using ids list_descendants_ids [OF ds] by simp
  show "status_of t k = (if k \<in> set ids then Some ''frozen'' else status_of s k)"
    using freeze_each_status [OF t, of k] status_of_set [OF s1, of k] ids by auto
qed

lemma actor_is_active_status: "actor_is_active a s \<longleftrightarrow> status_of s a = Some ''active''"
  by (auto simp: actor_is_active_def status_of_def split: option.splits)

end
