(* ===== verification/Energy_Producer.thy ===== *)
theory Energy_Producer
  imports Lifecycle
begin

text \<open>
  \<open>runtime/energy_producer.rs\<close>: one production tick. The shares are binary64 numbers and the
  credits the floors of binary64 products; the remainder is spread one unit at a time. The
  background loop that calls the tick on a timer is not modelled. The integer sums are exact:
  \<open>allocated_le\<close> bounds them by the energy of the tick.
\<close>

record tick_result =
  tr_total_energy_produced :: i64
  tr_actors_credited :: nat
  tr_total_shares :: f64

definition total_shares :: "(string \<times> f64) list \<Rightarrow> f64" where
  "total_shares agents = foldl (\<lambda>acc (_, share). f64_add acc share) (Fin 0) agents"

definition share_credit :: "i64 \<Rightarrow> f64 \<Rightarrow> f64 \<Rightarrow> i64" where
  "share_credit energy_per_tick tot_sh share =
     (let proportion = f64_div share tot_sh
      in f64_floor_i64 (f64_mul (f64_of_int energy_per_tick) proportion))"

definition allocate :: "i64 \<Rightarrow> f64 \<Rightarrow> (string \<times> f64) list \<Rightarrow> (string \<times> i64) list" where
  "allocate energy_per_tick tot_sh agents =
     map (\<lambda>(actor_id, share). (actor_id, share_credit energy_per_tick tot_sh share)) agents"

text \<open>The \<open>while\<close> loop over the remainder; its counter is the first argument.\<close>

fun spread :: "nat \<Rightarrow> nat \<Rightarrow> (string \<times> i64) list \<Rightarrow> (string \<times> i64) list" where
  "spread 0 idx allocations = allocations"
| "spread (Suc remainder) idx allocations =
     (if allocations = [] then allocations
      else spread remainder ((idx + 1) mod length allocations)
             (allocations[idx := (fst (allocations ! idx), snd (allocations ! idx) + 1)]))"

fun credit_each ::
  "(nat \<Rightarrow> string) \<Rightarrow> nat \<Rightarrow> (string \<times> i64) list \<Rightarrow> nat \<Rightarrow> i64 \<Rightarrow> db \<Rightarrow>
   string + (nat \<times> i64 \<times> db)" where
  "credit_each ck i [] credited tot s = Inr (credited, tot, s)"
| "credit_each ck i ((actor_id, credit) # allocations) credited tot s =
     (if credit \<le> 0 then credit_each ck i allocations credited tot s
      else (case credit_energy_in_tx (ck i) actor_id credit s of
              Inl e \<Rightarrow> Inl (''failed to credit '' @ actor_id @ '': '' @ error_to_string e)
            | Inr (_, t) \<Rightarrow>
                credit_each ck (Suc i) allocations (credited + 1) (tot + credit) t))"

definition produce_tick ::
  "(nat \<Rightarrow> string) \<Rightarrow> i64 \<Rightarrow> db \<Rightarrow> (string + tick_result) \<times> db" where
  "produce_tick ck energy_per_tick s =
     (let agents = list_active_with_shares s;
          none = \<lparr>tr_total_energy_produced = 0, tr_actors_credited = 0, tr_total_shares = Fin 0\<rparr>
      in if agents = [] then (Inr none, s)
         else let tot_sh = total_shares agents
              in if f64_le tot_sh (Fin 0) then (Inr none, s)
                 else let allocations = allocate energy_per_tick tot_sh agents;
                          allocated_total = sum_list (map snd allocations);
                          remainder = energy_per_tick - allocated_total;
                          final = spread (nat remainder) 0 allocations
                      in case credit_each ck 0 final 0 0 s of
                           Inl e \<Rightarrow> (Inl e, s)
                         | Inr (credited, total_credited, t) \<Rightarrow>
                             (Inr \<lparr>tr_total_energy_produced = total_credited,
                                   tr_actors_credited = credited,
                                   tr_total_shares = tot_sh\<rparr>, t))"

section \<open>Spreading the remainder\<close>

lemma sum_list_incr:
  fixes xs :: "int list"
  assumes "i < length xs"
  shows "sum_list (xs[i := xs ! i + 1]) = sum_list xs + 1"
  using assms
proof (induction xs arbitrary: i)
  case (Cons x xs)
  then show ?case by (cases i) auto
qed simp

lemma sum_list_snd_update:
  fixes xs :: "('a \<times> int) list"
  assumes "i < length xs"
  shows "sum_list (map snd (xs[i := (a, snd (xs ! i) + 1)])) = sum_list (map snd xs) + 1"
  using sum_list_incr [of i "map snd xs"] assms by (simp add: map_update)

lemma spread_sum:
  assumes "xs \<noteq> []" "idx < length xs"
  shows "sum_list (map snd (spread r idx xs)) = sum_list (map snd xs) + int r"
  using assms
proof (induction r idx xs rule: spread.induct)
  case (2 r idx xs)
  have "sum_list (map snd (xs[idx := (fst (xs ! idx), snd (xs ! idx) + 1)]))
      = sum_list (map snd xs) + 1"
    by (rule sum_list_snd_update) (fact "2.prems")
  with "2.IH" "2.prems" show ?case by simp
qed simp

lemma spread_map_fst: "idx < length xs \<Longrightarrow> map fst (spread r idx xs) = map fst xs"
proof (induction r idx xs rule: spread.induct)
  case (2 r idx xs)
  have "(map fst xs)[idx := fst (xs ! idx)] = map fst xs"
    using "2.prems" by (metis list_update_id nth_map)
  with 2 show ?case by (simp add: map_update)
qed simp

lemma spread_nonneg:
  assumes "idx < length xs" "\<And>p. p \<in> set xs \<Longrightarrow> 0 \<le> snd p" "p \<in> set (spread r idx xs)"
  shows "0 \<le> snd p"
  using assms
proof (induction r idx xs rule: spread.induct)
  case (2 r idx xs)
  have "0 \<le> snd q" if "q \<in> set (xs[idx := (fst (xs ! idx), snd (xs ! idx) + 1)])" for q
  proof -
    let ?e = "(fst (xs ! idx), snd (xs ! idx) + 1)"
    have "q \<in> insert ?e (set xs)" using that set_update_subset_insert by fast
    moreover have "0 \<le> snd (xs ! idx)" using "2.prems"(1,2) nth_mem by blast
    ultimately show ?thesis using "2.prems"(2) [of q] by (cases q) auto
  qed
  with 2 show ?case by (auto split: if_splits)
qed auto

section \<open>Crediting\<close>

definition total_energy :: "db \<Rightarrow> int" where
  "total_energy s = sum_list (map lr_balance (energy_ledger s))"

lemma sum_tbl_update:
  fixes g :: "'r \<Rightarrow> int"
  assumes "keys_distinct key rows" "tbl_get key k rows = Some r"
  shows "sum_list (map g (tbl_update (\<lambda>r. key r = k) f rows)) = sum_list (map g rows) + (g (f r) - g r)"
  using assms
proof (induction rows)
  case (Cons q rows)
  show ?case
  proof (cases "key q = k")
    case True
    then have "k \<notin> key ` set rows" using Cons.prems(1) by (auto simp: keys_distinct_def)
    then have "tbl_update (\<lambda>r. key r = k) f rows = rows"
      unfolding tbl_update_def by (intro map_idI) auto
    moreover have "r = q" using True Cons.prems(2) by (simp add: table_simps)
    moreover have "tbl_update (\<lambda>r. key r = k) f (q # rows)
        = f q # tbl_update (\<lambda>r. key r = k) f rows" using True by (simp add: tbl_update_def)
    ultimately show ?thesis by simp
  next
    case False
    with Cons show ?thesis by (simp add: keys_distinct_def table_simps tbl_update_def)
  qed
qed (simp add: table_simps)

lemma credit_total:
  assumes "ledger_ok s" "credit_energy_in_tx now a c s = Inr (u, t)"
  shows "total_energy t = total_energy s + c"
proof -
  obtain r where "ledger_get a s = Some r" and t: "t = ledger_update a (add_balance c now) s"
    using assms(2) by (auto simp: credit_energy_in_tx_def rows_affected_ledger split: if_splits)
  then show ?thesis
    using assms(1) sum_tbl_update [of lr_actor_id "energy_ledger s" a r lr_balance "add_balance c now"]
    by (simp add: total_energy_def ledger_update_def ledger_ok_def ledger_get_def add_balance_def)
qed

lemma credit_each_ok:
  assumes "credit_each ck i as n tot s = Inr (n', tot', t)" "ledger_ok s"
    and "\<And>p. p \<in> set as \<Longrightarrow> 0 \<le> snd p"
  shows "ledger_ok t \<and> total_energy t = total_energy s + sum_list (map snd as)
    \<and> tot' = tot + sum_list (map snd as)"
  using assms
proof (induction ck i as n tot s rule: credit_each.induct)
  case (2 ck i a c as n tot s)
  show ?case
  proof (cases "c \<le> 0")
    case True
    with 2 have "c = 0" by force
    with 2 show ?thesis by auto
  next
    case False
    then obtain u where u: "credit_energy_in_tx (ck i) a c s = Inr ((), u)"
      using "2.prems"(1) by (auto split: sum.splits)
    have run: "credit_each ck (Suc i) as (n + 1) (tot + c) u = Inr (n', tot', t)"
      using "2.prems"(1) False u by simp
    have "ledger_ok t \<and> total_energy t = total_energy u + sum_list (map snd as)
        \<and> tot' = tot + c + sum_list (map snd as)"
      using False u run "2.prems" tx_keepsD [OF credit_keeps "2.prems"(2) u]
      by (intro "2.IH"(2)) auto
    with credit_total [OF "2.prems"(2) u] show ?thesis by simp
  qed
qed auto

text \<open>Crediting succeeds when every actor with a positive credit has an account.\<close>

lemma credit_each_succeeds:
  assumes "\<And>a c. (a, c) \<in> set as \<Longrightarrow> ledger_get a s \<noteq> None"
  shows "\<exists>n' tot' t. credit_each ck i as n tot s = Inr (n', tot', t)"
  using assms
proof (induction ck i as n tot s rule: credit_each.induct)
  case (2 ck i a c as n tot s)
  show ?case
  proof (cases "c \<le> 0")
    case False
    have row: "ledger_get a s \<noteq> None" using "2.prems" by auto
    define t where "t = ledger_update a (add_balance c (ck i)) s"
    have run: "credit_energy_in_tx (ck i) a c s = Inr ((), t)"
      using row False by (simp add: credit_energy_in_tx_def rows_affected_ledger t_def)
    have "ledger_get b t \<noteq> None" if "(b, d) \<in> set as" for b d
      using "2.prems" [of b d] that
      by (auto simp: t_def ledger_get_def ledger_update_def balance_upd.get_update)
    with "2.IH"(2) [OF False run refl] False run show ?thesis by auto
  next
    case True
    with "2.IH"(1) "2.prems" show ?thesis by (metis credit_each.simps(2) list.set_intros(2))
  qed
qed auto

section \<open>The floors never exceed the energy of the tick\<close>

text \<open>
  Shares between \<open>2 ^ -400\<close> and \<open>2 ^ 400\<close>, at most \<open>2 ^ 20\<close> agents and at most \<open>2 ^ 31\<close> units
  per tick: the sum of the shares is too small by a factor of at most \<open>(1 - 2 ^ -53) ^ n\<close>,
  each product too large by a factor of at most \<open>(1 + 2 ^ -53) ^ 2\<close>, so the floors sum to
  less than the energy plus one.
\<close>

definition share_ok :: "f64 \<Rightarrow> bool" where
  "share_ok f \<longleftrightarrow> (case f of Fin x \<Rightarrow> 1 / 2 ^ 400 \<le> x \<and> x \<le> 2 ^ 400 | _ \<Rightarrow> False)"

definition share_val :: "f64 \<Rightarrow> rat" where
  "share_val f = (case f of Fin x \<Rightarrow> x | _ \<Rightarrow> 0)"

lemma share_val_Fin [simp]: "share_val (Fin x) = x"
  by (simp add: share_val_def)

definition shares_ok :: "(string \<times> f64) list \<Rightarrow> bool" where
  "shares_ok ags \<longleftrightarrow> length ags \<le> 2 ^ 20 \<and> list_all (\<lambda>p. share_ok (snd p)) ags"

abbreviation u53 :: rat where "u53 \<equiv> unit_roundoff"

lemma u53_bounds: "0 < u53" "u53 < 1"
  by (simp_all add: unit_roundoff_def)

lemma bernoulli_rat: "0 \<le> y \<Longrightarrow> y \<le> 1 \<Longrightarrow> 1 - of_nat n * y \<le> (1 - y) ^ n" for y :: rat
proof (induction n)
  case (Suc n)
  have "1 - of_nat (Suc n) * y \<le> (1 - of_nat n * y) * (1 - y)"
    using Suc.prems by (simp add: algebra_simps)
  also have "\<dots> \<le> (1 - y) ^ n * (1 - y)" using Suc by (intro mult_right_mono) auto
  finally show ?case by (simp add: mult.commute)
qed simp

text \<open>Rounding far from the ends of the range.\<close>

lemma round_mid:
  assumes "1 / 2 ^ 900 \<le> y" "y \<le> 2 ^ 900"
  obtains r where "f64_round y = Fin r" "y * (1 - u53) \<le> r" "r \<le> y * (1 + u53)"
    "y / 2 \<le> r" "r \<le> 2 * y" "1 / 2 ^ 901 \<le> r"
proof -
  have "(2 powi (- 1022) :: rat) \<le> 1 / 2 ^ 900" "(2 ^ 900 :: rat) < 2 powi 1023"
    by (simp_all add: power_int_minus)
  with assms have "2 powi (- 1022) \<le> y" "y < 2 powi 1023" by linarith+
  then obtain r where r: "f64_round y = Fin r" "y * (1 - u53) \<le> r" "r \<le> y * (1 + u53)"
    using f64_round_rel by metis
  have y0: "0 < y" by (rule less_le_trans [OF _ assms(1)]) simp
  have "y * (1 / 2) \<le> y * (1 - u53)" "y * (1 + u53) \<le> y * 2"
    using y0 by (auto intro!: mult_left_mono simp: unit_roundoff_def)
  then have h: "y / 2 \<le> r" "r \<le> 2 * y" using r by linarith+
  then have "1 / 2 ^ 901 \<le> r" using assms by simp
  with r h show thesis by (rule that)
qed

lemma total_shares_snoc:
  "total_shares (ags @ [(a, f)]) = f64_add (total_shares ags) f"
  by (simp add: total_shares_def)

lemma share_okE:
  assumes "share_ok f"
  obtains x where "f = Fin x" "1 / 2 ^ 400 \<le> x" "x \<le> 2 ^ 400" "0 < x"
proof (cases f)
  case (Fin x)
  have "0 < (1 / 2 ^ 400 :: rat)" by simp
  with Fin assms that [of x] show thesis unfolding share_ok_def by (auto simp del: zero_less_divide_1_iff)
qed (use assms in \<open>auto simp: share_ok_def\<close>)

lemma total_shares_bounds:
  assumes "shares_ok ags"
  shows "\<exists>T. total_shares ags = Fin T
    \<and> sum_list (map (share_val \<circ> snd) ags) * (1 - u53) ^ length ags \<le> T
    \<and> T \<le> of_nat (length ags) * 2 ^ 401"
  using assms
proof (induction ags rule: rev_induct)
  case (snoc p ags)
  obtain a f where p: "p = (a, f)" by (cases p)
  obtain x where f: "f = Fin x" and x: "1 / 2 ^ 400 \<le> x" "x \<le> 2 ^ 400" "0 < x"
    using snoc.prems p by (auto simp: shares_ok_def elim: share_okE)
  let ?n = "length ags" and ?S = "sum_list (map (share_val \<circ> snd) ags)"
  have n: "of_nat (Suc ?n) \<le> (2 ^ 20 :: rat)"
    using snoc.prems by (simp add: shares_ok_def flip: of_nat_Suc)
  have "shares_ok ags" using snoc.prems by (simp add: shares_ok_def)
  then obtain T where T: "total_shares ags = Fin T" "?S * (1 - u53) ^ ?n \<le> T"
      "T \<le> of_nat ?n * 2 ^ 401"
    using snoc.IH by blast
  have "0 \<le> ?S" using snoc.prems
    by (intro sum_list_nonneg) (auto simp: shares_ok_def share_val_def list_all_iff elim!: share_okE)
  then have T0: "0 \<le> T" using T(2) u53_bounds
    by (meson diff_ge_0_iff_ge less_imp_le mult_nonneg_nonneg order_trans zero_le_power)
  have up: "T + x \<le> of_nat ?n * 2 ^ 401 + 2 ^ 400" using T(3) x(2) by linarith
  also have "\<dots> \<le> 2 ^ 20 * 2 ^ 401" using n by (simp add: algebra_simps)
  also have "\<dots> \<le> 2 ^ 900" by simp
  finally have hi: "T + x \<le> 2 ^ 900" .
  have "(1 / 2 ^ 900 :: rat) \<le> 1 / 2 ^ 400" by simp
  with x(1) T0 have lo: "1 / 2 ^ 900 \<le> T + x" by linarith
  obtain r where r: "f64_round (T + x) = Fin r" "(T + x) * (1 - u53) \<le> r"
    "r \<le> (T + x) * (1 + u53)"
    using round_mid [OF lo hi] by blast
  have "(?S + x) * (1 - u53) ^ Suc ?n = (?S * (1 - u53) ^ ?n + x * (1 - u53) ^ ?n) * (1 - u53)"
    by (simp add: algebra_simps)
  also have "\<dots> \<le> (T + x) * (1 - u53)"
  proof (intro mult_right_mono add_mono T(2))
    have "(1 - u53) ^ ?n \<le> 1" using u53_bounds by (intro power_le_one) auto
    then show "x * (1 - u53) ^ ?n \<le> x" using x(3) by (simp add: mult_left_le)
  qed (use u53_bounds in auto)
  finally have low: "(?S + x) * (1 - u53) ^ Suc ?n \<le> r" using r(2) by linarith
  have "r \<le> (of_nat ?n * 2 ^ 401 + 2 ^ 400) * (1 + u53)"
    using r(3) up u53_bounds by (meson add_pos_pos less_imp_le mult_right_mono order_trans zero_less_one)
  also have "\<dots> \<le> of_nat (Suc ?n) * 2 ^ 401" using n by (simp add: unit_roundoff_def algebra_simps)
  finally have "r \<le> of_nat (Suc ?n) * 2 ^ 401" .
  with low r(1) T(1) p f show ?case
    by (simp add: total_shares_snoc add.commute comp_def)
qed (simp add: total_shares_def)

lemma energy_rat: "1 \<le> E \<Longrightarrow> (1::rat) \<le> of_int E" "E \<le> 2 ^ 31 \<Longrightarrow> of_int E \<le> (2 ^ 31 :: rat)"
  using of_int_le_iff [of 1 E, where ?'a = rat] of_int_le_iff [of E "2 ^ 31", where ?'a = rat]
  by simp_all

lemma share_ratio_bounds:
  assumes x: "1 / 2 ^ 400 \<le> x" "x \<le> 2 ^ 400" and T: "1 / 2 ^ 401 \<le> T" "T \<le> (2 ^ 421 :: rat)"
  shows "1 / 2 ^ 821 \<le> x / T" and "x / T \<le> 2 ^ 801" and "0 < T"
proof -
  show T0: "0 < T" by (rule less_le_trans [OF _ T(1)]) simp
  have "(1 / 2 ^ 821 :: rat) * T \<le> 1 / 2 ^ 821 * 2 ^ 421" using T(2) by (intro mult_left_mono) auto
  also have "\<dots> = 1 / 2 ^ 400" by simp
  finally show "1 / 2 ^ 821 \<le> x / T" using x(1) T0 by (simp add: pos_le_divide_eq)
  have "x \<le> 2 ^ 801 * (1 / 2 ^ 401)" using x(2) by simp
  also have "\<dots> \<le> 2 ^ 801 * T" using T(1) by (intro mult_left_mono) auto
  finally show "x / T \<le> 2 ^ 801" using T0 by (simp add: pos_divide_le_eq)
qed

lemma share_credit_bounds:
  assumes "share_ok f" and T: "1 / 2 ^ 401 \<le> T" "T \<le> 2 ^ 421" and E: "1 \<le> E" "E \<le> 2 ^ 31"
  shows "0 \<le> share_credit E (Fin T) f"
    and "of_int (share_credit E (Fin T) f) \<le> of_int E * (share_val f / T) * (1 + u53) ^ 2"
proof -
  obtain x where f: "f = Fin x" and x: "1 / 2 ^ 400 \<le> x" "x \<le> 2 ^ 400" "0 < x"
    using assms(1) by (rule share_okE)
  let ?y = "x / T"
  note ylo = share_ratio_bounds(1) [OF x(1,2) T] and yhi = share_ratio_bounds(2) [OF x(1,2) T]
    and T0 = share_ratio_bounds(3) [OF x(1,2) T]
  have "(1 / 2 ^ 900 :: rat) \<le> 1 / 2 ^ 821" "(2 ^ 801 :: rat) \<le> 2 ^ 900" by simp_all
  with ylo yhi have ymid: "1 / 2 ^ 900 \<le> ?y" "?y \<le> 2 ^ 900" by linarith+
  obtain r where r: "f64_round ?y = Fin r" "?y * (1 - u53) \<le> r" "r \<le> ?y * (1 + u53)"
    and rb: "?y / 2 \<le> r" "r \<le> 2 * ?y"
    using round_mid [OF ymid] by blast
  have Er: "(1::rat) \<le> of_int E" "of_int E \<le> (2 ^ 31 :: rat)"
    using energy_rat(1) [OF E(1)] energy_rat(2) [OF E(2)] .
  have "(1 / 2 ^ 821) / 2 \<le> r" by (rule order_trans [OF divide_right_mono rb(1)]) (use ylo in simp_all)
  then have rlo: "1 / 2 ^ 822 \<le> r" by simp
  have "1 * (1 / 2 ^ 822) \<le> of_int E * r" using Er(1) rlo by (intro mult_mono) auto
  moreover have "of_int E * r \<le> 2 ^ 31 * 2 ^ 802"
  proof (rule mult_mono)
    have "r \<le> 2 * 2 ^ 801" by (rule order_trans [OF rb(2) mult_left_mono]) (use yhi in simp_all)
    then show "r \<le> 2 ^ 802" by simp
    show "0 \<le> r" by (rule order_trans [OF _ rlo]) simp
  qed (use Er in auto)
  moreover have "(1 / 2 ^ 900 :: rat) \<le> 1 * (1 / 2 ^ 822)" "2 ^ 31 * 2 ^ 802 \<le> (2 ^ 900 :: rat)"
    by simp_all
  ultimately have pmid: "1 / 2 ^ 900 \<le> of_int E * r" "of_int E * r \<le> 2 ^ 900" by linarith+
  obtain q where q: "f64_round (of_int E * r) = Fin q" "q \<le> of_int E * r * (1 + u53)"
    "1 / 2 ^ 901 \<le> q"
    using round_mid [OF pmid] by blast
  have q0: "0 \<le> q" by (rule order_trans [OF _ q(3)]) simp
  have val: "share_credit E (Fin T) f = sat_i64 \<lfloor>q\<rfloor>"
    using f T0 r(1) q(1) E f64_of_int_exact [of E] by (simp add: share_credit_def f64_to_i64_by_def)
  show "0 \<le> share_credit E (Fin T) f" using q0 by (simp add: val sat_i64_def)
  have "sat_i64 \<lfloor>q\<rfloor> \<le> \<lfloor>q\<rfloor>" using q0 by (simp add: sat_i64_def)
  then have "of_int (sat_i64 \<lfloor>q\<rfloor>) \<le> q" by (metis le_floor_iff)
  also have "q \<le> of_int E * r * (1 + u53)" by (rule q(2))
  also have "\<dots> \<le> of_int E * (?y * (1 + u53)) * (1 + u53)"
    using Er(1) r(3) u53_bounds by (intro mult_right_mono mult_left_mono) auto
  finally show "of_int (share_credit E (Fin T) f) \<le> of_int E * (share_val f / T) * (1 + u53) ^ 2"
    unfolding val by (simp add: f power2_eq_square mult.assoc)
qed

lemma total_share_sum:
  assumes "shares_ok ags" "ags \<noteq> []"
  obtains T where "total_shares ags = Fin T" "1 / 2 ^ 401 \<le> T" "T \<le> 2 ^ 421"
    "sum_list (map (share_val \<circ> snd) ags) / T \<le> 1 / (1 - 1 / 2 ^ 33)"
proof -
  let ?S = "sum_list (map (share_val \<circ> snd) ags)" and ?n = "length ags"
  obtain T where T: "total_shares ags = Fin T" "?S * (1 - u53) ^ ?n \<le> T"
      "T \<le> of_nat ?n * 2 ^ 401"
    using total_shares_bounds [OF assms(1)] by blast
  have n: "of_nat ?n \<le> (2 ^ 20 :: rat)"
    using assms(1) by (simp add: shares_ok_def)
  have "1 - 1 / 2 ^ 33 \<le> 1 - of_nat ?n * u53" using n by (simp add: unit_roundoff_def)
  also have "\<dots> \<le> (1 - u53) ^ ?n" using u53_bounds by (intro bernoulli_rat) auto
  finally have pw: "1 - 1 / 2 ^ 33 \<le> (1 - u53) ^ ?n" .
  have S: "1 / 2 ^ 400 \<le> ?S"
  proof (cases ags)
    case (Cons p ps)
    have "0 \<le> sum_list (map (share_val \<circ> snd) ps)" using assms(1) Cons
      by (intro sum_list_nonneg) (auto simp: shares_ok_def list_all_iff elim!: share_okE)
    moreover have "1 / 2 ^ 400 \<le> share_val (snd p)"
      using assms(1) Cons by (auto simp: shares_ok_def elim!: share_okE)
    ultimately show ?thesis using Cons by simp
  qed (use assms in simp)
  have S0: "0 < ?S" by (rule less_le_trans [OF _ S]) simp
  have key: "?S * (1 - 1 / 2 ^ 33) \<le> T"
    using T(2) mult_left_mono [OF pw less_imp_le [OF S0]] by linarith
  have "1 / 2 ^ 401 \<le> (1 / 2 ^ 400) * (1 - 1 / 2 ^ 33 :: rat)" by simp
  also have "\<dots> \<le> ?S * (1 - 1 / 2 ^ 33)" using S by (intro mult_right_mono) auto
  finally have lo: "1 / 2 ^ 401 \<le> T" using key by linarith
  have "of_nat ?n * 2 ^ 401 \<le> (2 ^ 20 * 2 ^ 401 :: rat)" using n by (intro mult_right_mono) auto
  then have hi: "T \<le> 2 ^ 421" using T(3) by (simp add: order_trans)
  have T0: "0 < T" by (rule less_le_trans [OF _ lo]) simp
  have "?S / T \<le> 1 / (1 - 1 / 2 ^ 33)"
    using key T0 by (simp add: field_simps)
  with T(1) lo hi show thesis by (rule that)
qed

lemma credits_sum_bound:
  assumes "\<And>q. q \<in> set qs \<Longrightarrow> share_ok (snd q)" and "1 / 2 ^ 401 \<le> T" "T \<le> 2 ^ 421" "1 \<le> E" "E \<le> 2 ^ 31"
  shows "of_int (sum_list (map (\<lambda>q. share_credit E (Fin T) (snd q)) qs)) \<le>
    of_int E * (sum_list (map (share_val \<circ> snd) qs) / T) * (1 + u53) ^ 2"
  using assms(1)
proof (induction qs)
  case (Cons q qs)
  have "of_int (share_credit E (Fin T) (snd q)) \<le> of_int E * (share_val (snd q) / T) * (1 + u53) ^ 2"
    using share_credit_bounds(2) [OF _ assms(2-5)] Cons.prems by simp
  with Cons show ?case by (simp add: add_divide_distrib distrib_left distrib_right)
qed simp

text \<open>All roundings of a tick together amount to less than one unit.\<close>

lemma rounding_slack:
  assumes "E \<le> 2 ^ 31"
  shows "of_int E * (1 / (1 - 1 / 2 ^ 33)) * (1 + u53) ^ 2 < (of_int (E + 1) :: rat)"
proof -
  have "of_int E \<le> (2 ^ 31 :: rat)" using assms by (rule energy_rat(2))
  then have "of_int E * (1 / (1 - 1 / 2 ^ 33) * (1 + u53) ^ 2 - 1)
      \<le> 2 ^ 31 * (1 / (1 - 1 / 2 ^ 33) * (1 + u53) ^ 2 - 1)"
    by (rule mult_right_mono) (simp add: unit_roundoff_def power2_eq_square)
  also have "\<dots> < 1" by (simp add: unit_roundoff_def power2_eq_square)
  finally show ?thesis by (simp add: right_diff_distrib mult.assoc)
qed

lemma allocated_le:
  assumes "shares_ok ags" "ags \<noteq> []" "1 \<le> E" "E \<le> 2 ^ 31"
  shows "sum_list (map snd (allocate E (total_shares ags) ags)) \<le> E"
    and "p \<in> set (allocate E (total_shares ags) ags) \<Longrightarrow> 0 \<le> snd p"
    and "\<not> f64_le (total_shares ags) (Fin 0)"
proof -
  obtain T where T: "total_shares ags = Fin T" "1 / 2 ^ 401 \<le> T" "T \<le> 2 ^ 421"
    and ST: "sum_list (map (share_val \<circ> snd) ags) / T \<le> 1 / (1 - 1 / 2 ^ 33)"
    using total_share_sum [OF assms(1,2)] by metis
  have T0: "0 < T" by (rule less_le_trans [OF _ T(2)]) simp
  then show "\<not> f64_le (total_shares ags) (Fin 0)" by (simp add: T(1) f64_le_def)
  have ok: "share_ok (snd q)" if "q \<in> set ags" for q
    using assms(1) that by (auto simp: shares_ok_def list_all_iff)
  show "0 \<le> snd p" if "p \<in> set (allocate E (total_shares ags) ags)"
    using that ok share_credit_bounds(1) [OF _ T(2,3) assms(3,4)]
    by (auto simp: allocate_def T(1))
  let ?c = "\<lambda>q. share_credit E (Fin T) (snd q)"
  have sum: "sum_list (map snd (allocate E (total_shares ags) ags)) = sum_list (map ?c ags)"
    by (simp add: allocate_def T(1) comp_def case_prod_beta)
  have "of_int (sum_list (map ?c ags)) \<le>
      of_int E * (sum_list (map (share_val \<circ> snd) ags) / T) * (1 + u53) ^ 2"
    using credits_sum_bound [OF ok T(2,3) assms(3,4)] .
  also have "\<dots> \<le> of_int E * (1 / (1 - 1 / 2 ^ 33)) * (1 + u53) ^ 2"
    using ST assms(3) by (intro mult_right_mono mult_left_mono) auto
  also have "\<dots> < of_int (E + 1)" using assms(4) by (rule rounding_slack)
  finally have "sum_list (map ?c ags) < E + 1" by (simp only: of_int_less_iff)
  then show "sum_list (map snd (allocate E (total_shares ags) ags)) \<le> E" using sum by simp
qed

section \<open>A tick distributes its energy exactly\<close>

lemma produce_tick_distributes:
  assumes ok: "ledger_ok s" and ne: "list_active_with_shares s \<noteq> []"
    and shares: "shares_ok (list_active_with_shares s)" and E: "1 \<le> E" "E \<le> 2 ^ 31"
    and accts: "\<And>a f. (a, f) \<in> set (list_active_with_shares s) \<Longrightarrow> ledger_get a s \<noteq> None"
  shows "\<exists>r t. produce_tick ck E s = (Inr r, t) \<and> tr_total_energy_produced r = E
    \<and> total_energy t = total_energy s + E \<and> ledger_ok t"
proof -
  let ?ags = "list_active_with_shares s"
  let ?al = "allocate E (total_shares ?ags) ?ags"
  let ?fin = "spread (nat (E - sum_list (map snd ?al))) 0 ?al"
  note al = allocated_le [OF shares ne E]
  have len: "0 < length ?al" "?al \<noteq> []" using ne by (simp_all add: allocate_def)
  have sum: "sum_list (map snd ?fin) = E" using spread_sum [OF len(2,1)] al(1) by simp
  have nonneg: "0 \<le> snd p" if "p \<in> set ?fin" for p using spread_nonneg [OF len(1) al(2)] that by blast
  have "map fst ?fin = map fst ?ags"
    using spread_map_fst [OF len(1)] by (simp add: allocate_def comp_def case_prod_beta)
  then have "ledger_get a s \<noteq> None" if "(a, c) \<in> set ?fin" for a c
    using accts that by (metis (no_types, lifting) fst_conv image_iff image_set surj_pair)
  then obtain n tot t where run: "credit_each ck 0 ?fin 0 0 s = Inr (n, tot, t)"
    using credit_each_succeeds by blast
  with credit_each_ok [OF run ok nonneg] sum ne al(3) show ?thesis
    by (simp add: produce_tick_def Let_def)
qed

end
