(* ===== verification/State_Store.thy ===== *)
theory State_Store
  imports Audit_Log Energy_Producer
begin

text \<open>
  \<open>state/store.rs\<close>: seeding of a new database, the startup integrity checks and the
  system_meta table. The gaps that the audit coverage check finds are returned, since the
  source only logs them.
\<close>

definition seed_meta :: "db \<Rightarrow> db" where
  "seed_meta s =
     (if ''schema_version'' \<in> fst ` set (system_meta s) then s
      else s\<lparr>system_meta := system_meta s @ [(''schema_version'', ''v1'')]\<rparr>)"

definition seed_ledger :: "string \<Rightarrow> db \<Rightarrow> db" where
  "seed_ledger now s =
     (if ledger_get ''root'' s \<noteq> None then s
      else s\<lparr>energy_ledger := energy_ledger s @
        [\<lparr>lr_actor_id = ''root'', lr_balance = 1000000, lr_reserved = 0, lr_updated_at = now\<rparr>]\<rparr>)"

definition root_targets_text :: string where
  "root_targets_text =
     ''[{'' @ debug_str ''target'' @ '':'' @ debug_str ''**'' @ '','' @ debug_str ''actions'' @ '':['' @
     debug_str ''create'' @ '','' @ debug_str ''mutate'' @ '','' @ debug_str ''execute'' @ '']}]''"

definition seed_actor :: "string \<Rightarrow> db \<Rightarrow> db" where
  "seed_actor now s =
     (if actor_row_get ''root'' s \<noteq> None then s
      else s\<lparr>actors := actors s @
        [\<lparr>a_actor_id = ''root'', a_actor_type = ''human'', a_creator_id = None,
          a_lineage = ''[]'', a_purpose = None, a_status = ''active'',
          a_writable_targets = root_targets_text, a_energy_share = Fin 0,
          a_reduction_policy = ''none'', a_created_at = now, a_updated_at = now\<rparr>]\<rparr>)"

definition seed_defaults :: "string \<Rightarrow> db \<Rightarrow> db" where
  "seed_defaults now s = seed_actor now (seed_ledger now (seed_meta s))"

section \<open>Startup integrity checks\<close>

definition known_action_types :: "string list" where
  "known_action_types =
     [''observe'', ''create'', ''mutate'', ''execute'', ''circuit_breaker'',
      ''hold_request'', ''hold_response'', ''hold_timeout'']"

definition ledger_violation :: "ledger_row \<Rightarrow> bool" where
  "ledger_violation r \<longleftrightarrow>
     lr_reserved r < 0 \<or> lr_balance r < 0 \<or> lr_reserved r > lr_balance r"

definition energy_violation :: "event_row \<Rightarrow> bool" where
  "energy_violation r \<longleftrightarrow>
     ((ev_action_type r = ''mutate'' \<or> ev_action_type r = ''execute'')
        \<and> (ev_reserved_energy r \<le> 0 \<or> ev_settled_energy r \<le> 0))
     \<or> ev_reserved_energy r < 0 \<or> ev_settled_energy r < 0"

datatype coverage = Covered | NoCheckpointYet i64 | Lagging i64

definition validate_audit_coverage :: "db \<Rightarrow> coverage" where
  "validate_audit_coverage s =
     (let event_cnt = event_count s
      in if event_cnt = 0 then Covered
         else (case latest_row (audit_checkpoints s) of
                 None \<Rightarrow> NoCheckpointYet event_cnt
               | Some r \<Rightarrow> if cp_tree_size r < event_cnt then Lagging (event_cnt - cp_tree_size r)
                           else Covered))"

definition run_startup_integrity_checks :: "db \<Rightarrow> coverage kernel_result" where
  "run_startup_integrity_checks s =
     (case find ledger_violation (energy_ledger s) of
        Some row \<Rightarrow> Inl (PolicyViolation
          (''energy ledger consistency violation for actor '' @ lr_actor_id row))
      | None \<Rightarrow>
          (case find (\<lambda>r. ev_action_type r \<notin> set known_action_types) (events s) of
             Some row \<Rightarrow> Inl (PolicyViolation
               (''action integrity violation: unsupported action_type='' @ ev_action_type row))
           | None \<Rightarrow>
               (case find energy_violation (events s) of
                  Some row \<Rightarrow> Inl (PolicyViolation
                    (''energy integrity violation in event '' @ ev_id row))
                | None \<Rightarrow> Inr (validate_audit_coverage s))))"

definition state_bootstrap :: "string \<Rightarrow> coverage handler" where
  "state_bootstrap now s =
     (let t = seed_defaults now s in (run_startup_integrity_checks t, t))"

section \<open>System metadata\<close>

text \<open>\<open>INSERT ... ON CONFLICT(key) DO UPDATE\<close>.\<close>

definition set_meta :: "string \<Rightarrow> string \<Rightarrow> db \<Rightarrow> db" where
  "set_meta key val s =
     s\<lparr>system_meta :=
        (if key \<in> fst ` set (system_meta s)
         then map (\<lambda>(k, v). if k = key then (k, val) else (k, v)) (system_meta s)
         else system_meta s @ [(key, val)])\<rparr>"

definition set_policy_version :: "string \<Rightarrow> db \<Rightarrow> db" where
  "set_policy_version version = set_meta ''policy_version'' version"

section \<open>Facts\<close>

lemma find_None: "find P xs = None \<longleftrightarrow> (\<forall>x \<in> set xs. \<not> P x)"
  by (simp add: find_None_iff) blast

text \<open>The checks pass exactly when the ledger and the events are sound.\<close>

lemma startup_checks_iff:
  "is_ok (run_startup_integrity_checks s) \<longleftrightarrow>
     (\<forall>r \<in> set (energy_ledger s). row_ok r)
     \<and> (\<forall>r \<in> set (events s). ev_action_type r \<in> set known_action_types \<and> \<not> energy_violation r)"
proof -
  have "ledger_violation r \<longleftrightarrow> \<not> row_ok r" for r
    by (auto simp: ledger_violation_def row_ok_def)
  then have l: "find ledger_violation xs = None \<longleftrightarrow> (\<forall>r \<in> set xs. row_ok r)" for xs
    by (simp add: find_None)
  show ?thesis
    by (auto simp: run_startup_integrity_checks_def find_None l split: option.splits
        dest: iffD2 [OF l])
      (metis l find_None option.distinct(1))+
qed

lemma map_of_replace:
  "map_of (map (\<lambda>(k', v'). if k' = k then (k', v) else (k', v')) xs) x
     = (if x = k then map_option (\<lambda>_. v) (map_of xs k) else map_of xs x)"
  by (induction xs) auto

lemma set_meta_get: "map_of (system_meta (set_meta k v s)) = (map_of (system_meta s))(k \<mapsto> v)"
proof
  fix x
  show "map_of (system_meta (set_meta k v s)) x = ((map_of (system_meta s))(k \<mapsto> v)) x"
    using map_of_eq_None_iff [of "system_meta s" k]
    by (auto simp: set_meta_def map_of_replace map_add_def split: option.splits)
qed

lemma seed_defaults_tables [simp]:
  "events (seed_defaults now s) = events s"
  "audit_hashes (seed_defaults now s) = audit_hashes s"
  "envelopes (seed_defaults now s) = envelopes s"
  "hold_requests (seed_defaults now s) = hold_requests s"
  by (simp_all add: seed_defaults_def seed_actor_def seed_ledger_def seed_meta_def)

lemma seed_defaults_ledger_ok: "ledger_ok s \<Longrightarrow> ledger_ok (seed_defaults now s)"
  by (auto simp: seed_defaults_def seed_actor_def seed_ledger_def seed_meta_def ledger_ok_def
      keys_distinct_def row_ok_def ledger_get_def tbl_get_None_iff)

text \<open>Seeding twice changes nothing: a restart keeps the database.\<close>

lemma seed_defaults_idem: "seed_defaults now' (seed_defaults now s) = seed_defaults now s"
proof -
  have 1: "''schema_version'' \<in> fst ` set (system_meta (seed_defaults now s))"
    by (auto simp: seed_defaults_def seed_actor_def seed_ledger_def seed_meta_def)
  have 2: "ledger_get ''root'' (seed_defaults now s) \<noteq> None"
    by (auto simp: seed_defaults_def seed_actor_def seed_ledger_def seed_meta_def ledger_get_def
        table_simps)
  have 3: "actor_row_get ''root'' (seed_defaults now s) \<noteq> None"
    by (auto simp: seed_defaults_def seed_actor_def actor_row_get_def table_simps)
  show ?thesis
    by (subst seed_defaults_def) (simp add: seed_meta_def seed_ledger_def seed_actor_def 1 2 3)
qed

end
