(* ===== verification/Kernel_Parse.thy ===== *)
theory Kernel_Parse
  imports State_Store
begin

text \<open>
  The functions of \<open>runtime/kernel.rs\<close> that read an action's payload: policy version, new
  actors, new envelopes, hold responses and execute payloads. The detail text of a decoding
  error is left out.
\<close>

definition parse_policy_version :: "action \<Rightarrow> string option" where
  "parse_policy_version a =
     (if act_type a \<noteq> Create \<or> act_target a \<noteq> ''system/policy'' then None
      else get_str (act_payload a) ''version'')"

section \<open>Actor creation\<close>

definition new_actor_id :: "ext \<Rightarrow> action \<Rightarrow> string \<Rightarrow> db \<Rightarrow> string kernel_result" where
  "new_actor_id x a purpose s =
     (case get_str (act_payload a) ''actor_id'' of
        Some aid \<Rightarrow> Inr aid
      | None \<Rightarrow>
          if purpose = ''legacy''
          then Inl (InvalidRequest ''actor_id or purpose is required to create an actor'')
          else let seq = next_sequence x (act_actor_id a) purpose s
               in Inr (derive_agent_id (act_actor_id a) purpose seq))"

definition new_actor_targets :: "ext \<Rightarrow> json \<Rightarrow> writable_target list kernel_result" where
  "new_actor_targets x payload =
     (case vget payload ''writable_targets'' of
        Some v \<Rightarrow> ok_or (InvalidRequest ''invalid writable_targets: '') (de_wts x v)
      | None \<Rightarrow> Inr [])"

definition check_new_targets ::
  "ext \<Rightarrow> writable_target list \<Rightarrow> actor_record option \<Rightarrow> unit kernel_result" where
  "check_new_targets x targets creator =
     (if targets \<noteq> []
      then (case creator of
              Some c \<Rightarrow> validate_child_targets (glob x) c targets
            | None \<Rightarrow> Inr ())
      else Inr ())"

text \<open>Type and lineage of the creator; an actor without a record counts as human.\<close>

definition creator_info :: "actor_record option \<Rightarrow> actor_type \<times> string list" where
  "creator_info creator =
     (case creator of Some r \<Rightarrow> (ar_actor_type r, ar_lineage r) | None \<Rightarrow> (Human, []))"

definition parse_create_actor_spec ::
  "ext \<Rightarrow> action \<Rightarrow> db \<Rightarrow> create_actor_spec option kernel_result" where
  "parse_create_actor_spec x a s =
     (if act_type a \<noteq> Create \<or> act_target a \<noteq> ''ledger/actor'' then Inr None
      else
        and_then (ok_or (InvalidRequest ''seed actor payload must be an object'')
                   (as_object (act_payload a))) (\<lambda>_.
        let payload = act_payload a;
            purpose = unwrap_or ''legacy'' (get_str payload ''purpose'');
            energy_balance = unwrap_or 1000 (get_i64 payload ''energy_balance'');
            type_str = unwrap_or ''agent'' (get_str payload ''actor_type'')
        in
        and_then (ok_or (InvalidRequest (''invalid actor_type: '' @ type_str))
                   (actor_type_parse type_str)) (\<lambda>ty.
        and_then (new_actor_id x a purpose s) (\<lambda>aid.
        and_then (actor_get x (act_actor_id a) s) (\<lambda>creator_record.
        let creator_type = fst (creator_info creator_record);
            creator_lineage = snd (creator_info creator_record)
        in
        if creator_type = Agent \<and> ty = Agent
        then Inl (PolicyViolation
          (''agents cannot create agents '' @ em_dash @ '' creation right belongs to humans ''
           @ pip001 ''5''))
        else
          let lineage = build_lineage creator_type (act_actor_id a) creator_lineage
          in and_then (new_actor_targets x payload) (\<lambda>targets.
             and_then (check_new_targets x targets creator_record) (\<lambda>_.
               Inr (Some
                 \<lparr>cs_actor_id = aid, cs_actor_type = ty, cs_creator_id = act_actor_id a,
                  cs_lineage = lineage, cs_purpose = Some purpose,
                  cs_writable_targets = targets, cs_energy_balance = energy_balance,
                  cs_energy_share =
                    unwrap_or (Fin 0) (Option.bind (vget payload ''energy_share'') as_f64),
                  cs_reduction_policy =
                    unwrap_or ''none'' (get_str payload ''reduction_policy'')\<rparr>))))))))"

section \<open>Envelope creation\<close>

text \<open>A list field that must be there (\<open>targets\<close>, \<open>actions\<close>).\<close>

definition required_strings :: "ext \<Rightarrow> json \<Rightarrow> string \<Rightarrow> string list kernel_result" where
  "required_strings x payload field =
     (case vget payload field of
        Some v \<Rightarrow> ok_or (InvalidRequest (''invalid envelope '' @ field @ '': '')) (de_strings x v)
      | None \<Rightarrow> Inl (InvalidRequest (field @ '' are required to create an envelope'')))"

definition parse_hold_on :: "ext \<Rightarrow> json \<Rightarrow> hold_rule list kernel_result" where
  "parse_hold_on x payload =
     (case vget payload ''hold_on'' of
        Some v \<Rightarrow> ok_or (InvalidRequest ''invalid hold_on rules: '') (de_rules x v)
      | None \<Rightarrow> Inr [])"

definition grantor_envelope ::
  "ext \<Rightarrow> action \<Rightarrow> envelope_spec \<Rightarrow> db \<Rightarrow> string option kernel_result" where
  "grantor_envelope x a spec s =
     and_then (get_active_for_actor x (act_actor_id a) s) (\<lambda>env.
       case env of
         Some g \<Rightarrow> and_then (validate_envelope_reduction (glob x) g spec)
                     (\<lambda>_. Inr (Some (en_envelope_id g)))
       | None \<Rightarrow> Inr None)"

definition parse_envelope_fields :: "ext \<Rightarrow> action \<Rightarrow> envelope_spec kernel_result" where
  "parse_envelope_fields x a =
     (let payload = act_payload a
      in
      and_then (ok_or (InvalidRequest ''envelope payload must be an object'')
                 (as_object payload)) (\<lambda>_.
      and_then (ok_or (InvalidRequest ''actor_id is required to create an envelope'')
                 (get_str payload ''actor_id'')) (\<lambda>aid.
      and_then (ok_or (InvalidRequest ''budget is required to create an envelope'')
                 (get_i64 payload ''budget'')) (\<lambda>budget.
      if budget \<le> 0 then Inl (InvalidRequest ''envelope budget must be positive'')
      else
        and_then (required_strings x payload ''targets'') (\<lambda>targets.
        and_then (required_strings x payload ''actions'') (\<lambda>acts.
        and_then (parse_hold_on x payload) (\<lambda>hold_on.
          Inr \<lparr>es_actor_id = aid, es_grantor_id = act_actor_id a, es_budget = budget,
               es_targets = targets, es_actions = acts,
               es_duration_secs = get_i64 payload ''duration_secs'',
               es_report_every = get_i64 payload ''report_every'',
               es_hold_on = hold_on,
               es_hold_timeout_secs = get_i64 payload ''hold_timeout_secs''\<rparr>)))))))"

definition parse_create_envelope_spec ::
  "ext \<Rightarrow> string \<Rightarrow> action \<Rightarrow> db \<Rightarrow> (string \<times> envelope_spec \<times> string option) option kernel_result" where
  "parse_create_envelope_spec x uuid a s =
     (if act_type a \<noteq> Create \<or> act_target a \<noteq> ''ledger/envelope'' then Inr None
      else and_then (parse_envelope_fields x a) (\<lambda>spec.
           and_then (grantor_envelope x a spec s) (\<lambda>parent_id.
             Inr (Some (uuid, spec, parent_id)))))"

section \<open>Hold responses\<close>

definition hold_prefix :: string where
  "hold_prefix = ''ledger/hold/''"

definition parse_hold_response ::
  "string \<Rightarrow> json \<Rightarrow> (string \<times> string \<times> string option) option" where
  "parse_hold_response target payload =
     Option.bind (strip_prefix hold_prefix target) (\<lambda>rest.
       if rest = [] \<or> CHR ''/'' \<in> set rest then None
       else Option.bind (get_str payload ''decision'') (\<lambda>decision.
            if decision \<noteq> ''approve'' \<and> decision \<noteq> ''reject'' then None
            else Some (rest, decision, get_str payload ''instruction'')))"

section \<open>Execute payloads\<close>

text \<open>
  The slice \<open>val[7..]\<close> is at a character boundary because the value starts with the seven
  ASCII characters of the prefix.
\<close>

definition require_valid_oid :: "json \<Rightarrow> string \<Rightarrow> string kernel_result" where
  "require_valid_oid payload field =
     and_then (ok_or (ExecutePayloadInvalid (''missing '' @ field)) (get_str payload field)) (\<lambda>val.
       if \<not> prefix oid_prefix val \<or> length val \<noteq> 71
       then Inl (ExecutePayloadInvalid (field @ '' must be sha256:<64 hex chars>, got: '' @ val))
       else if \<not> list_all is_ascii_hexdigit (drop 7 val)
       then Inl (ExecutePayloadInvalid (field @ '' contains non-hex characters: '' @ val))
       else Inr val)"

definition validate_execute_payload :: "json \<Rightarrow> string kernel_result" where
  "validate_execute_payload payload =
     and_then (require_valid_oid payload ''input_oid'') (\<lambda>_.
     and_then (require_valid_oid payload ''output_oid'') (\<lambda>_.
     if get_i64 payload ''exit_code'' = None
     then Inl (ExecutePayloadInvalid ''missing or invalid exit_code (must be integer)'')
     else require_valid_oid payload ''artifact_hash''))"

section \<open>Facts\<close>

lemma require_valid_oid_iff:
  "require_valid_oid payload field = Inr v \<longleftrightarrow>
     get_str payload field = Some v \<and> (\<exists>hex. parse_oid v = Inr hex)"
proof -
  have len: "length oid_prefix = 7" by (simp add: oid_prefix_def)
  have "prefix oid_prefix v \<and> length v = 71 \<and> list_all is_ascii_hexdigit (drop 7 v)
      \<longleftrightarrow> (\<exists>hex. parse_oid v = Inr hex)" for v
    using len by (auto simp: parse_oid_Inr_iff prefix_def)
  then show ?thesis
    by (cases "get_str payload field") (auto simp: require_valid_oid_def)
qed

text \<open>An execute payload is accepted exactly when its three identifiers name blobs and the
  exit code is an integer; the artifact hash is what is returned.\<close>

lemma validate_execute_payload_iff:
  "validate_execute_payload payload = Inr h \<longleftrightarrow>
     (\<exists>i o' c. get_str payload ''input_oid'' = Some i \<and> is_ok (parse_oid i)
       \<and> get_str payload ''output_oid'' = Some o' \<and> is_ok (parse_oid o')
       \<and> get_i64 payload ''exit_code'' = Some c
       \<and> get_str payload ''artifact_hash'' = Some h \<and> is_ok (parse_oid h))"
proof -
  have ok: "is_ok (parse_oid v) \<longleftrightarrow> (\<exists>hex. parse_oid v = Inr hex)" for v
    by (auto simp: is_ok_def split: sum.splits)
  show ?thesis
    by (auto simp: validate_execute_payload_def and_then_Inr_iff require_valid_oid_iff ok)
qed

text \<open>What the creator may create: an agent never creates an agent, and the boundary of the
  new actor is covered by that of its creator.\<close>

lemma parse_create_actor_SomeE:
  assumes "parse_create_actor_spec x a s = Inr (Some spec)"
  obtains creator where "actor_get x (act_actor_id a) s = Inr creator"
    "\<not> (fst (creator_info creator) = Agent \<and> cs_actor_type spec = Agent)"
    "check_new_targets x (cs_writable_targets spec) creator = Inr ()"
    "cs_creator_id spec = act_actor_id a"
    "cs_lineage spec = build_lineage (fst (creator_info creator)) (act_actor_id a) (snd (creator_info creator))"
    "act_type a = Create" "act_target a = ''ledger/actor''"
  using assms unfolding parse_create_actor_spec_def Let_def
  by (auto split: if_splits)

lemma build_lineage_single: "build_lineage ty creator l = [creator]"
  by (cases ty) (simp_all add: build_lineage_def)

lemma parse_create_actor_Some:
  assumes "parse_create_actor_spec x a s = Inr (Some spec)"
    and "actor_get x (act_actor_id a) s = Inr (Some c)"
  shows "cs_creator_id spec = act_actor_id a" "cs_lineage spec = [act_actor_id a]"
    "ar_actor_type c = Agent \<Longrightarrow> cs_actor_type spec = Human"
    "\<And>w. w \<in> set (cs_writable_targets spec) \<Longrightarrow> wt_covered (glob x) c w"
proof -
  obtain "\<not> (ar_actor_type c = Agent \<and> cs_actor_type spec = Agent)"
    "check_new_targets x (cs_writable_targets spec) (Some c) = Inr ()"
    "cs_creator_id spec = act_actor_id a" "cs_lineage spec = [act_actor_id a]"
    using assms by (elim parse_create_actor_SomeE) (auto simp: creator_info_def build_lineage_single)
  then show "cs_creator_id spec = act_actor_id a" "cs_lineage spec = [act_actor_id a]"
    "ar_actor_type c = Agent \<Longrightarrow> cs_actor_type spec = Human"
    "\<And>w. w \<in> set (cs_writable_targets spec) \<Longrightarrow> wt_covered (glob x) c w"
    by (auto simp: check_new_targets_def validate_child_targets_iff intro: actor_type.exhaust
        split: if_splits)
qed

lemma parse_envelope_Some:
  assumes "parse_create_envelope_spec x uuid a s = Inr (Some (eid, spec, parent))"
  shows "eid = uuid \<and> 0 < es_budget spec \<and> es_grantor_id spec = act_actor_id a
    \<and> grantor_envelope x a spec s = Inr parent \<and> act_type a = Create
    \<and> act_target a = ''ledger/envelope''"
  using assms
  by (auto simp: parse_create_envelope_spec_def parse_envelope_fields_def Let_def split: if_splits)

lemma grantor_envelope_reduces:
  assumes "grantor_envelope x a spec s = Inr (Some p)"
  shows "\<exists>g. get_active_for_actor x (act_actor_id a) s = Inr (Some g) \<and> en_envelope_id g = p
    \<and> validate_envelope_reduction (glob x) g spec = Inr ()"
  using assms by (auto simp: grantor_envelope_def split: option.splits)

lemma parse_hold_response_Some:
  "parse_hold_response t p = Some (hid, d, i) \<Longrightarrow>
     t = hold_prefix @ hid \<and> (d = ''approve'' \<or> d = ''reject'')"
  by (auto simp: parse_hold_response_def strip_prefix_Some_iff split: bind_splits if_splits)

end
