(* ===== verification/Kernel.thy ===== *)
theory Kernel
  imports Kernel_Parse
begin

text \<open>
  \<open>runtime/kernel.rs\<close>: the submit pipeline. A handler runs transactions in turn; an error
  leaves it with the commits made so far. The environment gives the external code, the
  clock and the random identifiers: \<open>k_clk k d i j\<close> is the clock (milliseconds) at program
  point \<open>i\<close>, \<open>j\<close>-th time around a loop, in the \<open>d\<close>-th nested submission, and \<open>k_uuid\<close> the
  identifier generated there.

  \<open>execute_hold_response\<close> re-submits an approved action by calling \<open>submit_action\<close>; here
  one submission (\<open>submit_once\<close>) returns either its result or the action to submit next, and
  \<open>submit_action\<close> iterates it. It terminates because every re-submission follows the
  resolution of a pending hold.
\<close>

record kernel_env =
  k_ext :: ext
  k_clk :: "nat \<Rightarrow> nat \<Rightarrow> nat \<Rightarrow> nat"
  k_uuid :: "nat \<Rightarrow> nat \<Rightarrow> nat \<Rightarrow> string"

record submit_receipt =
  sr_event_id :: string
  sr_log_index :: i64
  sr_event_hash :: string
  sr_reserved_cost :: i64
  sr_settled_cost :: i64
  sr_artifact_hash :: "string option"

definition now_millis_string :: "kernel_env \<Rightarrow> nat \<Rightarrow> nat \<Rightarrow> nat \<Rightarrow> string" where
  "now_millis_string k d i j = dec_of_nat (k_clk k d i j)"

definition now_millis_u64 :: "kernel_env \<Rightarrow> nat \<Rightarrow> nat \<Rightarrow> nat \<Rightarrow> u64" where
  "now_millis_u64 k d i j = of_nat (k_clk k d i j)"

definition hash_payload :: "kernel_env \<Rightarrow> action \<Rightarrow> string kernel_result" where
  "hash_payload k a = payload_hash_hex (json_vec (k_ext k)) (sha256 (k_ext k)) a"

definition quote_i64 :: "kernel_env \<Rightarrow> action \<Rightarrow> i64" where
  "quote_i64 k a = u64_as_i64 (quote_cost (json_vec (k_ext k)) a)"

text \<open>An event before the log assigns its index and hash.\<close>

definition new_event ::
  "string \<Rightarrow> string \<Rightarrow> string \<Rightarrow> string \<Rightarrow> json \<Rightarrow> string \<Rightarrow> string option \<Rightarrow> i64 \<Rightarrow> i64 \<Rightarrow> string \<Rightarrow> event_record" where
  "new_event uid actor ty target payload ph artifact res sett ts =
     \<lparr>ev_id = uid, ev_log_index = 0, ev_event_hash = [], ev_actor_id = actor,
      ev_action_type = ty, ev_target = target, ev_payload = payload, ev_payload_hash = ph,
      ev_artifact_hash = artifact, ev_reserved_energy = res, ev_settled_energy = sett,
      ev_timestamp = ts\<rparr>"

text \<open>\<open>append_leaf_in_tx\<close> for a committed event, with its error as a kernel error.\<close>

definition audit_leaf :: "ext \<Rightarrow> event_record \<Rightarrow> unit tx" where
  "audit_leaf x ev s =
     map_err (\<lambda>e. Audit (audit_error_str e))
       (append_leaf_in_tx x (nat (ev_log_index ev)) (ev_event_hash ev) s)"

definition append_audited :: "ext \<Rightarrow> event_record \<Rightarrow> event_record tx" where
  "append_audited x ev =
     tx_bind (append_in_tx x ev) (\<lambda>ev'. tx_bind (audit_leaf x ev') (\<lambda>_. tx_return ev'))"

section \<open>Timed-out holds\<close>

text \<open>\<open>((c as f64) * 0.2).ceil() as i64\<close>.\<close>

definition commitment_cost :: "i64 \<Rightarrow> i64" where
  "commitment_cost c = f64_ceil_i64 (f64_mul (f64_of_int c) (f64_round (1 / 5)))"

definition hold_field :: "json \<Rightarrow> string \<Rightarrow> string" where
  "hold_field hold field = unwrap_or [] (get_str hold field)"

definition hold_triggered_at :: "json \<Rightarrow> u64" where
  "hold_triggered_at hold = unwrap_or 0 (Option.bind (get_str hold ''triggered_at'') parse_u64)"

definition hold_timed_out :: "u64 \<Rightarrow> i64 \<Rightarrow> json \<Rightarrow> bool" where
  "hold_timed_out now timeout_secs hold \<longleftrightarrow>
     saturating_sub now (hold_triggered_at hold) > i64_as_u64 timeout_secs * 1000"

definition pending_of :: "json \<Rightarrow> json" where
  "pending_of hold = unwrap_or JNull (vget hold ''pending_payload'')"

definition pending_cost :: "json \<Rightarrow> i64" where
  "pending_cost hold = unwrap_or 0 (get_i64 (pending_of hold) ''reserved_cost'')"

definition timeout_tx ::
  "kernel_env \<Rightarrow> nat \<Rightarrow> nat \<Rightarrow> nat \<Rightarrow> string \<Rightarrow> string \<Rightarrow> i64 \<Rightarrow> i64 \<Rightarrow> event_record \<Rightarrow> event_record tx" where
  "timeout_tx k d b j hold_id agent_id reserved_cost comm_cost ev =
     tx_bind (resolve_hold_request_in_tx (now_millis_string k d (b + 2) j) hold_id ''timed_out'' None) (\<lambda>_.
     tx_bind (if reserved_cost > 0
              then settle_in_tx (now_millis_string k d (b + 3) j) agent_id reserved_cost comm_cost
              else tx_return ()) (\<lambda>_.
       append_audited (k_ext k) ev))"

definition expire_one ::
  "kernel_env \<Rightarrow> nat \<Rightarrow> nat \<Rightarrow> nat \<Rightarrow> u64 \<Rightarrow> i64 \<Rightarrow> json \<Rightarrow> unit handler" where
  "expire_one k d b j now timeout_secs hold =
     (if \<not> hold_timed_out now timeout_secs hold then h_return ()
      else
        let hold_id = hold_field hold ''hold_id'';
            agent_id = hold_field hold ''agent_id'';
            reserved_cost = pending_cost hold;
            comm_cost = (if reserved_cost > 0 then commitment_cost reserved_cost else 0);
            timeout_payload = json_obj
              [(''hold_id'', JString hold_id), (''agent_id'', JString agent_id),
               (''decision'', JString ''timed_out''), (''reserved_cost'', json_i64 reserved_cost),
               (''commitment_cost'', json_i64 comm_cost),
               (''triggered_at'', JString (dec_of_nat (unat (hold_triggered_at hold)))),
               (''expired_at'', JString (dec_of_nat (unat now)))];
            timeout_action = \<lparr>act_actor_id = agent_id, act_type = Mutate,
              act_target = hold_prefix @ hold_id, act_payload = timeout_payload,
              act_timestamp = None\<rparr>
        in h_bind (h_lift (hash_payload k timeout_action)) (\<lambda>ph.
           h_bind (run_tx (timeout_tx k d b j hold_id agent_id reserved_cost comm_cost
             (new_event (k_uuid k d (b + 1) j) agent_id ''hold_timeout'' (hold_prefix @ hold_id)
                timeout_payload ph None reserved_cost comm_cost
                (now_millis_string k d (b + 1) j)))) (\<lambda>_. h_return ())))"

fun expire_each ::
  "kernel_env \<Rightarrow> nat \<Rightarrow> nat \<Rightarrow> nat \<Rightarrow> u64 \<Rightarrow> i64 \<Rightarrow> json list \<Rightarrow> unit handler" where
  "expire_each k d b j now timeout_secs [] = h_return ()"
| "expire_each k d b j now timeout_secs (hold # holds) =
     h_bind (expire_one k d b j now timeout_secs hold) (\<lambda>_.
       expire_each k d b (Suc j) now timeout_secs holds)"

definition expire_timed_out_holds ::
  "kernel_env \<Rightarrow> nat \<Rightarrow> nat \<Rightarrow> string \<Rightarrow> i64 \<Rightarrow> unit handler" where
  "expire_timed_out_holds k d b envelope_id timeout_secs s =
     expire_each k d b 0 (now_millis_u64 k d b 0) timeout_secs
       (list_pending_holds_for_envelope (k_ext k) envelope_id s) s"

section \<open>Triggering a hold\<close>

definition hold_approved :: "json \<Rightarrow> bool" where
  "hold_approved payload = unwrap_or False (get_bool payload ''_hold_approved'')"

definition pending_action_json :: "action \<Rightarrow> (string \<times> json) list" where
  "pending_action_json a =
     [(''target'', JString (act_target a)),
      (''action_type'', JString (action_type_str (act_type a))),
      (''payload'', act_payload a)]"

definition trigger_json :: "string \<Rightarrow> string \<Rightarrow> json" where
  "trigger_json target ty = json_obj [(''target'', JString target), (''action_type'', JString ty)]"

definition hold_tx ::
  "kernel_env \<Rightarrow> nat \<Rightarrow> action \<Rightarrow> string \<Rightarrow> string \<Rightarrow> i64 \<Rightarrow> event_record \<Rightarrow> unit tx" where
  "hold_tx k d a envelope_id hold_id reserved_cost hold_event =
     tx_bind (if reserved_cost > 0
              then reserve_in_tx (now_millis_string k d 8 0) (act_actor_id a) reserved_cost
              else tx_return ()) (\<lambda>_.
     tx_bind (append_in_tx (k_ext k) hold_event) (\<lambda>ev.
     tx_bind (create_hold_request_in_tx (k_ext k) (now_millis_string k d 9 0)
                \<lparr>nh_hold_id = hold_id, nh_envelope_id = envelope_id,
                 nh_agent_id = act_actor_id a, nh_trigger_target = act_target a,
                 nh_trigger_action = action_type_str (act_type a),
                 nh_pending_payload =
                   json_obj (pending_action_json a @ [(''reserved_cost'', json_i64 reserved_cost)])\<rparr>)
       (\<lambda>_. audit_leaf (k_ext k) ev)))"

definition trigger_hold :: "kernel_env \<Rightarrow> nat \<Rightarrow> action \<Rightarrow> envelope_record \<Rightarrow> unit handler" where
  "trigger_hold k d a env =
     (let hold_id = k_uuid k d 6 0;
          reserved_cost = quote_i64 k a;
          hold_payload = json_obj
            [(''hold_id'', JString hold_id), (''agent_id'', JString (act_actor_id a)),
             (''trigger'', trigger_json (act_target a) (action_type_str (act_type a))),
             (''pending_action'', json_obj (pending_action_json a)),
             (''reserved_cost'', json_i64 reserved_cost),
             (''triggered_at'', JString (now_millis_string k d 6 0))];
          hold_action = \<lparr>act_actor_id = act_actor_id a, act_type = Mutate,
            act_target = hold_prefix @ hold_id, act_payload = hold_payload, act_timestamp = None\<rparr>
      in h_bind (h_lift (hash_payload k hold_action)) (\<lambda>ph.
         h_bind (run_tx (hold_tx k d a (en_envelope_id env) hold_id reserved_cost
           (new_event (k_uuid k d 7 0) (act_actor_id a) ''hold_request'' (hold_prefix @ hold_id)
              hold_payload ph None reserved_cost 0 (now_millis_string k d 7 0)))) (\<lambda>_.
           h_lift (Inl (HoldTriggered hold_id (act_actor_id a))))))"

section \<open>Authorization\<close>

text \<open>Lazy expiry of the envelope of the actor: an expired one is marked and dropped.\<close>

definition drop_expired ::
  "kernel_env \<Rightarrow> nat \<Rightarrow> envelope_record option \<Rightarrow> envelope_record option handler" where
  "drop_expired k d envelope =
     (case envelope of
        Some env \<Rightarrow>
          if is_envelope_expired env (now_millis_u64 k d 0 0)
          then h_bind (envelope_set_status (now_millis_string k d 1 0) (en_envelope_id env) EnvExpired)
                 (\<lambda>_. h_return None)
          else h_return (Some env)
      | None \<Rightarrow> h_return None)"

definition expire_before_gate :: "kernel_env \<Rightarrow> nat \<Rightarrow> envelope_record \<Rightarrow> unit handler" where
  "expire_before_gate k d env =
     (if en_hold_on env \<noteq> []
      then (case en_hold_timeout_secs env of
              Some timeout_secs \<Rightarrow>
                if timeout_secs > 0
                then expire_timed_out_holds k d 2 (en_envelope_id env) timeout_secs
                else h_return ()
            | None \<Rightarrow> h_return ())
      else h_return ())"

definition envelope_gate :: "kernel_env \<Rightarrow> nat \<Rightarrow> action \<Rightarrow> envelope_record \<Rightarrow> unit handler" where
  "envelope_gate k d a env =
     h_bind (h_lift (check_envelope_covers (glob (k_ext k)) env (act_target a)
               (action_type_str (act_type a)))) (\<lambda>_.
     h_bind (expire_before_gate k d env) (\<lambda>_.
     if \<not> hold_approved (act_payload a)
        \<and> check_hold_trigger (glob (k_ext k)) (en_hold_on env) (act_target a)
            (action_type_str (act_type a))
     then trigger_hold k d a env
     else h_return ()))"

definition authorize_envelope :: "kernel_env \<Rightarrow> nat \<Rightarrow> action \<Rightarrow> actor_record \<Rightarrow> unit handler" where
  "authorize_envelope k d a actor s =
     h_bind (h_lift (get_active_for_actor (k_ext k) (act_actor_id a) s)) (\<lambda>found.
     h_bind (drop_expired k d found) (\<lambda>envelope.
     h_bind (h_lift (check_authorization actor envelope)) (\<lambda>auth_mode.
       case envelope of
         Some env \<Rightarrow> if auth_mode = ManOnTheLoop then envelope_gate k d a env else h_return ()
       | None \<Rightarrow> h_return ()))) s"

definition authorize_actor :: "kernel_env \<Rightarrow> nat \<Rightarrow> action \<Rightarrow> actor_record \<Rightarrow> unit handler" where
  "authorize_actor k d a actor s =
     (if ar_status actor = Frozen \<and> is_state_changing (act_type a)
      then (Inl (ActorFrozen (''actor '' @ act_actor_id a
              @ '' is frozen and cannot perform state-changing actions'')), s)
      else
        h_bind (h_lift (check_writable_boundary (glob (k_ext k)) actor (act_target a) (act_type a))) (\<lambda>_.
        h_bind (h_lift (if ar_actor_type actor = Agent \<and> is_state_changing (act_type a)
                        then check_lineage_active (ar_lineage actor) s else Inr ())) (\<lambda>_.
        if is_state_changing (act_type a) then authorize_envelope k d a actor else h_return ())) s)"

text \<open>Step 1 of \<open>submit_action\<close>: everything before the operation itself.\<close>

definition authorize :: "kernel_env \<Rightarrow> nat \<Rightarrow> action \<Rightarrow> unit handler" where
  "authorize k d a s =
     h_bind (h_lift (validate_action (json_vec (k_ext k)) a)) (\<lambda>_.
       if \<not> actor_exists (act_actor_id a) s then h_lift (Inl (ActorNotFound (act_actor_id a)))
       else h_bind (h_lift (actor_get (k_ext k) (act_actor_id a) s)) (\<lambda>found.
              case found of
                Some actor \<Rightarrow> authorize_actor k d a actor
              | None \<Rightarrow> h_return ())) s"

section \<open>Hold responses\<close>

datatype submit_outcome = Finished submit_receipt | Resubmit action

fun actor_type_debug :: "actor_type \<Rightarrow> string" where
  "actor_type_debug Human = ''Human''"
| "actor_type_debug Agent = ''Agent''"

text \<open>The sentinels an approved action carries into its re-submission.\<close>

definition mark_approved :: "i64 \<Rightarrow> string option \<Rightarrow> json \<Rightarrow> json" where
  "mark_approved hold_reserved_cost instruction payload =
     (let obj = unwrap_or [] (as_object payload);
          obj1 = obj_insert ''_hold_approved'' (JBool True) obj;
          obj2 = obj_insert ''_hold_reserved_cost'' (json_i64 hold_reserved_cost) obj1
      in JObject (case instruction of
                    Some instr \<Rightarrow> obj_insert ''_hold_instruction'' (JString instr) obj2
                  | None \<Rightarrow> obj2))"

definition action_type_of_str :: "string \<Rightarrow> action_type" where
  "action_type_of_str t =
     (if t = ''observe'' then Observe else if t = ''create'' then Create
      else if t = ''mutate'' then Mutate else Execute)"

definition pending_action :: "json \<Rightarrow> string \<Rightarrow> string option \<Rightarrow> action" where
  "pending_action hold agent_id instruction =
     (let pending = pending_of hold
      in \<lparr>act_actor_id = agent_id,
          act_type = action_type_of_str
            (unwrap_or (hold_field hold ''trigger_action'') (get_str pending ''action_type'')),
          act_target = unwrap_or (hold_field hold ''trigger_target'') (get_str pending ''target''),
          act_payload = mark_approved (pending_cost hold) instruction
            (unwrap_or JNull (vget pending ''payload'')),
          act_timestamp = None\<rparr>)"

text \<open>The transaction that resolves a hold: resolution, settlement on reject, event, audit.\<close>

definition resolve_tx ::
  "kernel_env \<Rightarrow> nat \<Rightarrow> action \<Rightarrow> string \<Rightarrow> string \<Rightarrow> string option \<Rightarrow> string \<Rightarrow> i64 \<Rightarrow> json \<Rightarrow>
   (i64 \<times> event_record) tx" where
  "resolve_tx k d human_action hold_id decision instruction agent_id hold_reserved_cost
       response_payload =
     tx_bind (resolve_hold_request_in_tx (now_millis_string k d 15 0) hold_id decision instruction) (\<lambda>_.
     tx_bind (if decision = ''reject'' \<and> hold_reserved_cost > 0
              then tx_bind (settle_in_tx (now_millis_string k d 16 0) agent_id hold_reserved_cost
                      (commitment_cost hold_reserved_cost))
                     (\<lambda>_. tx_return (commitment_cost hold_reserved_cost))
              else tx_return 0) (\<lambda>comm_cost s.
     and_then (hash_payload k
         \<lparr>act_actor_id = act_actor_id human_action, act_type = Mutate,
          act_target = hold_prefix @ hold_id, act_payload = response_payload,
          act_timestamp = None\<rparr>) (\<lambda>ph.
       tx_bind (append_audited (k_ext k)
                  (new_event (k_uuid k d 17 0) (act_actor_id human_action) ''hold_response''
                     (hold_prefix @ hold_id) response_payload ph None hold_reserved_cost comm_cost
                     (now_millis_string k d 17 0)))
         (\<lambda>ev. tx_return (comm_cost, ev)) s)))"

text \<open>Expiry of a hold that timed out before its response: the error of the response.\<close>

definition check_hold_timeout ::
  "kernel_env \<Rightarrow> nat \<Rightarrow> string \<Rightarrow> json \<Rightarrow> unit handler" where
  "check_hold_timeout k d hold_id hold s =
     (let envelope_id = hold_field hold ''envelope_id''
      in case envelope_get (k_ext k) envelope_id s of
           Inr (Some env) \<Rightarrow>
             (case en_hold_timeout_secs env of
                Some timeout_secs \<Rightarrow>
                  if timeout_secs > 0 \<and> hold_timed_out (now_millis_u64 k d 10 0) timeout_secs hold
                  then h_bind (expire_timed_out_holds k d 11 envelope_id timeout_secs) (\<lambda>_.
                         h_lift (Inl (PolicyViolation
                           (''hold_request '' @ hold_id
                            @ '' has timed out and was auto-rejected'')))) s
                  else (Inr (), s)
              | None \<Rightarrow> (Inr (), s))
         | _ \<Rightarrow> (Inr (), s))"

definition load_hold ::
  "kernel_env \<Rightarrow> action \<Rightarrow> string \<Rightarrow> db \<Rightarrow> json kernel_result" where
  "load_hold k human_action hold_id s =
     and_then (actor_get (k_ext k) (act_actor_id human_action) s) (\<lambda>found.
     and_then (ok_or (ActorNotFound (act_actor_id human_action)) found) (\<lambda>caller.
     if ar_actor_type caller \<noteq> Human
     then Inl (PolicyViolation
       (''only Human actors can resolve holds; caller '' @ act_actor_id human_action @ '' is ''
        @ actor_type_debug (ar_actor_type caller)))
     else
       and_then (ok_or (PolicyViolation (''hold_request not found: '' @ hold_id))
                  (get_hold_request (k_ext k) hold_id s)) (\<lambda>hold.
       and_then (ok_or (PolicyViolation ''hold_request missing envelope_id'')
                  (get_str hold ''envelope_id'')) (\<lambda>_.
       and_then (ok_or (PolicyViolation ''hold_request missing agent_id'')
                  (get_str hold ''agent_id'')) (\<lambda>_.
       if hold_field hold ''status'' \<noteq> ''pending''
       then Inl (PolicyViolation (''hold_request '' @ hold_id @ '' is already resolved (status=''
                                  @ hold_field hold ''status'' @ '')''))
       else Inr hold)))))"

definition execute_hold_response ::
  "kernel_env \<Rightarrow> nat \<Rightarrow> action \<Rightarrow> string \<Rightarrow> string \<Rightarrow> string option \<Rightarrow> submit_outcome handler" where
  "execute_hold_response k d human_action hold_id decision instruction s =
     h_bind (h_lift (load_hold k human_action hold_id s)) (\<lambda>hold.
     h_bind (check_hold_timeout k d hold_id hold) (\<lambda>_.
     let agent_id = hold_field hold ''agent_id'';
         response_payload = json_obj
           [(''hold_id'', JString hold_id), (''agent_id'', JString agent_id),
            (''decision'', JString decision), (''instruction'', json_opt_str instruction),
            (''trigger'', trigger_json (hold_field hold ''trigger_target'')
                           (hold_field hold ''trigger_action'')),
            (''resolved_by'', JString (act_actor_id human_action)),
            (''resolved_at'', JString (now_millis_string k d 14 0))]
     in h_bind (run_tx (resolve_tx k d human_action hold_id decision instruction agent_id
                          (pending_cost hold) response_payload)) (\<lambda>(comm_cost, ev).
        if decision = ''approve''
        then h_return (Resubmit (pending_action hold agent_id instruction))
        else h_return (Finished
          \<lparr>sr_event_id = ev_id ev, sr_log_index = ev_log_index ev,
           sr_event_hash = ev_event_hash ev, sr_reserved_cost = pending_cost hold,
           sr_settled_cost = comm_cost, sr_artifact_hash = None\<rparr>)))) s"

section \<open>The pipeline\<close>

definition lifecycle_request :: "action \<Rightarrow> (string \<times> lifecycle_op) option" where
  "lifecycle_request a =
     (if act_type a = Mutate then parse_lifecycle_op (act_target a) (act_payload a) else None)"

definition authorize_lifecycle ::
  "kernel_env \<Rightarrow> action \<Rightarrow> (string \<times> lifecycle_op) option \<Rightarrow> db \<Rightarrow> unit kernel_result" where
  "authorize_lifecycle k a lifecycle_op s =
     (case lifecycle_op of
        None \<Rightarrow> Inr ()
      | Some (target_id, op) \<Rightarrow>
          and_then (actor_get (k_ext k) (act_actor_id a) s) (\<lambda>i.
          and_then (ok_or (ActorNotFound (act_actor_id a)) i) (\<lambda>initiator.
          and_then (actor_get (k_ext k) target_id s) (\<lambda>t.
          and_then (ok_or (ActorNotFound target_id) t) (\<lambda>target_actor.
            validate_lifecycle_authorization initiator target_actor op)))))"

text \<open>Steps 2 and 3: quote and reserve, or the pre-reserved cost of an approved action.\<close>

definition quote_and_reserve ::
  "kernel_env \<Rightarrow> nat \<Rightarrow> action \<Rightarrow> (i64 \<times> energy_reservation option) handler" where
  "quote_and_reserve k d a =
     (case get_i64 (act_payload a) ''_hold_reserved_cost'' of
        Some hold_reserved \<Rightarrow>
          h_return (hold_reserved,
            if hold_reserved > 0
            then Some \<lparr>er_actor_id = act_actor_id a, er_reserved = hold_reserved\<rparr> else None)
      | None \<Rightarrow>
          (let cost = quote_i64 k a
           in if cost > 0
              then h_bind (run_tx (reserve (now_millis_string k d 20 0) (act_actor_id a) cost))
                     (\<lambda>r. h_return (cost, Some r))
              else h_return (cost, None)))"

definition create_actor_step ::
  "kernel_env \<Rightarrow> nat \<Rightarrow> create_actor_spec option \<Rightarrow> unit tx" where
  "create_actor_step k d create_actor =
     (case create_actor of
        Some spec \<Rightarrow>
          tx_bind (create_actor_in_tx (now_millis_string k d 22 0) (cs_actor_id spec)
                     (cs_energy_balance spec))
            (\<lambda>_. actor_create_in_tx (k_ext k) (now_millis_string k d 23 0) spec)
      | None \<Rightarrow> tx_return ())"

definition create_envelope_step ::
  "kernel_env \<Rightarrow> nat \<Rightarrow> (string \<times> envelope_spec \<times> string option) option \<Rightarrow> unit tx" where
  "create_envelope_step k d create_envelope =
     (case create_envelope of
        Some (envelope_id, spec, parent_id) \<Rightarrow>
          tx_bind (envelope_create_in_tx (k_ext k) (now_millis_string k d 24 0) envelope_id spec parent_id)
            (\<lambda>_. tx_return ())
      | None \<Rightarrow> tx_return ())"

definition settle_step ::
  "kernel_env \<Rightarrow> nat \<Rightarrow> energy_reservation option \<Rightarrow> i64 \<Rightarrow> unit tx" where
  "settle_step k d reservation settled_cost =
     (case reservation of
        Some res \<Rightarrow> settle_in_tx (now_millis_string k d 21 0) (er_actor_id res) (er_reserved res) settled_cost
      | None \<Rightarrow> tx_return ())"

definition commit_tx ::
  "kernel_env \<Rightarrow> nat \<Rightarrow> energy_reservation option \<Rightarrow> i64 \<Rightarrow> create_actor_spec option \<Rightarrow>
   (string \<times> envelope_spec \<times> string option) option \<Rightarrow> event_record \<Rightarrow> event_record tx" where
  "commit_tx k d reservation settled_cost create_actor create_envelope event =
     tx_bind (settle_step k d reservation settled_cost) (\<lambda>_.
     tx_bind (create_actor_step k d create_actor) (\<lambda>_.
     tx_bind (create_envelope_step k d create_envelope) (\<lambda>_.
       append_audited (k_ext k) event)))"

definition finalize_energy_and_event ::
  "kernel_env \<Rightarrow> nat \<Rightarrow> energy_reservation option \<Rightarrow> i64 \<Rightarrow> create_actor_spec option \<Rightarrow>
   (string \<times> envelope_spec \<times> string option) option \<Rightarrow> event_record \<Rightarrow> event_record handler" where
  "finalize_energy_and_event k d reservation settled_cost create_actor create_envelope event =
     run_tx (commit_tx k d reservation settled_cost create_actor create_envelope event)"

text \<open>Step 7: consumption of the envelope's budget, with the checkpoint of the state before.\<close>

definition consume_and_checkpoint ::
  "kernel_env \<Rightarrow> nat \<Rightarrow> envelope_record \<Rightarrow> i64 \<Rightarrow> unit handler" where
  "consume_and_checkpoint k d env settled_cost s =
     (let checkpoint = check_checkpoint env settled_cost
      in case consume_budget_in_tx (now_millis_string k d 25 0) (en_envelope_id env) settled_cost s of
           Inl _ \<Rightarrow> (Inr (), s)
         | Inr (_, t) \<Rightarrow>
             if checkpoint = Some Halt
             then (case envelope_set_status_in_tx (now_millis_string k d 26 0) (en_envelope_id env)
                          EnvExpired t of
                     Inl e \<Rightarrow> (Inl e, s)
                   | Inr (_, u) \<Rightarrow> (Inr (), u))
             else (Inr (), t))"

definition consume_envelope :: "kernel_env \<Rightarrow> nat \<Rightarrow> action \<Rightarrow> i64 \<Rightarrow> unit handler" where
  "consume_envelope k d a settled_cost s =
     (if is_state_changing (act_type a) \<and> settled_cost > 0
      then (case actor_get (k_ext k) (act_actor_id a) s of
              Inr (Some actor) \<Rightarrow>
                if ar_actor_type actor = Agent
                then (case get_active_for_actor (k_ext k) (act_actor_id a) s of
                        Inr (Some env) \<Rightarrow> consume_and_checkpoint k d env settled_cost s
                      | _ \<Rightarrow> (Inr (), s))
                else (Inr (), s)
            | _ \<Rightarrow> (Inr (), s))
      else (Inr (), s))"

text \<open>A post-commit step whose error is only logged.\<close>

definition logged :: "'a handler \<Rightarrow> unit handler" where
  "logged m s = (Inr (), snd (m s))"

definition execute_lifecycle ::
  "kernel_env \<Rightarrow> nat \<Rightarrow> (string \<times> lifecycle_op) option \<Rightarrow> unit handler" where
  "execute_lifecycle k d lifecycle_op =
     (let ck = now_millis_string k d 27
      in case lifecycle_op of
           None \<Rightarrow> h_return ()
         | Some (target_id, op) \<Rightarrow>
             (case op of
                Freeze _ \<Rightarrow> logged (execute_freeze (k_ext k) ck target_id)
              | Unfreeze \<Rightarrow> logged (execute_unfreeze ck target_id)
              | Terminate _ \<Rightarrow> logged (execute_freeze (k_ext k) ck target_id)
              | UpdateEnergyShare share \<Rightarrow>
                  logged (execute_update_energy_share ck target_id share)))"

definition record_policy :: "string option \<Rightarrow> unit handler" where
  "record_policy version s =
     (Inr (), case version of Some v \<Rightarrow> set_policy_version v s | None \<Rightarrow> s)"

definition commit_action ::
  "kernel_env \<Rightarrow> nat \<Rightarrow> action \<Rightarrow> i64 \<Rightarrow> energy_reservation option \<Rightarrow> create_actor_spec option \<Rightarrow>
   (string \<times> envelope_spec \<times> string option) option \<Rightarrow> string option \<Rightarrow> event_record handler" where
  "commit_action k d a reserved_cost reservation create_actor create_envelope artifact =
     h_bind (h_lift (hash_payload k a)) (\<lambda>ph.
       finalize_energy_and_event k d reservation reserved_cost create_actor create_envelope
         (new_event (k_uuid k d 21 0) (act_actor_id a) (action_type_str (act_type a)) (act_target a)
            (act_payload a) ph artifact reserved_cost reserved_cost (now_millis_string k d 21 1)))"

definition run_action :: "kernel_env \<Rightarrow> nat \<Rightarrow> action \<Rightarrow> submit_receipt handler" where
  "run_action k d a s =
     (let lifecycle_op = lifecycle_request a
      in
      h_bind (h_lift (authorize_lifecycle k a lifecycle_op s)) (\<lambda>_.
      h_bind (h_lift (parse_create_actor_spec (k_ext k) a s)) (\<lambda>create_actor.
      h_bind (h_lift (parse_create_envelope_spec (k_ext k) (k_uuid k d 19 0) a s)) (\<lambda>create_envelope.
      h_bind (quote_and_reserve k d a) (\<lambda>(reserved_cost, reservation).
      h_bind (h_lift (if act_type a = Execute
                      then and_then (validate_execute_payload (act_payload a)) (\<lambda>h. Inr (Some h))
                      else Inr None)) (\<lambda>artifact.
      h_bind (commit_action k d a reserved_cost reservation create_actor create_envelope artifact) (\<lambda>event.
      h_bind (record_policy (parse_policy_version a)) (\<lambda>_.
      h_bind (consume_envelope k d a reserved_cost) (\<lambda>_.
      h_bind (execute_lifecycle k d lifecycle_op) (\<lambda>_.
        h_return
          \<lparr>sr_event_id = ev_id event, sr_log_index = ev_log_index event,
           sr_event_hash = ev_event_hash event, sr_reserved_cost = reserved_cost,
           sr_settled_cost = reserved_cost, sr_artifact_hash = artifact\<rparr>))))))))) s)"

definition submit_once :: "kernel_env \<Rightarrow> nat \<Rightarrow> action \<Rightarrow> submit_outcome handler" where
  "submit_once k d a =
     h_bind (authorize k d a) (\<lambda>_.
       let hold_response =
             (if act_type a = Mutate then parse_hold_response (act_target a) (act_payload a) else None)
       in case hold_response of
            Some (hold_id, decision, instruction) \<Rightarrow>
              execute_hold_response k d a hold_id decision instruction
          | None \<Rightarrow> h_bind (run_action k d a) (\<lambda>r. h_return (Finished r)))"

section \<open>Termination of re-submission\<close>

lemma map_err_Inr [simp]: "map_err f r = Inr a \<longleftrightarrow> r = Inr a"
  by (cases r) (auto simp: map_err_def)

lemma audit_leaf_frame [frames]:
  "audit_leaf x ev s = Inr (u, t) \<Longrightarrow> \<exists>hs. t = s\<lparr>audit_hashes := hs\<rparr>"
  by (auto simp: audit_leaf_def dest: leaf_frame)

lemma append_audited_frame [frames]:
  "append_audited x ev s = Inr (ev', t) \<Longrightarrow>
     \<exists>r hs. t = s\<lparr>events := events s @ [r], audit_hashes := hs\<rparr>"
  unfolding append_audited_def
  by (elim tx_bind_InrE, drule append_frame, drule audit_leaf_frame) auto

lemma pending_count_frame [simp]:
  "pending_count (s\<lparr>energy_ledger := l\<rparr>) = pending_count s"
  "pending_count (s\<lparr>events := e\<rparr>) = pending_count s"
  "pending_count (s\<lparr>audit_hashes := hs\<rparr>) = pending_count s"
  "pending_count (s\<lparr>envelopes := es\<rparr>) = pending_count s"
  by (simp_all add: pending_count_def)

text \<open>The statements of the composite transactions.\<close>

lemma append_auditedE:
  assumes "append_audited x ev s = Inr (e, t)"
  obtains s1 where "append_in_tx x ev s = Inr (e, s1)" "audit_leaf x e s1 = Inr ((), t)"
  using assms unfolding append_audited_def by (elim tx_bind_InrE) (rule that, simp_all)

lemma timeout_txE:
  assumes "timeout_tx k d b j hid aid rc cc ev s = Inr (e, t)"
  obtains s1 s2 where
    "resolve_hold_request_in_tx (now_millis_string k d (b + 2) j) hid ''timed_out'' None s = Inr ((), s1)"
    "s2 = s1 \<or> settle_in_tx (now_millis_string k d (b + 3) j) aid rc cc s1 = Inr ((), s2)"
    "append_audited (k_ext k) ev s2 = Inr (e, t)"
  using assms unfolding timeout_tx_def
  by (elim tx_bind_InrE) (rule that, auto split: if_splits)

lemma hold_txE:
  assumes "hold_tx k d a eid hid rc ev s = Inr (u, t)"
  obtains s1 s2 s3 e req where
    "s1 = s \<or> reserve_in_tx (now_millis_string k d 8 0) (act_actor_id a) rc s = Inr ((), s1)"
    "append_in_tx (k_ext k) ev s1 = Inr (e, s2)"
    "create_hold_request_in_tx (k_ext k) (now_millis_string k d 9 0) req s2 = Inr ((), s3)"
    "audit_leaf (k_ext k) e s3 = Inr ((), t)"
  using assms unfolding hold_tx_def
  by (elim tx_bind_InrE) (rule that, auto split: if_splits)

lemma commit_txE:
  assumes "commit_tx k d res c ca ce ev s = Inr (e, t)"
  obtains s1 s2 s3 where "settle_step k d res c s = Inr ((), s1)"
    "create_actor_step k d ca s1 = Inr ((), s2)" "create_envelope_step k d ce s2 = Inr ((), s3)"
    "append_audited (k_ext k) ev s3 = Inr (e, t)"
  using assms unfolding commit_tx_def by (elim tx_bind_InrE) (rule that, simp_all)

lemma timeout_tx_pending:
  assumes "timeout_tx k d b j hid aid rc cc ev s = Inr (e, t)"
  shows "pending_count t < pending_count s"
proof -
  obtain s1 s2 where 1: "resolve_hold_request_in_tx (now_millis_string k d (b + 2) j) hid ''timed_out'' None s
      = Inr ((), s1)"
    and 2: "s2 = s1 \<or> settle_in_tx (now_millis_string k d (b + 3) j) aid rc cc s1 = Inr ((), s2)"
    and 3: "append_audited (k_ext k) ev s2 = Inr (e, t)"
    using assms by (rule timeout_txE)
  have "pending_count t = pending_count s1"
    using 2 append_audited_frame [OF 3] by (auto dest: settle_frame)
  with resolve_pending_less [OF 1] show ?thesis by simp
qed

lemma resolve_txE:
  assumes "resolve_tx k d a hid dec ins aid rc p s = Inr (r, t)"
  obtains s1 s2 c e where
    "resolve_hold_request_in_tx (now_millis_string k d 15 0) hid dec ins s = Inr ((), s1)"
    "s2 = s1 \<or> settle_in_tx (now_millis_string k d 16 0) aid rc (commitment_cost rc) s1 = Inr ((), s2)"
    "append_audited (k_ext k) e s2 = Inr (c, t)" "ev_action_type e = ''hold_response''"
proof -
  obtain s1 s2 cc where 1: "resolve_hold_request_in_tx (now_millis_string k d 15 0) hid dec ins s = Inr ((), s1)"
    and 2: "(if dec = ''reject'' \<and> rc > 0
        then tx_bind (settle_in_tx (now_millis_string k d 16 0) aid rc (commitment_cost rc))
               (\<lambda>_. tx_return (commitment_cost rc)) else tx_return 0) s1 = Inr (cc, s2)"
    and 3: "\<exists>ph c. append_audited (k_ext k)
        (new_event (k_uuid k d 17 0) (act_actor_id a) ''hold_response'' (hold_prefix @ hid) p ph None
           rc cc (now_millis_string k d 17 0)) s2 = Inr (c, t)"
    using assms unfolding resolve_tx_def
    by (elim tx_bind_InrE and_then_InrE) (rule that, simp_all, blast)
  have "s2 = s1 \<or> settle_in_tx (now_millis_string k d 16 0) aid rc (commitment_cost rc) s1 = Inr ((), s2)"
    using 2 by (auto split: if_splits)
  with 1 3 show thesis by (auto intro: that simp: new_event_def)
qed

lemma resolve_tx_pending:
  assumes "resolve_tx k d a hid dec ins aid rc p s = Inr (r, t)"
  shows "pending_count t < pending_count s"
proof -
  obtain s1 s2 c e where 1: "resolve_hold_request_in_tx (now_millis_string k d 15 0) hid dec ins s
      = Inr ((), s1)"
    and 2: "s2 = s1 \<or> settle_in_tx (now_millis_string k d 16 0) aid rc (commitment_cost rc) s1 = Inr ((), s2)"
    and 3: "append_audited (k_ext k) e s2 = Inr (c, t)"
    using assms by (rule resolve_txE)
  have "pending_count t = pending_count s1"
    using 2 append_audited_frame [OF 3] by (auto dest: settle_frame)
  with resolve_pending_less [OF 1] show ?thesis by simp
qed

lemma expire_one_pending:
  "h_rel (\<lambda>s t. pending_count t \<le> pending_count s) (expire_one k d b j now to hold)"
  by (rule h_relI)
    (auto simp: expire_one_def Let_def run_tx_Inr_iff split: if_splits
      dest!: timeout_tx_pending)

lemma expire_each_pending:
  "h_rel (\<lambda>s t. pending_count t \<le> pending_count s) (expire_each k d b j now to holds)"
  by (induction holds arbitrary: j)
    (auto intro: pending_evolve.h_return_rel pending_evolve.h_bind_rel expire_one_pending)

lemma expire_holds_pending:
  "h_rel (\<lambda>s t. pending_count t \<le> pending_count s) (expire_timed_out_holds k d b eid to)"
  using expire_each_pending unfolding h_rel_def expire_timed_out_holds_def by blast

lemma trigger_hold_never_ok: "trigger_hold k d a env s \<noteq> (Inr u, t)"
  by (auto simp: trigger_hold_def Let_def)

lemma envelope_gate_pending:
  "h_rel (\<lambda>s t. pending_count t \<le> pending_count s) (envelope_gate k d a env)"
proof -
  have "h_rel (\<lambda>s t. pending_count t \<le> pending_count s) (expire_before_gate k d env)"
    unfolding expire_before_gate_def
    by (auto intro: pending_evolve.h_return_rel expire_holds_pending split: option.splits)
  moreover have "h_rel R (trigger_hold k d a env)" for R
    by (auto intro!: h_relI simp: trigger_hold_never_ok)
  ultimately show ?thesis
    unfolding envelope_gate_def
    by (auto intro!: pending_evolve.h_bind_rel pending_evolve.h_lift_rel pending_evolve.h_return_rel)
qed

lemma drop_expired_pending:
  "h_rel (\<lambda>s t. pending_count t \<le> pending_count s) (drop_expired k d env)"
  by (rule h_relI)
    (auto simp: drop_expired_def envelope_set_status_def run_tx_Inr_iff
      split: option.splits if_splits dest!: env_status_frame)

lemma authorize_pending:
  assumes "authorize k d a s = (Inr u, t)"
  shows "pending_count t \<le> pending_count s"
  using assms
  by (auto simp: authorize_def authorize_actor_def authorize_envelope_def
      split: if_splits option.splits
      dest!: h_relD [OF drop_expired_pending] h_relD [OF envelope_gate_pending]
      intro: order_trans)

lemma check_hold_timeout_ok: "check_hold_timeout k d hid hold s = (Inr u, t) \<Longrightarrow> t = s"
  by (auto simp: check_hold_timeout_def Let_def split: sum.splits option.splits if_splits)

lemma hold_response_pending:
  assumes "execute_hold_response k d a hid dec ins s = (Inr r, t)"
  shows "pending_count t < pending_count s"
  using assms
  by (auto simp: execute_hold_response_def Let_def run_tx_Inr_iff split: if_splits
      dest!: check_hold_timeout_ok resolve_tx_pending)

lemma resubmit_pending:
  assumes "submit_once k d a s = (Inr (Resubmit b), t)"
  shows "pending_count t < pending_count s"
proof -
  obtain u where u: "authorize k d a s = (Inr (), u)"
    and "\<exists>hid dec ins. execute_hold_response k d a hid dec ins u = (Inr (Resubmit b), t)"
    using assms unfolding submit_once_def Let_def
    by (auto split: if_splits option.splits) blast
  then show ?thesis using authorize_pending [OF u] by (auto dest!: hold_response_pending)
qed

function submit_action :: "kernel_env \<Rightarrow> nat \<Rightarrow> action \<Rightarrow> submit_receipt handler" where
  "submit_action k d a s =
     (case submit_once k d a s of
        (Inl e, t) \<Rightarrow> (Inl e, t)
      | (Inr (Finished r), t) \<Rightarrow> (Inr r, t)
      | (Inr (Resubmit b), t) \<Rightarrow> submit_action k (Suc d) b t)"
  by pat_completeness auto
termination
  by (relation "measure (\<lambda>(k, d, a, s). pending_count s)") (auto dest: resubmit_pending [OF sym])

declare submit_action.simps [simp del]

end
