(* ===== verification/Kernel_Steps.thy ===== *)
theory Kernel_Steps
  imports Kernel
begin

text \<open>
  The kernel as a state machine whose steps are its committed transactions. Every handler is
  a sequence of these steps, whatever its outcome, so what each step keeps holds in every
  state the kernel can reach, between any two transactions of concurrent requests.
\<close>

inductive rstep :: "kernel_env \<Rightarrow> db \<Rightarrow> db \<Rightarrow> bool" for k where
  k_reserve: "reserve now a c s = Inr (r, t) \<Longrightarrow> rstep k s t"
| k_timeout: "timeout_tx k d b j hid aid rc cc ev s = Inr (e, t) \<Longrightarrow>
    ev_action_type ev = ''hold_timeout'' \<Longrightarrow> ev_settled_energy ev = cc \<Longrightarrow> 0 < rc \<or> cc = 0 \<Longrightarrow>
    rstep k s t"
| k_hold: "hold_tx k d a eid hid rc ev s = Inr (u, t) \<Longrightarrow>
    ev_action_type ev = ''hold_request'' \<Longrightarrow> ev_settled_energy ev = 0 \<Longrightarrow> rstep k s t"
| k_resolve: "resolve_tx k d a hid dec ins aid rc p s = Inr (r, t) \<Longrightarrow> rstep k s t"
| k_commit: "commit_tx k d res c ca ce ev s = Inr (e, t) \<Longrightarrow>
    (\<And>eid spec p. ce = Some (eid, spec, p) \<Longrightarrow> 0 < es_budget spec) \<Longrightarrow>
    ev_action_type ev = action_type_str ty \<Longrightarrow> ev_settled_energy ev = c \<Longrightarrow>
    (res = None \<Longrightarrow> c \<le> 0) \<Longrightarrow> rstep k s t"
| k_consume: "0 < c \<Longrightarrow> consume_and_checkpoint k d env c s = (Inr u, t) \<Longrightarrow> rstep k s t"
| k_env_expire: "envelope_set_status_in_tx now eid EnvExpired s = Inr (u, t) \<Longrightarrow> rstep k s t"
| k_freeze: "execute_freeze (k_ext k) ck a s = (Inr ids, t) \<Longrightarrow> rstep k s t"
| k_unfreeze: "actor_set_status_in_tx now a Active s = Inr (u, t) \<Longrightarrow> rstep k s t"
| k_share: "update_energy_share_in_tx now a sh s = Inr (u, t) \<Longrightarrow> rstep k s t"
| k_policy: "rstep k s (set_policy_version v s)"
| k_checkpoint: "make_checkpoint_in_tx (k_ext k) al now n s = Inr (row, t) \<Longrightarrow> rstep k s t"

inductive_cases rstepE: "rstep k s t"

text \<open>A step of the kernel belongs to a request or is a tick of the energy producer.\<close>

inductive kstep :: "kernel_env \<Rightarrow> db \<Rightarrow> db \<Rightarrow> bool" for k where
  k_request: "rstep k s t \<Longrightarrow> kstep k s t"
| k_tick: "produce_tick ck E s = (Inr r, t) \<Longrightarrow> kstep k s t"

inductive_cases kstepE: "kstep k s t"

lemma rsteps_ksteps: "(rstep k)\<^sup>*\<^sup>* s t \<Longrightarrow> (kstep k)\<^sup>*\<^sup>* s t"
  by (erule rtranclp_mono [THEN predicate2D, rotated]) (auto intro: k_request)

section \<open>Handlers are sequences of steps\<close>

text \<open>From \<open>s\<close>, the handler ends in a state that is reached by steps.\<close>

abbreviation steps_to :: "kernel_env \<Rightarrow> 'a handler \<Rightarrow> db \<Rightarrow> bool" where
  "steps_to k m s \<equiv> (rstep k)\<^sup>*\<^sup>* s (snd (m s))"

lemma steps_return: "steps_to k (h_return a) s"
  by simp

lemma steps_lift: "steps_to k (h_lift r) s"
  by simp

lemma steps_bind_val:
  assumes "steps_to k m s" and "\<And>a t. m s = (Inr a, t) \<Longrightarrow> steps_to k (f a) t"
  shows "steps_to k (h_bind m f) s"
proof -
  obtain r t where m: "m s = (r, t)" by (cases "m s")
  show ?thesis
  proof (cases r)
    case (Inr a)
    then show ?thesis using m assms(1) assms(2) [of a t] by (simp add: h_bind_def)
  qed (use m assms(1) in \<open>simp add: h_bind_def\<close>)
qed

lemma steps_bind:
  "steps_to k m s \<Longrightarrow> (\<And>a t. steps_to k (f a) t) \<Longrightarrow> steps_to k (h_bind m f) s"
  by (rule steps_bind_val)

lemma steps_run:
  assumes "\<And>a t. m s = Inr (a, t) \<Longrightarrow> rstep k s t"
  shows "steps_to k (run_tx m) s"
  using assms by (auto simp: run_tx_def split: sum.splits)

lemma steps_logged: "steps_to k m s \<Longrightarrow> steps_to k (logged m) s"
  by (simp add: logged_def)

lemma steps_if: "(b \<Longrightarrow> steps_to k m s) \<Longrightarrow> (\<not> b \<Longrightarrow> steps_to k n s) \<Longrightarrow> steps_to k (if b then m else n) s"
  by simp

lemma steps_option:
  "(y = None \<Longrightarrow> steps_to k m s) \<Longrightarrow> (\<And>a. y = Some a \<Longrightarrow> steps_to k (f a) s) \<Longrightarrow>
   steps_to k (case y of None \<Rightarrow> m | Some a \<Rightarrow> f a) s"
  by (cases y) auto

lemmas steps_intros = steps_return steps_lift steps_bind steps_if steps_option

lemma expire_one_steps: "steps_to k (expire_one k d b j now tmo hold) s"
  unfolding expire_one_def Let_def
  by (intro steps_intros steps_run) (erule k_timeout, auto simp: new_event_def)

lemma expire_each_steps: "steps_to k (expire_each k d b j now tmo holds) s"
proof (induction holds arbitrary: j s)
  case (Cons h hs)
  show ?case unfolding expire_each.simps by (intro steps_intros expire_one_steps Cons)
qed simp

lemma expire_holds_steps: "steps_to k (expire_timed_out_holds k d b eid tmo) s"
  unfolding expire_timed_out_holds_def by (rule expire_each_steps)

lemma trigger_hold_steps: "steps_to k (trigger_hold k d a env) s"
  unfolding trigger_hold_def Let_def
  by (intro steps_intros steps_run) (erule k_hold, simp_all add: new_event_def)

lemma drop_expired_steps: "steps_to k (drop_expired k d env) s"
  unfolding drop_expired_def envelope_set_status_def
  by (intro steps_intros steps_run) (erule k_env_expire)

lemma envelope_gate_steps: "steps_to k (envelope_gate k d a env) s"
  unfolding envelope_gate_def expire_before_gate_def
  by (intro steps_intros expire_holds_steps trigger_hold_steps)

lemma authorize_envelope_steps: "steps_to k (authorize_envelope k d a actor) s"
  unfolding authorize_envelope_def
  by (intro steps_intros drop_expired_steps envelope_gate_steps)

lemma authorize_actor_steps: "steps_to k (authorize_actor k d a actor) s"
proof (cases "ar_status actor = Frozen \<and> is_state_changing (act_type a)")
  case False
  then show ?thesis
    unfolding authorize_actor_def if_not_P [OF False]
    by (intro steps_intros authorize_envelope_steps)
qed (simp add: authorize_actor_def)

lemma authorize_steps: "steps_to k (authorize k d a) s"
  unfolding authorize_def by (intro steps_intros authorize_actor_steps)

lemma check_hold_timeout_steps: "steps_to k (check_hold_timeout k d hid hold) s"
proof -
  have "steps_to k (h_bind (expire_timed_out_holds k d 11 eid tmo) (\<lambda>_. h_lift (Inl e))) s"
    for eid tmo and e :: kernel_error
    by (intro steps_intros expire_holds_steps)
  then show ?thesis
    by (auto simp: check_hold_timeout_def Let_def split: sum.splits option.splits)
qed

lemma hold_response_steps: "steps_to k (execute_hold_response k d a hid dec ins) s"
proof -
  have "steps_to k (case p of (c, ev) \<Rightarrow> if b then h_return (f c ev) else h_return (g c ev)) s"
    for p :: "i64 \<times> event_record" and b s and f g :: "i64 \<Rightarrow> event_record \<Rightarrow> submit_outcome"
    by (cases p) simp
  then show ?thesis
    unfolding execute_hold_response_def Let_def
    by (intro steps_intros check_hold_timeout_steps steps_run) (erule k_resolve)
qed

lemma quote_and_reserve_steps: "steps_to k (quote_and_reserve k d a) s"
  unfolding quote_and_reserve_def Let_def
  by (intro steps_intros steps_run) (erule k_reserve)

lemma consume_and_checkpoint_steps:
  assumes "0 < c"
  shows "steps_to k (consume_and_checkpoint k d env c) s"
proof (cases "consume_and_checkpoint k d env c s")
  case (Pair r t)
  show ?thesis
  proof (cases r)
    case (Inl e)
    with Pair show ?thesis
      by (auto simp: consume_and_checkpoint_def Let_def split: sum.splits if_splits)
  next
    case (Inr u)
    with Pair assms show ?thesis by (auto intro: k_consume)
  qed
qed

lemma consume_envelope_steps: "steps_to k (consume_envelope k d a c) s"
  using consume_and_checkpoint_steps
  by (auto simp: consume_envelope_def split: sum.splits option.splits)

lemma freeze_steps: "steps_to k (execute_freeze (k_ext k) ck a) s"
proof (cases "execute_freeze (k_ext k) ck a s")
  case (Pair r t)
  show ?thesis
  proof (cases r)
    case (Inl e)
    with Pair show ?thesis by (auto simp: execute_freeze_def run_tx_def split: sum.splits)
  next
    case (Inr ids)
    with Pair show ?thesis by (auto intro: k_freeze)
  qed
qed

lemma lifecycle_steps: "steps_to k (execute_lifecycle k d op) s"
proof -
  have "steps_to k (logged (execute_unfreeze ck a)) s" for ck a
    unfolding execute_unfreeze_def by (intro steps_logged steps_run) (erule k_unfreeze)
  moreover have "steps_to k (logged (execute_update_energy_share ck a sh)) s" for ck a sh
    unfolding execute_update_energy_share_def by (intro steps_logged steps_run) (erule k_share)
  ultimately show ?thesis
    unfolding execute_lifecycle_def Let_def
    by (auto intro: steps_logged [OF freeze_steps] split: option.splits lifecycle_op.splits)
qed

lemma record_policy_steps: "steps_to k (record_policy v) s"
  by (auto simp: record_policy_def split: option.splits intro: k_policy)

lemma commit_action_steps:
  assumes "\<And>eid spec p. ce = Some (eid, spec, p) \<Longrightarrow> 0 < es_budget spec" "res = None \<Longrightarrow> c \<le> 0"
  shows "steps_to k (commit_action k d a c res ca ce art) s"
  unfolding commit_action_def finalize_energy_and_event_def
  by (intro steps_intros steps_run)
    (erule k_commit [where ty = "act_type a"], auto simp: new_event_def assms)

text \<open>Binding a read whose success tells something about the value.\<close>

lemma quoted_reservation: "quote_and_reserve k d a s = (Inr (c, None), t) \<Longrightarrow> c \<le> 0"
  by (auto simp: quote_and_reserve_def Let_def split: option.splits if_splits)

lemma steps_bind_lift:
  "(\<And>a. r = Inr a \<Longrightarrow> steps_to k (f a) s) \<Longrightarrow> steps_to k (h_bind (h_lift r) f) s"
  by (cases r) (simp_all add: h_bind_def)

lemma run_action_steps: "steps_to k (run_action k d a) s"
proof -
  have pair: "steps_to k (case p of (c, res) \<Rightarrow> f c res) t"
    if "\<And>c res. p = (c, res) \<Longrightarrow> steps_to k (f c res) t"
    for p :: "i64 \<times> energy_reservation option" and t and f :: "_ \<Rightarrow> _ \<Rightarrow> submit_receipt handler"
    using that by (cases p) simp
  have budget: "0 < es_budget spec"
    if "parse_create_envelope_spec (k_ext k) u a s = Inr ce" "ce = Some (eid, spec, p)"
    for u ce eid spec p
    using parse_envelope_Some that by blast
  show ?thesis
    unfolding run_action_def Let_def
    by (intro steps_bind_lift steps_bind_val [OF quote_and_reserve_steps] pair
        steps_bind [OF commit_action_steps] steps_bind [OF record_policy_steps]
        steps_bind [OF consume_envelope_steps] steps_bind [OF lifecycle_steps] steps_return)
      (use budget quoted_reservation in blast)+
qed

lemma submit_once_steps: "steps_to k (submit_once k d a) s"
proof -
  have "steps_to k (case p of (hid, dec, ins) \<Rightarrow> execute_hold_response k d a hid dec ins) t"
    for p t
    by (cases p) (simp add: hold_response_steps)
  then show ?thesis
    unfolding submit_once_def Let_def
    by (intro steps_intros authorize_steps run_action_steps)
qed

lemma submit_action_steps: "steps_to k (submit_action k d a) s"
proof (induction k d a s rule: submit_action.induct)
  case (1 k d a s)
  obtain r t where once: "submit_once k d a s = (r, t)" by (cases "submit_once k d a s")
  have first: "(rstep k)\<^sup>*\<^sup>* s t" using submit_once_steps [of k s d a] once by simp
  show ?case
  proof (cases "\<exists>b. r = Inr (Resubmit b)")
    case True
    then obtain b where b: "r = Inr (Resubmit b)" by blast
    then have "(rstep k)\<^sup>*\<^sup>* t (snd (submit_action k (Suc d) b t))"
      using 1 once by simp
    with first once b show ?thesis by (simp add: submit_action.simps [of k d a s])
  next
    case False
    with first once show ?thesis
      by (auto simp: submit_action.simps [of k d a s] split: sum.splits submit_outcome.splits)
  qed
qed

lemma produce_tick_steps: "(kstep k)\<^sup>*\<^sup>* s (snd (produce_tick ck E s))"
proof (cases "produce_tick ck E s")
  case (Pair r t)
  show ?thesis
  proof (cases r)
    case (Inl e)
    with Pair show ?thesis
      by (auto simp: produce_tick_def Let_def split: if_splits sum.splits)
  next
    case (Inr q)
    with Pair show ?thesis by (auto intro: k_tick)
  qed
qed

end
