(* ===== verification/Kernel_Laws.thy ===== *)
theory Kernel_Laws
  imports Kernel_Steps
begin

text \<open>
  What a step of the kernel keeps, from what the stores' operations keep: the locale
  \<open>step_laws\<close> states the laws that every store operation obeys for a preorder on databases
  and derives that every step, hence every run of the kernel, respects it. Its
  interpretations are the invariants and monotonicity properties of the kernel.
\<close>

lemma account_created:
  "create_actor_in_tx now a c s = Inr (u, t) \<Longrightarrow> ledger_get a t \<noteq> None"
  by (auto simp: create_actor_in_tx_def ledger_get_def table_simps tbl_get_append
      split: if_splits option.splits)

locale step_laws = evolution R for R :: "db \<Rightarrow> db \<Rightarrow> bool" +
  fixes k :: kernel_env
  assumes l_reserve: "reserve_in_tx now a c s = Inr (u, t) \<Longrightarrow> R s t"
    and l_settle: "settle_in_tx now a rc ac s = Inr (u, t) \<Longrightarrow> R s t"
    and l_credit: "credit_energy_in_tx now a c s = Inr (u, t) \<Longrightarrow> R s t"
    and l_account: "create_actor_in_tx now a c s = Inr (u, t) \<Longrightarrow> R s t"
    and l_append: "append_in_tx (k_ext k) ev s = Inr (e, t) \<Longrightarrow>
      ev_action_type ev \<in> set known_action_types \<Longrightarrow> R s t"
    and l_leaf: "audit_leaf (k_ext k) e s = Inr (u, t) \<Longrightarrow> R s t"
    and l_actor: "actor_create_in_tx (k_ext k) now spec s = Inr (u, t) \<Longrightarrow>
      ledger_get (cs_actor_id spec) s \<noteq> None \<Longrightarrow> R s t"
    and l_status: "actor_set_status_in_tx now a st s = Inr (u, t) \<Longrightarrow> R s t"
    and l_share: "update_energy_share_in_tx now a sh s = Inr (u, t) \<Longrightarrow> R s t"
    and l_env: "envelope_create_in_tx (k_ext k) now eid es p s = Inr (env, t) \<Longrightarrow>
      0 < es_budget es \<Longrightarrow> R s t"
    and l_consume: "consume_budget_in_tx now eid c s = Inr (n, t) \<Longrightarrow> 0 < c \<Longrightarrow> R s t"
    and l_env_expire: "envelope_set_status_in_tx now eid EnvExpired s = Inr (u, t) \<Longrightarrow> R s t"
    and l_hold: "create_hold_request_in_tx (k_ext k) now req s = Inr (u, t) \<Longrightarrow> R s t"
    and l_resolve: "resolve_hold_request_in_tx now hid dec ins s = Inr (u, t) \<Longrightarrow> R s t"
    and l_policy: "R s (set_policy_version v s)"
    and l_checkpoint: "make_checkpoint_in_tx (k_ext k) al now m s = Inr (row, t) \<Longrightarrow> R s t"
begin

lemma audited_rel:
  assumes "append_audited (k_ext k) ev s = Inr (e, t)" "ev_action_type ev \<in> set known_action_types"
  shows "R s t"
proof -
  obtain s1 where "append_in_tx (k_ext k) ev s = Inr (e, s1)" "audit_leaf (k_ext k) e s1 = Inr ((), t)"
    using assms(1) by (rule append_auditedE)
  then have "R s s1" "R s1 t" using assms(2) by (blast intro: l_append l_leaf)+
  then show ?thesis by (rule rel_trans)
qed

lemma known_types [simp]:
  "''hold_timeout'' \<in> set known_action_types"
  "''hold_request'' \<in> set known_action_types"
  "''hold_response'' \<in> set known_action_types"
  "action_type_str ty \<in> set known_action_types"
  by (simp_all add: known_action_types_def, cases ty, simp_all)

lemma timeout_rel:
  assumes "timeout_tx k d b j hid aid rc cc ev s = Inr (e, t)" "ev_action_type ev = ''hold_timeout''"
  shows "R s t"
proof -
  obtain s1 s2 where 1: "resolve_hold_request_in_tx (now_millis_string k d (b + 2) j) hid ''timed_out'' None s
      = Inr ((), s1)"
    and 2: "s2 = s1 \<or> settle_in_tx (now_millis_string k d (b + 3) j) aid rc cc s1 = Inr ((), s2)"
    and 3: "append_audited (k_ext k) ev s2 = Inr (e, t)"
    using assms(1) by (rule timeout_txE)
  have "R s s1" using 1 by (rule l_resolve)
  moreover have "R s1 s2" using 2 by (blast intro: l_settle rel_refl)
  moreover have "R s2 t" using audited_rel [OF 3] assms(2) by simp
  ultimately show ?thesis by (blast intro: rel_trans)
qed

lemma hold_rel:
  assumes "hold_tx k d a eid hid rc ev s = Inr (u, t)" "ev_action_type ev = ''hold_request''"
  shows "R s t"
proof -
  obtain s1 s2 s3 e req where
    1: "s1 = s \<or> reserve_in_tx (now_millis_string k d 8 0) (act_actor_id a) rc s = Inr ((), s1)"
    and 2: "append_in_tx (k_ext k) ev s1 = Inr (e, s2)"
    and 3: "create_hold_request_in_tx (k_ext k) (now_millis_string k d 9 0) req s2 = Inr ((), s3)"
    and 4: "audit_leaf (k_ext k) e s3 = Inr ((), t)"
    using assms(1) by (rule hold_txE)
  have "R s s1" using 1 by (blast intro: l_reserve rel_refl)
  moreover have "R s1 s2" using l_append [OF 2] assms(2) by simp
  moreover have "R s2 s3" using 3 by (rule l_hold)
  moreover have "R s3 t" using 4 by (rule l_leaf)
  ultimately show ?thesis by (blast intro: rel_trans)
qed

lemma resolve_rel:
  assumes "resolve_tx k d a hid dec ins aid rc p s = Inr (r, t)"
  shows "R s t"
proof -
  obtain s1 s2 c e where "resolve_hold_request_in_tx (now_millis_string k d 15 0) hid dec ins s
      = Inr ((), s1)"
    and 2: "s2 = s1 \<or> settle_in_tx (now_millis_string k d 16 0) aid rc (commitment_cost rc) s1 = Inr ((), s2)"
    and 3: "append_audited (k_ext k) e s2 = Inr (c, t)" "ev_action_type e = ''hold_response''"
    using assms by (rule resolve_txE)
  then have "R s s1" by (blast intro: l_resolve)
  moreover have "R s1 s2" using 2 by (blast intro: l_settle rel_refl)
  moreover have "R s2 t" using audited_rel [OF 3(1)] 3(2) by simp
  ultimately show ?thesis by (blast intro: rel_trans)
qed

lemma commit_rel:
  assumes "commit_tx k d res c ca ce ev s = Inr (e, t)"
    and "\<And>eid spec p. ce = Some (eid, spec, p) \<Longrightarrow> 0 < es_budget spec"
    and "ev_action_type ev = action_type_str ty"
  shows "R s t"
proof -
  obtain s1 s2 s3 where 1: "settle_step k d res c s = Inr ((), s1)"
    and 2: "create_actor_step k d ca s1 = Inr ((), s2)"
    and 3: "create_envelope_step k d ce s2 = Inr ((), s3)"
    and 4: "append_audited (k_ext k) ev s3 = Inr (e, t)"
    using assms(1) by (rule commit_txE)
  have "R s s1" using 1 by (auto simp: settle_step_def split: option.splits intro: l_settle rel_refl)
  moreover have "R s1 s2"
    using 2 by (auto simp: create_actor_step_def rel_refl split: option.splits
        intro: rel_trans [OF l_account l_actor] dest: account_created)
  moreover have "R s2 s3"
    using 3 assms(2) by (auto simp: create_envelope_step_def split: option.splits prod.splits
        intro: l_env rel_refl)
  moreover have "R s3 t" using audited_rel [OF 4] assms(3) by simp
  ultimately show ?thesis by (blast intro: rel_trans)
qed

lemma consume_rel:
  assumes "consume_and_checkpoint k d env c s = (Inr u, t)" "0 < c"
  shows "R s t"
proof (cases "consume_budget_in_tx (now_millis_string k d 25 0) (en_envelope_id env) c s")
  case (Inl e)
  then show ?thesis using assms(1) rel_refl by (simp add: consume_and_checkpoint_def Let_def)
next
  case (Inr r)
  obtain n s1 where r: "r = (n, s1)" by (cases r)
  with Inr have 1: "R s s1" using assms(2) by (blast intro: l_consume)
  have "R s1 t"
    using assms(1) Inr r
    by (auto simp: consume_and_checkpoint_def Let_def rel_refl split: if_splits sum.splits
        intro: l_env_expire)
  with 1 show ?thesis by (blast intro: rel_trans)
qed

lemma freeze_each_rel: "freeze_each ck i ds s = Inr (ids, t) \<Longrightarrow> R s t"
proof (induction ck i ds arbitrary: s ids rule: freeze_each.induct)
  case (2 ck i d ds)
  then obtain s1 ids' where "actor_set_status_in_tx (ck i) (ar_actor_id d) Frozen s = Inr ((), s1)"
    "freeze_each ck (Suc i) ds s1 = Inr (ids', t)" by auto
  with 2 show ?case by (blast intro: rel_trans l_status)
qed (simp add: rel_refl)

lemma freeze_rel: "execute_freeze (k_ext k) ck a s = (Inr ids, t) \<Longrightarrow> R s t"
  by (erule execute_freeze_Inr) (blast intro: rel_trans l_status freeze_each_rel)

lemma credit_each_rel: "credit_each ck i as n tot s = Inr (n', tot', t) \<Longrightarrow> R s t"
proof (induction ck i as n tot s rule: credit_each.induct)
  case (2 ck i a c as n tot s)
  show ?case
  proof (cases "c \<le> 0")
    case False
    with "2.prems" obtain u where u: "credit_energy_in_tx (ck i) a c s = Inr ((), u)"
      "credit_each ck (Suc i) as (n + 1) (tot + c) u = Inr (n', tot', t)"
      by (auto split: sum.splits)
    with 2(2) [OF False u(1) refl] show ?thesis by (blast intro: rel_trans l_credit)
  qed (use 2 in simp)
qed (simp add: rel_refl)

lemma tick_rel: "produce_tick ck E s = (Inr r, t) \<Longrightarrow> R s t"
  unfolding produce_tick_def Let_def
  by (auto split: if_splits sum.splits intro: rel_refl credit_each_rel)

lemma request_rel: "rstep k s t \<Longrightarrow> R s t"
proof (induction rule: rstep.induct)
  case (k_reserve now a c s r t)
  then show ?case by (auto simp: reserve_def intro: l_reserve)
next
  case (k_commit d res c ca ce ev s e t ty)
  then show ?case by (blast intro: commit_rel)
qed (blast intro: timeout_rel hold_rel resolve_rel consume_rel freeze_rel
      l_env_expire l_status l_share l_policy l_checkpoint)+

theorem step_rel: "kstep k s t \<Longrightarrow> R s t"
  by (erule kstepE) (blast intro: request_rel tick_rel)+

theorem run_rel: "(kstep k)\<^sup>*\<^sup>* s t \<Longrightarrow> R s t"
  by (erule rtranclp_rel) (rule step_rel)

end

section \<open>Properties of one table\<close>

text \<open>
  A preorder that looks at one table only needs laws for the operations on that table: every
  other operation leaves the table alone.
\<close>

lemma policy_frame: "\<exists>m. set_policy_version v s = s\<lparr>system_meta := m\<rparr>"
  by (auto simp: set_policy_version_def set_meta_def)

locale ledger_laws = evolution R for R :: "db \<Rightarrow> db \<Rightarrow> bool" +
  assumes same: "energy_ledger t = energy_ledger s \<Longrightarrow> R s t"
    and t_reserve: "reserve_in_tx now a c s = Inr (u, t) \<Longrightarrow> R s t"
    and t_settle: "settle_in_tx now a rc ac s = Inr (u, t) \<Longrightarrow> R s t"
    and t_credit: "credit_energy_in_tx now a c s = Inr (u, t) \<Longrightarrow> R s t"
    and t_account: "create_actor_in_tx now a c s = Inr (u, t) \<Longrightarrow> R s t"

sublocale ledger_laws \<subseteq> laws: step_laws R k for k
proof unfold_locales
  show "R s (set_policy_version v s)" for v s
    using policy_frame [of v s] by (auto intro: same)
qed ((erule t_reserve t_settle t_credit t_account) | (drule frames, elim exE, simp add: same))+

locale log_laws = evolution R for R :: "db \<Rightarrow> db \<Rightarrow> bool" +
  fixes k :: kernel_env
  assumes same: "events t = events s \<Longrightarrow> R s t"
    and t_append: "append_in_tx (k_ext k) ev s = Inr (e, t) \<Longrightarrow>
      ev_action_type ev \<in> set known_action_types \<Longrightarrow> R s t"

sublocale log_laws \<subseteq> laws: step_laws R k
proof unfold_locales
  show "R s (set_policy_version v s)" for v s
    using policy_frame [of v s] by (auto intro: same)
qed ((erule (1) t_append) | (drule frames, elim exE, simp add: same))+

locale actor_laws = evolution R for R :: "db \<Rightarrow> db \<Rightarrow> bool" +
  fixes k :: kernel_env
  assumes same: "actors t = actors s \<Longrightarrow> R s t"
    and t_actor: "actor_create_in_tx (k_ext k) now spec s = Inr (u, t) \<Longrightarrow> R s t"
    and t_status: "actor_set_status_in_tx now a st s = Inr (u, t) \<Longrightarrow> R s t"
    and t_share: "update_energy_share_in_tx now a sh s = Inr (u, t) \<Longrightarrow> R s t"

sublocale actor_laws \<subseteq> laws: step_laws R k
proof unfold_locales
  show "R s (set_policy_version v s)" for v s
    using policy_frame [of v s] by (auto intro: same)
qed ((erule t_actor t_status t_share) | (drule frames, elim exE, simp add: same))+

locale envelope_laws = evolution R for R :: "db \<Rightarrow> db \<Rightarrow> bool" +
  fixes k :: kernel_env
  assumes same: "envelopes t = envelopes s \<Longrightarrow> R s t"
    and t_env: "envelope_create_in_tx (k_ext k) now eid es p s = Inr (env, t) \<Longrightarrow>
      0 < es_budget es \<Longrightarrow> R s t"
    and t_consume: "consume_budget_in_tx now eid c s = Inr (n, t) \<Longrightarrow> 0 < c \<Longrightarrow> R s t"
    and t_env_expire: "envelope_set_status_in_tx now eid EnvExpired s = Inr (u, t) \<Longrightarrow> R s t"

sublocale envelope_laws \<subseteq> laws: step_laws R k
proof unfold_locales
  show "R s (set_policy_version v s)" for v s
    using policy_frame [of v s] by (auto intro: same)
qed ((erule (1) t_env t_consume) | (erule t_env_expire) | (drule frames, elim exE, simp add: same))+

locale hold_laws = evolution R for R :: "db \<Rightarrow> db \<Rightarrow> bool" +
  fixes k :: kernel_env
  assumes same: "hold_requests t = hold_requests s \<Longrightarrow> R s t"
    and t_hold: "create_hold_request_in_tx (k_ext k) now req s = Inr (u, t) \<Longrightarrow> R s t"
    and t_resolve: "resolve_hold_request_in_tx now hid dec ins s = Inr (u, t) \<Longrightarrow> R s t"

sublocale hold_laws \<subseteq> laws: step_laws R k
proof unfold_locales
  show "R s (set_policy_version v s)" for v s
    using policy_frame [of v s] by (auto intro: same)
qed ((erule t_hold t_resolve) | (drule frames, elim exE, simp add: same))+

section \<open>The ledger\<close>

interpretation ledger_inv: ledger_laws "\<lambda>s t. ledger_ok s \<longrightarrow> ledger_ok t"
proof unfold_locales
  show "energy_ledger t = energy_ledger s \<Longrightarrow> ledger_ok s \<longrightarrow> ledger_ok t" for s t
    by (simp add: ledger_ok_def)
qed (blast dest: tx_keepsD [OF reserve_keeps] tx_keepsD [OF settle_keeps]
      tx_keepsD [OF credit_keeps] tx_keepsD [OF create_actor_keeps])+

section \<open>The log\<close>

text \<open>Committed events are never changed or removed.\<close>

interpretation log_grows: log_laws "\<lambda>s t. \<exists>rs. events t = events s @ rs" k for k
  by unfold_locales (auto dest: append_frame)

interpretation log_inv: log_laws "\<lambda>s t. log_ok (k_ext k) s \<longrightarrow> log_ok (k_ext k) t" k for k
proof unfold_locales
  show "events t = events s \<Longrightarrow> log_ok (k_ext k) s \<longrightarrow> log_ok (k_ext k) t" for s t
    by (simp add: log_ok_def)
qed (blast dest: tx_keepsD [OF append_log_ok])+

text \<open>Every event has an action type that the startup check knows.\<close>

definition types_ok :: "db \<Rightarrow> bool" where
  "types_ok s \<longleftrightarrow> (\<forall>r \<in> set (events s). ev_action_type r \<in> set known_action_types)"

lemma append_types_ok:
  assumes "append_in_tx x ev s = Inr (e, t)" "ev_action_type ev \<in> set known_action_types" "types_ok s"
  shows "types_ok t"
  using assms(1) unfolding append_in_tx_def
proof (cases rule: assign_and_insert_Inr)
  case (1 h p)
  with assms(2,3) show ?thesis by (simp add: types_ok_def event_to_row_def)
qed

interpretation types_inv: log_laws "\<lambda>s t. types_ok s \<longrightarrow> types_ok t" k for k
proof unfold_locales
  show "events t = events s \<Longrightarrow> types_ok s \<longrightarrow> types_ok t" for s t
    by (simp add: types_ok_def)
qed (blast dest: append_types_ok)+

section \<open>Holds\<close>

interpretation holds_final: hold_laws holds_advance k for k
  by unfold_locales
    (auto intro: holds_advance_same holds_advance_trans create_hold_advances resolve_advances)

section \<open>Actors and their accounts\<close>

text \<open>
  An actor is never removed, and nothing but its status and energy share (and the time of
  the update) ever changes: identity, type, creator, lineage and writable targets are fixed
  at creation.
\<close>

definition actor_advance :: "actor_row \<Rightarrow> actor_row \<Rightarrow> bool" where
  "actor_advance r q \<longleftrightarrow>
     q = r\<lparr>a_status := a_status q, a_energy_share := a_energy_share q, a_updated_at := a_updated_at q\<rparr>"

definition actors_advance :: "db \<Rightarrow> db \<Rightarrow> bool" where
  "actors_advance s t \<longleftrightarrow>
     (\<forall>a r. actor_row_get a s = Some r \<longrightarrow>
        (\<exists>q. actor_row_get a t = Some q \<and> actor_advance r q))"

lemma actor_advance_trans: "actor_advance r q \<Longrightarrow> actor_advance q p \<Longrightarrow> actor_advance r p"
  unfolding actor_advance_def by (cases r, cases q, cases p) simp

lemma actor_update_advances:
  assumes "actor_update a f s = Inr (u, t)" "keyed_update a_actor_id f" "\<And>r. actor_advance r (f r)"
  shows "actors_advance s t"
  using assms keyed_update.get_update [OF assms(2)]
  by (auto simp: actors_advance_def actor_update_Inr actor_row_get_def actor_advance_def)

interpretation actors_persist: actor_laws actors_advance k for k
proof unfold_locales
  show "actors_advance s s" for s by (simp add: actors_advance_def actor_advance_def)
  show "actors_advance s t \<Longrightarrow> actors_advance t u \<Longrightarrow> actors_advance s u" for s t u
    unfolding actors_advance_def by (meson actor_advance_trans)
  show "actors t = actors s \<Longrightarrow> actors_advance s t" for s t
    by (simp add: actors_advance_def actor_row_get_def actor_advance_def)
  show "actor_create_in_tx (k_ext k) now spec s = Inr (u, t) \<Longrightarrow> actors_advance s t"
    for now spec s u t
    using actor_ins.ins_keeps by (fastforce simp: actors_advance_def actor_advance_def)
  show "actor_set_status_in_tx now a st s = Inr (u, t) \<Longrightarrow> actors_advance s t" for now a st s u t
    unfolding actor_set_status_in_tx_def
    by (erule actor_update_advances [OF _ status_upd.keyed_update_axioms])
      (simp add: actor_advance_def with_status_def)
  show "update_energy_share_in_tx now a sh s = Inr (u, t) \<Longrightarrow> actors_advance s t" for now a sh s u t
    by (auto simp: update_energy_share_in_tx_def actor_advance_def with_share_def split: if_splits
        elim!: actor_update_advances [OF _ share_upd.keyed_update_axioms])
qed

text \<open>Every actor has an energy account.\<close>

definition accounts_ok :: "db \<Rightarrow> bool" where
  "accounts_ok s \<longleftrightarrow> (\<forall>a. actor_row_get a s \<noteq> None \<longrightarrow> ledger_get a s \<noteq> None)"

definition account_kept :: "db \<Rightarrow> db \<Rightarrow> bool" where
  "account_kept s t \<longleftrightarrow> (\<forall>a. ledger_get a s \<noteq> None \<longrightarrow> ledger_get a t \<noteq> None)"

lemma ledger_update_keeps_account:
  "keyed_update lr_actor_id f \<Longrightarrow> account_kept s (ledger_update a f s)"
  using keyed_update.get_update [of lr_actor_id f]
  by (auto simp: account_kept_def ledger_update_def ledger_get_def)

interpretation accounts_persist: ledger_laws account_kept
proof unfold_locales
  show "account_kept s s" for s by (simp add: account_kept_def)
  show "account_kept s t \<Longrightarrow> account_kept t u \<Longrightarrow> account_kept s u" for s t u
    by (simp add: account_kept_def)
  show "energy_ledger t = energy_ledger s \<Longrightarrow> account_kept s t" for s t
    by (simp add: account_kept_def ledger_get_def)
  show "reserve_in_tx now a c s = Inr (u, t) \<Longrightarrow> account_kept s t" for now a c s u t
    by (auto simp: reserve_in_tx_def Let_def split: if_splits option.splits
        intro!: ledger_update_keeps_account reserved_upd.keyed_update_axioms)
  show "settle_in_tx now a rc ac s = Inr (u, t) \<Longrightarrow> account_kept s t" for now a rc ac s u t
    by (auto simp: settle_in_tx_def Let_def split: if_splits option.splits
        intro!: ledger_update_keeps_account amounts_upd.keyed_update_axioms)
  show "credit_energy_in_tx now a c s = Inr (u, t) \<Longrightarrow> account_kept s t" for now a c s u t
    by (auto simp: credit_energy_in_tx_def split: if_splits
        intro!: ledger_update_keeps_account balance_upd.keyed_update_axioms)
  show "create_actor_in_tx now a c s = Inr (u, t) \<Longrightarrow> account_kept s t" for now a c s u t
    by (auto simp: create_actor_in_tx_def account_kept_def ledger_get_def tbl_get_append
        split: if_splits option.splits)
qed

lemma actor_update_gets:
  assumes "actor_update a f s = Inr (u, t)" "keyed_update a_actor_id f"
  shows "actor_row_get b t \<noteq> None \<longleftrightarrow> actor_row_get b s \<noteq> None"
  using assms keyed_update.get_update [OF assms(2)] by (auto simp: actor_update_Inr actor_row_get_def)

interpretation accounts_inv: step_laws "\<lambda>s t. account_kept s t \<and> (accounts_ok s \<longrightarrow> accounts_ok t)" k for k
proof -
  have ledger: "account_kept s t \<and> (accounts_ok s \<longrightarrow> accounts_ok t)"
    if "account_kept s t" "actors t = actors s" for s t
    using that by (simp add: account_kept_def accounts_ok_def actor_row_get_def)
  have other: "account_kept s t \<and> (accounts_ok s \<longrightarrow> accounts_ok t)"
    if "energy_ledger t = energy_ledger s" "actors t = actors s" for s t
    using that by (simp add: account_kept_def accounts_ok_def actor_row_get_def ledger_get_def)
  have upd: "account_kept s t \<and> (accounts_ok s \<longrightarrow> accounts_ok t)"
    if "actor_update a f s = Inr (u, t)" "keyed_update a_actor_id f" for a f s u t
    using that actor_update_gets [OF that]
    by (auto simp: account_kept_def accounts_ok_def ledger_get_def actor_update_Inr)
  show "step_laws (\<lambda>s t. account_kept s t \<and> (accounts_ok s \<longrightarrow> accounts_ok t)) k"
  proof unfold_locales
    show "account_kept s s \<and> (accounts_ok s \<longrightarrow> accounts_ok s)" for s
      by (simp add: account_kept_def)
    show "actor_create_in_tx (k_ext k) now spec s = Inr (u, t) \<Longrightarrow>
      ledger_get (cs_actor_id spec) s \<noteq> None \<Longrightarrow>
      account_kept s t \<and> (accounts_ok s \<longrightarrow> accounts_ok t)" for now spec s u t
      using actor_ins.ins_other
      by (fastforce elim!: actor_create_Inr simp: account_kept_def accounts_ok_def ledger_get_def
          actor_row_get_def tbl_get_append table_simps split: option.splits if_splits)
    show "actor_set_status_in_tx now a st s = Inr (u, t) \<Longrightarrow>
      account_kept s t \<and> (accounts_ok s \<longrightarrow> accounts_ok t)" for now a st s u t
      unfolding actor_set_status_in_tx_def by (erule upd) (rule status_upd.keyed_update_axioms)
    show "update_energy_share_in_tx now a sh s = Inr (u, t) \<Longrightarrow>
      account_kept s t \<and> (accounts_ok s \<longrightarrow> accounts_ok t)" for now a sh s u t
      by (auto simp: update_energy_share_in_tx_def split: if_splits
          dest!: upd [OF _ share_upd.keyed_update_axioms])
    show "account_kept s (set_policy_version v s) \<and> (accounts_ok s \<longrightarrow> accounts_ok (set_policy_version v s))"
      for v s
    proof -
      obtain m where "set_policy_version v s = s\<lparr>system_meta := m\<rparr>" using policy_frame by blast
      then show ?thesis by (intro other) simp_all
    qed
  qed ((rule ledger, erule accounts_persist.t_reserve accounts_persist.t_settle
          accounts_persist.t_credit accounts_persist.t_account, drule frames, elim exE, simp; fail)
        | (drule frames, elim exE, rule other, simp, simp; fail)
        | (auto simp: account_kept_def; fail))+
qed

end
