(* ===== verification/Kernel_Reach.thy ===== *)
theory Kernel_Reach
  imports Kernel_Laws
begin

text \<open>
  The states the kernel can reach from a new database, and what holds in all of them: the
  invariants of the tables, and that the stored audit hashes are the Merkle tree over the
  hashes of the events.
\<close>

section \<open>Envelopes\<close>

text \<open>
  The terms of a grant are fixed: only consumption, report mark and status of an envelope
  change, and one that is no longer active never becomes active again.
\<close>

definition envelope_advance :: "envelope_row \<Rightarrow> envelope_row \<Rightarrow> bool" where
  "envelope_advance r q \<longleftrightarrow>
     q = r\<lparr>e_budget_consumed := e_budget_consumed q, e_status := e_status q,
           e_last_report_at := e_last_report_at q, e_updated_at := e_updated_at q\<rparr>
     \<and> (e_status r \<noteq> ''active'' \<longrightarrow> e_status q \<noteq> ''active'')"

definition envelopes_advance :: "db \<Rightarrow> db \<Rightarrow> bool" where
  "envelopes_advance s t \<longleftrightarrow>
     (\<forall>i r. envelope_row_get i s = Some r \<longrightarrow>
        (\<exists>q. envelope_row_get i t = Some q \<and> envelope_advance r q))"

lemma envelope_advance_refl [simp]: "envelope_advance r r"
  by (simp add: envelope_advance_def)

lemma envelope_advance_trans:
  "envelope_advance r q \<Longrightarrow> envelope_advance q p \<Longrightarrow> envelope_advance r p"
  unfolding envelope_advance_def by (cases r, cases q, cases p) simp

lemma envelope_update_advances:
  assumes "keyed_update e_envelope_id f" "\<And>r. envelope_advance r (f r)"
  shows "envelopes_advance s (envelope_update i f s)"
  using assms(2) keyed_update.get_update [OF assms(1)]
  by (auto simp: envelopes_advance_def envelope_update_def envelope_row_get_def)

lemma consume_advances: "consume_budget_in_tx now eid c s = Inr (n, t) \<Longrightarrow> envelopes_advance s t"
  by (elim consume_budget_Inr)
    (auto simp: envelope_advance_def with_consumed_def
      intro!: envelope_update_advances consumed_upd.keyed_update_axioms)

lemma expire_advances:
  "envelope_set_status_in_tx now eid EnvExpired s = Inr (u, t) \<Longrightarrow> envelopes_advance s t"
  by (auto simp: envelope_set_status_in_tx_def envelope_advance_def with_env_status_def
      split: if_splits intro!: envelope_update_advances env_status_upd.keyed_update_axioms)

lemma envelope_create_advances:
  assumes "envelope_create_in_tx x now eid es p s = Inr (env, t)"
  shows "envelopes_advance s t"
  using envelope_ins.ins_keeps [of x now "(eid, es, p)"] assms
  by (fastforce simp: envelopes_advance_def)

interpretation grants_fixed: envelope_laws envelopes_advance k for k
proof unfold_locales
  show "envelopes_advance s s" for s by (simp add: envelopes_advance_def)
  show "envelopes_advance s t \<Longrightarrow> envelopes_advance t u \<Longrightarrow> envelopes_advance s u" for s t u
    unfolding envelopes_advance_def by (meson envelope_advance_trans)
  show "envelopes t = envelopes s \<Longrightarrow> envelopes_advance s t" for s t
    by (simp add: envelopes_advance_def envelope_row_get_def)
qed (blast intro: consume_advances expire_advances envelope_create_advances)+

interpretation budgets_inv: envelope_laws "\<lambda>s t. budgets_ok s \<longrightarrow> budgets_ok t" k for k
proof unfold_locales
  show "envelopes t = envelopes s \<Longrightarrow> budgets_ok s \<longrightarrow> budgets_ok t" for s t
    by (simp add: budgets_ok_def)
  show "envelope_create_in_tx (k_ext k) now eid es p s = Inr (env, t) \<Longrightarrow> 0 < es_budget es \<Longrightarrow>
      budgets_ok s \<longrightarrow> budgets_ok t" for now eid es p s env t
    by (blast dest: tx_keepsD [OF envelope_create_budgets_ok] less_imp_le)
qed (blast dest: tx_keepsD [OF consume_budgets_ok] tx_keepsD [OF env_status_budgets_ok])+

section \<open>The audit tree\<close>

definition same_log :: "db \<Rightarrow> db \<Rightarrow> bool" where
  "same_log s t \<longleftrightarrow> events t = events s \<and> audit_hashes t = audit_hashes s"

text \<open>One event is appended, and then its hash is added as a leaf.\<close>

definition logs_one :: "ext \<Rightarrow> db \<Rightarrow> db \<Rightarrow> bool" where
  "logs_one x s t \<longleftrightarrow>
     (\<exists>u ev e v w z. same_log s u \<and> append_in_tx x ev u = Inr (e, v) \<and> same_log v w
        \<and> audit_leaf x e w = Inr ((), z) \<and> same_log z t)"

lemma same_log_refl [simp]: "same_log s s"
  by (simp add: same_log_def)

lemma same_log_trans: "same_log s t \<Longrightarrow> same_log t u \<Longrightarrow> same_log s u"
  by (simp add: same_log_def)

lemma logs_audited:
  assumes "same_log s u" "append_audited x ev u = Inr (e, t)"
  shows "logs_one x s t"
  using assms(2) same_log_refl assms(1) unfolding logs_one_def by (elim append_auditedE) blast

lemma same_log_frames:
  "settle_in_tx now a rc ac s = Inr (u, t) \<Longrightarrow> same_log s t"
  "reserve_in_tx now a c s = Inr (u, t) \<Longrightarrow> same_log s t"
  "create_actor_in_tx now a c s = Inr (u, t) \<Longrightarrow> same_log s t"
  "credit_energy_in_tx now a c s = Inr (u, t) \<Longrightarrow> same_log s t"
  "actor_create_in_tx x now spec s = Inr (u, t) \<Longrightarrow> same_log s t"
  "actor_set_status_in_tx now a st s = Inr (u, t) \<Longrightarrow> same_log s t"
  "update_energy_share_in_tx now a sh s = Inr (u, t) \<Longrightarrow> same_log s t"
  "envelope_create_in_tx x now eid es p s = Inr (env, t) \<Longrightarrow> same_log s t"
  "consume_budget_in_tx now eid c s = Inr (n, t) \<Longrightarrow> same_log s t"
  "envelope_set_status_in_tx now eid est s = Inr (u, t) \<Longrightarrow> same_log s t"
  "create_hold_request_in_tx x now req s = Inr (u, t) \<Longrightarrow> same_log s t"
  "resolve_hold_request_in_tx now hid dec ins s = Inr (u, t) \<Longrightarrow> same_log s t"
  "make_checkpoint_in_tx x al now m s = Inr (row, t) \<Longrightarrow> same_log s t"
  by (drule frames, elim exE, simp add: same_log_def)+

lemma settle_step_same_log: "settle_step k d res c s = Inr (u, t) \<Longrightarrow> same_log s t"
  by (auto simp: settle_step_def split: option.splits intro: same_log_frames)

lemma actor_step_same_log: "create_actor_step k d ca s = Inr (u, t) \<Longrightarrow> same_log s t"
  by (auto simp: create_actor_step_def split: option.splits
      intro: same_log_trans dest: same_log_frames)

lemma envelope_step_same_log: "create_envelope_step k d ce s = Inr (u, t) \<Longrightarrow> same_log s t"
  by (auto simp: create_envelope_step_def split: option.splits prod.splits intro: same_log_frames)

lemma commit_logs: "commit_tx k d res c ca ce ev s = Inr (e, t) \<Longrightarrow> logs_one (k_ext k) s t"
  by (elim commit_txE)
    (blast intro: logs_audited same_log_trans dest: settle_step_same_log actor_step_same_log
      envelope_step_same_log)

lemma timeout_logs:
  "timeout_tx k d b j hid aid rc cc ev s = Inr (e, t) \<Longrightarrow> logs_one (k_ext k) s t"
  by (elim timeout_txE)
    (blast intro: logs_audited same_log_trans dest: same_log_frames)

lemma resolve_logs:
  "resolve_tx k d a hid dec ins aid rc p s = Inr (r, t) \<Longrightarrow> logs_one (k_ext k) s t"
  by (elim resolve_txE) (blast intro: logs_audited same_log_trans dest: same_log_frames)

lemma hold_logs: "hold_tx k d a eid hid rc ev s = Inr (u, t) \<Longrightarrow> logs_one (k_ext k) s t"
  unfolding logs_one_def
  by (elim hold_txE) (blast intro: same_log_refl dest: same_log_frames)

lemma freeze_each_same_log: "freeze_each ck i ds s = Inr (ids, t) \<Longrightarrow> same_log s t"
proof (induction ck i ds arbitrary: s ids rule: freeze_each.induct)
  case (2 ck i d ds)
  then show ?case by (auto intro: same_log_trans dest!: same_log_frames)
qed simp

lemma credit_each_same_log: "credit_each ck i as n tot s = Inr (n', tot', t) \<Longrightarrow> same_log s t"
proof (induction ck i as n tot s rule: credit_each.induct)
  case (2 ck i a c as n tot s)
  show ?case
  proof (cases "c \<le> 0")
    case False
    with "2.prems" obtain u where u: "credit_energy_in_tx (ck i) a c s = Inr ((), u)"
      "credit_each ck (Suc i) as (n + 1) (tot + c) u = Inr (n', tot', t)"
      by (auto split: sum.splits)
    with 2(2) [OF False u(1) refl] show ?thesis by (blast intro: same_log_trans same_log_frames)
  qed (use 2 in simp)
qed simp

lemma tick_same_log: "produce_tick ck E s = (Inr r, t) \<Longrightarrow> same_log s t"
  unfolding produce_tick_def Let_def
  by (auto split: if_splits sum.splits intro: credit_each_same_log)

lemma request_logs: "rstep k s t \<Longrightarrow> same_log s t \<or> logs_one (k_ext k) s t"
proof (induction rule: rstep.induct)
  case (k_consume c d env s u t)
  then show ?case
    by (auto simp: consume_and_checkpoint_def Let_def split: sum.splits if_splits
        intro: same_log_trans dest!: same_log_frames)
next
  case (k_freeze ck a s ids t)
  then show ?case
    by (elim execute_freeze_Inr) (blast intro: same_log_trans dest: same_log_frames freeze_each_same_log)
next
  case (k_policy s v)
  then show ?case using policy_frame [of v s] by (auto simp: same_log_def)
next
  case (k_reserve now a c s r t)
  then show ?case by (auto simp: reserve_def dest: same_log_frames)
qed (blast dest: timeout_logs hold_logs resolve_logs commit_logs same_log_frames)+

theorem step_logs: "kstep k s t \<Longrightarrow> same_log s t \<or> logs_one (k_ext k) s t"
  by (erule kstepE) (blast dest: request_logs tick_same_log)+

text \<open>The leaves: the event hashes, decoded.\<close>

definition decoded :: "string \<Rightarrow> hash" where
  "decoded hex = (case hex_to_hash hex of Inr h \<Rightarrow> h | Inl _ \<Rightarrow> replicate 32 0)"

definition event_leaf :: "db \<Rightarrow> nat \<Rightarrow> hash" where
  "event_leaf s i = (if i < length (events s) then decoded (ev_event_hash (events s ! i)) else replicate 32 0)"

text \<open>
  The audit invariant: every complete subtree over the events is stored, and every event
  hash decodes.
\<close>

definition audited :: "ext \<Rightarrow> db \<Rightarrow> bool" where
  "audited x s \<longleftrightarrow> tree_stored x (event_leaf s) (length (events s)) s"

lemma event_leaf_length: "length (event_leaf s i) = 32"
  by (auto simp: event_leaf_def decoded_def split: sum.splits dest: hex_to_hash_length)

lemma audited_same_log: "same_log s t \<Longrightarrow> audited x t = audited x s"
proof -
  assume "same_log s t"
  then have same: "events t = events s" "audit_hashes t = audit_hashes s"
    by (simp_all add: same_log_def)
  then have "event_leaf t = event_leaf s" by (simp add: fun_eq_iff event_leaf_def)
  then show ?thesis by (simp add: audited_def tree_stored_def same)
qed

lemma tree_stored_cong:
  assumes "tree_stored x L n s" "\<And>i. i < n \<Longrightarrow> L i = L' i" "audit_hashes t = audit_hashes s"
  shows "tree_stored x L' n t"
  using assms sub_hash_cong [of _ _ L L' "node_hash x"] by (simp add: tree_stored_def)

lemma logs_one_audited:
  assumes laws: "tlog_laws x" and ok: "log_ok x s" and tree: "audited x s" and step: "logs_one x s t"
  shows "audited x t"
proof -
  obtain u ev e v w z where u: "same_log s u" and app: "append_in_tx x ev u = Inr (e, v)"
    and w: "same_log v w" and leaf: "audit_leaf x e w = Inr ((), z)" and z: "same_log z t"
    using step unfolding logs_one_def by blast
  let ?n = "length (events s)"
  obtain h p where e: "e = ev\<lparr>ev_log_index := next_log_index u, ev_event_hash := h\<rparr>"
    and v: "v = u\<lparr>events := events u @ [event_to_row p e]\<rparr>"
    using app unfolding append_in_tx_def by (elim assign_and_insert_Inr)
  have idx: "ev_log_index e = int ?n"
    using ok u next_log_index_contiguous [of u] by (simp add: e log_ok_def same_log_def)
  obtain hs where zw: "z = w\<lparr>audit_hashes := hs\<rparr>" using audit_leaf_frame [OF leaf] by blast
  have ev_t: "events t = events s @ [event_to_row p e]"
    using u v w z zw by (simp add: same_log_def)
  have run: "append_leaf_in_tx x ?n (ev_event_hash e) w = Inr ((), z)"
    using leaf idx by (simp add: audit_leaf_def)
  then obtain b where b: "hex_to_hash (ev_event_hash e) = Inr b"
    by (auto simp: append_leaf_in_tx_def)
  have last: "hex_to_hash (ev_event_hash e) = Inr (event_leaf t ?n)"
    using b by (simp add: event_leaf_def ev_t decoded_def event_to_row_def)
  have "tree_stored x (event_leaf t) ?n w"
  proof (rule tree_stored_cong)
    show "tree_stored x (event_leaf s) ?n s" using tree by (simp add: audited_def)
    show "event_leaf s i = event_leaf t i" if "i < ?n" for i
      using that by (simp add: event_leaf_def ev_t nth_append)
    show "audit_hashes w = audit_hashes s" using u v w by (simp add: same_log_def)
  qed
  from append_leaf_tree [OF laws event_leaf_length this last] run
  have "tree_stored x (event_leaf t) (Suc ?n) z" by auto
  moreover have "length (events t) = Suc ?n" by (simp add: ev_t)
  moreover have "audit_hashes t = audit_hashes z" using z by (simp add: same_log_def)
  ultimately show ?thesis by (simp add: audited_def tree_stored_def)
qed

section \<open>Reachable states\<close>

text \<open>
  A new database after bootstrap, and then any number of steps. Every step may have its own
  clock and identifiers; the external code is the same throughout.
\<close>

definition ext_step :: "ext \<Rightarrow> db \<Rightarrow> db \<Rightarrow> bool" where
  "ext_step x s t \<longleftrightarrow> (\<exists>k. k_ext k = x \<and> kstep k s t)"

definition reachable :: "ext \<Rightarrow> db \<Rightarrow> bool" where
  "reachable x s \<longleftrightarrow> (\<exists>now. (ext_step x)\<^sup>*\<^sup>* (seed_defaults now init_schema) s)"

lemma kstep_ext: "kstep k s t \<Longrightarrow> ext_step (k_ext k) s t"
  by (auto simp: ext_step_def)

lemma ksteps_ext: "(kstep k)\<^sup>*\<^sup>* s t \<Longrightarrow> (ext_step (k_ext k))\<^sup>*\<^sup>* s t"
  by (erule rtranclp_mono [THEN predicate2D, rotated]) (auto intro: kstep_ext)

lemma reachable_seed: "reachable x (seed_defaults now init_schema)"
  unfolding reachable_def by blast

lemma reachable_ext_steps: "reachable x s \<Longrightarrow> (ext_step x)\<^sup>*\<^sup>* s t \<Longrightarrow> reachable x t"
  unfolding reachable_def by (blast intro: rtranclp_trans)

lemma reachable_steps: "reachable (k_ext k) s \<Longrightarrow> (kstep k)\<^sup>*\<^sup>* s t \<Longrightarrow> reachable (k_ext k) t"
  by (blast intro: reachable_ext_steps ksteps_ext)

lemma reachable_induct [consumes 1, case_names seed step]:
  assumes "reachable x s" and "\<And>now. P (seed_defaults now init_schema)"
    and "\<And>s t k. reachable x s \<Longrightarrow> P s \<Longrightarrow> k_ext k = x \<Longrightarrow> kstep k s t \<Longrightarrow> P t"
  shows "P s"
proof -
  obtain now where "(ext_step x)\<^sup>*\<^sup>* (seed_defaults now init_schema) s"
    using assms(1) unfolding reachable_def by blast
  then show ?thesis
  proof (induction rule: rtranclp_induct)
    case (step t u)
    then obtain k where "k_ext k = x" "kstep k t u" by (auto simp: ext_step_def)
    moreover have "reachable x t" using step.hyps(1) by (auto simp: reachable_def)
    ultimately show ?case using assms(3) step.IH by blast
  qed (rule assms(2))
qed

lemma init_schema_tables [simp]:
  "events init_schema = []" "energy_ledger init_schema = []" "audit_hashes init_schema = []"
  "actors init_schema = []" "envelopes init_schema = []" "hold_requests init_schema = []"
  "audit_checkpoints init_schema = []" "system_meta init_schema = []"
  by (simp_all add: init_schema_def)

lemma seed_accounts_ok: "accounts_ok (seed_defaults now init_schema)"
  by (simp add: accounts_ok_def seed_defaults_def seed_actor_def seed_ledger_def seed_meta_def
      actor_row_get_def ledger_get_def table_simps)

lemma reachable_ledger: "reachable x s \<Longrightarrow> ledger_ok s"
proof (induction rule: reachable_induct)
  case (seed now)
  show ?case by (rule seed_defaults_ledger_ok) (simp add: ledger_ok_def keys_distinct_def)
qed (use ledger_inv.laws.step_rel in blast)

lemma reachable_log: "reachable x s \<Longrightarrow> log_ok x s"
proof (induction rule: reachable_induct)
  case (seed now)
  show ?case by (simp add: log_ok_def contiguous_def)
qed (use log_inv.laws.step_rel in blast)

lemma reachable_types: "reachable x s \<Longrightarrow> types_ok s"
proof (induction rule: reachable_induct)
  case (seed now)
  show ?case by (simp add: types_ok_def)
qed (use types_inv.laws.step_rel in blast)

lemma reachable_accounts: "reachable x s \<Longrightarrow> accounts_ok s"
proof (induction rule: reachable_induct)
  case (seed now)
  show ?case by (rule seed_accounts_ok)
qed (use accounts_inv.step_rel in blast)

lemma reachable_budgets: "reachable x s \<Longrightarrow> budgets_ok s"
proof (induction rule: reachable_induct)
  case (seed now)
  show ?case by (simp add: budgets_ok_def keys_distinct_def)
qed (use budgets_inv.laws.step_rel in blast)

lemma reachable_audited:
  assumes "tlog_laws x" "reachable x s"
  shows "audited x s"
  using assms(2)
proof (induction rule: reachable_induct)
  case (seed now)
  show ?case by (simp add: audited_def tree_stored_def)
next
  case (step s t k)
  with step_logs [OF step.hyps(3)] show ?case
    using logs_one_audited [OF assms(1) reachable_log [OF step.hyps(1)]] audited_same_log by blast
qed

end
