(* ===== verification/Submit_Properties.thy ===== *)
theory Submit_Properties
  imports Kernel_Reach
begin

text \<open>
  What a submission does, end to end: its receipt is an event of the log, the actor pays the
  quoted cost and nothing else moves in the ledger, refused requests leave no trace, and
  holds reserve, release and charge what they promise.
\<close>

section \<open>The steps after the commit\<close>

text \<open>They touch only the actors, the envelopes and the metadata.\<close>

definition post_frame :: "db \<Rightarrow> db \<Rightarrow> bool" where
  "post_frame s t \<longleftrightarrow> (\<exists>as es m. t = s\<lparr>actors := as, envelopes := es, system_meta := m\<rparr>)"

lemma post_frame_refl [simp]: "post_frame s s"
proof -
  have "s = s\<lparr>actors := actors s, envelopes := envelopes s, system_meta := system_meta s\<rparr>" by simp
  then show ?thesis unfolding post_frame_def by metis
qed

lemma post_frame_trans: "post_frame s t \<Longrightarrow> post_frame t u \<Longrightarrow> post_frame s u"
  unfolding post_frame_def by fastforce

lemma post_frameI:
  "post_frame s (s\<lparr>actors := as\<rparr>)" "post_frame s (s\<lparr>envelopes := es\<rparr>)"
  "post_frame s (s\<lparr>system_meta := m\<rparr>)"
  unfolding post_frame_def
  by (rule exI [of _ as], rule exI [of _ "envelopes s"], rule exI [of _ "system_meta s"], simp)
    (rule exI [of _ "actors s"], rule exI [of _ es], rule exI [of _ "system_meta s"], simp,
     rule exI [of _ "actors s"], rule exI [of _ "envelopes s"], rule exI [of _ m], simp)

lemma post_frameD:
  assumes "post_frame s t"
  shows "events t = events s" "energy_ledger t = energy_ledger s" "audit_hashes t = audit_hashes s"
    "hold_requests t = hold_requests s"
  using assms by (auto simp: post_frame_def)

lemma record_policy_post: "post_frame s (snd (record_policy v s))"
  using policy_frame by (auto simp: record_policy_def post_frameI split: option.splits)
    (metis post_frameI(3))

lemma post_tables:
  "consume_budget_in_tx now eid c s = Inr (n, t) \<Longrightarrow> post_frame s t"
  "envelope_set_status_in_tx now eid est s = Inr (u, t) \<Longrightarrow> post_frame s t"
  "actor_set_status_in_tx now a st s = Inr (u, t) \<Longrightarrow> post_frame s t"
  "update_energy_share_in_tx now a sh s = Inr (u, t) \<Longrightarrow> post_frame s t"
  by (drule frames, elim exE, simp add: post_frameI)+

lemma consume_and_checkpoint_post: "post_frame s (snd (consume_and_checkpoint k d env c s))"
  by (auto simp: consume_and_checkpoint_def Let_def split: sum.splits if_splits
      intro: post_frame_trans dest!: post_tables)

lemma consume_post: "post_frame s (snd (consume_envelope k d a c s))"
  using consume_and_checkpoint_post
  by (auto simp: consume_envelope_def split: sum.splits option.splits)

lemma freeze_each_post: "freeze_each ck i ds s = Inr (ids, t) \<Longrightarrow> post_frame s t"
proof (induction ck i ds arbitrary: s ids rule: freeze_each.induct)
  case (2 ck i d ds)
  then show ?case by (auto intro: post_frame_trans dest!: post_tables)
qed simp

lemma run_tx_post: "(\<And>a t. m s = Inr (a, t) \<Longrightarrow> post_frame s t) \<Longrightarrow> post_frame s (snd (run_tx m s))"
  by (auto simp: run_tx_def split: sum.splits)

lemma freeze_post: "post_frame s (snd (execute_freeze x ck a s))"
  unfolding execute_freeze_def
  by (rule run_tx_post) (auto intro: post_frame_trans dest!: post_tables freeze_each_post)

lemma lifecycle_post: "post_frame s (snd (execute_lifecycle k d op s))"
proof -
  have "post_frame s (snd (execute_unfreeze ck a s))" for ck a
    unfolding execute_unfreeze_def by (rule run_tx_post) (rule post_tables)
  moreover have "post_frame s (snd (execute_update_energy_share ck a sh s))" for ck a sh
    unfolding execute_update_energy_share_def by (rule run_tx_post) (rule post_tables)
  ultimately show ?thesis
    unfolding execute_lifecycle_def Let_def logged_def
    by (auto intro: freeze_post split: option.splits lifecycle_op.splits)
qed

lemmas post_steps = record_policy_post consume_post lifecycle_post

section \<open>The commit\<close>

lemma append_auditedD:
  assumes "append_audited x ev s = Inr (e, t)"
  obtains h p hs where "e = ev\<lparr>ev_log_index := next_log_index s, ev_event_hash := h\<rparr>"
    "json_text x (ev_payload ev) = Some p" "sealed x (event_to_row p e)"
    "t = s\<lparr>events := events s @ [event_to_row p e], audit_hashes := hs\<rparr>"
proof -
  obtain s1 where 1: "append_in_tx x ev s = Inr (e, s1)" and 2: "audit_leaf x e s1 = Inr ((), t)"
    using assms by (rule append_auditedE)
  obtain hs where "t = s1\<lparr>audit_hashes := hs\<rparr>" using audit_leaf_frame [OF 2] by blast
  with 1 that show thesis
    unfolding append_in_tx_def by (elim assign_and_insert_Inr) simp
qed

text \<open>The steps of a successful run.\<close>

lemma run_action_stepsE:
  assumes "run_action k d a s = (Inr r, t)"
  obtains ca ce c res s1 art e s2 s3 s4 where
    "parse_create_actor_spec (k_ext k) a s = Inr ca"
    "parse_create_envelope_spec (k_ext k) (k_uuid k d 19 0) a s = Inr ce"
    "quote_and_reserve k d a s = (Inr (c, res), s1)"
    "(if act_type a = Execute
      then and_then (validate_execute_payload (act_payload a)) (\<lambda>h. Inr (Some h))
      else Inr None) = Inr art"
    "commit_action k d a c res ca ce art s1 = (Inr e, s2)"
    "record_policy (parse_policy_version a) s2 = (Inr (), s3)"
    "consume_envelope k d a c s3 = (Inr (), s4)"
    "execute_lifecycle k d (lifecycle_request a) s4 = (Inr (), t)"
    "r = \<lparr>sr_event_id = ev_id e, sr_log_index = ev_log_index e,
        sr_event_hash = ev_event_hash e, sr_reserved_cost = c, sr_settled_cost = c,
        sr_artifact_hash = art\<rparr>"
  using assms unfolding run_action_def Let_def by (auto split: prod.splits)

lemma commit_actionE:
  assumes "commit_action k d a c res ca ce art s = (Inr e, t)"
  obtains ph where "hash_payload k a = Inr ph" "commit_tx k d res c ca ce
       (new_event (k_uuid k d 21 0) (act_actor_id a) (action_type_str (act_type a)) (act_target a)
          (act_payload a) ph art c c (now_millis_string k d 21 1)) s = Inr (e, t)"
  using assms by (auto simp: commit_action_def finalize_energy_and_event_def run_tx_Inr_iff)

lemma run_actionE:
  assumes "run_action k d a s = (Inr r, t)"
  obtains c res s1 ca ce art ph e s2 where
    "parse_create_actor_spec (k_ext k) a s = Inr ca"
    "parse_create_envelope_spec (k_ext k) (k_uuid k d 19 0) a s = Inr ce"
    "quote_and_reserve k d a s = (Inr (c, res), s1)"
    "hash_payload k a = Inr ph"
    "act_type a = Execute \<Longrightarrow> \<exists>h. art = Some h \<and> validate_execute_payload (act_payload a) = Inr h"
    "commit_tx k d res c ca ce
       (new_event (k_uuid k d 21 0) (act_actor_id a) (action_type_str (act_type a)) (act_target a)
          (act_payload a) ph art c c (now_millis_string k d 21 1)) s1 = Inr (e, s2)"
    "post_frame s2 t"
    "r = \<lparr>sr_event_id = ev_id e, sr_log_index = ev_log_index e, sr_event_hash = ev_event_hash e,
          sr_reserved_cost = c, sr_settled_cost = c, sr_artifact_hash = art\<rparr>"
  using assms
proof (rule run_action_stepsE)
  fix ca ce c res s1 art e s2 s3 s4
  assume p: "parse_create_actor_spec (k_ext k) a s = Inr ca"
      "parse_create_envelope_spec (k_ext k) (k_uuid k d 19 0) a s = Inr ce"
      "quote_and_reserve k d a s = (Inr (c, res), s1)"
    and x: "(if act_type a = Execute
        then and_then (validate_execute_payload (act_payload a)) (\<lambda>h. Inr (Some h))
        else Inr None) = Inr art"
    and e: "commit_action k d a c res ca ce art s1 = (Inr e, s2)"
    and post: "record_policy (parse_policy_version a) s2 = (Inr (), s3)"
      "consume_envelope k d a c s3 = (Inr (), s4)"
      "execute_lifecycle k d (lifecycle_request a) s4 = (Inr (), t)"
    and r: "r = \<lparr>sr_event_id = ev_id e, sr_log_index = ev_log_index e,
        sr_event_hash = ev_event_hash e, sr_reserved_cost = c, sr_settled_cost = c,
        sr_artifact_hash = art\<rparr>"
  have "post_frame s2 t" using post post_steps by (metis post_frame_trans snd_conv)
  moreover have "\<exists>h. art = Some h \<and> validate_execute_payload (act_payload a) = Inr h"
    if "act_type a = Execute"
    using x that by auto
  ultimately show thesis using e p r that by (elim commit_actionE) blast
qed

section \<open>Receipts\<close>

text \<open>The row of the log that a receipt names.\<close>

definition receipt_row :: "submit_receipt \<Rightarrow> event_row \<Rightarrow> bool" where
  "receipt_row r row \<longleftrightarrow>
     ev_id row = sr_event_id r \<and> ev_log_index row = sr_log_index r
     \<and> ev_event_hash row = sr_event_hash r \<and> ev_reserved_energy row = sr_reserved_cost r
     \<and> ev_settled_energy row = sr_settled_cost r \<and> ev_artifact_hash row = sr_artifact_hash r"

text \<open>The log of the second state extends the first and ends with the row of the receipt.\<close>

definition committed_last :: "submit_receipt \<Rightarrow> db \<Rightarrow> db \<Rightarrow> bool" where
  "committed_last r s t \<longleftrightarrow> (\<exists>rs row. events t = events s @ rs @ [row] \<and> receipt_row r row)"

lemma committed_last_trans:
  "\<exists>rs. events t = events s @ rs \<Longrightarrow> committed_last r t u \<Longrightarrow> committed_last r s u"
  by (auto simp: committed_last_def)

lemma authorize_grows: "authorize k d a s = (q, t) \<Longrightarrow> \<exists>rs. events t = events s @ rs"
  using log_grows.laws.run_rel [OF rsteps_ksteps [OF authorize_steps [of k s d a]]] by simp

lemma submit_once_grows: "submit_once k d a s = (q, t) \<Longrightarrow> \<exists>rs. events t = events s @ rs"
  using log_grows.laws.run_rel [OF rsteps_ksteps [OF submit_once_steps [of k s d a]]] by simp

lemma commit_event:
  assumes "commit_tx k d res c ca ce ev s = Inr (e, t)"
  obtains h p where "events t = events s @ [event_to_row p e]"
    "e = ev\<lparr>ev_log_index := next_log_index s, ev_event_hash := h\<rparr>"
    "json_text (k_ext k) (ev_payload ev) = Some p" "sealed (k_ext k) (event_to_row p e)"
proof -
  obtain s1 s2 s3 where 1: "settle_step k d res c s = Inr ((), s1)"
    and 2: "create_actor_step k d ca s1 = Inr ((), s2)"
    and 3: "create_envelope_step k d ce s2 = Inr ((), s3)"
    and 4: "append_audited (k_ext k) ev s3 = Inr (e, t)"
    using assms by (rule commit_txE)
  have "same_log s s3"
    using settle_step_same_log [OF 1] actor_step_same_log [OF 2] envelope_step_same_log [OF 3]
    by (blast intro: same_log_trans)
  then have "events s3 = events s" "next_log_index s3 = next_log_index s"
    by (simp_all add: same_log_def next_log_index_def)
  with 4 that show thesis by (elim append_auditedD) simp
qed

lemma run_action_receipt:
  assumes "run_action k d a s = (Inr r, t)"
  shows "committed_last r s t"
  using assms
proof (rule run_actionE)
  fix c res s1 ca ce art ph e s2
  assume q: "quote_and_reserve k d a s = (Inr (c, res), s1)" and tx: "commit_tx k d res c ca ce
       (new_event (k_uuid k d 21 0) (act_actor_id a) (action_type_str (act_type a)) (act_target a)
          (act_payload a) ph art c c (now_millis_string k d 21 1)) s1 = Inr (e, s2)"
    and post: "post_frame s2 t"
    and r: "r = \<lparr>sr_event_id = ev_id e, sr_log_index = ev_log_index e, sr_event_hash = ev_event_hash e,
          sr_reserved_cost = c, sr_settled_cost = c, sr_artifact_hash = art\<rparr>"
  obtain h p where "events s2 = events s1 @ [event_to_row p e]"
    "e = (new_event (k_uuid k d 21 0) (act_actor_id a) (action_type_str (act_type a)) (act_target a)
          (act_payload a) ph art c c (now_millis_string k d 21 1))
        \<lparr>ev_log_index := next_log_index s1, ev_event_hash := h\<rparr>"
    using tx by (rule commit_event)
  moreover have "\<exists>rs. events s1 = events s @ rs"
    using log_grows.laws.run_rel [OF rsteps_ksteps [OF quote_and_reserve_steps [of k s d a]]] q by simp
  ultimately show ?thesis
    using post_frameD(1) [OF post] r
    by (auto simp: committed_last_def receipt_row_def event_to_row_def new_event_def)
qed

lemma resolve_tx_event:
  assumes "resolve_tx k d a hid dec ins aid rc p s = Inr ((c, e), t)"
  obtains q rs where "events t = events s @ rs @ [event_to_row q e]" "ev_reserved_energy e = rc"
    "ev_settled_energy e = c" "ev_artifact_hash e = None"
proof -
  obtain s1 ph s2 where 1: "resolve_hold_request_in_tx (now_millis_string k d 15 0) hid dec ins s = Inr ((), s1)"
    and 2: "s2 = s1 \<or> settle_in_tx (now_millis_string k d 16 0) aid rc (commitment_cost rc) s1 = Inr ((), s2)"
    and 3: "append_audited (k_ext k)
        (new_event (k_uuid k d 17 0) (act_actor_id a) ''hold_response'' (hold_prefix @ hid) p ph None
           rc c (now_millis_string k d 17 0)) s2 = Inr (e, t)"
    using assms unfolding resolve_tx_def
    by (elim tx_bind_InrE and_then_InrE) (rule that, auto split: if_splits)
  have "events s2 = events s"
    using same_log_frames(12) [OF 1] 2 same_log_frames(1) by (auto simp: same_log_def)
  with 3 show thesis by (elim append_auditedD) (rule that [of "[]"], auto simp: new_event_def)
qed

lemma hold_response_receipt:
  assumes "execute_hold_response k d a hid dec ins s = (Inr (Finished r), t)"
  shows "committed_last r s t"
proof -
  obtain hold c e where tx: "resolve_tx k d a hid dec ins (hold_field hold ''agent_id'') (pending_cost hold)
      (json_obj
           [(''hold_id'', JString hid), (''agent_id'', JString (hold_field hold ''agent_id'')),
            (''decision'', JString dec), (''instruction'', json_opt_str ins),
            (''trigger'', trigger_json (hold_field hold ''trigger_target'')
                           (hold_field hold ''trigger_action'')),
            (''resolved_by'', JString (act_actor_id a)),
            (''resolved_at'', JString (now_millis_string k d 14 0))]) s = Inr ((c, e), t)"
    and r: "r = \<lparr>sr_event_id = ev_id e, sr_log_index = ev_log_index e, sr_event_hash = ev_event_hash e,
           sr_reserved_cost = pending_cost hold, sr_settled_cost = c, sr_artifact_hash = None\<rparr>"
    using assms unfolding execute_hold_response_def Let_def
    by (auto simp: run_tx_Inr_iff split: if_splits dest!: check_hold_timeout_ok)
  from tx show ?thesis
  proof (rule resolve_tx_event)
    fix q rs
    assume "events t = events s @ rs @ [event_to_row q e]" "ev_reserved_energy e = pending_cost hold"
      "ev_settled_energy e = c" "ev_artifact_hash e = None"
    with r show ?thesis by (simp add: committed_last_def receipt_row_def event_to_row_def)
  qed
qed

lemma submit_action_receipt:
  "submit_action k d a s = (Inr r, t) \<Longrightarrow> committed_last r s t"
proof (induction k d a s rule: submit_action.induct)
  case (1 k d a s)
  obtain q u where once: "submit_once k d a s = (q, u)" by (cases "submit_once k d a s")
  show ?case
  proof (cases "\<exists>b. q = Inr (Resubmit b)")
    case True
    then obtain b where b: "q = Inr (Resubmit b)" by blast
    with 1 once have "committed_last r u t" by (simp add: submit_action.simps [of k d a s])
    then show ?thesis using submit_once_grows [OF once] committed_last_trans by blast
  next
    case False
    with "1.prems" once have "submit_once k d a s = (Inr (Finished r), t)"
      by (auto simp: submit_action.simps [of k d a s] split: sum.splits submit_outcome.splits)
    then obtain v where v: "authorize k d a s = (Inr (), v)"
      and "run_action k d a v = (Inr r, t)
        \<or> (\<exists>hid dec ins. execute_hold_response k d a hid dec ins v = (Inr (Finished r), t))"
      unfolding submit_once_def Let_def by (auto split: option.splits if_splits prod.splits) blast
    then have "committed_last r v t" using run_action_receipt hold_response_receipt by blast
    then show ?thesis using authorize_grows [OF v] committed_last_trans by blast
  qed
qed

section \<open>Energy\<close>

lemma acct_cong: "energy_ledger t = energy_ledger s \<Longrightarrow> acct t = acct s"
  by (simp add: fun_eq_iff acct_def ledger_get_def)

lemma acct_frame [simp]:
  "acct (s\<lparr>actors := as\<rparr>) = acct s" "acct (s\<lparr>envelopes := es\<rparr>) = acct s"
  "acct (s\<lparr>hold_requests := hr\<rparr>) = acct s" "acct (s\<lparr>audit_hashes := hs\<rparr>) = acct s"
  "acct (s\<lparr>events := evs\<rparr>) = acct s"
  by (rule acct_cong, simp)+

lemma reserve_acct:
  assumes "reserve_in_tx now a c s = Inr (u, t)"
  obtains b v where "acct s a = Some (b, v)" "0 < c" "v + c \<le> b" "acct t = (acct s)(a \<mapsto> (b, v + c))"
proof -
  have "tx_acct (reserve_in_tx now a c) s = Some (acct t)" using assms by (simp add: tx_acct_def)
  then show thesis
    using that by (auto simp: reserve_refines abs_reserve_def split: option.splits if_splits)
qed

lemma settle_acct:
  assumes "settle_in_tx now a rc ac s = Inr (u, t)" "ledger_ok s"
  obtains b v where "acct s a = Some (b, v)" "0 \<le> rc" "0 \<le> ac" "rc \<le> v"
    "acct t = (acct s)(a \<mapsto> (b - ac, v - rc))"
proof -
  have "tx_acct (settle_in_tx now a rc ac) s = Some (acct t)" using assms(1) by (simp add: tx_acct_def)
  then show thesis
    using that by (auto simp: settle_refines [OF assms(2)] abs_settle_def split: option.splits if_splits)
qed

lemma create_account_acct:
  assumes "create_actor_in_tx now a c s = Inr (u, t)"
  shows "acct s a = None" "acct t = (acct s)(a \<mapsto> (c, 0))"
proof -
  have "tx_acct (create_actor_in_tx now a c) s = Some (acct t)" using assms by (simp add: tx_acct_def)
  then show "acct s a = None" "acct t = (acct s)(a \<mapsto> (c, 0))"
    by (auto simp: create_actor_refines abs_create_def split: if_splits)
qed

text \<open>The account that a creation opens.\<close>

definition open_account :: "create_actor_spec option \<Rightarrow> accounts \<Rightarrow> accounts" where
  "open_account ca m =
     (case ca of None \<Rightarrow> m | Some spec \<Rightarrow> m(cs_actor_id spec \<mapsto> (cs_energy_balance spec, 0)))"

lemma actor_step_acct: "create_actor_step k d ca s = Inr (u, t) \<Longrightarrow> acct t = open_account ca (acct s)"
  by (auto simp: create_actor_step_def open_account_def split: option.splits
      dest!: create_account_acct(2) actor_create_frame intro: acct_cong)

lemma commit_acct:
  assumes "commit_tx k d res c ca ce ev s = Inr (e, t)" "settle_step k d res c s = Inr ((), u)"
  shows "acct t = open_account ca (acct u)"
proof -
  obtain s2 s3 where 2: "create_actor_step k d ca u = Inr ((), s2)"
    and 3: "create_envelope_step k d ce s2 = Inr ((), s3)"
    and 4: "append_audited (k_ext k) ev s3 = Inr (e, t)"
    using assms by (elim commit_txE) simp
  have "acct s3 = acct s2"
    using 3 by (auto simp: create_envelope_step_def split: option.splits prod.splits
        dest!: envelope_create_frame intro: acct_cong)
  moreover have "acct t = acct s3" using 4 by (elim append_auditedD) (auto intro: acct_cong)
  ultimately show ?thesis using actor_step_acct [OF 2] by simp
qed

lemma quote_positive: "0 < quote_i64 k a"
  using quote_nat_pos [of "json_vec (k_ext k)" a] by (simp add: quote_i64_def quote_cost_as_i64)

lemma quote_and_reserve_fresh:
  assumes "quote_and_reserve k d a s = (Inr (c, res), t)"
    and "get_i64 (act_payload a) ''_hold_reserved_cost'' = None"
  shows "c = quote_i64 k a" "res = Some \<lparr>er_actor_id = act_actor_id a, er_reserved = c\<rparr>"
    "reserve_in_tx (now_millis_string k d 20 0) (act_actor_id a) c s = Inr ((), t)"
  using assms quote_positive [of k a]
  by (auto simp: quote_and_reserve_def reserve_def run_tx_Inr_iff Let_def)

lemma run_action_energy:
  assumes run: "run_action k d a s = (Inr r, t)" and ok: "ledger_ok s"
    and fresh: "get_i64 (act_payload a) ''_hold_reserved_cost'' = None"
  shows "\<exists>b v ca. acct s (act_actor_id a) = Some (b, v) \<and> v + quote_i64 k a \<le> b
    \<and> parse_create_actor_spec (k_ext k) a s = Inr ca \<and> sr_settled_cost r = quote_i64 k a
    \<and> acct t = open_account ca ((acct s)(act_actor_id a \<mapsto> (b - quote_i64 k a, v)))"
  using run
proof (rule run_actionE)
  fix c res s1 ca ce art ph e s2
  assume pa: "parse_create_actor_spec (k_ext k) a s = Inr ca"
    and q: "quote_and_reserve k d a s = (Inr (c, res), s1)"
    and tx: "commit_tx k d res c ca ce
       (new_event (k_uuid k d 21 0) (act_actor_id a) (action_type_str (act_type a)) (act_target a)
          (act_payload a) ph art c c (now_millis_string k d 21 1)) s1 = Inr (e, s2)"
    and post: "post_frame s2 t"
    and r: "r = \<lparr>sr_event_id = ev_id e, sr_log_index = ev_log_index e, sr_event_hash = ev_event_hash e,
          sr_reserved_cost = c, sr_settled_cost = c, sr_artifact_hash = art\<rparr>"
  note f = quote_and_reserve_fresh [OF q fresh]
  obtain b v where b: "acct s (act_actor_id a) = Some (b, v)" "v + c \<le> b"
    "acct s1 = (acct s)(act_actor_id a \<mapsto> (b, v + c))"
    using f(3) by (elim reserve_acct)
  have ok1: "ledger_ok s1" using tx_keepsD [OF reserve_keeps ok f(3)] .
  obtain u where u: "settle_step k d res c s1 = Inr ((), u)" using tx by (elim commit_txE)
  have "acct u = (acct s)(act_actor_id a \<mapsto> (b - c, v))"
    using u b(3) f(2) by (auto simp: settle_step_def elim!: settle_acct [OF _ ok1])
  with commit_acct [OF tx u] acct_cong [OF post_frameD(2) [OF post]]
  have "acct t = open_account ca ((acct s)(act_actor_id a \<mapsto> (b - c, v)))" by simp
  with b pa f(1) r show ?thesis by auto
qed

section \<open>Authorization\<close>

text \<open>
  The specification of who may act. An agent that changes state needs active ancestors and a
  live envelope (the newest active one, not expired) that covers target and action; a frozen
  actor changes nothing; everybody stays within the writable boundary.
\<close>

definition live_envelope :: "ext \<Rightarrow> u64 \<Rightarrow> action \<Rightarrow> db \<Rightarrow> bool" where
  "live_envelope x now a s \<longleftrightarrow>
     (\<exists>env. get_active_for_actor x (act_actor_id a) s = Inr (Some env)
        \<and> en_status env = EnvActive \<and> \<not> is_envelope_expired env now
        \<and> check_envelope_covers (glob x) env (act_target a) (action_type_str (act_type a)) = Inr ())"

definition authorized :: "ext \<Rightarrow> u64 \<Rightarrow> action \<Rightarrow> actor_record \<Rightarrow> db \<Rightarrow> bool" where
  "authorized x now a actor s \<longleftrightarrow>
     is_ok (check_writable_boundary (glob x) actor (act_target a) (act_type a))
     \<and> (is_state_changing (act_type a) \<longrightarrow>
          ar_status actor \<noteq> Frozen
          \<and> (ar_actor_type actor = Agent \<longrightarrow>
               (\<forall>p \<in> set (ar_lineage actor). actor_is_active p s) \<and> live_envelope x now a s))"

lemma drop_expired_post: "post_frame s (snd (drop_expired k d env s))"
  by (auto simp: drop_expired_def envelope_set_status_def h_bind_def
      split: option.splits prod.splits sum.splits
      dest: run_tx_Inr_iff [THEN iffD1] post_tables(2) intro: post_tables)
    (auto simp: run_tx_def split: sum.splits prod.splits dest: post_tables(2))

lemma unauthorized_envelope:
  assumes agent: "ar_actor_type actor = Agent" and no: "\<not> live_envelope (k_ext k) (now_millis_u64 k d 0 0) a s"
  shows "\<exists>e t. authorize_envelope k d a actor s = (Inl e, t) \<and> post_frame s t"
proof (cases "get_active_for_actor (k_ext k) (act_actor_id a) s")
  case (Inl e)
  then show ?thesis by (simp add: authorize_envelope_def h_bind_def)
next
  case (Inr found)
  have none: "\<exists>e. check_authorization actor None = Inl e"
    using agent check_authorization_iff [of actor None] by (cases "check_authorization actor None") auto
  show ?thesis
  proof (cases found)
    case None
    with Inr none show ?thesis by (auto simp: authorize_envelope_def h_bind_def drop_expired_def)
  next
    case (Some env)
    show ?thesis
    proof (cases "is_envelope_expired env (now_millis_u64 k d 0 0)")
      case True
      obtain q t where q: "drop_expired k d found s = (q, t)" by (cases "drop_expired k d found s")
      have "q = Inr None \<or> (\<exists>e. q = Inl e)"
        using q True Some by (cases q) (auto simp: drop_expired_def)
      moreover have "post_frame s t" using drop_expired_post [of s k d found] q by simp
      ultimately show ?thesis using q Inr none by (auto simp: authorize_envelope_def h_bind_def)
    next
      case False
      have "drop_expired k d found s = (Inr (Some env), s)" using False Some by (simp add: drop_expired_def)
      moreover have "check_authorization actor (Some env) = Inr ManOnTheLoop
          \<or> (\<exists>e. check_authorization actor (Some env) = Inl e)"
        using agent by (auto simp: check_authorization_def determine_authorization_mode_def Let_def)
      moreover have "\<exists>e. check_envelope_covers (glob (k_ext k)) env (act_target a) (action_type_str (act_type a)) = Inl e"
        if "check_authorization actor (Some env) = Inr ManOnTheLoop"
        using no Inr Some False that agent check_authorization_iff [of actor "Some env"]
        by (cases "check_envelope_covers (glob (k_ext k)) env (act_target a) (action_type_str (act_type a))")
          (auto simp: live_envelope_def)
      ultimately show ?thesis using Inr Some
        by (auto simp: authorize_envelope_def h_bind_def envelope_gate_def)
    qed
  qed
qed

lemma unauthorized_actor:
  assumes "\<not> authorized (k_ext k) (now_millis_u64 k d 0 0) a actor s"
  shows "\<exists>e t. authorize_actor k d a actor s = (Inl e, t) \<and> post_frame s t"
proof (cases "ar_status actor = Frozen \<and> is_state_changing (act_type a)")
  case True
  then show ?thesis by (simp add: authorize_actor_def)
next
  case False
  show ?thesis
  proof (cases "check_writable_boundary (glob (k_ext k)) actor (act_target a) (act_type a)")
    case (Inl e)
    with False show ?thesis by (simp add: authorize_actor_def h_bind_def)
  next
    case (Inr u)
    with assms False have agent: "ar_actor_type actor = Agent" "is_state_changing (act_type a)"
      and no: "\<not> ((\<forall>p \<in> set (ar_lineage actor). actor_is_active p s)
        \<and> live_envelope (k_ext k) (now_millis_u64 k d 0 0) a s)"
      by (auto simp: authorized_def is_ok_def)
    show ?thesis
    proof (cases "check_lineage_active (ar_lineage actor) s")
      case (Inl e)
      with Inr False agent show ?thesis by (simp add: authorize_actor_def h_bind_def)
    next
      case (Inr v)
      with no have "\<not> live_envelope (k_ext k) (now_millis_u64 k d 0 0) a s"
        by (simp add: check_lineage_active_iff)
      from unauthorized_envelope [OF agent(1) this] Inr False agent
        \<open>check_writable_boundary _ actor _ _ = Inr u\<close> show ?thesis
        by (auto simp: authorize_actor_def h_bind_def)
    qed
  qed
qed

lemma authorize_found:
  assumes "actor_get (k_ext k) (act_actor_id a) s = Inr (Some actor)"
    and "validate_action (json_vec (k_ext k)) a = Inr u"
  shows "authorize k d a s = authorize_actor k d a actor s"
  using assms
  by (auto simp: authorize_def h_bind_def actor_exists_def elim: actor_get_SomeD)

lemma refused_authorize:
  assumes "actor_get (k_ext k) (act_actor_id a) s = Inr (Some actor)"
    and "\<not> authorized (k_ext k) (now_millis_u64 k d 0 0) a actor s
      \<or> \<not> is_ok (validate_action (json_vec (k_ext k)) a)"
  shows "\<exists>e t. authorize k d a s = (Inl e, t) \<and> post_frame s t"
proof (cases "validate_action (json_vec (k_ext k)) a")
  case (Inl e)
  then show ?thesis by (simp add: authorize_def h_bind_def)
next
  case (Inr u)
  with assms(2) have "\<not> authorized (k_ext k) (now_millis_u64 k d 0 0) a actor s" by simp
  with authorize_found [OF assms(1) Inr] unauthorized_actor show ?thesis by simp
qed

lemma unauthorized_submit:
  assumes "actor_get (k_ext k) (act_actor_id a) s = Inr (Some actor)"
    and "\<not> authorized (k_ext k) (now_millis_u64 k d 0 0) a actor s"
  shows "\<exists>e t. submit_action k d a s = (Inl e, t) \<and> post_frame s t"
proof -
  obtain e t where "authorize k d a s = (Inl e, t)" "post_frame s t"
    using refused_authorize [OF assms(1)] assms(2) by blast
  then show ?thesis
    by (simp add: submit_action.simps [of k d a s] submit_once_def h_bind_def)
qed

section \<open>Humans\<close>

lemma authorize_human:
  assumes "actor_get (k_ext k) (act_actor_id a) s = Inr (Some actor)" "ar_actor_type actor = Human"
    and "authorize k d a s = (Inr u, t)"
  shows "post_frame s t"
proof -
  have v: "\<exists>w. validate_action (json_vec (k_ext k)) a = Inr w"
    using assms(3) by (cases "validate_action (json_vec (k_ext k)) a") (auto simp: authorize_def)
  then have "authorize_actor k d a actor s = (Inr u, t)"
    using authorize_found [OF assms(1)] assms(3) by metis
  then show ?thesis
    using assms(2) drop_expired_post [of s k d]
    by (auto simp: authorize_actor_def authorize_envelope_def check_authorization_def
        determine_authorization_mode_def Let_def split: if_splits option.splits)
      (metis snd_conv)+
qed

text \<open>
  A human's action that is neither a hold response nor carries the sentinel: the submission
  settles the quote.
\<close>

lemma submit_human_energy:
  assumes actor: "actor_get (k_ext k) (act_actor_id a) s = Inr (Some actor)" "ar_actor_type actor = Human"
    and ok: "ledger_ok s"
    and fresh: "get_i64 (act_payload a) ''_hold_reserved_cost'' = None"
    and no_resp: "act_type a = Mutate \<Longrightarrow> parse_hold_response (act_target a) (act_payload a) = None"
    and run: "submit_action k d a s = (Inr r, t)"
  shows "\<exists>b v ca. acct s (act_actor_id a) = Some (b, v) \<and> v + quote_i64 k a \<le> b
    \<and> sr_settled_cost r = quote_i64 k a
    \<and> acct t = open_account ca ((acct s)(act_actor_id a \<mapsto> (b - quote_i64 k a, v)))
    \<and> (ca = None \<longleftrightarrow> act_type a \<noteq> Create \<or> act_target a \<noteq> ''ledger/actor'')"
proof -
  have no: "(if act_type a = Mutate then parse_hold_response (act_target a) (act_payload a) else None) = None"
    using no_resp by simp
  obtain u where u: "authorize k d a s = (Inr (), u)" and ra: "run_action k d a u = (Inr r, t)"
    using run unfolding submit_action.simps [of k d a s] submit_once_def Let_def no
    by (auto simp: h_bind_def split: prod.splits sum.splits)
  have post: "post_frame s u" using authorize_human [OF actor u] .
  have "acct u = acct s" "ledger_ok u"
    using acct_cong [OF post_frameD(2) [OF post]] ok post_frameD(2) [OF post]
    by (simp_all add: ledger_ok_def)
  with run_action_energy [OF ra _ fresh] obtain b v ca where
    "acct s (act_actor_id a) = Some (b, v)" "v + quote_i64 k a \<le> b"
    "parse_create_actor_spec (k_ext k) a u = Inr ca" "sr_settled_cost r = quote_i64 k a"
    "acct t = open_account ca ((acct s)(act_actor_id a \<mapsto> (b - quote_i64 k a, v)))" by auto
  moreover from this(3) have "ca = None \<longleftrightarrow> act_type a \<noteq> Create \<or> act_target a \<noteq> ''ledger/actor''"
    by (auto simp: parse_create_actor_spec_def Let_def split: if_splits)
  ultimately show ?thesis by blast
qed

end
