(* ===== verification/Hold_Properties.thy ===== *)
theory Hold_Properties
  imports Submit_Properties
begin

text \<open>
  The hold workflow of \<open>runtime/kernel.rs\<close>: a held action is not executed and its cost is
  reserved; a rejected or timed-out hold releases the reservation against a fifth of it; an
  approved one is re-submitted as it was held and settles the reservation.
\<close>

section \<open>What a handler adds to the log\<close>

definition log_adds :: "string set \<Rightarrow> db \<Rightarrow> db \<Rightarrow> bool" where
  "log_adds T s t \<longleftrightarrow> (\<exists>rs. events t = events s @ rs \<and> (\<forall>r \<in> set rs. ev_action_type r \<in> T))"

interpretation log_adds: evolution "log_adds T" for T
proof unfold_locales
  show "log_adds T s s" for s by (simp add: log_adds_def)
  show "log_adds T s t \<Longrightarrow> log_adds T t u \<Longrightarrow> log_adds T s u" for s t u
    unfolding log_adds_def by auto
qed

lemma log_adds_same: "events t = events s \<Longrightarrow> log_adds T s t"
  by (simp add: log_adds_def)

definition adds :: "string set \<Rightarrow> 'a handler \<Rightarrow> bool" where
  "adds T m \<longleftrightarrow> (\<forall>s. log_adds T s (snd (m s)))"

lemma adds_bind [intro]: "adds T m \<Longrightarrow> (\<And>a. adds T (f a)) \<Longrightarrow> adds T (h_bind m f)"
proof -
  assume m: "adds T m" and f: "\<And>a. adds T (f a)"
  have "log_adds T s (snd (h_bind m f s))" for s
  proof (cases "m s")
    case (Pair r t)
    then have "log_adds T s t" using m unfolding adds_def by (metis snd_conv)
    then show ?thesis
      using f Pair by (cases r) (auto simp: h_bind_def adds_def intro: log_adds.rel_trans)
  qed
  then show ?thesis by (simp add: adds_def)
qed

lemma adds_pure [intro!]: "adds T (h_return a)" "adds T (h_lift r)"
  by (simp_all add: adds_def log_adds.rel_refl)

lemma adds_run: "(\<And>s a t. m s = Inr (a, t) \<Longrightarrow> log_adds T s t) \<Longrightarrow> adds T (run_tx m)"
  by (auto simp: adds_def run_tx_def log_adds.rel_refl split: sum.splits)

lemma append_audited_adds:
  assumes "append_audited x ev s = Inr (e, t)" "ev_action_type ev \<in> T"
  shows "log_adds T s t"
  using assms by (elim append_auditedD) (auto simp: log_adds_def event_to_row_def)

lemma timeout_adds:
  assumes "timeout_tx k d b j hid aid rc cc ev s = Inr (e, t)" "ev_action_type ev \<in> T"
  shows "log_adds T s t"
proof -
  obtain s1 s2 where 1: "resolve_hold_request_in_tx (now_millis_string k d (b + 2) j) hid ''timed_out'' None s
      = Inr ((), s1)"
    and 2: "s2 = s1 \<or> settle_in_tx (now_millis_string k d (b + 3) j) aid rc cc s1 = Inr ((), s2)"
    and 3: "append_audited (k_ext k) ev s2 = Inr (e, t)"
    using assms(1) by (rule timeout_txE)
  have "events s2 = events s"
    using same_log_frames(12) [OF 1] 2 same_log_frames(1) by (auto simp: same_log_def)
  with append_audited_adds [OF 3 assms(2)] show ?thesis by (simp add: log_adds_def)
qed

lemma expire_one_adds: "adds {''hold_timeout''} (expire_one k d b j now to hold)"
  unfolding expire_one_def Let_def
  by (auto intro!: adds_bind adds_run simp: new_event_def elim!: timeout_adds)

lemma expire_each_adds: "adds {''hold_timeout''} (expire_each k d b j now to holds)"
  by (induction holds arbitrary: j) (auto intro!: expire_one_adds)

lemma expire_holds_adds: "adds {''hold_timeout''} (expire_timed_out_holds k d b eid to)"
  using expire_each_adds by (auto simp: adds_def expire_timed_out_holds_def)

lemma log_adds_mono: "log_adds T s t \<Longrightarrow> T \<subseteq> U \<Longrightarrow> log_adds U s t"
  by (auto simp: log_adds_def)

lemma adds_mono: "adds T m \<Longrightarrow> T \<subseteq> U \<Longrightarrow> adds U m"
  unfolding adds_def using log_adds_mono by blast

lemma hold_tx_event:
  assumes "hold_tx k d a eid hid rc ev s = Inr (u, t)"
  shows "\<exists>row. events t = events s @ [row] \<and> ev_action_type row = ev_action_type ev"
proof -
  obtain s1 s2 s3 e req where
    1: "s1 = s \<or> reserve_in_tx (now_millis_string k d 8 0) (act_actor_id a) rc s = Inr ((), s1)"
    and 2: "append_in_tx (k_ext k) ev s1 = Inr (e, s2)"
    and 3: "create_hold_request_in_tx (k_ext k) (now_millis_string k d 9 0) req s2 = Inr ((), s3)"
    and 4: "audit_leaf (k_ext k) e s3 = Inr ((), t)"
    using assms by (rule hold_txE)
  have "events s1 = events s" using 1 same_log_frames(2) by (auto simp: same_log_def)
  moreover have "events t = events s2"
    using same_log_frames(11) [OF 3] audit_leaf_frame [OF 4] by (auto simp: same_log_def)
  ultimately show ?thesis
    using 2 unfolding append_in_tx_def
    by (elim assign_and_insert_Inr) (auto simp: event_to_row_def)
qed

lemma hold_tx_adds:
  "hold_tx k d a eid hid rc ev s = Inr (u, t) \<Longrightarrow> ev_action_type ev \<in> T \<Longrightarrow> log_adds T s t"
  by (drule hold_tx_event) (auto simp: log_adds_def)

lemma trigger_hold_adds: "adds {''hold_request''} (trigger_hold k d a env)"
  unfolding trigger_hold_def Let_def
  by (auto intro!: adds_bind adds_run simp: new_event_def elim!: hold_tx_adds)

lemma gate_adds: "adds {''hold_request'', ''hold_timeout''} (envelope_gate k d a env)"
proof -
  have "adds {''hold_request'', ''hold_timeout''} (expire_before_gate k d env)"
    unfolding expire_before_gate_def
    by (auto intro!: adds_mono [OF expire_holds_adds] split: option.splits)
  moreover have "adds {''hold_request'', ''hold_timeout''} (trigger_hold k d a env)"
    by (rule adds_mono [OF trigger_hold_adds]) auto
  ultimately show ?thesis unfolding envelope_gate_def by auto
qed

section \<open>A held action is not executed\<close>

text \<open>The hold rules of the actor's live envelope ask for a human.\<close>

definition must_hold :: "ext \<Rightarrow> u64 \<Rightarrow> action \<Rightarrow> actor_record \<Rightarrow> db \<Rightarrow> bool" where
  "must_hold x now a actor s \<longleftrightarrow>
     is_state_changing (act_type a) \<and> ar_actor_type actor = Agent
     \<and> \<not> hold_approved (act_payload a)
     \<and> (\<exists>env. get_active_for_actor x (act_actor_id a) s = Inr (Some env)
          \<and> \<not> is_envelope_expired env now
          \<and> check_hold_trigger (glob x) (en_hold_on env) (act_target a) (action_type_str (act_type a)))"

lemma held_gate:
  assumes "\<not> hold_approved (act_payload a)"
    and "check_hold_trigger (glob (k_ext k)) (en_hold_on env) (act_target a) (action_type_str (act_type a))"
  shows "\<exists>e t. envelope_gate k d a env s = (Inl e, t)"
proof -
  obtain r t where r: "envelope_gate k d a env s = (r, t)" by (cases "envelope_gate k d a env s")
  have "\<exists>e. r = Inl e"
    using r assms by (cases r) (auto simp: envelope_gate_def trigger_hold_never_ok)
  with r show ?thesis by blast
qed

lemma held_authorize:
  assumes "actor_get (k_ext k) (act_actor_id a) s = Inr (Some actor)"
    and "must_hold (k_ext k) (now_millis_u64 k d 0 0) a actor s"
  shows "\<exists>e t. authorize k d a s = (Inl e, t) \<and> log_adds {''hold_request'', ''hold_timeout''} s t"
proof (cases "authorized (k_ext k) (now_millis_u64 k d 0 0) a actor s
    \<and> is_ok (validate_action (json_vec (k_ext k)) a)")
  case True
  then obtain u where v: "validate_action (json_vec (k_ext k)) a = Inr u"
    by (auto simp: is_ok_def split: sum.splits)
  obtain env where env: "get_active_for_actor (k_ext k) (act_actor_id a) s = Inr (Some env)"
      "\<not> is_envelope_expired env (now_millis_u64 k d 0 0)" "\<not> hold_approved (act_payload a)"
      "check_hold_trigger (glob (k_ext k)) (en_hold_on env) (act_target a) (action_type_str (act_type a))"
    and ty: "is_state_changing (act_type a)" "ar_actor_type actor = Agent"
    using assms(2) by (auto simp: must_hold_def)
  have "check_authorization actor (Some env) = Inr ManOnTheLoop"
    using True env(1) ty
    by (auto simp: authorized_def live_envelope_def check_authorization_iff
        determine_authorization_mode_def)
  then have "authorize_envelope k d a actor s = envelope_gate k d a env s"
    using env(1,2) by (simp add: authorize_envelope_def h_bind_def drop_expired_def)
  moreover have "check_lineage_active (ar_lineage actor) s = Inr ()"
    "is_ok (check_writable_boundary (glob (k_ext k)) actor (act_target a) (act_type a))"
    "ar_status actor \<noteq> Frozen"
    using True ty by (simp_all add: authorized_def check_lineage_active_iff)
  then have "authorize_actor k d a actor s = authorize_envelope k d a actor s"
    using ty by (auto simp: authorize_actor_def h_bind_def is_ok_def split: sum.splits)
  ultimately have "authorize k d a s = envelope_gate k d a env s"
    using authorize_found [OF assms(1) v] by simp
  then show ?thesis
    using held_gate [OF env(3,4), of d s] gate_adds [of k d a env]
    unfolding adds_def by (metis snd_conv)
next
  case False
  then obtain e t where "authorize k d a s = (Inl e, t)" "post_frame s t"
    using refused_authorize [OF assms(1)] by blast
  then show ?thesis using post_frameD(1) [of s t] log_adds_same by blast
qed

lemma held_submit:
  assumes "actor_get (k_ext k) (act_actor_id a) s = Inr (Some actor)"
    and "must_hold (k_ext k) (now_millis_u64 k d 0 0) a actor s"
  shows "\<exists>e t. submit_action k d a s = (Inl e, t) \<and> log_adds {''hold_request'', ''hold_timeout''} s t"
  using held_authorize [OF assms]
  by (auto simp: submit_action.simps [of k d a s] submit_once_def h_bind_def)

section \<open>The energy of a hold\<close>

lemma commitment_cost_fifth: "0 < c \<Longrightarrow> c \<le> 2 ^ 50 \<Longrightarrow> commitment_cost c = (c + 4) div 5"
  unfolding commitment_cost_def by (rule ceil_fifth)

text \<open>Evaluation takes the closed form where it holds.\<close>

lemma commitment_cost_code [code]:
  "commitment_cost c =
     (if 0 < c \<and> c \<le> 1125899906842624 then (c + 4) div 5
      else f64_ceil_i64 (f64_mul (f64_of_int c) (f64_round (1 / 5))))"
  using commitment_cost_fifth [of c] by (simp add: commitment_cost_def)

lemma leaf_acct: "audit_leaf x e s = Inr (u, t) \<Longrightarrow> acct t = acct s"
  by (drule audit_leaf_frame) auto

lemma append_acct: "append_in_tx x ev s = Inr (e, t) \<Longrightarrow> acct t = acct s"
  by (drule append_frame) auto

lemma append_audited_acct: "append_audited x ev s = Inr (e, t) \<Longrightarrow> acct t = acct s"
  by (elim append_auditedD) (auto intro: acct_cong)

lemma append_audited_ledger: "append_audited x ev s = Inr (e, t) \<Longrightarrow> energy_ledger t = energy_ledger s"
  by (elim append_auditedD) auto

text \<open>The request that a held action leaves, and the statements of the transaction.\<close>

definition held_payload :: "action \<Rightarrow> i64 \<Rightarrow> json" where
  "held_payload a c = json_obj (pending_action_json a @ [(''reserved_cost'', json_i64 c)])"

definition held_request :: "action \<Rightarrow> string \<Rightarrow> string \<Rightarrow> i64 \<Rightarrow> new_hold_request" where
  "held_request a eid hid c =
     \<lparr>nh_hold_id = hid, nh_envelope_id = eid, nh_agent_id = act_actor_id a,
      nh_trigger_target = act_target a, nh_trigger_action = action_type_str (act_type a),
      nh_pending_payload = held_payload a c\<rparr>"

lemma hold_tx_runE:
  assumes "hold_tx k d a eid hid c ev s = Inr (u, t)"
  obtains s1 e s2 s3 where
    "(if c > 0 then reserve_in_tx (now_millis_string k d 8 0) (act_actor_id a) c else tx_return ()) s
       = Inr ((), s1)"
    "append_in_tx (k_ext k) ev s1 = Inr (e, s2)"
    "create_hold_request_in_tx (k_ext k) (now_millis_string k d 9 0) (held_request a eid hid c) s2
       = Inr ((), s3)"
    "audit_leaf (k_ext k) e s3 = Inr ((), t)"
  using assms unfolding hold_tx_def held_payload_def [symmetric] held_request_def [symmetric]
  by (elim tx_bind_InrE) (rule that, simp_all)

lemma hold_tx_effect:
  assumes "hold_tx k d a eid hid c ev s = Inr (u, t)" "0 < c"
  shows "\<exists>b v. acct s (act_actor_id a) = Some (b, v) \<and> v + c \<le> b
    \<and> acct t = (acct s)(act_actor_id a \<mapsto> (b, v + c))"
  using assms(1)
proof (rule hold_tx_runE)
  fix s1 e s2 s3
  assume 1: "(if c > 0 then reserve_in_tx (now_millis_string k d 8 0) (act_actor_id a) c else tx_return ()) s
       = Inr ((), s1)"
    and 2: "append_in_tx (k_ext k) ev s1 = Inr (e, s2)"
    and 3: "create_hold_request_in_tx (k_ext k) (now_millis_string k d 9 0) (held_request a eid hid c) s2
       = Inr ((), s3)"
    and 4: "audit_leaf (k_ext k) e s3 = Inr ((), t)"
  have "acct t = acct s1"
    using create_hold_frame [OF 3] append_acct [OF 2] leaf_acct [OF 4] by auto
  moreover obtain b v where "acct s (act_actor_id a) = Some (b, v)" "v + c \<le> b"
    "acct s1 = (acct s)(act_actor_id a \<mapsto> (b, v + c))"
    using 1 assms(2) by simp (elim reserve_acct)
  ultimately show ?thesis by auto
qed

text \<open>Resolution followed by settlement at the commitment cost.\<close>

lemma resolve_settle_acct:
  assumes "resolve_hold_request_in_tx now hid dec ins s = Inr ((), s1)" "ledger_ok s"
    and "settle_in_tx now' aid c (commitment_cost c) s1 = Inr ((), s2)" "0 < c" "c \<le> 2 ^ 50"
    and "acct t = acct s2"
  shows "\<exists>b v. acct s aid = Some (b, v) \<and> c \<le> v
    \<and> acct t = (acct s)(aid \<mapsto> (b - (c + 4) div 5, v - c))"
proof -
  have s1: "acct s1 = acct s" "ledger_ok s1"
    using resolve_frame [OF assms(1)] assms(2) by (auto simp: ledger_ok_def)
  obtain b v where "acct s1 aid = Some (b, v)" "c \<le> v"
    "acct s2 = (acct s1)(aid \<mapsto> (b - commitment_cost c, v - c))"
    using assms(3) s1(2) by (elim settle_acct)
  with s1(1) assms(6) commitment_cost_fifth [OF assms(4,5)] show ?thesis by simp
qed

lemma reject_energy:
  assumes "resolve_tx k d a hid ''reject'' ins aid c p s = Inr ((cc, e), t)" "ledger_ok s"
    and "0 < c" "c \<le> 2 ^ 50"
  shows "cc = (c + 4) div 5 \<and> (\<exists>b v. acct s aid = Some (b, v) \<and> c \<le> v
    \<and> acct t = (acct s)(aid \<mapsto> (b - (c + 4) div 5, v - c)))"
proof -
  obtain s1 s2 where 1: "resolve_hold_request_in_tx (now_millis_string k d 15 0) hid ''reject'' ins s = Inr ((), s1)"
    and 2: "(if ''reject'' = ''reject'' \<and> c > 0
        then tx_bind (settle_in_tx (now_millis_string k d 16 0) aid c (commitment_cost c))
               (\<lambda>_. tx_return (commitment_cost c)) else tx_return 0) s1 = Inr (cc, s2)"
    and 3: "\<exists>ev. append_audited (k_ext k) ev s2 = Inr (e, t)"
    using assms(1) unfolding resolve_tx_def
    by (elim tx_bind_InrE and_then_InrE) (rule that, simp_all, blast)
  have 4: "settle_in_tx (now_millis_string k d 16 0) aid c (commitment_cost c) s1 = Inr ((), s2)"
    and cc: "cc = commitment_cost c"
    using 2 assms(3) by auto
  have "acct t = acct s2" using 3 append_audited_acct by blast
  with resolve_settle_acct [OF 1 assms(2) 4 assms(3,4)] cc commitment_cost_fifth [OF assms(3,4)]
  show ?thesis by simp
qed

lemma timeout_energy:
  assumes "timeout_tx k d b j hid aid c (commitment_cost c) ev s = Inr (e, t)" "ledger_ok s"
    and "0 < c" "c \<le> 2 ^ 50"
  shows "\<exists>b v. acct s aid = Some (b, v) \<and> c \<le> v
    \<and> acct t = (acct s)(aid \<mapsto> (b - (c + 4) div 5, v - c))"
proof -
  obtain s1 s2 where 1: "resolve_hold_request_in_tx (now_millis_string k d (b + 2) j) hid ''timed_out'' None s = Inr ((), s1)"
    and 2: "(if c > 0 then settle_in_tx (now_millis_string k d (b + 3) j) aid c (commitment_cost c)
        else tx_return ()) s1 = Inr ((), s2)"
    and 3: "append_audited (k_ext k) ev s2 = Inr (e, t)"
    using assms(1) unfolding timeout_tx_def by (elim tx_bind_InrE) (rule that, simp_all)
  from 2 assms(3) have "settle_in_tx (now_millis_string k d (b + 3) j) aid c (commitment_cost c) s1 = Inr ((), s2)"
    by simp
  from resolve_settle_acct [OF 1 assms(2) this assms(3,4) append_audited_acct [OF 3]] show ?thesis .
qed

section \<open>What is approved is what was held\<close>

lemma action_type_of_str [simp]: "action_type_of_str (action_type_str ty) = ty"
  by (cases ty) (simp_all add: action_type_of_str_def)

lemma mark_approved_fields:
  "hold_approved (mark_approved c ins p)"
  "in_i64 c \<Longrightarrow> get_i64 (mark_approved c ins p) ''_hold_reserved_cost'' = Some c"
  by (auto simp: mark_approved_def hold_approved_def get_bool_def get_i64_def Let_def
      split: option.splits)

text \<open>The other fields of an object payload are kept.\<close>

lemma mark_approved_keeps:
  "f \<notin> {''_hold_approved'', ''_hold_reserved_cost'', ''_hold_instruction''} \<Longrightarrow>
   vget (mark_approved c ins (JObject kvs)) f = vget (JObject kvs) f"
  by (auto simp: mark_approved_def Let_def split: option.splits)

lemma held_payload_fields:
  "get_str (held_payload a c) ''target'' = Some (act_target a)"
  "get_str (held_payload a c) ''action_type'' = Some (action_type_str (act_type a))"
  "vget (held_payload a c) ''payload'' = Some (act_payload a)"
  "in_i64 c \<Longrightarrow> get_i64 (held_payload a c) ''reserved_cost'' = Some c"
  by (simp_all add: held_payload_def pending_action_json_def get_str_def get_i64_def vget_json_obj)

lemma hold_to_json_fields:
  "hold_field (hold_to_json x r) ''agent_id'' = h_agent_id r"
  "hold_field (hold_to_json x r) ''status'' = h_status r"
  "pending_of (hold_to_json x r) = unwrap_or JNull (json_parse x (h_pending_payload r))"
  by (simp_all add: hold_to_json_def hold_field_def pending_of_def get_str_def vget_json_obj)

lemma pending_action_held:
  assumes "json_parse x (h_pending_payload r) = Some (held_payload a c)" "in_i64 c"
  shows "pending_cost (hold_to_json x r) = c"
    and "pending_action (hold_to_json x r) (act_actor_id a) ins =
      \<lparr>act_actor_id = act_actor_id a, act_type = act_type a, act_target = act_target a,
       act_payload = mark_approved c ins (act_payload a), act_timestamp = None\<rparr>"
  using assms
  by (simp_all add: pending_cost_def pending_action_def hold_to_json_fields held_payload_fields Let_def)

lemma hold_tx_row:
  assumes "hold_tx k d a eid hid c ev s = Inr (u, t)"
  obtains r where "hold_row_get hid t = Some r" "pending r" "h_agent_id r = act_actor_id a"
    "h_envelope_id r = eid" "json_text (k_ext k) (held_payload a c) = Some (h_pending_payload r)"
  using assms
proof (rule hold_tx_runE)
  fix s1 e s2 s3
  assume 3: "create_hold_request_in_tx (k_ext k) (now_millis_string k d 9 0) (held_request a eid hid c) s2
       = Inr ((), s3)"
    and 4: "audit_leaf (k_ext k) e s3 = Inr ((), t)"
  have "hold_requests t = hold_requests s3" using audit_leaf_frame [OF 4] by auto
  then have row: "hold_row_get hid t = hold_row_get hid s3" by (simp add: hold_row_get_def)
  obtain pj r where "hold_row_get hid s3 = Some r" "pending r" "h_agent_id r = act_actor_id a"
    "h_envelope_id r = eid" "h_pending_payload r = pj" "json_text (k_ext k) (held_payload a c) = Some pj"
    using 3 by (elim create_hold_Inr) (simp add: held_request_def hold_row_get_def table_simps pending_def)
  with row that show thesis by simp
qed

section \<open>The energy of an approved action\<close>

text \<open>
  A payload with the sentinel \<open>_hold_reserved_cost\<close> reserves nothing: what it names is
  settled from the reservation that stands, and nothing is settled when it is not positive.
\<close>

lemma run_action_sentinel:
  assumes run: "run_action k d a s = (Inr r, t)" and ok: "ledger_ok s"
    and cost: "get_i64 (act_payload a) ''_hold_reserved_cost'' = Some c"
  obtains ca u where "parse_create_actor_spec (k_ext k) a s = Inr ca" "sr_settled_cost r = c"
    "(if 0 < c then settle_in_tx (now_millis_string k d 21 0) (act_actor_id a) c c s = Inr ((), u) else u = s)"
    "acct t = open_account ca (acct u)"
  using run
proof (rule run_actionE)
  fix c' res s1 ca ce art ph e s2
  assume pa: "parse_create_actor_spec (k_ext k) a s = Inr ca"
    and q: "quote_and_reserve k d a s = (Inr (c', res), s1)"
    and tx: "commit_tx k d res c' ca ce
       (new_event (k_uuid k d 21 0) (act_actor_id a) (action_type_str (act_type a)) (act_target a)
          (act_payload a) ph art c' c' (now_millis_string k d 21 1)) s1 = Inr (e, s2)"
    and post: "post_frame s2 t"
    and r: "r = \<lparr>sr_event_id = ev_id e, sr_log_index = ev_log_index e, sr_event_hash = ev_event_hash e,
          sr_reserved_cost = c', sr_settled_cost = c', sr_artifact_hash = art\<rparr>"
  have q': "c' = c" "s1 = s"
    "res = (if 0 < c then Some \<lparr>er_actor_id = act_actor_id a, er_reserved = c\<rparr> else None)"
    using q cost by (auto simp: quote_and_reserve_def)
  obtain u where u: "settle_step k d res c' s1 = Inr ((), u)" using tx by (elim commit_txE)
  have "acct t = open_account ca (acct u)"
    using commit_acct [OF tx u] acct_cong [OF post_frameD(2) [OF post]] by simp
  moreover have "if 0 < c then settle_in_tx (now_millis_string k d 21 0) (act_actor_id a) c c s = Inr ((), u)
      else u = s"
    using u by (simp add: q' settle_step_def split: if_splits)
  ultimately show thesis using pa r q'(1) that by simp
qed

lemma approved_energy:
  assumes "run_action k d a s = (Inr r, t)" "ledger_ok s"
    and "get_i64 (act_payload a) ''_hold_reserved_cost'' = Some c" "0 < c"
  shows "\<exists>b v ca. acct s (act_actor_id a) = Some (b, v) \<and> c \<le> v
    \<and> parse_create_actor_spec (k_ext k) a s = Inr ca \<and> sr_settled_cost r = c
    \<and> acct t = open_account ca ((acct s)(act_actor_id a \<mapsto> (b - c, v - c)))"
  using assms(1-3)
proof (rule run_action_sentinel)
  fix ca u
  assume *: "parse_create_actor_spec (k_ext k) a s = Inr ca" "sr_settled_cost r = c"
    "if 0 < c then settle_in_tx (now_millis_string k d 21 0) (act_actor_id a) c c s = Inr ((), u) else u = s"
    "acct t = open_account ca (acct u)"
  then obtain b v where "acct s (act_actor_id a) = Some (b, v)" "c \<le> v"
    "acct u = (acct s)(act_actor_id a \<mapsto> (b - c, v - c))"
    using assms(2,4) by (auto elim!: settle_acct)
  with * show ?thesis by auto
qed

lemma sentinel_free:
  assumes "run_action k d a s = (Inr r, t)" "ledger_ok s"
    and "get_i64 (act_payload a) ''_hold_reserved_cost'' = Some c" "c \<le> 0"
  shows "\<exists>ca. parse_create_actor_spec (k_ext k) a s = Inr ca \<and> sr_settled_cost r = c
    \<and> acct t = open_account ca (acct s)"
  using assms by (elim run_action_sentinel) auto

section \<open>The handlers\<close>

lemma hold_response_runE:
  assumes "execute_hold_response k d a hid dec ins s = (Inr q, t)"
  obtains hold p c ev where "load_hold k a hid s = Inr hold"
    "resolve_tx k d a hid dec ins (hold_field hold ''agent_id'') (pending_cost hold) p s = Inr ((c, ev), t)"
    "q = (if dec = ''approve'' then Resubmit (pending_action hold (hold_field hold ''agent_id'') ins)
          else Finished
            \<lparr>sr_event_id = ev_id ev, sr_log_index = ev_log_index ev, sr_event_hash = ev_event_hash ev,
             sr_reserved_cost = pending_cost hold, sr_settled_cost = c, sr_artifact_hash = None\<rparr>)"
  using assms unfolding execute_hold_response_def Let_def
  by (auto simp: run_tx_Inr_iff split: if_splits dest!: check_hold_timeout_ok intro: that)

text \<open>The hold that a response loads is the stored row, and it is pending.\<close>

lemma load_holdD:
  assumes "load_hold k a hid s = Inr hold"
  obtains r where "hold_row_get hid s = Some r" "hold = hold_to_json (k_ext k) r" "pending r"
    "get_hold_request (k_ext k) hid s = Some hold"
proof -
  have *: "get_hold_request (k_ext k) hid s = Some hold" "hold_field hold ''status'' = ''pending''"
    using assms by (auto simp: load_hold_def split: if_splits)
  then obtain r where "hold_row_get hid s = Some r" "hold = hold_to_json (k_ext k) r"
    by (auto simp: get_hold_request_def)
  with * that show thesis by (auto simp: hold_to_json_fields pending_def)
qed

lemma trigger_hold_runE:
  assumes "trigger_hold k d a env s = (q, t)"
  obtains (failed) e where "q = Inl e" "t = s"
  | (held) ev where "q = Inl (HoldTriggered (k_uuid k d 6 0) (act_actor_id a))"
    "ev_action_type ev = ''hold_request''"
    "hold_tx k d a (en_envelope_id env) (k_uuid k d 6 0) (quote_i64 k a) ev s = Inr ((), t)"
  using assms unfolding trigger_hold_def Let_def h_bind_def run_tx_def
  by (auto split: sum.splits prod.splits intro: that(1)) (rule that(2), auto simp: new_event_def)

end
