(* ===== verification/Demo.thy ===== *)
theory Demo
  imports Hold_Properties
begin

text \<open>
  A concrete environment: simple executable functions in the place of the external code, a
  clock and identifiers, and a few databases and actions. The witnesses of the properties
  evaluate the kernel on them.
\<close>

definition demo_targets :: "writable_target list" where
  "demo_targets = [\<lparr>wt_target = ''**'', wt_actions = [''create'', ''mutate'', ''execute'']\<rparr>]"

text \<open>
  JSON texts are opaque: every payload is printed as an empty object. The lists that the
  database columns hold are told apart by their text.
\<close>

definition demo_ext :: ext where
  "demo_ext =
     \<lparr>glob = (\<lambda>p. Some (\<lambda>t. p = ''**'' \<or> p = t)),
      json_text = (\<lambda>_. Some ''{}''),
      json_parse = (\<lambda>t. Some (JString t)),
      de_strings = (\<lambda>v. if v = JString ''[]'' then Some []
                        else if v = JString ''[root]'' then Some [''root''] else Some [''**'', ''mutate'']),
      de_wts = (\<lambda>_. Some demo_targets),
      de_rules = (\<lambda>v. if v = JString ''[]'' then Some []
                      else Some [\<lparr>rule_target = ''**'', rule_actions = [''mutate'']\<rparr>]),
      de_action = (\<lambda>_. None),
      sha256 = (\<lambda>_. replicate 32 0),
      sql_like = (\<lambda>_ _. False),
      stored_hash_index = (\<lambda>l k. 2 ^ l * (2 * k + 1)),
      node_hash = (\<lambda>_ _. replicate 32 0),
      tree_hash = (\<lambda>_ _. Inr (replicate 32 0)),
      prove_record = (\<lambda>_ _ _. Inr []),
      prove_tree = (\<lambda>_ _ _. Inr []),
      hash_show = hash_to_hex,
      checkpoint_bytes = (\<lambda>origin n _ e. Some (origin @ dec_of_nat n @ e)),
      hex_encode = bytes_to_hex,
      hex_decode = hex_pairs,
      ed_sign = (\<lambda>_ _. replicate 64 0),
      ed_public = (\<lambda>_. replicate 32 0),
      ed_key = (\<lambda>_. True),
      ed_verify = (\<lambda>_ _ sig. sig = replicate 64 0)\<rparr>"

definition demo_env :: kernel_env where
  "demo_env =
     \<lparr>k_ext = demo_ext, k_clk = (\<lambda>_ _ _. 9),
      k_uuid = (\<lambda>d i j. dec_of_nat d @ ''-'' @ dec_of_nat i @ ''-'' @ dec_of_nat j)\<rparr>"

definition fresh_db :: db where
  "fresh_db = seed_defaults ''0'' init_schema"

definition root_note :: action where
  "root_note =
     \<lparr>act_actor_id = ''root'', act_type = Mutate, act_target = ''workspace/a'',
      act_payload = JNull, act_timestamp = None\<rparr>"

definition agent_row :: actor_row where
  "agent_row =
     \<lparr>a_actor_id = ''root/ci/1'', a_actor_type = ''agent'', a_creator_id = Some ''root'',
      a_lineage = ''[root]'', a_purpose = Some ''ci'', a_status = ''active'',
      a_writable_targets = root_targets_text, a_energy_share = Fin 1,
      a_reduction_policy = ''none'', a_created_at = ''1'', a_updated_at = ''1''\<rparr>"

definition grant_row :: envelope_row where
  "grant_row =
     \<lparr>e_envelope_id = ''e1'', e_actor_id = ''root/ci/1'', e_grantor_id = ''root'',
      e_parent_envelope_id = None, e_budget = 1000, e_budget_consumed = 0,
      e_targets = ''t'', e_actions = ''a'', e_duration_secs = None, e_report_every = None,
      e_hold_on = ''h'', e_hold_timeout_secs = None, e_status = ''active'',
      e_last_report_at = 0, e_created_at = ''2'', e_expires_at = None, e_updated_at = ''2''\<rparr>"

text \<open>An agent with an envelope that holds every mutation.\<close>

definition agent_db :: db where
  "agent_db = fresh_db\<lparr>
     energy_ledger := energy_ledger fresh_db @
       [\<lparr>lr_actor_id = ''root/ci/1'', lr_balance = 500, lr_reserved = 40, lr_updated_at = ''1''\<rparr>],
     actors := actors fresh_db @ [agent_row],
     envelopes := [grant_row]\<rparr>"

definition agent_note :: action where
  "agent_note = root_note\<lparr>act_actor_id := ''root/ci/1''\<rparr>"

text \<open>What the stores return for them.\<close>

definition root_actor :: actor_record where
  "root_actor =
     \<lparr>ar_actor_id = ''root'', ar_actor_type = Human, ar_creator_id = None, ar_lineage = [],
      ar_purpose = None, ar_status = Active, ar_writable_targets = demo_targets,
      ar_energy_share = Fin 0, ar_reduction_policy = ''none'', ar_created_at = ''0'',
      ar_updated_at = ''0''\<rparr>"

definition agent_actor :: actor_record where
  "agent_actor =
     \<lparr>ar_actor_id = ''root/ci/1'', ar_actor_type = Agent, ar_creator_id = Some ''root'',
      ar_lineage = [''root''], ar_purpose = Some ''ci'', ar_status = Active,
      ar_writable_targets = demo_targets, ar_energy_share = Fin 1, ar_reduction_policy = ''none'',
      ar_created_at = ''1'', ar_updated_at = ''1''\<rparr>"

definition grant :: envelope_record where
  "grant =
     \<lparr>en_envelope_id = ''e1'', en_actor_id = ''root/ci/1'', en_grantor_id = ''root'',
      en_parent_envelope_id = None, en_budget = 1000, en_budget_consumed = 0,
      en_targets = [''**'', ''mutate''], en_actions = [''**'', ''mutate''],
      en_duration_secs = None, en_report_every = None,
      en_hold_on = [\<lparr>rule_target = ''**'', rule_actions = [''mutate'']\<rparr>],
      en_hold_timeout_secs = None, en_status = EnvActive, en_last_report_at = 0,
      en_created_at = ''2'', en_expires_at = None, en_updated_at = ''2''\<rparr>"

lemma root_stored: "actor_get demo_ext ''root'' fresh_db = Inr (Some root_actor)"
  by code_simp

lemma agent_stored: "actor_get demo_ext ''root/ci/1'' agent_db = Inr (Some agent_actor)"
  by code_simp

lemma grant_stored: "get_active_for_actor demo_ext ''root/ci/1'' agent_db = Inr (Some grant)"
  by code_simp

lemma fresh_db_ok: "ledger_ok fresh_db" "log_ok x fresh_db"
  unfolding fresh_db_def using reachable_ledger reachable_log reachable_seed by blast+

lemma demo_env_ext [simp]: "k_ext demo_env = demo_ext"
  by (simp add: demo_env_def)

lemma note_actors [simp]: "act_actor_id root_note = ''root''" "act_actor_id agent_note = ''root/ci/1''"
  by (simp_all add: root_note_def agent_note_def)

lemma ok_run: "\<not> isl (fst p) \<Longrightarrow> \<exists>q t. p = (Inr q, t)"
  by (cases p, cases "fst p") auto

lemma ok_tx: "\<not> isl r \<Longrightarrow> \<exists>q t. r = Inr (q, t)"
  by (cases r) auto

definition demo_receipt :: submit_receipt where
  "demo_receipt =
     \<lparr>sr_event_id = ''0-21-0'', sr_log_index = 0, sr_event_hash = replicate 64 (CHR ''0''),
      sr_reserved_cost = 16, sr_settled_cost = 16, sr_artifact_hash = None\<rparr>"

lemma demo_submit: "\<exists>t. submit_action demo_env 0 root_note fresh_db = (Inr demo_receipt, t)"
proof -
  have "fst (submit_action demo_env 0 root_note fresh_db) = Inr demo_receipt" by code_simp
  then show ?thesis by (cases "submit_action demo_env 0 root_note fresh_db") simp
qed

end
