(* ===== verification/Kernel_Guarantees.thy ===== *)
theory Kernel_Guarantees
  imports Demo
begin

text \<open>
  The guarantees of the submit pipeline, each with a run of the kernel on concrete data:
  receipts, energy, authorization, holds and the termination of re-submission.
\<close>

section \<open>Receipts and energy\<close>

lemma steps_log_ok: "log_ok (k_ext k) s \<Longrightarrow> (kstep k)\<^sup>*\<^sup>* s t \<Longrightarrow> log_ok (k_ext k) t"
  using log_inv.laws.run_rel by blast

text \<open>
  C1: A successful submission has committed exactly what its receipt says: the log is the old
  log, possibly some further events, and at its end one event with the identifier, index, hash,
  costs and artifact hash of the receipt; its index is its position in the log and its hash
  seals its content.
\<close>

theorem receipt_is_last_event:
  assumes "log_ok (k_ext k) s" "submit_action k d a s = (Inr r, t)"
  shows "\<exists>rs row. events t = events s @ rs @ [row] \<and> receipt_row r row
    \<and> sr_log_index r = int (length (events s @ rs)) \<and> sealed (k_ext k) row"
proof -
  obtain rs row where t: "events t = events s @ rs @ [row]" and row: "receipt_row r row"
    using submit_action_receipt [OF assms(2)] by (auto simp: committed_last_def)
  have "log_ok (k_ext k) t"
    using steps_log_ok [OF assms(1) rsteps_ksteps [OF submit_action_steps [of k s d a]]] assms(2) by simp
  then have ok: "contiguous ev_log_index (events t)" "list_all (sealed (k_ext k)) (events t)"
    by (simp_all add: log_ok_def)
  have "ev_log_index row = int (length (events s @ rs))"
    using contiguous_nth [OF ok(1), of "length (events s @ rs)"] by (simp add: t nth_append)
  with t row ok(2) show ?thesis by (auto simp: receipt_row_def)
qed

theorem receipt_is_last_event_witness:
  "\<exists>t rs row. submit_action demo_env 0 root_note fresh_db = (Inr demo_receipt, t)
     \<and> events t = events fresh_db @ rs @ [row] \<and> receipt_row demo_receipt row
     \<and> sealed demo_ext row"
proof -
  obtain t where t: "submit_action demo_env 0 root_note fresh_db = (Inr demo_receipt, t)"
    using demo_submit by blast
  from receipt_is_last_event [OF fresh_db_ok(2) t] t show ?thesis by auto
qed

text \<open>
  C3: Energy of a human's action that is not a hold response and carries no reservation
  sentinel: a successful submission settles exactly the quoted cost. The balance falls by the
  quote, the reservation of the account is what it was before, the unreserved balance covered
  the quote, and no other account changes, except that creating an actor opens its account.
\<close>

theorem human_submission_costs_quote:
  assumes "actor_get (k_ext k) (act_actor_id a) s = Inr (Some actor)" "ar_actor_type actor = Human"
    and "ledger_ok s" "get_i64 (act_payload a) ''_hold_reserved_cost'' = None"
    and "act_type a = Mutate \<Longrightarrow> parse_hold_response (act_target a) (act_payload a) = None"
    and "submit_action k d a s = (Inr r, t)"
  shows "\<exists>b v ca. acct s (act_actor_id a) = Some (b, v) \<and> v + quote_i64 k a \<le> b
    \<and> sr_settled_cost r = quote_i64 k a
    \<and> acct t = open_account ca ((acct s)(act_actor_id a \<mapsto> (b - quote_i64 k a, v)))
    \<and> (ca = None \<longleftrightarrow> act_type a \<noteq> Create \<or> act_target a \<noteq> ''ledger/actor'')"
  by (rule submit_human_energy [OF assms])

theorem human_submission_costs_quote_witness:
  "\<exists>t ca. submit_action demo_env 0 root_note fresh_db = (Inr demo_receipt, t)
     \<and> acct t = open_account ca ((acct fresh_db)(''root'' \<mapsto> (1000000 - 16, 0)))"
proof -
  obtain t where t: "submit_action demo_env 0 root_note fresh_db = (Inr demo_receipt, t)"
    using demo_submit by blast
  have q: "quote_i64 demo_env root_note = 16" "acct fresh_db ''root'' = Some (1000000, 0)"
    "get_i64 (act_payload root_note) ''_hold_reserved_cost'' = None"
    "parse_hold_response (act_target root_note) (act_payload root_note) = None"
    by code_simp+
  have h: "ar_actor_type root_actor = Human" by (simp add: root_actor_def)
  have "actor_get (k_ext demo_env) (act_actor_id root_note) fresh_db = Inr (Some root_actor)"
    by (simp add: root_stored)
  from human_submission_costs_quote [OF this h fresh_db_ok(1) q(3) q(4) t] t q show ?thesis by auto
qed

section \<open>Authorization\<close>

text \<open>
  C2: An action that is not authorized is refused and has no effect on the log, the ledger,
  the holds or the audit tree. Authorized means: within the writable boundary; a state-changing
  action by an actor that is not frozen; for an agent moreover every ancestor active and a live
  envelope (active, not expired, covering target and action). Lazy expiry may mark the envelope.
\<close>

theorem unauthorized_is_refused:
  assumes "actor_get (k_ext k) (act_actor_id a) s = Inr (Some actor)"
    and "\<not> authorized (k_ext k) (now_millis_u64 k d 0 0) a actor s"
  shows "\<exists>e t. submit_action k d a s = (Inl e, t) \<and> events t = events s
    \<and> energy_ledger t = energy_ledger s \<and> hold_requests t = hold_requests s
    \<and> audit_hashes t = audit_hashes s"
  using unauthorized_submit [OF assms] by (auto simp: post_frame_def)

definition frozen_db :: db where
  "frozen_db = agent_db\<lparr>actors := actors fresh_db @ [agent_row\<lparr>a_status := ''frozen''\<rparr>]\<rparr>"

theorem unauthorized_is_refused_witness:
  "\<exists>e t. submit_action demo_env 0 agent_note frozen_db = (Inl e, t)
     \<and> energy_ledger t = energy_ledger frozen_db"
proof -
  have "actor_get (k_ext demo_env) (act_actor_id agent_note) frozen_db
      = Inr (Some (agent_actor\<lparr>ar_status := Frozen\<rparr>))"
    by code_simp
  moreover have "\<not> authorized (k_ext demo_env) (now_millis_u64 demo_env 0 0 0) agent_note
      (agent_actor\<lparr>ar_status := Frozen\<rparr>) frozen_db"
    by (simp add: authorized_def agent_note_def root_note_def is_state_changing_def)
  ultimately show ?thesis using unauthorized_is_refused by metis
qed

section \<open>Holds\<close>

text \<open>
  C4: An action that the hold rules of the agent's live envelope match, and that is not marked
  approved, is never executed: its submission fails and adds nothing to the log but hold
  requests and hold timeouts.
\<close>

theorem held_action_not_executed:
  assumes "actor_get (k_ext k) (act_actor_id a) s = Inr (Some actor)"
    and "must_hold (k_ext k) (now_millis_u64 k d 0 0) a actor s"
  shows "\<exists>e t rs. submit_action k d a s = (Inl e, t) \<and> events t = events s @ rs
    \<and> (\<forall>r \<in> set rs. ev_action_type r \<in> {''hold_request'', ''hold_timeout''})"
  using held_submit [OF assms] by (auto simp: log_adds_def)

lemma demo_must_hold: "must_hold demo_ext (now_millis_u64 demo_env 0 0 0) agent_note agent_actor agent_db"
proof -
  have "\<not> hold_approved (act_payload agent_note)" "is_state_changing (act_type agent_note)"
    "\<not> is_envelope_expired grant (now_millis_u64 demo_env 0 0 0)"
    "check_hold_trigger (glob demo_ext) (en_hold_on grant) (act_target agent_note)
       (action_type_str (act_type agent_note))"
    "ar_actor_type agent_actor = Agent"
    by code_simp+
  then show ?thesis using grant_stored by (simp add: must_hold_def)
qed

theorem held_action_not_executed_witness:
  "\<exists>e t rs. submit_action demo_env 0 agent_note agent_db = (Inl e, t) \<and> events t = events agent_db @ rs
     \<and> (\<forall>r \<in> set rs. ev_action_type r \<in> {''hold_request'', ''hold_timeout''})"
  using held_action_not_executed [of demo_env agent_note agent_db agent_actor 0]
  by (simp add: agent_stored demo_must_hold)

text \<open>
  C12: Triggering a hold either fails and changes nothing, or reserves the quoted cost on the
  agent's account, logs one hold request and stores a pending hold of that agent and envelope
  whose text is the action with its cost; the caller is told the identifier of the hold.
\<close>

theorem trigger_hold_reserves:
  assumes "trigger_hold k d a env s = (q, t)"
  shows "(\<exists>e. q = Inl e) \<and> t = s \<or>
    q = Inl (HoldTriggered (k_uuid k d 6 0) (act_actor_id a))
    \<and> (\<exists>b v. acct s (act_actor_id a) = Some (b, v) \<and> v + quote_i64 k a \<le> b
         \<and> acct t = (acct s)(act_actor_id a \<mapsto> (b, v + quote_i64 k a)))
    \<and> (\<exists>row. events t = events s @ [row] \<and> ev_action_type row = ''hold_request'')
    \<and> (\<exists>r. hold_row_get (k_uuid k d 6 0) t = Some r \<and> pending r \<and> h_agent_id r = act_actor_id a
         \<and> h_envelope_id r = en_envelope_id env
         \<and> json_text (k_ext k) (held_payload a (quote_i64 k a)) = Some (h_pending_payload r))"
  using assms
proof (cases rule: trigger_hold_runE)
  case (held ev)
  have "\<exists>row. events t = events s @ [row] \<and> ev_action_type row = ''hold_request''"
    using hold_tx_event [OF held(3)] held(2) by auto
  moreover obtain r where "hold_row_get (k_uuid k d 6 0) t = Some r" "pending r"
    "h_agent_id r = act_actor_id a" "h_envelope_id r = en_envelope_id env"
    "json_text (k_ext k) (held_payload a (quote_i64 k a)) = Some (h_pending_payload r)"
    using held(3) by (rule hold_tx_row)
  ultimately show ?thesis using held(1) hold_tx_effect [OF held(3) quote_positive] by blast
qed simp

theorem trigger_hold_reserves_witness:
  "fst (trigger_hold demo_env 0 agent_note grant agent_db) = Inl (HoldTriggered ''0-6-0'' ''root/ci/1'')
   \<and> acct (snd (trigger_hold demo_env 0 agent_note grant agent_db))
     = (acct agent_db)(''root/ci/1'' \<mapsto> (500, 56))"
proof -
  obtain q t where t: "trigger_hold demo_env 0 agent_note grant agent_db = (q, t)"
    by (cases "trigger_hold demo_env 0 agent_note grant agent_db")
  have q: "fst (trigger_hold demo_env 0 agent_note grant agent_db) = Inl (HoldTriggered ''0-6-0'' ''root/ci/1'')"
    "length (events (snd (trigger_hold demo_env 0 agent_note grant agent_db))) \<noteq> length (events agent_db)"
    "acct agent_db ''root/ci/1'' = Some (500, 40)" "quote_i64 demo_env agent_note = 16"
    by code_simp+
  then have "t \<noteq> agent_db" using t by auto
  with trigger_hold_reserves [OF t] q t show ?thesis by auto
qed

text \<open>
  C13: Rejecting a hold releases the whole reservation and charges a fifth of it, rounded up,
  as the commitment cost; only the agent's account changes and the receipt says so.
\<close>

theorem rejected_hold_costs_a_fifth:
  assumes "execute_hold_response k d a hid ''reject'' ins s = (Inr q, t)" "ledger_ok s"
    and "get_hold_request (k_ext k) hid s = Some hold" "0 < pending_cost hold" "pending_cost hold \<le> 2 ^ 50"
  shows "\<exists>r b v. q = Finished r \<and> sr_settled_cost r = (pending_cost hold + 4) div 5
    \<and> sr_reserved_cost r = pending_cost hold
    \<and> acct s (hold_field hold ''agent_id'') = Some (b, v) \<and> pending_cost hold \<le> v
    \<and> acct t = (acct s)(hold_field hold ''agent_id''
        \<mapsto> (b - (pending_cost hold + 4) div 5, v - pending_cost hold))"
  using assms(1)
proof (rule hold_response_runE)
  fix hold' p c ev
  assume load: "load_hold k a hid s = Inr hold'"
    and tx: "resolve_tx k d a hid ''reject'' ins (hold_field hold' ''agent_id'') (pending_cost hold') p s
      = Inr ((c, ev), t)"
    and q: "q = (if ''reject'' = ''approve'' then Resubmit (pending_action hold' (hold_field hold' ''agent_id'') ins)
          else Finished
            \<lparr>sr_event_id = ev_id ev, sr_log_index = ev_log_index ev, sr_event_hash = ev_event_hash ev,
             sr_reserved_cost = pending_cost hold', sr_settled_cost = c, sr_artifact_hash = None\<rparr>)"
  have "hold' = hold" using load assms(3) by (elim load_holdD) simp
  with reject_energy [OF tx assms(2)] assms(4,5) q show ?thesis by auto
qed

text \<open>
  A printer and parser that agree on the held action, and a state in which it is held: 16 of
  the agent's 56 reserved units belong to the hold.
\<close>

definition held_env :: kernel_env where
  "held_env = demo_env\<lparr>k_ext := demo_ext\<lparr>json_parse :=
     (\<lambda>t. Some (if t = ''{}'' then held_payload agent_note 16 else JString t))\<rparr>\<rparr>"

definition held_row :: hold_row where
  "held_row =
     \<lparr>h_hold_id = ''0-6-0'', h_envelope_id = ''e1'', h_agent_id = ''root/ci/1'',
      h_trigger_target = ''workspace/a'', h_trigger_action = ''mutate'', h_pending_payload = ''{}'',
      h_status = ''pending'', h_decision = None, h_instruction = None, h_triggered_at = ''9'',
      h_resolved_at = None\<rparr>"

definition held_db :: db where
  "held_db = agent_db\<lparr>
     energy_ledger := energy_ledger fresh_db @
       [\<lparr>lr_actor_id = ''root/ci/1'', lr_balance = 500, lr_reserved = 56, lr_updated_at = ''9''\<rparr>],
     hold_requests := [held_row]\<rparr>"

definition held_json :: json where
  "held_json = hold_to_json (k_ext held_env) held_row"

lemma held_db_ok: "ledger_ok held_db"
  unfolding ledger_ok_def keys_distinct_def by code_simp

lemma held_facts:
  "get_hold_request (k_ext held_env) ''0-6-0'' held_db = Some held_json"
  "pending_cost held_json = 16" "hold_field held_json ''agent_id'' = ''root/ci/1''"
  "acct held_db ''root/ci/1'' = Some (500, 56)"
  by code_simp+

theorem rejected_hold_costs_a_fifth_witness:
  "\<exists>r t. execute_hold_response held_env 1 root_note ''0-6-0'' ''reject'' None held_db = (Inr (Finished r), t)
     \<and> sr_settled_cost r = 4 \<and> acct t = (acct held_db)(''root/ci/1'' \<mapsto> (496, 40))"
proof -
  have "\<not> isl (fst (execute_hold_response held_env 1 root_note ''0-6-0'' ''reject'' None held_db))"
    by code_simp
  then obtain q t where t: "execute_hold_response held_env 1 root_note ''0-6-0'' ''reject'' None held_db = (Inr q, t)"
    using ok_run by blast
  have c: "0 < pending_cost held_json" "pending_cost held_json \<le> 2 ^ 50"
    by (simp_all add: held_facts)
  from rejected_hold_costs_a_fifth [OF t held_db_ok held_facts(1) c] t held_facts(2-4) show ?thesis by auto
qed

text \<open>
  A hold that has timed out is settled like a rejected one: when its expiry succeeds, the
  agent loses a fifth of the reserved cost, rounded up, and the whole reservation is released.
\<close>

theorem timed_out_hold_costs_a_fifth:
  assumes "expire_one k d b j now timeout hold s = (Inr u, t)" "hold_timed_out now timeout hold"
    and "ledger_ok s" "0 < pending_cost hold" "pending_cost hold \<le> 2 ^ 50"
  shows "\<exists>bal v. acct s (hold_field hold ''agent_id'') = Some (bal, v) \<and> pending_cost hold \<le> v
    \<and> acct t = (acct s)(hold_field hold ''agent_id''
        \<mapsto> (bal - (pending_cost hold + 4) div 5, v - pending_cost hold))"
proof -
  obtain ev e where "timeout_tx k d b j (hold_field hold ''hold_id'') (hold_field hold ''agent_id'')
      (pending_cost hold) (commitment_cost (pending_cost hold)) ev s = Inr (e, t)"
    using assms(1,2,4) by (auto simp: expire_one_def Let_def run_tx_Inr_iff)
  from timeout_energy [OF this assms(3-5)] show ?thesis .
qed

theorem timed_out_hold_costs_a_fifth_witness:
  "\<exists>t. expire_one held_env 1 2 0 12 0 held_json held_db = (Inr (), t)
     \<and> acct t = (acct held_db)(''root/ci/1'' \<mapsto> (496, 40))"
proof -
  have "\<not> isl (fst (expire_one held_env 1 2 0 12 0 held_json held_db))" by code_simp
  then obtain u t where t: "expire_one held_env 1 2 0 12 0 held_json held_db = (Inr u, t)"
    using ok_run by blast
  have late: "hold_timed_out 12 0 held_json" by code_simp
  have c: "0 < pending_cost held_json" "pending_cost held_json \<le> 2 ^ 50"
    by (simp_all add: held_facts)
  from timed_out_hold_costs_a_fifth [OF t late held_db_ok c] t held_facts(2-4) show ?thesis by auto
qed

text \<open>
  C11: What a human approves is what the agent asked for. Whatever the kernel did since the
  action was held, approving the hold re-submits the same actor, action type and target. The
  payload is marked as approved with the cost that was reserved, and if it is an object every
  other field is as it was. (The hypothesis on the JSON library is that it reads back the text
  it printed for the held action.)
\<close>

theorem approval_resubmits_held_action:
  assumes "hold_tx k d a eid hid c ev s = Inr (u, s1)" "(kstep k)\<^sup>*\<^sup>* s1 s2" "in_i64 c"
    and "\<And>p. json_text (k_ext k) (held_payload a c) = Some p \<Longrightarrow>
      json_parse (k_ext k) p = Some (held_payload a c)"
    and "execute_hold_response k d' h hid ''approve'' ins s2 = (Inr q, t)"
  shows "\<exists>p. q = Resubmit \<lparr>act_actor_id = act_actor_id a, act_type = act_type a,
        act_target = act_target a, act_payload = p, act_timestamp = None\<rparr>
    \<and> hold_approved p \<and> get_i64 p ''_hold_reserved_cost'' = Some c
    \<and> (\<forall>kvs f. act_payload a = JObject kvs
          \<and> f \<notin> {''_hold_approved'', ''_hold_reserved_cost'', ''_hold_instruction''}
        \<longrightarrow> vget p f = vget (act_payload a) f)"
proof -
  obtain r where r: "hold_row_get hid s1 = Some r" "h_agent_id r = act_actor_id a"
    "json_text (k_ext k) (held_payload a c) = Some (h_pending_payload r)"
    using assms(1) by (rule hold_tx_row)
  have "holds_advance s1 s2" using holds_final.laws.run_rel [OF assms(2)] .
  then obtain r' where r': "hold_row_get hid s2 = Some r'" "h_agent_id r' = h_agent_id r"
    "h_pending_payload r' = h_pending_payload r"
    using r(1) by (auto simp: holds_advance_def hold_advance_def)
  obtain hold where load: "load_hold k h hid s2 = Inr hold"
    and q: "q = Resubmit (pending_action hold (hold_field hold ''agent_id'') ins)"
    using assms(5) by (rule hold_response_runE) simp
  have hold: "hold = hold_to_json (k_ext k) r'" using load r'(1) by (elim load_holdD) simp
  have "json_parse (k_ext k) (h_pending_payload r') = Some (held_payload a c)"
    using assms(4) [OF r(3)] r'(3) by simp
  from pending_action_held(2) [OF this assms(3)] have "q = Resubmit
      \<lparr>act_actor_id = act_actor_id a, act_type = act_type a, act_target = act_target a,
       act_payload = mark_approved c ins (act_payload a), act_timestamp = None\<rparr>"
    using r(2) r'(2) by (simp add: q hold hold_to_json_fields)
  then show ?thesis
    using mark_approved_fields(1) mark_approved_fields(2) [OF assms(3)] mark_approved_keeps
    by (intro exI [of _ "mark_approved c ins (act_payload a)"]) auto
qed

definition hold_event :: event_record where
  "hold_event = new_event ''h1'' ''root/ci/1'' ''hold_request'' ''ledger/hold/0-6-0'' JNull [] None 16 0 ''9''"

theorem approval_resubmits_held_action_witness:
  "\<exists>s1 t. hold_tx held_env 0 agent_note ''e1'' ''0-6-0'' 16 hold_event agent_db = Inr ((), s1)
     \<and> (\<exists>p. execute_hold_response held_env 1 root_note ''0-6-0'' ''approve'' None s1
         = (Inr (Resubmit (agent_note\<lparr>act_payload := p\<rparr>)), t) \<and> hold_approved p)"
proof -
  let ?run = "hold_tx held_env 0 agent_note ''e1'' ''0-6-0'' 16 hold_event agent_db"
  have "\<not> isl ?run" by code_simp
  then obtain s1 where s1: "?run = Inr ((), s1)"
    using ok_tx by force
  have "case ?run of Inl _ \<Rightarrow> False | Inr (_, s1) \<Rightarrow>
      \<not> isl (fst (execute_hold_response held_env 1 root_note ''0-6-0'' ''approve'' None s1))"
    by code_simp
  then have "\<not> isl (fst (execute_hold_response held_env 1 root_note ''0-6-0'' ''approve'' None s1))"
    by (simp add: s1)
  then obtain q t where t: "execute_hold_response held_env 1 root_note ''0-6-0'' ''approve'' None s1 = (Inr q, t)"
    using ok_run by blast
  have "json_parse (k_ext held_env) p = Some (held_payload agent_note 16)"
    if "json_text (k_ext held_env) (held_payload agent_note 16) = Some p" for p
    using that by (simp add: held_env_def demo_ext_def)
  moreover have "in_i64 16" by (simp add: in_i64_def)
  ultimately obtain p where "q = Resubmit \<lparr>act_actor_id = act_actor_id agent_note,
      act_type = act_type agent_note, act_target = act_target agent_note, act_payload = p,
      act_timestamp = None\<rparr>" "hold_approved p"
    using approval_resubmits_held_action [OF s1 rtranclp.rtrancl_refl _ _ t] by blast
  with s1 t show ?thesis by (auto simp: agent_note_def root_note_def)
qed

text \<open>
  C14: Energy of an action whose payload carries a positive pre-reserved cost, as an approved
  action does: nothing is reserved again, and exactly that cost leaves both the balance and the
  standing reservation, which covered it.
\<close>

theorem approved_action_settles_reservation:
  assumes "run_action k d a s = (Inr r, t)" "ledger_ok s"
    and "get_i64 (act_payload a) ''_hold_reserved_cost'' = Some c" "0 < c"
  shows "\<exists>b v ca. acct s (act_actor_id a) = Some (b, v) \<and> c \<le> v
    \<and> parse_create_actor_spec (k_ext k) a s = Inr ca \<and> sr_settled_cost r = c
    \<and> acct t = open_account ca ((acct s)(act_actor_id a \<mapsto> (b - c, v - c)))"
  by (rule approved_energy [OF assms])

theorem approved_action_settles_reservation_witness:
  "\<exists>r t ca. run_action held_env 1 (agent_note\<lparr>act_payload := mark_approved 16 None JNull\<rparr>) held_db = (Inr r, t)
     \<and> sr_settled_cost r = 16 \<and> acct t = open_account ca ((acct held_db)(''root/ci/1'' \<mapsto> (484, 40)))"
proof -
  let ?a = "agent_note\<lparr>act_payload := mark_approved 16 None JNull\<rparr>"
  have "\<not> isl (fst (run_action held_env 1 ?a held_db))" by code_simp
  then obtain r t where t: "run_action held_env 1 ?a held_db = (Inr r, t)"
    using ok_run by blast
  have "get_i64 (act_payload ?a) ''_hold_reserved_cost'' = Some 16"
    "acct held_db (act_actor_id ?a) = Some (500, 56)"
    by code_simp+
  with approved_action_settles_reservation [OF t held_db_ok this(1)] t show ?thesis by auto
qed

text \<open>
  C15: Re-submission terminates. A submission that asks for another one (the approval of a
  hold) leaves strictly fewer pending holds than it found, so the chain of re-submissions that
  \<open>submit_action\<close> follows is at most as long as the number of pending holds.
\<close>

theorem resubmission_uses_up_a_hold:
  assumes "submit_once k d a s = (Inr (Resubmit b), t)"
  shows "pending_count t < pending_count s"
  by (rule resubmit_pending [OF assms])

definition approval :: action where
  "approval = root_note\<lparr>act_target := ''ledger/hold/0-6-0'',
     act_payload := json_obj [(''decision'', JString ''approve'')]\<rparr>"

theorem resubmission_uses_up_a_hold_witness:
  "\<exists>b t. submit_once held_env 1 approval held_db = (Inr (Resubmit b), t)
     \<and> pending_count t < pending_count held_db"
proof -
  have "case fst (submit_once held_env 1 approval held_db) of Inr (Resubmit _) \<Rightarrow> True | _ \<Rightarrow> False"
    by code_simp
  then obtain b t where "submit_once held_env 1 approval held_db = (Inr (Resubmit b), t)"
    by (cases "submit_once held_env 1 approval held_db") (auto split: sum.splits submit_outcome.splits)
  with resubmission_uses_up_a_hold [OF this] show ?thesis by blast
qed

end
