(* ===== verification/Energy_Accounting.thy ===== *)
theory Energy_Accounting
  imports Kernel_Reach
begin

text \<open>
  Where energy goes. What the accounts hold and what the log has charged for add up to a
  constant: no request destroys energy, and none creates any except by opening an account. The
  energy producer adds exactly what it distributes.
\<close>

section \<open>What the log has charged\<close>

text \<open>An event charges its settled energy; a negative one (refused at startup) charges nothing.\<close>

definition charge :: "'p event_rec \<Rightarrow> int" where
  "charge ev = max 0 (ev_settled_energy ev)"

definition charged :: "db \<Rightarrow> int" where
  "charged s = sum_list (map charge (events s))"

definition energy_sum :: "db \<Rightarrow> int" where
  "energy_sum s = total_energy s + charged s"

definition account_ids :: "db \<Rightarrow> string list" where
  "account_ids s = map lr_actor_id (energy_ledger s)"

lemma append_charged:
  assumes "append_in_tx x ev s = Inr (e, t)"
  shows "charged t = charged s + charge ev"
  using assms unfolding append_in_tx_def
proof (cases rule: assign_and_insert_Inr)
  case (1 h p)
  then show ?thesis by (simp add: charged_def charge_def event_to_row_def)
qed

lemma ledger_update_total:
  assumes "ledger_ok s" "ledger_get a s = Some r"
  shows "total_energy (ledger_update a f s) = total_energy s + (lr_balance (f r) - lr_balance r)"
  using assms sum_tbl_update [of lr_actor_id "energy_ledger s" a r lr_balance f]
  by (simp add: total_energy_def ledger_update_def ledger_ok_def ledger_get_def)

lemma reserve_total:
  "ledger_ok s \<Longrightarrow> reserve_in_tx now a c s = Inr (u, t) \<Longrightarrow> total_energy t = total_energy s"
  by (auto simp: reserve_in_tx_def Let_def ledger_update_total add_reserved_def
      split: if_splits option.splits)

lemma settle_total:
  "ledger_ok s \<Longrightarrow> settle_in_tx now a rc ac s = Inr (u, t) \<Longrightarrow>
     0 \<le> ac \<and> total_energy t = total_energy s - ac"
  by (auto simp: settle_in_tx_def Let_def ledger_update_total set_amounts_def
      split: if_splits option.splits)

lemma ledger_update_ids:
  "keyed_update lr_actor_id f \<Longrightarrow> account_ids (ledger_update a f s) = account_ids s"
  by (auto simp: account_ids_def ledger_update_def tbl_update_def keyed_update_def)

lemma reserve_ids: "reserve_in_tx now a c s = Inr (u, t) \<Longrightarrow> account_ids t = account_ids s"
  by (auto simp: reserve_in_tx_def Let_def split: if_splits option.splits
      intro!: ledger_update_ids reserved_upd.keyed_update_axioms)

lemma settle_ids: "settle_in_tx now a rc ac s = Inr (u, t) \<Longrightarrow> account_ids t = account_ids s"
  by (auto simp: settle_in_tx_def Let_def split: if_splits option.splits
      intro!: ledger_update_ids amounts_upd.keyed_update_axioms)

lemma account_opened:
  "create_actor_in_tx now a c s = Inr (u, t) \<Longrightarrow> account_ids t = account_ids s @ [a]"
  by (auto simp: create_actor_in_tx_def account_ids_def split: if_splits option.splits)

section \<open>Parts of a step\<close>

text \<open>
  \<open>moves c s t\<close>: from \<open>s\<close> to \<open>t\<close> the balances lose \<open>c\<close>, or less if accounts were opened, and
  nothing is logged; \<open>conserves s t\<close>: the energy sum does not shrink, and it is the same unless
  an account was opened.
\<close>

definition moves :: "int \<Rightarrow> db \<Rightarrow> db \<Rightarrow> bool" where
  "moves c s t \<longleftrightarrow> (\<exists>ids. account_ids t = account_ids s @ ids
     \<and> (ids = [] \<longrightarrow> total_energy t = total_energy s - c))
     \<and> total_energy s - c \<le> total_energy t \<and> charged t = charged s"

definition conserves :: "db \<Rightarrow> db \<Rightarrow> bool" where
  "conserves s t \<longleftrightarrow> ledger_ok s \<longrightarrow> ledger_ok t \<and>
     (\<exists>ids. account_ids t = account_ids s @ ids \<and> (ids = [] \<longrightarrow> energy_sum t = energy_sum s))
     \<and> energy_sum s \<le> energy_sum t"

lemma moves_trans: "moves c s t \<Longrightarrow> moves d t u \<Longrightarrow> moves (c + d) s u"
  by (auto simp: moves_def)

lemma moves_same:
  "energy_ledger t = energy_ledger s \<Longrightarrow> events t = events s \<Longrightarrow> moves 0 s t"
  by (simp add: moves_def account_ids_def total_energy_def charged_def)

lemma moves_reserve: "ledger_ok s \<Longrightarrow> reserve_in_tx now a c s = Inr (u, t) \<Longrightarrow> moves 0 s t"
  using reserve_total reserve_ids reserve_frame [of now a c s u t]
  by (fastforce simp: moves_def charged_def)

lemma moves_settle:
  "ledger_ok s \<Longrightarrow> settle_in_tx now a rc ac s = Inr (u, t) \<Longrightarrow> moves (max 0 ac) s t"
  using settle_total settle_ids settle_frame [of now a rc ac s u t]
  by (fastforce simp: moves_def charged_def)

lemma open_total: "create_actor_in_tx now a c s = Inr (u, t) \<Longrightarrow> total_energy s \<le> total_energy t"
  by (auto simp: create_actor_in_tx_def total_energy_def split: if_splits option.splits)

lemma moves_open: "create_actor_in_tx now a c s = Inr (u, t) \<Longrightarrow> moves 0 s t"
  using create_account_frame [of now a c s u t] open_total [of now a c s u t]
  by (auto dest: account_opened simp: moves_def charged_def)

lemma conserves_trans: "conserves s t \<Longrightarrow> conserves t u \<Longrightarrow> conserves s u"
  by (auto simp: conserves_def)

lemma conserves_logged:
  assumes "moves (charge ev) s t" "append_audited x ev t = Inr (e, u)" "ledger_ok s \<Longrightarrow> ledger_ok u"
  shows "conserves s u"
proof -
  obtain v where 1: "append_in_tx x ev t = Inr (e, v)" and 2: "audit_leaf x e v = Inr ((), u)"
    using assms(2) by (rule append_auditedE)
  have "energy_ledger u = energy_ledger t" "events u = events v"
    using append_frame [OF 1] audit_leaf_frame [OF 2] by auto
  then have "account_ids u = account_ids t" "energy_sum u = total_energy t + charged t + charge ev"
    using append_charged [OF 1] by (simp_all add: account_ids_def energy_sum_def total_energy_def charged_def)
  with assms(1,3) show ?thesis by (auto simp: conserves_def moves_def energy_sum_def)
qed

lemma conserves_moves: "moves 0 s t \<Longrightarrow> (ledger_ok s \<Longrightarrow> ledger_ok t) \<Longrightarrow> conserves s t"
  by (auto simp: conserves_def moves_def energy_sum_def)

lemma conserves_same:
  "energy_ledger t = energy_ledger s \<Longrightarrow> events t = events s \<Longrightarrow> conserves s t"
  by (rule conserves_moves [OF moves_same]) (simp_all add: ledger_ok_def)

section \<open>The transactions\<close>

lemma timeout_conserves:
  assumes "timeout_tx k d b j hid aid rc cc ev s = Inr (e, t)" "ev_settled_energy ev = cc"
    "0 < rc \<or> cc = 0" "ledger_ok s" "ledger_ok t"
  shows "conserves s t"
proof -
  obtain s1 s2 where 1: "resolve_hold_request_in_tx (now_millis_string k d (b + 2) j) hid ''timed_out'' None s
      = Inr ((), s1)"
    and 2: "(if rc > 0 then settle_in_tx (now_millis_string k d (b + 3) j) aid rc cc else tx_return ()) s1
      = Inr ((), s2)"
    and 3: "append_audited (k_ext k) ev s2 = Inr (e, t)"
    using assms(1) unfolding timeout_tx_def by (elim tx_bind_InrE) simp
  have resolved: "energy_ledger s1 = energy_ledger s" "events s1 = events s"
    using resolve_frame [OF 1] by auto
  have "moves (charge ev) s1 s2"
    using 2 assms(2-4) resolved moves_settle [of s1] moves_same [of s1 s1]
    by (auto simp: charge_def ledger_ok_def split: if_splits)
  then have "moves (charge ev) s s2" using moves_trans [OF moves_same [OF resolved]] by fastforce
  then show ?thesis using 3 assms(5) by (rule conserves_logged)
qed

lemma resolve_conserves:
  assumes "resolve_tx k d a hid dec ins aid rc p s = Inr (r, t)" "ledger_ok s" "ledger_ok t"
  shows "conserves s t"
proof -
  obtain s1 s2 cc where 1: "resolve_hold_request_in_tx (now_millis_string k d 15 0) hid dec ins s = Inr ((), s1)"
    and 2: "(if dec = ''reject'' \<and> rc > 0
        then tx_bind (settle_in_tx (now_millis_string k d 16 0) aid rc (commitment_cost rc))
               (\<lambda>_. tx_return (commitment_cost rc)) else tx_return 0) s1 = Inr (cc, s2)"
    and 3: "\<exists>ev c. append_audited (k_ext k) ev s2 = Inr (c, t) \<and> ev_settled_energy ev = cc"
    using assms(1) unfolding resolve_tx_def
    by (elim tx_bind_InrE and_then_InrE) (rule that, simp_all, auto simp: new_event_def)
  have resolved: "energy_ledger s1 = energy_ledger s" "events s1 = events s"
    using resolve_frame [OF 1] by auto
  have "moves (max 0 cc) s1 s2"
    using 2 assms(2) resolved moves_settle [of s1] moves_same [of s1 s1]
    by (auto simp: ledger_ok_def split: if_splits)
  then have "moves (max 0 cc) s s2" using moves_trans [OF moves_same [OF resolved]] by fastforce
  with 3 assms(3) show ?thesis by (auto simp: charge_def intro: conserves_logged)
qed

lemma hold_conserves:
  assumes "hold_tx k d a eid hid rc ev s = Inr (u, t)" "ev_settled_energy ev = 0"
    "ledger_ok s" "ledger_ok t"
  shows "conserves s t"
proof -
  obtain s1 s2 s3 e req where
    1: "s1 = s \<or> reserve_in_tx (now_millis_string k d 8 0) (act_actor_id a) rc s = Inr ((), s1)"
    and 2: "append_in_tx (k_ext k) ev s1 = Inr (e, s2)"
    and 3: "create_hold_request_in_tx (k_ext k) (now_millis_string k d 9 0) req s2 = Inr ((), s3)"
    and 4: "audit_leaf (k_ext k) e s3 = Inr ((), t)"
    using assms(1) by (rule hold_txE)
  have "moves 0 s s1" using 1 assms(3) moves_reserve moves_same by blast
  moreover have "energy_ledger t = energy_ledger s1" "events t = events s2"
    using append_frame [OF 2] create_hold_frame [OF 3] audit_leaf_frame [OF 4] by auto
  then have "moves 0 s1 t"
    using append_charged [OF 2] assms(2)
    by (simp add: moves_def charge_def account_ids_def total_energy_def charged_def)
  ultimately have "moves (0 + 0) s t" by (rule moves_trans)
  then show ?thesis using assms(4) by (auto intro: conserves_moves)
qed

lemma commit_conserves:
  assumes "commit_tx k d res c ca ce ev s = Inr (e, t)" "ev_settled_energy ev = c"
    "res = None \<Longrightarrow> c \<le> 0" "ledger_ok s" "ledger_ok t"
  shows "conserves s t"
proof -
  obtain s1 s2 s3 where 1: "settle_step k d res c s = Inr ((), s1)"
    and 2: "create_actor_step k d ca s1 = Inr ((), s2)"
    and 3: "create_envelope_step k d ce s2 = Inr ((), s3)"
    and 4: "append_audited (k_ext k) ev s3 = Inr (e, t)"
    using assms(1) by (rule commit_txE)
  have "moves (charge ev) s s1"
    using 1 assms(2-4) moves_settle [of s] moves_same [of s s]
    by (auto simp: settle_step_def charge_def split: option.splits)
  moreover have "moves 0 s1 s2"
    using 2 by (auto simp: create_actor_step_def moves_same split: option.splits
        intro: moves_trans [OF moves_open moves_same, simplified] dest!: actor_create_frame)
  moreover have "moves 0 s2 s3"
    using 3 by (auto simp: create_envelope_step_def moves_same split: option.splits prod.splits
        dest!: envelope_create_frame)
  ultimately have "moves (charge ev + 0 + 0) s s3" by (blast intro: moves_trans)
  then show ?thesis using 4 assms(5) by (auto intro: conserves_logged)
qed

section \<open>Requests\<close>

lemma freeze_each_money:
  "freeze_each ck i ds s = Inr (ids, t) \<Longrightarrow> energy_ledger t = energy_ledger s \<and> events t = events s"
proof (induction ck i ds arbitrary: s ids rule: freeze_each.induct)
  case (2 ck i d ds)
  then show ?case by (fastforce dest!: actor_status_frame)
qed simp

theorem request_conserves: "rstep k s t \<Longrightarrow> conserves s t"
proof (cases "ledger_ok s")
  case True
  assume step: "rstep k s t"
  then have ok: "ledger_ok t" using ledger_inv.laws.request_rel True by blast
  show ?thesis using step
  proof (cases rule: rstep.cases)
    case (k_reserve now b c r)
    then show ?thesis using True ok by (auto simp: reserve_def intro: conserves_moves dest: moves_reserve)
  next
    case (k_consume c d env u)
    then show ?thesis
      by (intro conserves_same) (auto simp: consume_and_checkpoint_def Let_def
          split: sum.splits if_splits dest!: consume_frame env_status_frame)
  next
    case (k_freeze ck b ids)
    then show ?thesis
      by (auto elim!: execute_freeze_Inr intro!: conserves_same
          dest!: actor_status_frame freeze_each_money)
  next
    case (k_policy v)
    then show ?thesis using policy_frame [of v s] by (auto intro: conserves_same)
  next
    case (k_timeout d b j hid aid rc cc ev e)
    then show ?thesis using True ok by (blast intro: timeout_conserves)
  next
    case (k_hold d a eid hid rc ev u)
    then show ?thesis using True ok by (blast intro: hold_conserves)
  next
    case (k_resolve d a hid dec ins aid rc p r)
    then show ?thesis using True ok by (blast intro: resolve_conserves)
  next
    case (k_commit d res c ca ce ev e ty)
    then show ?thesis using True ok by (blast intro: commit_conserves)
  qed (drule frames, elim exE, simp add: conserves_same)+
qed (simp add: conserves_def)

theorem requests_conserve: "(rstep k)\<^sup>*\<^sup>* s t \<Longrightarrow> conserves s t"
proof (induction rule: rtranclp_induct)
  case base
  show ?case by (rule conserves_same) simp_all
next
  case (step t u)
  then show ?case by (blast intro: conserves_trans request_conserves)
qed

lemma submission_conserves:
  assumes "ledger_ok s"
  shows "energy_sum s \<le> energy_sum (snd (submit_action k d a s))"
    and "account_ids (snd (submit_action k d a s)) = account_ids s \<Longrightarrow>
      energy_sum (snd (submit_action k d a s)) = energy_sum s"
  using requests_conserve [OF submit_action_steps [of k s d a]] assms by (auto simp: conserves_def)

end
