(* ===== verification/Limit_Guarantees.thy ===== *)
theory Limit_Guarantees
  imports Kernel_Guarantees Energy_Accounting
begin

text \<open>
  Where the energy of a submission goes, and what the pipeline does where its transactions
  come apart: a reservation that no settlement follows, a budget that is not consumed, an
  approval whose action is refused, and the approval mark that any caller can set.
\<close>

section \<open>Conservation\<close>

text \<open>
  C5: Energy is accounted for. Whatever the outcome of a submission, hold expiries and
  re-submissions included, the energy on the accounts plus the energy charged by the events
  of the log does not shrink, and stays the same as long as the submission opens no account.
\<close>

theorem energy_is_accounted_for:
  assumes "ledger_ok s"
  shows "energy_sum s \<le> energy_sum (snd (submit_action k d a s))
    \<and> (account_ids (snd (submit_action k d a s)) = account_ids s \<longrightarrow>
         energy_sum (snd (submit_action k d a s)) = energy_sum s)"
  using submission_conserves [OF assms] by blast

theorem energy_is_accounted_for_witness:
  "energy_sum (snd (submit_action demo_env 0 root_note fresh_db)) = energy_sum fresh_db
   \<and> charged (snd (submit_action demo_env 0 root_note fresh_db)) = 16"
proof -
  have "account_ids (snd (submit_action demo_env 0 root_note fresh_db)) = account_ids fresh_db"
    "charged (snd (submit_action demo_env 0 root_note fresh_db)) = 16"
    by code_simp+
  with energy_is_accounted_for [OF fresh_db_ok(1)] show ?thesis by blast
qed

section \<open>Reservations without settlement\<close>

text \<open>
  C26: An execute action with a malformed payload costs its actor the quote although it is
  refused: the reservation is committed before the payload is validated and nothing releases
  it. The action leaves no trace in the log.
\<close>

theorem refused_execute_keeps_reservation:
  assumes "authorize k d a s = (Inr u, s1)" "act_type a = Execute"
    and "get_i64 (act_payload a) ''_hold_reserved_cost'' = None"
    and "validate_execute_payload (act_payload a) = Inl e"
    and "acct s1 (act_actor_id a) = Some (b, v)" "v + quote_i64 k a \<le> b"
  shows "\<exists>t. submit_action k d a s = (Inl e, t)
    \<and> acct t = (acct s1)(act_actor_id a \<mapsto> (b, v + quote_i64 k a)) \<and> events t = events s1"
proof -
  have "tx_acct (reserve_in_tx (now_millis_string k d 20 0) (act_actor_id a) (quote_i64 k a)) s1
      = Some ((acct s1)(act_actor_id a \<mapsto> (b, v + quote_i64 k a)))"
    using assms(5,6) quote_positive [of k a] by (auto simp: reserve_refines abs_reserve_def)
  then obtain t where t: "reserve_in_tx (now_millis_string k d 20 0) (act_actor_id a) (quote_i64 k a) s1
      = Inr ((), t)" "acct t = (acct s1)(act_actor_id a \<mapsto> (b, v + quote_i64 k a))"
    using tx_acct_SomeD by blast
  have "quote_and_reserve k d a s1
      = (Inr (quote_i64 k a, Some \<lparr>er_actor_id = act_actor_id a, er_reserved = quote_i64 k a\<rparr>), t)"
    using assms(3) quote_positive [of k a] t(1)
    by (simp add: quote_and_reserve_def Let_def h_bind_def run_tx_def reserve_def tx_bind_def tx_return_def
        and_then_def h_return_def)
  then have "run_action k d a s1 = (Inl e, t)"
    using assms(2,4)
    by (simp add: run_action_def Let_def lifecycle_request_def authorize_lifecycle_def h_bind_def
        parse_create_actor_spec_def parse_create_envelope_spec_def)
  then have "submit_action k d a s = (Inl e, t)"
    using assms(1,2) by (simp add: submit_action.simps [of k d a s] submit_once_def h_bind_def)
  moreover have "events t = events s1" using reserve_frame [OF t(1)] by auto
  ultimately show ?thesis using t(2) by blast
qed

definition root_execute :: action where
  "root_execute = root_note\<lparr>act_type := Execute\<rparr>"

theorem refused_execute_keeps_reservation_witness:
  "\<exists>e t. submit_action demo_env 0 root_execute fresh_db = (Inl e, t)
     \<and> acct t = (acct fresh_db)(''root'' \<mapsto> (1000000, 26)) \<and> events t = []"
proof -
  have "isl (validate_execute_payload (act_payload root_execute))" by code_simp
  then obtain e where e: "validate_execute_payload (act_payload root_execute) = Inl e"
    by (auto simp: isl_def)
  have facts: "authorize demo_env 0 root_execute fresh_db = (Inr (), fresh_db)"
    "act_type root_execute = Execute" "act_actor_id root_execute = ''root''"
    "get_i64 (act_payload root_execute) ''_hold_reserved_cost'' = None"
    "acct fresh_db ''root'' = Some (1000000, 0)" "quote_i64 demo_env root_execute = 26"
    "events fresh_db = []"
    by code_simp+
  from refused_execute_keeps_reservation [OF facts(1,2,4) e] facts(3,5-7) show ?thesis by auto
qed

section \<open>The approval mark\<close>

text \<open>
  C24: The hold rules of an envelope bind only actions that do not say they are approved: an
  agent's authorized action whose payload carries \<open>_hold_approved\<close> passes authorization
  whatever the rules of the envelope are, although nobody approved it.
\<close>

theorem approval_mark_passes_hold_rules:
  assumes "actor_get (k_ext k) (act_actor_id a) s = Inr (Some actor)" "ar_actor_type actor = Agent"
    and "is_ok (validate_action (json_vec (k_ext k)) a)" "is_state_changing (act_type a)"
    and "authorized (k_ext k) (now_millis_u64 k d 0 0) a actor s"
    and "get_active_for_actor (k_ext k) (act_actor_id a) s = Inr (Some env)"
    and "en_hold_timeout_secs env = None" "hold_approved (act_payload a)"
  shows "authorize k d a s = (Inr (), s)"
proof -
  obtain u where "validate_action (json_vec (k_ext k)) a = Inr u"
    using assms(3) by (cases "validate_action (json_vec (k_ext k)) a") auto
  from authorize_found [OF assms(1) this] have "authorize k d a s = authorize_actor k d a actor s" .
  moreover have live: "en_status env = EnvActive" "\<not> is_envelope_expired env (now_millis_u64 k d 0 0)"
    "check_envelope_covers (glob (k_ext k)) env (act_target a) (action_type_str (act_type a)) = Inr ()"
    and ok: "ar_status actor \<noteq> Frozen" "check_lineage_active (ar_lineage actor) s = Inr ()"
      "check_writable_boundary (glob (k_ext k)) actor (act_target a) (act_type a) = Inr ()"
    using assms(2,4-6) check_lineage_active_iff [of "ar_lineage actor" s]
    by (auto simp: authorized_def live_envelope_def is_ok_def split: sum.splits)
  moreover have "check_authorization actor (Some env) = Inr ManOnTheLoop"
    using live(1) assms(2) check_authorization_iff [of actor "Some env"]
    by (auto simp: check_authorization_def determine_authorization_mode_def Let_def)
  ultimately show ?thesis
    using assms(4,6-8)
    by (simp add: authorize_actor_def authorize_envelope_def h_bind_def drop_expired_def
        envelope_gate_def expire_before_gate_def)
qed

definition marked_note :: action where
  "marked_note = agent_note\<lparr>act_payload := json_obj [(''_hold_approved'', JBool True)]\<rparr>"

theorem approval_mark_passes_hold_rules_witness:
  "authorize demo_env 0 marked_note agent_db = (Inr (), agent_db)
   \<and> must_hold demo_ext (now_millis_u64 demo_env 0 0 0) agent_note agent_actor agent_db"
proof -
  have facts: "act_actor_id marked_note = ''root/ci/1''" "ar_actor_type agent_actor = Agent"
    "is_ok (validate_action (json_vec demo_ext) marked_note)" "is_state_changing (act_type marked_note)"
    "is_ok (check_writable_boundary (glob demo_ext) agent_actor (act_target marked_note) (act_type marked_note))"
    "ar_status agent_actor \<noteq> Frozen" "list_all (\<lambda>p. actor_is_active p agent_db) (ar_lineage agent_actor)"
    "en_status grant = EnvActive" "\<not> is_envelope_expired grant (now_millis_u64 demo_env 0 0 0)"
    "check_envelope_covers (glob demo_ext) grant (act_target marked_note)
       (action_type_str (act_type marked_note)) = Inr ()"
    "en_hold_timeout_secs grant = None" "hold_approved (act_payload marked_note)"
    by code_simp+
  then have "authorized demo_ext (now_millis_u64 demo_env 0 0 0) marked_note agent_actor agent_db"
    using grant_stored by (simp add: authorized_def live_envelope_def list_all_iff)
  then show ?thesis
    using approval_mark_passes_hold_rules [of demo_env marked_note agent_db agent_actor 0 grant]
      facts agent_stored grant_stored demo_must_hold by simp
qed

section \<open>Budgets\<close>

lemma lifecycle_envelopes: "envelopes (snd (execute_lifecycle k d op s)) = envelopes s"
proof -
  have each: "freeze_each ck i ds s = Inr (ids, t) \<Longrightarrow> envelopes t = envelopes s" for ck i ds s ids t
    by (induction ck i ds arbitrary: s ids rule: freeze_each.induct) (fastforce dest!: actor_status_frame)+
  show ?thesis
    by (auto simp: execute_lifecycle_def Let_def logged_def execute_freeze_def execute_unfreeze_def
        execute_update_energy_share_def run_tx_def split: option.splits lifecycle_op.splits sum.splits
        dest!: actor_status_frame actor_share_frame each)
qed

lemma reserve_envelopes: "quote_and_reserve k d a s = (Inr q, t) \<Longrightarrow> envelopes t = envelopes s"
  by (auto simp: quote_and_reserve_def Let_def reserve_def run_tx_Inr_iff split: option.splits if_splits
      dest!: reserve_frame)

lemma commit_envelopes:
  assumes "commit_action k d a c res ca None art s = (Inr e, t)"
  shows "envelopes t = envelopes s"
proof -
  obtain ev where "commit_tx k d res c ca None ev s = Inr (e, t)" using assms by (rule commit_actionE)
  then show ?thesis
    by (elim commit_txE) (auto simp: settle_step_def create_actor_step_def create_envelope_step_def
        split: option.splits dest!: settle_frame create_account_frame actor_create_frame append_audited_frame)
qed

lemma policy_envelopes: "record_policy v s = (q, t) \<Longrightarrow> envelopes t = envelopes s"
  by (auto simp: record_policy_def set_policy_version_def set_meta_def split: option.splits)

text \<open>
  C25: An action that costs more than what is left of its agent's budget is committed all the
  same: the event is logged with its cost, and the envelope is neither consumed nor expired.
\<close>

theorem overspending_is_not_consumed:
  assumes "run_action k d a s = (Inr r, t)" "act_type a \<noteq> Create"
    and "get_active_for_actor (k_ext k) (act_actor_id a) s = Inr (Some env)"
    and "envelope_row_get (en_envelope_id env) s = Some row"
    and "e_budget row < i64_wrap (e_budget_consumed row + sr_settled_cost r)"
  shows "envelopes t = envelopes s \<and> committed_last r s t"
proof -
  obtain ca ce c res s1 art e s2 s3 s4 where ce: "parse_create_envelope_spec (k_ext k) (k_uuid k d 19 0) a s = Inr ce"
    and q: "quote_and_reserve k d a s = (Inr (c, res), s1)"
    and commit: "commit_action k d a c res ca ce art s1 = (Inr e, s2)"
    and post: "record_policy (parse_policy_version a) s2 = (Inr (), s3)"
      "consume_envelope k d a c s3 = (Inr (), s4)"
      "execute_lifecycle k d (lifecycle_request a) s4 = (Inr (), t)"
    and r: "sr_settled_cost r = c"
    using assms(1) by (rule run_action_stepsE) auto
  have "ce = None" using ce assms(2) by (simp add: parse_create_envelope_spec_def)
  then have "envelopes s3 = envelopes s"
    using reserve_envelopes [OF q] commit_envelopes commit post(1) policy_envelopes by metis
  then have active: "get_active_for_actor (k_ext k) (act_actor_id a) s3 = Inr (Some env)"
    and row: "envelope_row_get (en_envelope_id env) s3 = Some row"
    using assms(3,4) by (simp_all add: get_active_for_actor_def envelope_row_get_def)
  obtain err where "consume_budget_in_tx (now_millis_string k d 25 0) (en_envelope_id env) c s3 = Inl err"
    using row assms(5) r by (simp add: consume_budget_in_tx_def Let_def)
  then have "s4 = s3"
    using post(2) active by (auto simp: consume_envelope_def consume_and_checkpoint_def Let_def
        split: if_splits sum.splits option.splits)
  with \<open>envelopes s3 = envelopes s\<close> have "envelopes t = envelopes s"
    using lifecycle_envelopes [of k d "lifecycle_request a" s4] post(3) by simp
  with run_action_receipt [OF assms(1)] show ?thesis by blast
qed

definition small_grant_db :: db where
  "small_grant_db = agent_db\<lparr>envelopes := [grant_row\<lparr>e_budget := 5\<rparr>]\<rparr>"

theorem overspending_is_not_consumed_witness:
  "\<exists>r t. run_action demo_env 0 marked_note small_grant_db = (Inr r, t) \<and> sr_settled_cost r = 16
     \<and> envelopes t = [grant_row\<lparr>e_budget := 5\<rparr>] \<and> committed_last r small_grant_db t"
proof -
  have "case fst (run_action demo_env 0 marked_note small_grant_db) of Inl _ \<Rightarrow> False
      | Inr r \<Rightarrow> sr_settled_cost r = 16"
    by code_simp
  then obtain r t where t: "run_action demo_env 0 marked_note small_grant_db = (Inr r, t)"
    "sr_settled_cost r = 16"
    by (cases "run_action demo_env 0 marked_note small_grant_db") (auto split: sum.splits)
  have facts: "act_type marked_note \<noteq> Create" "act_actor_id marked_note = ''root/ci/1''"
    "get_active_for_actor demo_ext ''root/ci/1'' small_grant_db = Inr (Some (grant\<lparr>en_budget := 5\<rparr>))"
    "envelope_row_get (en_envelope_id (grant\<lparr>en_budget := 5\<rparr>)) small_grant_db = Some (grant_row\<lparr>e_budget := 5\<rparr>)"
    "e_budget (grant_row\<lparr>e_budget := 5\<rparr>) < i64_wrap (e_budget_consumed (grant_row\<lparr>e_budget := 5\<rparr>) + 16)"
    by code_simp+
  from overspending_is_not_consumed [OF t(1) facts(1)] facts t show ?thesis
    by (simp add: small_grant_db_def)
qed

section \<open>Approvals\<close>

lemma decided_rows:
  assumes "\<exists>r \<in> set rows. h_hold_id r = hid \<and> h_status r = ''pending''" "st \<noteq> ''pending''"
  shows "\<exists>r. tbl_get h_hold_id hid (tbl_update (\<lambda>r. h_hold_id r = hid \<and> h_status r = ''pending'')
    (with_resolution st dec ins now) rows) = Some r \<and> \<not> pending r"
  using assms(1)
proof (induction rows)
  case (Cons r rows)
  then show ?case
    using assms(2) by (cases "h_hold_id r = hid")
      (auto simp: tbl_update_def table_simps with_resolution_def pending_def)
qed simp

lemma resolve_decides:
  assumes "resolve_hold_request_in_tx now hid dec ins s = Inr (u, t)"
  shows "\<exists>r. hold_row_get hid t = Some r \<and> \<not> pending r"
proof -
  obtain st where st: "decision_status dec = Some st" "rows_affected (\<lambda>r. h_hold_id r = hid
      \<and> h_status r = ''pending'') (hold_requests s) \<noteq> 0"
    "hold_requests t = tbl_update (\<lambda>r. h_hold_id r = hid \<and> h_status r = ''pending'')
      (with_resolution st dec ins now) (hold_requests s)"
    using assms by (auto simp: resolve_hold_request_in_tx_def Let_def split: option.splits if_splits)
  have "st \<noteq> ''pending''" using st(1) by (auto simp: decision_status_def split: if_splits)
  with st(2) show ?thesis
    unfolding hold_row_get_def st(3) by (intro decided_rows) (auto simp: rows_affected_def filter_empty_conv)
qed

lemma approve_tx_effect:
  assumes "resolve_tx k d h hid ''approve'' ins aid rc p s = Inr (r, t)"
  shows "acct t = acct s" and "\<exists>r. hold_row_get hid t = Some r \<and> \<not> pending r"
proof -
  obtain s1 ev c where 1: "resolve_hold_request_in_tx (now_millis_string k d 15 0) hid ''approve'' ins s
      = Inr ((), s1)" and 2: "append_audited (k_ext k) ev s1 = Inr (c, t)"
    using assms unfolding resolve_tx_def
    by (elim tx_bind_InrE and_then_InrE) auto
  have "acct s1 = acct s" using resolve_frame [OF 1] by auto
  then show "acct t = acct s" using append_audited_acct [OF 2] by simp
  have "hold_requests t = hold_requests s1" using append_audited_frame [OF 2] by auto
  with resolve_decides [OF 1] show "\<exists>r. hold_row_get hid t = Some r \<and> \<not> pending r"
    by (simp add: hold_row_get_def)
qed

text \<open>
  C27: Approving a hold whose action is no longer authorized answers with an error, but the
  approval stands: the hold is decided, and what it had reserved stays reserved.
\<close>

theorem refused_approval_keeps_reservation:
  assumes "authorize k d h s = (Inr u, s0)" "act_type h = Mutate"
    and "parse_hold_response (act_target h) (act_payload h) = Some (hid, ''approve'', ins)"
    and "execute_hold_response k d h hid ''approve'' ins s0 = (Inr (Resubmit b), s1)"
    and "actor_get (k_ext k) (act_actor_id b) s1 = Inr (Some agent)"
    and "\<not> authorized (k_ext k) (now_millis_u64 k (Suc d) 0 0) b agent s1"
  shows "\<exists>e t r. submit_action k d h s = (Inl e, t) \<and> acct t = acct s0
    \<and> hold_row_get hid t = Some r \<and> \<not> pending r"
proof -
  obtain e t where t: "submit_action k (Suc d) b s1 = (Inl e, t)" "post_frame s1 t"
    using unauthorized_submit [OF assms(5,6)] by blast
  have "submit_action k d h s = (Inl e, t)"
    using assms(1-4) t(1) by (simp add: submit_action.simps [of k d h s] submit_once_def h_bind_def)
  moreover obtain hold p c ev where tx: "resolve_tx k d h hid ''approve'' ins (hold_field hold ''agent_id'')
      (pending_cost hold) p s0 = Inr ((c, ev), s1)"
    using assms(4) by (rule hold_response_runE)
  then have "acct s1 = acct s0" "\<exists>r. hold_row_get hid s1 = Some r \<and> \<not> pending r"
    by (rule approve_tx_effect)+
  ultimately show ?thesis
    using acct_cong [OF post_frameD(2) [OF t(2)]] post_frameD(4) [OF t(2)]
    by (auto simp: hold_row_get_def)
qed

definition approve_note :: action where
  "approve_note = root_note\<lparr>act_target := ''ledger/hold/0-6-0'',
     act_payload := json_obj [(''decision'', JString ''approve'')]\<rparr>"

text \<open>The state with the held action, after its envelope was revoked.\<close>

definition revoked_db :: db where
  "revoked_db = held_db\<lparr>envelopes := [grant_row\<lparr>e_status := ''revoked''\<rparr>]\<rparr>"

definition approved_db :: db where
  "approved_db = snd (execute_hold_response held_env 0 approve_note ''0-6-0'' ''approve'' None revoked_db)"

theorem refused_approval_keeps_reservation_witness:
  "\<exists>e t r. submit_action held_env 0 approve_note revoked_db = (Inl e, t)
     \<and> acct t ''root/ci/1'' = Some (500, 56) \<and> hold_row_get ''0-6-0'' t = Some r \<and> \<not> pending r"
proof -
  define b where "b = pending_action held_json ''root/ci/1'' None"
  have "fst (execute_hold_response held_env 0 approve_note ''0-6-0'' ''approve'' None revoked_db)
      = Inr (Resubmit (pending_action held_json ''root/ci/1'' None))"
    by code_simp
  then have run: "execute_hold_response held_env 0 approve_note ''0-6-0'' ''approve'' None revoked_db
      = (Inr (Resubmit b), approved_db)"
    by (simp add: approved_db_def b_def prod_eq_iff)
  have facts: "authorize held_env 0 approve_note revoked_db = (Inr (), revoked_db)"
    "act_type approve_note = Mutate"
    "parse_hold_response (act_target approve_note) (act_payload approve_note) = Some (''0-6-0'', ''approve'', None)"
    "actor_get (k_ext held_env) (act_actor_id (pending_action held_json ''root/ci/1'' None)) approved_db
       = Inr (Some agent_actor)"
    "acct revoked_db ''root/ci/1'' = Some (500, 56)"
    by code_simp+
  have "get_active_for_actor (k_ext held_env) (act_actor_id (pending_action held_json ''root/ci/1'' None)) approved_db
      = Inr None" "is_state_changing (act_type (pending_action held_json ''root/ci/1'' None))"
    "ar_actor_type agent_actor = Agent"
    by code_simp+
  then have "\<not> authorized (k_ext held_env) (now_millis_u64 held_env (Suc 0) 0 0) b agent_actor approved_db"
    by (simp add: authorized_def live_envelope_def b_def)
  with refused_approval_keeps_reservation [OF facts(1-3) run] facts(4,5) show ?thesis
    by (fastforce simp: b_def)
qed

end
