(* ===== verification/Component_Guarantees.thy ===== *)
theory Component_Guarantees
  imports Demo
begin

text \<open>
  Guarantees of single components: the quote, delegation of rights, freezing, envelope expiry,
  payload validation, checkpoint signatures and the blob store.
\<close>

section \<open>Actions and payloads\<close>


definition wf_oid :: "string \<Rightarrow> bool" where
  "wf_oid v \<longleftrightarrow>
     prefix oid_prefix v \<and> length v = length oid_prefix + 64
     \<and> list_all is_ascii_hexdigit (drop (length oid_prefix) v)"

lemma wf_oid_iff: "is_ok (parse_oid v) \<longleftrightarrow> wf_oid v"
proof -
  have "is_ok (parse_oid v) \<longleftrightarrow>
      (\<exists>d. v = oid_prefix @ d \<and> length d = 64 \<and> list_all is_ascii_hexdigit d)"
    using parse_oid_Inr_iff [of v] by (auto simp: is_ok_def split: sum.splits)
  then show ?thesis by (auto simp: wf_oid_def prefix_def)
qed


section \<open>Delegation\<close>


definition new_agent :: action where
  "new_agent = root_note\<lparr>act_type := Create, act_target := ''ledger/actor'',
     act_payload := json_obj [(''purpose'', JString ''ci''), (''writable_targets'', JNull)]\<rparr>"


section \<open>Lifecycle\<close>



section \<open>Envelopes\<close>

text \<open>
  An envelope with a duration expires exactly when its duration has passed: a grant of
  \<open>d\<close> seconds created at time \<open>now0\<close> counts as expired from \<open>now0 + 1000 * d\<close> milliseconds on,
  as long as this sum fits 64 bits.
\<close>

theorem envelope_expires_on_time:
  assumes "es_duration_secs spec = Some d" "0 \<le> d" "now0 < 2 ^ 64" "int now0 + d * 1000 < 2 ^ 64"
  shows "is_envelope_expired (new_envelope_record (dec_of_nat now0) eid spec parent) now
    \<longleftrightarrow> int now0 + d * 1000 \<le> uint now"
  by (rule new_envelope_expired_iff [OF assms])

definition short_spec :: envelope_spec where
  "short_spec = \<lparr>es_actor_id = ''root/ci/1'', es_grantor_id = ''root'', es_budget = 5, es_targets = [],
     es_actions = [], es_duration_secs = Some 2, es_report_every = None, es_hold_on = [],
     es_hold_timeout_secs = None\<rparr>"

theorem envelope_expires_on_time_witness:
  "is_envelope_expired (new_envelope_record (dec_of_nat 9) ''e2'' short_spec None) 2009
   \<and> \<not> is_envelope_expired (new_envelope_record (dec_of_nat 9) ''e2'' short_spec None) 2008"
proof -
  have d: "es_duration_secs short_spec = Some 2" by (simp add: short_spec_def)
  have "is_envelope_expired (new_envelope_record (dec_of_nat 9) ''e2'' short_spec None) now
      \<longleftrightarrow> int 9 + 2 * 1000 \<le> uint now" for now
    by (rule envelope_expires_on_time [OF d]) simp_all
  then show ?thesis by simp
qed

section \<open>Checkpoints and blobs\<close>

text \<open>
  C36: Signed checkpoints verify: the signature line that the kernel appends to a checkpoint is
  parsed back to its public key and signature, and these verify the signed text. The hypotheses
  are the documented behaviour of the hex and Ed25519 crates.
\<close>

theorem signed_checkpoint_verifies:
  assumes "hex_laws x" "ed_laws x"
  shows "\<exists>pk sig. parse_sig_extension (sign_checkpoint x sk body) = Some (pk, sig)
    \<and> pk = public_key_hex x sk \<and> verify_checkpoint_signature x pk body sig"
  using parse_sign_checkpoint [OF assms] verify_sign_checkpoint [OF assms] by blast

lemma demo_crypto: "hex_laws demo_ext" "ed_laws demo_ext"
proof -
  have "CHR '':'' \<notin> set (bytes_to_hex bs)" for bs
    using bytes_to_hex_chars [of bs] by (auto simp: hex_lut_def)
  then show "hex_laws demo_ext" by (simp add: hex_laws_def demo_ext_def hex_pairs_bytes_to_hex)
  show "ed_laws demo_ext" by (simp add: ed_laws_def demo_ext_def)
qed

theorem signed_checkpoint_verifies_witness:
  "\<exists>pk sig. parse_sig_extension (sign_checkpoint demo_ext (replicate 32 7) [1, 2]) = Some (pk, sig)
     \<and> verify_checkpoint_signature demo_ext pk [1, 2] sig"
  using signed_checkpoint_verifies [OF demo_crypto] by blast

text \<open>
  C37: The blob store returns what its identifier names. Storing content keeps the store
  consistent and makes it readable under the returned identifier, and whatever a consistent
  store returns for an identifier has exactly that hash.
\<close>

theorem blob_store_roundtrip:
  assumes "blobs_ok x base fs" "length (sha256 x data) = 32"
  shows "\<exists>oid fs' data'. blob_put x base data fs = (oid, fs') \<and> blobs_ok x base fs'
    \<and> blob_get base oid fs' = Inr data' \<and> sha256_hex x data' = sha256_hex x data
    \<and> (fs (oid_to_path base (sha256_hex x data)) = None \<longrightarrow> data' = data)"
proof -
  obtain data' where g: "blob_get base (fst (blob_put x base data fs)) (snd (blob_put x base data fs)) = Inr data'"
    "fs (oid_to_path base (sha256_hex x data)) = None \<longrightarrow> data' = data"
    using blob_get_put [OF assms(2)] by blast
  have ok: "blobs_ok x base (snd (blob_put x base data fs))" by (rule blob_put_ok [OF assms(1)])
  have "sha256_hex x data' = sha256_hex x data"
    using blob_get_integrity [OF ok g(1)] by (simp add: blob_put_oid)
  with g ok show ?thesis by (metis prod.collapse)
qed

theorem blob_store_roundtrip_witness:
  "\<exists>oid fs' data'. blob_put demo_ext [''blobs''] [1, 2] Map.empty = (oid, fs')
     \<and> blob_get [''blobs''] oid fs' = Inr data' \<and> data' = [1, 2]"
proof -
  have "blobs_ok demo_ext [''blobs''] Map.empty" by (simp add: blobs_ok_def)
  moreover have "length (sha256 demo_ext [1, 2]) = 32" by (simp add: demo_ext_def)
  ultimately show ?thesis using blob_store_roundtrip [of demo_ext "[''blobs'']" Map.empty "[1, 2]"] by blast
qed

end
