(* ===== verification/Kernel_Read.thy ===== *)
theory Kernel_Read
  imports Kernel
begin

text \<open>
  \<open>runtime/kernel.rs\<close>: bootstrap, the read queries and the dispatch of requests. The decoder
  of a read query (serde) is a field of the kernel instance, like its configuration, key and
  paths; the JSON form of a record lists the fields of its struct.
\<close>

section \<open>JSON of records\<close>

definition json_f64 :: "f64 \<Rightarrow> json" where
  "json_f64 f = (if f64_is_finite f then JNumber (Float f) else JNull)"

definition json_opt_i64 :: "i64 option \<Rightarrow> json" where
  "json_opt_i64 v = (case v of None \<Rightarrow> JNull | Some i \<Rightarrow> json_i64 i)"

definition event_to_json :: "event_record \<Rightarrow> json" where
  "event_to_json ev =
     json_obj
       [(''id'', JString (ev_id ev)), (''log_index'', json_i64 (ev_log_index ev)),
        (''event_hash'', JString (ev_event_hash ev)), (''actor_id'', JString (ev_actor_id ev)),
        (''action_type'', JString (ev_action_type ev)), (''target'', JString (ev_target ev)),
        (''payload'', ev_payload ev), (''payload_hash'', JString (ev_payload_hash ev)),
        (''artifact_hash'', json_opt_str (ev_artifact_hash ev)),
        (''reserved_energy'', json_i64 (ev_reserved_energy ev)),
        (''settled_energy'', json_i64 (ev_settled_energy ev)),
        (''timestamp'', JString (ev_timestamp ev))]"

definition checkpoint_to_json :: "checkpoint_row \<Rightarrow> json" where
  "checkpoint_to_json cp =
     json_obj
       [(''tree_size'', json_i64 (cp_tree_size cp)), (''root_hash'', JString (cp_root_hash cp)),
        (''checkpoint_text'', JString (cp_checkpoint_text cp)),
        (''created_at'', JString (cp_created_at cp))]"

definition actor_to_json :: "actor_record \<Rightarrow> json" where
  "actor_to_json r =
     json_obj
       [(''actor_id'', JString (ar_actor_id r)),
        (''actor_type'', JString (actor_type_str (ar_actor_type r))),
        (''creator_id'', json_opt_str (ar_creator_id r)),
        (''lineage'', json_strings (ar_lineage r)), (''purpose'', json_opt_str (ar_purpose r)),
        (''status'', JString (actor_status_str (ar_status r))),
        (''writable_targets'', JArray (map wt_to_value (ar_writable_targets r))),
        (''energy_share'', json_f64 (ar_energy_share r)),
        (''reduction_policy'', JString (ar_reduction_policy r)),
        (''created_at'', JString (ar_created_at r)), (''updated_at'', JString (ar_updated_at r))]"

definition envelope_to_json :: "envelope_record \<Rightarrow> json" where
  "envelope_to_json e =
     json_obj
       [(''envelope_id'', JString (en_envelope_id e)), (''actor_id'', JString (en_actor_id e)),
        (''grantor_id'', JString (en_grantor_id e)),
        (''parent_envelope_id'', json_opt_str (en_parent_envelope_id e)),
        (''budget'', json_i64 (en_budget e)),
        (''budget_consumed'', json_i64 (en_budget_consumed e)),
        (''targets'', json_strings (en_targets e)), (''actions'', json_strings (en_actions e)),
        (''duration_secs'', json_opt_i64 (en_duration_secs e)),
        (''report_every'', json_opt_i64 (en_report_every e)),
        (''hold_on'', JArray (map rule_to_value (en_hold_on e))),
        (''hold_timeout_secs'', json_opt_i64 (en_hold_timeout_secs e)),
        (''status'', JString (envelope_status_str (en_status e))),
        (''last_report_at'', json_i64 (en_last_report_at e)),
        (''created_at'', JString (en_created_at e)),
        (''expires_at'', json_opt_str (en_expires_at e)),
        (''updated_at'', JString (en_updated_at e))]"

definition receipt_to_json :: "submit_receipt \<Rightarrow> json" where
  "receipt_to_json r =
     json_obj
       [(''event_id'', JString (sr_event_id r)), (''log_index'', json_i64 (sr_log_index r)),
        (''event_hash'', JString (sr_event_hash r)),
        (''reserved_cost'', json_i64 (sr_reserved_cost r)),
        (''settled_cost'', json_i64 (sr_settled_cost r)),
        (''artifact_hash'', json_opt_str (sr_artifact_hash r))]"

section \<open>The kernel instance\<close>

record state_paths =
  sp_root :: string
  sp_workspace_root :: string
  sp_quarantine_root :: string
  sp_blobs_root :: string
  sp_db_path :: string

text \<open>\<open>Path::join\<close> of a relative component, on the text of a Unix path.\<close>

definition path_join :: "string \<Rightarrow> string \<Rightarrow> string" where
  "path_join root_dir name =
     (if root_dir = [] then name
      else if last root_dir = CHR ''/'' then root_dir @ name else root_dir @ ''/'' @ name)"

definition paths_of :: "string \<Rightarrow> state_paths" where
  "paths_of root_dir =
     \<lparr>sp_root = root_dir, sp_workspace_root = path_join root_dir ''workspaces'',
      sp_quarantine_root = path_join root_dir ''quarantine'',
      sp_blobs_root = path_join root_dir ''blobs'', sp_db_path = path_join root_dir ''punkgo.db''\<rparr>"

record ReadQuery =
  q_kind :: string
  q_actor_id :: "string option"
  q_hold_id :: "string option"
  q_limit :: "i64 option"
  q_log_index :: "i64 option"
  q_tree_size :: "i64 option"
  q_old_size :: "i64 option"
  q_before_index :: "i64 option"
  q_after_index :: "i64 option"
  q_requester_id :: "string option"

record kernel =
  kn_env :: kernel_env
  kn_de_query :: "json \<Rightarrow> ReadQuery option"
  kn_paths :: state_paths
  kn_audit_log :: audit_log
  kn_stellar_config :: stellar_config
  kn_signing_key :: signing_key

text \<open>
  \<open>Kernel::bootstrap\<close>: the state store, then the key file, then the stellar configuration.
  \<open>seed\<close> is the random seed of a new key, \<open>toml_file\<close>, \<open>toml\<close> and \<open>show_f64\<close> are those of
  \<open>load_stellar_config\<close>.
\<close>

definition kernel_bootstrap ::
  "kernel_env \<Rightarrow> (json \<Rightarrow> ReadQuery option) \<Rightarrow> string \<Rightarrow> byte list \<Rightarrow>
   (string + string) option \<Rightarrow> (string \<Rightarrow> string + stellar_config) \<Rightarrow> (f64 \<Rightarrow> string) \<Rightarrow>
   files \<Rightarrow> db \<Rightarrow> kernel kernel_result \<times> files \<times> db" where
  "kernel_bootstrap k de state_dir seed toml_file toml show_f64 fs s =
     (case state_bootstrap (now_millis_string k 0 31 0) s of
        (Inl e, t) \<Rightarrow> (Inl e, fs, t)
      | (Inr _, t) \<Rightarrow>
          (case load_or_generate seed [state_dir, ''signing_key''] fs of
             (Inl e, fs') \<Rightarrow> (Inl (Audit (''signing key: '' @ e)), fs', t)
           | (Inr sk, fs') \<Rightarrow>
               (case load_stellar_config (path_join state_dir ''stellar.toml'') toml_file toml show_f64 of
                  Inl e \<Rightarrow> (Inl e, fs', t)
                | Inr cfg \<Rightarrow>
                    (Inr \<lparr>kn_env = k, kn_de_query = de, kn_paths = paths_of state_dir,
                          kn_audit_log = \<lparr>al_origin = ''punkgo/kernel'', al_signing_key = Some sk\<rparr>,
                          kn_stellar_config = cfg, kn_signing_key = sk\<rparr>, fs', t))))"

section \<open>Read queries\<close>

definition audit_err :: "audit_error + 'a \<Rightarrow> 'a kernel_result" where
  "audit_err r = map_err (\<lambda>e. Audit (audit_error_str e)) r"

definition require :: "string \<Rightarrow> 'a option \<Rightarrow> 'a kernel_result" where
  "require msg v = ok_or (InvalidRequest msg) v"

definition as_index :: "i64 \<Rightarrow> nat" where
  "as_index i = unat (i64_as_u64 i)"

text \<open>\<open>ensure_checkpoint(event_count)\<close> with its error as a kernel error.\<close>

definition refresh_checkpoint :: "kernel \<Rightarrow> unit handler" where
  "refresh_checkpoint kn s =
     run_tx (\<lambda>s. audit_err (ensure_checkpoint (k_ext (kn_env kn)) (kn_audit_log kn)
                   (now_millis_string (kn_env kn) 0 30 0) (nat (event_count s)) s)) s"

definition read_actor_energy :: "ReadQuery \<Rightarrow> json handler" where
  "read_actor_energy q s =
     h_bind (h_lift (require ''actor_id is required for actor_energy'' (q_actor_id q))) (\<lambda>actor_id.
     h_bind (h_lift (balance_view actor_id s)) (\<lambda>(balance, reserved).
       h_return (json_obj
         [(''actor_id'', JString actor_id), (''energy_balance'', json_i64 balance),
          (''reserved_energy'', json_i64 reserved)]))) s"

definition page_limit :: "i64 option \<Rightarrow> i64" where
  "page_limit limit = max 1 (min 500 (unwrap_or 20 limit))"

definition read_events :: "kernel \<Rightarrow> ReadQuery \<Rightarrow> json handler" where
  "read_events kn q s =
     (let limit = page_limit (q_limit q);
          evs = query_events (k_ext (kn_env kn)) (q_actor_id q) (q_before_index q) (q_after_index q)
                  limit s;
          next_cursor = (if evs = [] then JNull else json_i64 (ev_log_index (last evs)))
      in (Inr (json_obj
            [(''events'', JArray (map event_to_json evs)),
             (''has_more'', JBool (int (length evs) = limit)),
             (''next_cursor'', next_cursor)]), s))"

definition read_snapshot :: "kernel \<Rightarrow> json handler" where
  "read_snapshot kn s =
     (let count = event_count s
      in h_bind (refresh_checkpoint kn) (\<lambda>_ t.
           h_bind (h_lift (audit_err (latest_checkpoint t))) (\<lambda>cp.
             h_return (json_obj
               [(''event_count'', json_i64 count), (''snapshot_hash'', JString (cp_root_hash cp)),
                (''generated_at'', JString (cp_created_at cp))])) t) s)"

definition read_paths :: "kernel \<Rightarrow> json" where
  "read_paths kn =
     json_obj
       [(''root'', JString (sp_root (kn_paths kn))),
        (''workspace_root'', JString (sp_workspace_root (kn_paths kn))),
        (''quarantine_root'', JString (sp_quarantine_root (kn_paths kn))),
        (''db_path'', JString (sp_db_path (kn_paths kn)))]"

definition read_checkpoint :: "kernel \<Rightarrow> json handler" where
  "read_checkpoint kn =
     h_bind (refresh_checkpoint kn) (\<lambda>_ t.
       h_bind (h_lift (audit_err (latest_checkpoint t))) (\<lambda>cp. h_return (checkpoint_to_json cp)) t)"

definition proof_tree_size :: "kernel \<Rightarrow> i64 option \<Rightarrow> nat handler" where
  "proof_tree_size kn wanted =
     (case wanted of
        Some n \<Rightarrow> h_return (as_index n)
      | None \<Rightarrow> h_bind (refresh_checkpoint kn) (\<lambda>_ t. (Inr (audit_tree_size t), t)))"

definition read_inclusion :: "kernel \<Rightarrow> ReadQuery \<Rightarrow> json handler" where
  "read_inclusion kn q =
     h_bind (h_lift (require ''log_index is required for audit_inclusion_proof'' (q_log_index q))) (\<lambda>i.
     h_bind (proof_tree_size kn (q_tree_size q)) (\<lambda>n t.
     h_bind (h_lift (audit_err (inclusion_proof (k_ext (kn_env kn)) (as_index i) n t))) (\<lambda>path.
       h_return (json_obj
         [(''log_index'', json_u64 (i64_as_u64 i)), (''tree_size'', json_u64 (of_nat n)),
          (''proof'', json_strings path)])) t))"

definition read_consistency :: "kernel \<Rightarrow> ReadQuery \<Rightarrow> json handler" where
  "read_consistency kn q s =
     h_bind (h_lift (require ''old_size is required for audit_consistency_proof'' (q_old_size q))) (\<lambda>m.
     h_bind (h_lift (require ''tree_size is required for audit_consistency_proof'' (q_tree_size q))) (\<lambda>n.
     h_bind (h_lift (audit_err (consistency_proof (k_ext (kn_env kn)) (as_index m) (as_index n) s))) (\<lambda>path.
       h_return (json_obj
         [(''old_size'', json_u64 (i64_as_u64 m)), (''new_size'', json_u64 (i64_as_u64 n)),
          (''proof'', json_strings path)])))) s"

definition read_stellar :: "kernel \<Rightarrow> json" where
  "read_stellar kn =
     (let cfg = kn_stellar_config kn
      in json_obj
           [(''gpu_model'', JString (sc_gpu_model cfg)), (''cpu_model'', JString (sc_cpu_model cfg)),
            (''int8_tops'', json_f64 (sc_int8_tops cfg)),
            (''energy_per_tick'', json_i64 (effective_energy_per_tick cfg)),
            (''tick_interval_ms'', json_u64 (sc_tick_interval_ms cfg)),
            (''luminosity_source'', JString (sc_luminosity_source cfg))])"

definition read_envelope :: "kernel \<Rightarrow> ReadQuery \<Rightarrow> json handler" where
  "read_envelope kn q s =
     h_bind (h_lift (require ''actor_id is required for envelope_info'' (q_actor_id q))) (\<lambda>actor_id.
     h_bind (h_lift (get_active_for_actor (k_ext (kn_env kn)) actor_id s)) (\<lambda>envelope.
       h_return (case envelope of
          Some e \<Rightarrow> envelope_to_json e
        | None \<Rightarrow> json_obj [(''actor_id'', JString actor_id), (''envelope'', JNull)]))) s"

definition read_actor :: "kernel \<Rightarrow> ReadQuery \<Rightarrow> json handler" where
  "read_actor kn q s =
     h_bind (h_lift (require ''actor_id is required for actor_info'' (q_actor_id q))) (\<lambda>actor_id.
     h_bind (h_lift (actor_get (k_ext (kn_env kn)) actor_id s)) (\<lambda>actor.
       h_lift (case actor of
          Some r \<Rightarrow> Inr (actor_to_json r)
        | None \<Rightarrow> Inl (ActorNotFound actor_id)))) s"

definition read_hold :: "kernel \<Rightarrow> ReadQuery \<Rightarrow> json handler" where
  "read_hold kn q s =
     h_bind (h_lift (require ''hold_id is required for hold_info'' (q_hold_id q))) (\<lambda>hold_id.
       h_lift (case get_hold_request (k_ext (kn_env kn)) hold_id s of
          Some r \<Rightarrow> Inr r
        | None \<Rightarrow> Inl (InvalidRequest (''hold_request not found: '' @ hold_id)))) s"

definition read_query_kind :: "kernel \<Rightarrow> ReadQuery \<Rightarrow> json handler" where
  "read_query_kind kn q s =
     (let x = k_ext (kn_env kn); kind = q_kind q
      in if kind = ''health'' then (Inr (json_obj [(''status'', JString ''ok'')]), s)
         else if kind = ''actor_energy'' then read_actor_energy q s
         else if kind = ''events'' then read_events kn q s
         else if kind = ''stats''
         then (Inr (json_obj [(''event_count'', json_i64 (event_count s))]), s)
         else if kind = ''snapshot'' then read_snapshot kn s
         else if kind = ''paths'' then (Inr (read_paths kn), s)
         else if kind = ''audit_checkpoint'' then read_checkpoint kn s
         else if kind = ''audit_inclusion_proof'' then read_inclusion kn q s
         else if kind = ''audit_consistency_proof'' then read_consistency kn q s
         else if kind = ''stellar_info'' then (Inr (read_stellar kn), s)
         else if kind = ''envelope_info'' then read_envelope kn q s
         else if kind = ''actor_info'' then read_actor kn q s
         else if kind = ''hold_info'' then read_hold kn q s
         else if kind = ''holds_pending''
         then (Inr (json_obj [(''holds'', JArray (list_pending_holds x (q_actor_id q) s))]), s)
         else if kind = ''signing_pubkey''
         then (Inr (json_obj
                [(''pubkey_hex'', JString (public_key_hex x (kn_signing_key kn))),
                 (''algorithm'', JString ''ed25519'')]), s)
         else (Inl (InvalidRequest (''unsupported read query kind: '' @ kind)), s))"

definition read_query :: "kernel \<Rightarrow> ReadQuery \<Rightarrow> json handler" where
  "read_query kn q =
     h_bind (h_lift (check_read_access (unwrap_or ''anonymous'' (q_requester_id q)) (q_kind q)))
       (\<lambda>_. read_query_kind kn q)"

section \<open>Requests\<close>

definition dispatch :: "kernel \<Rightarrow> request_envelope \<Rightarrow> json handler" where
  "dispatch kn req =
     (let x = k_ext (kn_env kn)
      in case rq_request_type req of
           Quote \<Rightarrow>
             h_bind (h_lift (ok_or serde_error (de_action x (rq_payload req)))) (\<lambda>a.
             h_bind (h_lift (validate_action (json_vec x) a)) (\<lambda>_.
               h_return (json_obj [(''cost'', json_u64 (quote_cost (json_vec x) a))])))
         | Submit \<Rightarrow>
             h_bind (h_lift (ok_or serde_error (de_action x (rq_payload req)))) (\<lambda>a.
             h_bind (submit_action (kn_env kn) 0 a) (\<lambda>receipt. h_return (receipt_to_json receipt)))
         | Read \<Rightarrow>
             h_bind (h_lift (ok_or serde_error (kn_de_query kn (rq_payload req)))) (\<lambda>q.
               read_query kn q))"

definition handle_request :: "kernel \<Rightarrow> request_envelope \<Rightarrow> db \<Rightarrow> response_envelope \<times> db" where
  "handle_request kn req s =
     (case dispatch kn req s of
        (Inr payload, t) \<Rightarrow> (response_ok (rq_request_id req) payload, t)
      | (Inl err, t) \<Rightarrow> (response_err_structured (rq_request_id req) err, t))"

end
