(* ===== verification/Read_Properties.thy ===== *)
theory Read_Properties
  imports Kernel_Reach Kernel_Read
begin

text \<open>
  Reads change nothing but cached checkpoints, every request is a sequence of steps of the
  kernel, and paging through the events with the cursor visits all of them.
\<close>

section \<open>Reads\<close>

definition only_checkpoints :: "db \<Rightarrow> db \<Rightarrow> bool" where
  "only_checkpoints s t \<longleftrightarrow> (\<exists>cs. t = s\<lparr>audit_checkpoints := cs\<rparr>)"

lemma only_checkpoints_refl [simp]: "only_checkpoints s s"
proof -
  have "s = s\<lparr>audit_checkpoints := audit_checkpoints s\<rparr>" by simp
  then show ?thesis unfolding only_checkpoints_def by metis
qed

lemma ensure_checkpoint_frame:
  "ensure_checkpoint x al now n s = Inr (u, t) \<Longrightarrow>
     t = s \<or> (\<exists>m row. make_checkpoint_in_tx x al now m s = Inr (row, t))"
  by (auto simp: ensure_checkpoint_def Let_def split: if_splits)

lemma refresh_frame:
  "snd (refresh_checkpoint kn s) = s \<or>
   (\<exists>m row. make_checkpoint_in_tx (k_ext (kn_env kn)) (kn_audit_log kn)
      (now_millis_string (kn_env kn) 0 30 0) m s = Inr (row, snd (refresh_checkpoint kn s)))"
  by (auto simp: refresh_checkpoint_def run_tx_def audit_err_def split: sum.splits
      dest!: ensure_checkpoint_frame)

lemma refresh_only: "only_checkpoints s (snd (refresh_checkpoint kn s))"
  using refresh_frame [of kn s] checkpoint_frame by (fastforce simp: only_checkpoints_def)

lemma h_bind_pure: "(\<And>a s. snd (f a s) = s) \<Longrightarrow> snd (h_bind m f s) = snd (m s)"
  by (auto simp: h_bind_def split: prod.splits sum.splits)

lemma snd_lift_bind: "snd (h_bind (h_lift r) f s) = (case r of Inl e \<Rightarrow> s | Inr a \<Rightarrow> snd (f a s))"
  by (auto simp: h_bind_def split: sum.splits)

lemmas read_defs = read_actor_energy_def read_events_def read_consistency_def read_envelope_def
  read_actor_def read_hold_def

lemma pure_reads:
  "snd (read_actor_energy q s) = s" "snd (read_events kn q s) = s"
  "snd (read_consistency kn q s) = s" "snd (read_envelope kn q s) = s"
  "snd (read_actor kn q s) = s" "snd (read_hold kn q s) = s"
  by (simp_all add: read_defs snd_lift_bind Let_def split: sum.splits prod.splits option.splits)

lemma checkpoint_reads:
  "snd (read_snapshot kn s) = snd (refresh_checkpoint kn s)"
  "snd (read_checkpoint kn s) = snd (refresh_checkpoint kn s)"
  "snd (read_inclusion kn q s) = s \<or> snd (read_inclusion kn q s) = snd (refresh_checkpoint kn s)"
  by (auto simp: read_snapshot_def read_checkpoint_def read_inclusion_def proof_tree_size_def
      Let_def h_bind_pure snd_lift_bind split: sum.splits option.splits)

lemma read_query_refreshes:
  "snd (read_query kn q s) = s \<or> snd (read_query kn q s) = snd (refresh_checkpoint kn s)"
proof -
  have "snd (read_query_kind kn q s) = s
      \<or> snd (read_query_kind kn q s) = snd (refresh_checkpoint kn s)"
    unfolding read_query_kind_def Let_def using pure_reads checkpoint_reads by auto
  then show ?thesis by (simp add: read_query_def snd_lift_bind check_read_access_def)
qed

lemma read_query_only: "only_checkpoints s (snd (read_query kn q s))"
  using read_query_refreshes [of kn q s] refresh_only [of s kn] by (elim disjE) simp_all

lemma refresh_steps: "(rstep (kn_env kn))\<^sup>*\<^sup>* s (snd (refresh_checkpoint kn s))"
  using refresh_frame [of kn s] by (auto intro: k_checkpoint)

lemma read_query_steps: "(rstep (kn_env kn))\<^sup>*\<^sup>* s (snd (read_query kn q s))"
  using read_query_refreshes [of kn q s] refresh_steps by auto

section \<open>Requests\<close>

lemma dispatch_steps: "steps_to (kn_env kn) (dispatch kn req) s"
  unfolding dispatch_def Let_def
  by (cases "rq_request_type req")
    (auto intro!: steps_bind_lift steps_bind [OF submit_action_steps] read_query_steps)

lemma handle_request_state: "snd (handle_request kn req s) = snd (dispatch kn req s)"
  by (auto simp: handle_request_def split: prod.splits sum.splits)

lemma handle_request_reachable:
  "reachable (k_ext (kn_env kn)) s \<Longrightarrow>
   reachable (k_ext (kn_env kn)) (snd (handle_request kn req s))"
  unfolding handle_request_state by (rule reachable_steps [OF _ rsteps_ksteps [OF dispatch_steps]])

lemma quote_read_only:
  assumes "rq_request_type req \<noteq> Submit"
  shows "only_checkpoints s (snd (handle_request kn req s))"
proof (cases "rq_request_type req")
  case Read
  then show ?thesis
    by (simp add: handle_request_state dispatch_def Let_def snd_lift_bind read_query_only
        split: sum.splits)
next
  case Quote
  then show ?thesis
    by (simp add: handle_request_state dispatch_def Let_def snd_lift_bind split: sum.splits)
qed (use assms in simp)

section \<open>Paging\<close>

text \<open>In a list with decreasing keys, what lies below its \<open>n\<close>-th key is the rest.\<close>

lemma filter_below_last:
  fixes key :: "'a \<Rightarrow> int"
  assumes "sorted_wrt (\<lambda>r q. key q < key r) rs" "0 < n" "n \<le> length rs"
  shows "filter (\<lambda>r. key r < key (last (take n rs))) rs = drop n rs"
proof -
  have split: "rs = take n rs @ drop n rs" by simp
  have l: "last (take n rs) \<in> set (take n rs)" using assms(2,3) by (intro last_in_set) auto
  have "sorted_wrt (\<lambda>r q. key q < key r) (take n rs @ drop n rs)" using assms(1) by simp
  then have lt: "key q < key r" if "r \<in> set (take n rs)" "q \<in> set (drop n rs)" for r q
    using that unfolding sorted_wrt_append by blast
  have ge: "key (last (take n rs)) \<le> key r" if r: "r \<in> set (take n rs)" for r
  proof -
    have "sorted_wrt (\<lambda>r q. key q < key r) (butlast (take n rs) @ [last (take n rs)])"
      using assms(1) l by (metis append_butlast_last_id empty_iff empty_set sorted_wrt_take)
    then show ?thesis
      using r l unfolding sorted_wrt_append
      by (metis append_butlast_last_id empty_iff empty_set less_imp_le list.set_intros(1) order_refl
          rotate1.simps(2) set_ConsD set_rotate1)
  qed
  have "filter (\<lambda>r. key r < key (last (take n rs))) (take n rs) = []"
    using ge by (force simp: filter_empty_conv)
  moreover have "filter (\<lambda>r. key r < key (last (take n rs))) (drop n rs) = drop n rs"
    using lt [OF l] by (simp add: filter_id_conv)
  ultimately show ?thesis by (metis append_Nil filter_append split)
qed

text \<open>The rows of a query, newest first.\<close>

definition matching :: "string option \<Rightarrow> i64 option \<Rightarrow> i64 option \<Rightarrow> db \<Rightarrow> event_row list" where
  "matching a b c s =
     rev (filter (\<lambda>r. (\<forall>k. a = Some k \<longrightarrow> ev_actor_id r = k)
            \<and> (\<forall>k. b = Some k \<longrightarrow> ev_log_index r < k) \<and> (\<forall>k. c = Some k \<longrightarrow> k < ev_log_index r))
          (events s))"

lemma query_matching:
  "log_ok x s \<Longrightarrow> query_events x a b c n s = map (row_to_event x) (sql_limit n (matching a b c s))"
  by (simp add: query_events_rev matching_def)

lemma matching_sorted:
  assumes "log_ok x s"
  shows "sorted_wrt (\<lambda>r q. ev_log_index q < ev_log_index r) (matching a b c s)"
proof -
  have "contiguous ev_log_index (events s)" using assms by (simp add: log_ok_def)
  then have "sorted_wrt (\<lambda>r q. ev_log_index r < ev_log_index q) (events s)"
    by (simp add: sorted_wrt_iff_nth_less contiguous_nth)
  then show ?thesis by (simp add: matching_def sorted_wrt_rev sorted_wrt_filter)
qed

lemma matching_before:
  assumes "r \<in> set (matching a b c s)"
  shows "matching a (Some (ev_log_index r)) c s
    = filter (\<lambda>q. ev_log_index q < ev_log_index r) (matching a b c s)"
  using assms by (auto simp: matching_def rev_filter [symmetric] intro!: filter_cong)

lemma page_then_next:
  assumes ok: "log_ok x s" and n: "0 < n" and m: "0 \<le> m"
    and full: "int (length (query_events x a b c n s)) = n"
  shows "query_events x a b c n s
      @ query_events x a (Some (ev_log_index (last (query_events x a b c n s)))) c m s
    = query_events x a b c (n + m) s"
proof -
  let ?L = "matching a b c s"
  have page: "query_events x a b c n s = map (row_to_event x) (take (nat n) ?L)"
    using n by (simp add: query_matching [OF ok] sql_limit_def)
  have len: "nat n \<le> length ?L" using full n unfolding page by simp
  have ne: "take (nat n) ?L \<noteq> []" using len n by auto
  have cursor: "ev_log_index (last (query_events x a b c n s)) = ev_log_index (last (take (nat n) ?L))"
    unfolding page last_map [OF ne] by (simp add: row_to_event_def)
  have "last (take (nat n) ?L) \<in> set ?L" using last_in_set [OF ne] by (rule in_set_takeD)
  from matching_before [OF this] filter_below_last [OF matching_sorted [OF ok], of "nat n"] len n
  have "matching a (Some (ev_log_index (last (take (nat n) ?L)))) c s = drop (nat n) ?L" by simp
  then show ?thesis
    unfolding cursor using m n
    by (simp add: page query_matching [OF ok] sql_limit_def nat_add_distrib take_add
        del: map_append flip: map_append)
qed

end
