(* ===== verification/Ipc.thy ===== *)
theory Ipc
  imports Read_Properties
begin

text \<open>
  \<open>daemon/ipc.rs\<close>: one client connection. The lines the client sends are a list; what the
  server writes back is a list of byte lines. \<open>decode\<close> is \<open>serde_json::from_str\<close> at the
  request type (\<open>Inl\<close> its error text). Every request has its own reading of the clock and
  identifiers, so the \<open>i\<close>-th request sees the kernel \<open>kns i\<close>. Faults of the socket are not
  modelled; a response that cannot be serialized ends the connection.
\<close>

definition response_to_json :: "response_envelope \<Rightarrow> json" where
  "response_to_json r =
     json_obj
       [(''request_id'', JString (rs_request_id r)), (''status'', JString (rs_status r)),
        (''payload'', rs_payload r)]"

definition write_response :: "ext \<Rightarrow> response_envelope \<Rightarrow> byte list option" where
  "write_response x r = map_option (\<lambda>bytes. bytes @ [10]) (json_vec x (response_to_json r))"

text \<open>The check for the shutdown command, before the kernel sees the request.\<close>

definition is_shutdown :: "request_envelope \<Rightarrow> bool" where
  "is_shutdown req \<longleftrightarrow>
     rq_request_type req = Read \<and> get_str (rq_payload req) ''kind'' = Some ''shutdown''"

text \<open>How a connection ends: end of input, a shutdown command or a write error.\<close>

datatype conn_end = Eof | Shutdown | WriteError

record conn =
  cn_written :: "byte list list"
  cn_end :: conn_end
  cn_db :: db

definition wrote :: "byte list \<Rightarrow> conn \<Rightarrow> conn" where
  "wrote line c = c\<lparr>cn_written := line # cn_written c\<rparr>"

fun handle_connection ::
  "(nat \<Rightarrow> kernel) \<Rightarrow> (string \<Rightarrow> string + request_envelope) \<Rightarrow> nat \<Rightarrow> string list \<Rightarrow> db \<Rightarrow> conn" where
  "handle_connection kns decode i [] s = \<lparr>cn_written = [], cn_end = Eof, cn_db = s\<rparr>"
| "handle_connection kns decode i (line # lines) s =
     (let x = k_ext (kn_env (kns i))
      in if is_blank line then handle_connection kns decode i lines s
         else (case decode line of
                 Inl e \<Rightarrow>
                   (case write_response x (response_err ''unknown'' (''invalid request envelope: '' @ e)) of
                      None \<Rightarrow> \<lparr>cn_written = [], cn_end = WriteError, cn_db = s\<rparr>
                    | Some out \<Rightarrow> wrote out (handle_connection kns decode (Suc i) lines s))
               | Inr req \<Rightarrow>
                   if is_shutdown req
                   then (case write_response x (response_ok (rq_request_id req)
                                (json_obj [(''message'', JString ''shutting down'')])) of
                           None \<Rightarrow> \<lparr>cn_written = [], cn_end = WriteError, cn_db = s\<rparr>
                         | Some out \<Rightarrow> \<lparr>cn_written = [out], cn_end = Shutdown, cn_db = s\<rparr>)
                   else (let (response, t) = handle_request (kns i) req s
                         in case write_response x response of
                              None \<Rightarrow> \<lparr>cn_written = [], cn_end = WriteError, cn_db = t\<rparr>
                            | Some out \<Rightarrow> wrote out (handle_connection kns decode (Suc i) lines t))))"

section \<open>Facts\<close>

lemma wrote_simps [simp]:
  "cn_written (wrote l c) = l # cn_written c" "cn_end (wrote l c) = cn_end c"
  "cn_db (wrote l c) = cn_db c"
  by (simp_all add: wrote_def)

text \<open>Every request is answered: one line per non-blank line of the client.\<close>

lemma all_answered:
  assumes "cn_end (handle_connection kns decode i lines s) = Eof"
  shows "length (cn_written (handle_connection kns decode i lines s))
    = length (filter (\<lambda>l. \<not> is_blank l) lines)"
  using assms
proof (induction lines arbitrary: i s)
  case (Cons line lines)
  then show ?case
    by (auto simp: Let_def split: if_splits sum.splits option.splits prod.splits)
qed simp

lemma printer_writes:
  assumes "\<And>v. json_text x v \<noteq> None"
  obtains f where "\<And>r. write_response x r = Some (f r)"
proof -
  have "write_response x r = Some (the (write_response x r))" for r
    using assms [of "response_to_json r"] by (auto simp: write_response_def json_vec_def)
  then show thesis by (rule that)
qed

text \<open>With a printer that does not fail, the connection never ends with a write error.\<close>

lemma no_write_error:
  assumes "\<And>j v. json_text (k_ext (kn_env (kns j))) v \<noteq> None"
  shows "cn_end (handle_connection kns decode i lines s) \<noteq> WriteError"
proof (induction lines arbitrary: i s)
  case (Cons line lines)
  from assms [of i] obtain f where "\<And>r. write_response (k_ext (kn_env (kns i))) r = Some (f r)"
    by (rule printer_writes) (rule that)
  with Cons show ?case
    by (auto simp: Let_def split: sum.splits prod.splits)
qed simp

text \<open>A connection ends by shutdown exactly when a shutdown command is among its lines.\<close>

lemma ends_by_shutdown:
  assumes "\<And>j v. json_text (k_ext (kn_env (kns j))) v \<noteq> None"
  shows "cn_end (handle_connection kns decode i lines s) = Shutdown \<longleftrightarrow>
    (\<exists>l \<in> set lines. \<not> is_blank l \<and> (\<exists>req. decode l = Inr req \<and> is_shutdown req))"
proof (induction lines arbitrary: i s)
  case (Cons line lines)
  from assms [of i] obtain f where "\<And>r. write_response (k_ext (kn_env (kns i))) r = Some (f r)"
    by (rule printer_writes) (rule that)
  with Cons show ?case
    by (auto simp: Let_def split: sum.splits prod.splits)
qed simp

lemma connection_reachable:
  assumes "\<And>j. k_ext (kn_env (kns j)) = x" "reachable x s"
  shows "reachable x (cn_db (handle_connection kns decode i lines s))"
  using assms(2)
proof (induction lines arbitrary: i s)
  case (Cons line lines)
  have "reachable x (snd (handle_request (kns i) req s))" for req
    using handle_request_reachable [of "kns i" s req] Cons.prems assms(1) by simp
  with Cons show ?case
    by (auto simp: Let_def split: sum.splits option.splits prod.splits) (metis snd_conv)+
qed simp

end
