(* ===== verification/State_Guarantees.thy ===== *)
theory State_Guarantees
  imports Demo Ipc
begin

text \<open>
  What holds in every state that the kernel can reach, between any two of its transactions,
  and what never changes from one state to a later one.
\<close>

text \<open>A reachable state with one event.\<close>

definition noted_db :: db where
  "noted_db = snd (submit_action demo_env 0 root_note fresh_db)"

lemma noted_reachable: "reachable demo_ext noted_db"
  using reachable_steps [OF _ rsteps_ksteps [OF submit_action_steps [of demo_env fresh_db 0 root_note]]] reachable_seed
  by (simp add: noted_db_def fresh_db_def)

lemma noted_events: "length (events noted_db) = 1"
  by code_simp

section \<open>Invariants of the tables\<close>

text \<open>
  C6: The energy invariant: in every reachable state each account exists once, and
  0 \<open>\<le>\<close> reserved \<open>\<le>\<close> balance.
\<close>

theorem reachable_energy:
  assumes "reachable x s"
  shows "distinct (map lr_actor_id (energy_ledger s))
    \<and> list_all (\<lambda>r. 0 \<le> lr_reserved r \<and> lr_reserved r \<le> lr_balance r) (energy_ledger s)"
  using reachable_ledger [OF assms]
  by (auto simp: ledger_ok_def keys_distinct_def row_ok_def list_all_iff)

theorem reachable_energy_witness:
  "list_all (\<lambda>r. 0 \<le> lr_reserved r \<and> lr_reserved r \<le> lr_balance r) (energy_ledger noted_db)"
  using reachable_energy [OF noted_reachable] by blast

text \<open>
  C7: The log is append-only history without gaps: in every reachable state the i-th event
  has index i, event identifiers are unique, and every event hash is the hash of its event.
\<close>

theorem reachable_history:
  assumes "reachable x s"
  shows "map ev_log_index (events s) = map int [0..<length (events s)]
    \<and> distinct (map ev_id (events s))
    \<and> list_all (\<lambda>r. compute_event_hash x r = Inr (ev_event_hash r)) (events s)"
  using reachable_log [OF assms] by (simp add: log_ok_def contiguous_def sealed_def [abs_def])

theorem reachable_history_witness: "map ev_log_index (events noted_db) = [0]"
  using reachable_history [OF noted_reachable] noted_events by simp

text \<open>
  C18: Every event of a reachable state has one of the action types that the startup check
  accepts, and every actor has an energy account.
\<close>

theorem reachable_types_and_accounts:
  assumes "reachable x s"
  shows "list_all (\<lambda>r. ev_action_type r \<in> set known_action_types) (events s)
    \<and> (\<forall>a. actor_row_get a s \<noteq> None \<longrightarrow> ledger_get a s \<noteq> None)"
  using reachable_types [OF assms] reachable_accounts [OF assms]
  by (auto simp: types_ok_def accounts_ok_def list_all_iff)

theorem reachable_types_and_accounts_witness:
  "list_all (\<lambda>r. ev_action_type r \<in> set known_action_types) (events noted_db)"
  using reachable_types_and_accounts [OF noted_reachable] by blast



section \<open>The audit tree\<close>

text \<open>
  C8: The audit log is the log: in every reachable state, the hash stored for each complete
  subtree (level \<open>l\<close>, position \<open>k\<close>) is the Merkle hash over the event hashes below it, so
  proofs built from the stored hashes speak about the committed events. The hypotheses on the
  tile library are that storage indices of different nodes differ and that hashes have 32 bytes.
\<close>

theorem audit_tree_over_events:
  assumes "tlog_laws x" "reachable x s" "(k + 1) * 2 ^ l \<le> length (events s)"
  shows "map_of (audit_hashes s) (stored_hash_index x l k)
    = Some (sub_hash (node_hash x) (\<lambda>i. decoded (ev_event_hash (events s ! i))) l k)"
proof -
  have "map_of (audit_hashes s) (stored_hash_index x l k) = Some (sub_hash (node_hash x) (event_leaf s) l k)"
    using reachable_audited [OF assms(1,2)] assms(3) by (simp add: audited_def tree_stored_def)
  also have "sub_hash (node_hash x) (event_leaf s) l k
      = sub_hash (node_hash x) (\<lambda>i. decoded (ev_event_hash (events s ! i))) l k"
    using assms(3) by (intro sub_hash_cong) (auto simp: event_leaf_def)
  finally show ?thesis .
qed

lemma demo_index_inj: "2 ^ a * (2 * k + 1) = 2 ^ b * (2 * l + 1) \<Longrightarrow> a = b \<and> k = l" for a b k l :: nat
proof (induction a b rule: diff_induct)
  case (1 a)
  obtain m where m: "m = 2 ^ (a - 1) * (2 * k + 1)" by simp
  have "a = 0"
  proof (rule ccontr)
    assume "a \<noteq> 0"
    then have "2 ^ a * (2 * k + 1) = 2 * m" by (cases a) (simp_all add: m)
    with 1 show False by simp presburger
  qed
  with 1 show ?case by simp
next
  case (2 b)
  have "2 ^ Suc b * (2 * l + 1) = 2 * (2 ^ b * (2 * l + 1))" by (simp only: power_Suc mult.assoc)
  with 2 have "2 * k + 1 = 2 * (2 ^ b * (2 * l + 1))" by (simp only: power_0 mult_1)
  then show ?case by presburger
next
  case (3 a b)
  have "2 ^ a * (2 * k + 1) = 2 ^ b * (2 * l + 1)"
    using "3.prems" by (simp only: power_Suc mult.assoc mult_cancel1) simp
  from "3.IH" [OF this] show ?case by simp
qed

lemma demo_tlog: "tlog_laws demo_ext"
proof -
  have "stored_hash_index demo_ext = (\<lambda>l k. 2 ^ l * (2 * k + 1))"
    and "length (node_hash demo_ext a b) = 32" for a b
    by (simp_all add: demo_ext_def)
  then show ?thesis unfolding tlog_laws_def using demo_index_inj by metis
qed

theorem audit_tree_over_events_witness:
  "map_of (audit_hashes noted_db) (stored_hash_index demo_ext 0 0)
     = Some (decoded (ev_event_hash (events noted_db ! 0)))"
  using audit_tree_over_events [OF demo_tlog noted_reachable, of 0 0] noted_events by simp

section \<open>What never changes\<close>

lemma ext_run:
  assumes "(ext_step x)\<^sup>*\<^sup>* s t" "R s s" "\<And>s t u. R s t \<Longrightarrow> R t u \<Longrightarrow> R s u"
    and "\<And>k s t. kstep k s t \<Longrightarrow> R s t"
  shows "R s t"
  using assms(1)
proof (induction rule: rtranclp_induct)
  case (step t u)
  then obtain k where "kstep k t u" by (auto simp: ext_step_def)
  with step.IH assms(3,4) show ?case by blast
qed (rule assms(2))

lemma noted_later: "(ext_step demo_ext)\<^sup>*\<^sup>* fresh_db noted_db"
  using ksteps_ext [OF rsteps_ksteps [OF submit_action_steps [of demo_env fresh_db 0 root_note]]] by (simp add: noted_db_def)

text \<open>
  C9: History is never rewritten: whatever steps the kernel takes, with any clock and any
  identifiers, the log of a later state extends the log of an earlier one.
\<close>

theorem history_append_only:
  assumes "(ext_step x)\<^sup>*\<^sup>* s t"
  shows "\<exists>rs. events t = events s @ rs"
  using assms
proof (rule ext_run)
  show "kstep k s t \<Longrightarrow> \<exists>rs. events t = events s @ rs" for k s t
    by (rule log_grows.laws.step_rel)
qed auto

theorem history_append_only_witness: "\<exists>rs. events noted_db = events fresh_db @ rs"
  by (rule history_append_only [OF noted_later])

text \<open>
  C16: A hold is decided once: the request of a hold (envelope, agent, trigger and held action)
  never changes, and once it is approved, rejected or timed out its row never changes again.
\<close>

theorem hold_decided_once:
  assumes "(ext_step x)\<^sup>*\<^sup>* s t" "hold_row_get hid s = Some r"
  shows "\<exists>q. hold_row_get hid t = Some q \<and> h_envelope_id q = h_envelope_id r
    \<and> h_agent_id q = h_agent_id r \<and> h_trigger_target q = h_trigger_target r
    \<and> h_trigger_action q = h_trigger_action r \<and> h_pending_payload q = h_pending_payload r
    \<and> (h_status r \<noteq> ''pending'' \<longrightarrow> q = r)"
proof -
  have "holds_advance s t" using assms(1)
  proof (rule ext_run)
    show "kstep k s t \<Longrightarrow> holds_advance s t" for k s t by (rule holds_final.laws.step_rel)
  qed (auto intro: holds_advance_same holds_advance_trans)
  with assms(2) show ?thesis
    by (auto simp: holds_advance_def hold_advance_def pending_def)
qed

definition decided_db :: db where
  "decided_db = fresh_db\<lparr>hold_requests :=
     [\<lparr>h_hold_id = ''h1'', h_envelope_id = ''e1'', h_agent_id = ''root/ci/1'',
       h_trigger_target = ''workspace/a'', h_trigger_action = ''mutate'', h_pending_payload = ''{}'',
       h_status = ''rejected'', h_decision = Some ''reject'', h_instruction = None,
       h_triggered_at = ''9'', h_resolved_at = Some ''9''\<rparr>]\<rparr>"

theorem hold_decided_once_witness:
  "hold_row_get ''h1'' (snd (submit_action demo_env 0 root_note decided_db)) = hold_row_get ''h1'' decided_db"
proof -
  have "map_option h_status (hold_row_get ''h1'' decided_db) = Some ''rejected''" by code_simp
  then obtain r where r: "hold_row_get ''h1'' decided_db = Some r" "h_status r = ''rejected''" by auto
  from hold_decided_once [OF ksteps_ext [OF rsteps_ksteps [OF submit_action_steps [of demo_env decided_db 0 root_note]]] r(1)]
  show ?thesis using r by auto
qed



section \<open>Restart\<close>

text \<open>
  C22: The startup check accepts a database exactly when every account has
  0 \<open>\<le>\<close> reserved \<open>\<le>\<close> balance, every event has a known action type, no event has a negative
  cost and every mutation and execution has a positive one. So a database that the kernel
  accepts once and that only grows by such events is accepted at every restart.
\<close>

theorem startup_check_exact:
  "is_ok (run_startup_integrity_checks s) \<longleftrightarrow>
     list_all (\<lambda>r. 0 \<le> lr_reserved r \<and> lr_reserved r \<le> lr_balance r) (energy_ledger s)
     \<and> list_all (\<lambda>r. ev_action_type r \<in> set known_action_types
          \<and> 0 \<le> ev_reserved_energy r \<and> 0 \<le> ev_settled_energy r
          \<and> (ev_action_type r \<in> {''mutate'', ''execute''} \<longrightarrow>
               0 < ev_reserved_energy r \<and> 0 < ev_settled_energy r)) (events s)"
  unfolding startup_checks_iff by (auto simp: list_all_iff row_ok_def energy_violation_def)

theorem startup_check_exact_witness: "is_ok (run_startup_integrity_checks noted_db)"
proof -
  have "list_all (\<lambda>r. 0 \<le> lr_reserved r \<and> lr_reserved r \<le> lr_balance r) (energy_ledger noted_db)"
    "list_all (\<lambda>r. ev_action_type r \<in> set known_action_types
          \<and> 0 \<le> ev_reserved_energy r \<and> 0 \<le> ev_settled_energy r
          \<and> (ev_action_type r \<in> {''mutate'', ''execute''} \<longrightarrow>
               0 < ev_reserved_energy r \<and> 0 < ev_settled_energy r)) (events noted_db)"
    by code_simp+
  then show ?thesis using startup_check_exact [of noted_db] by blast
qed

text \<open>
  C23: A submission that settles a negative cost leaves a database that the kernel refuses at
  its next start. The cost of a payload with the sentinel \<open>_hold_reserved_cost\<close> is taken from
  the payload of the caller, so such submissions exist.
\<close>

theorem negative_cost_blocks_restart:
  assumes "submit_action k d a s = (Inr r, t)" "sr_settled_cost r < 0"
  shows "\<not> is_ok (run_startup_integrity_checks t)"
proof -
  obtain rs row where "events t = events s @ rs @ [row]" "receipt_row r row"
    using submit_action_receipt [OF assms(1)] by (auto simp: committed_last_def)
  with assms(2) have "row \<in> set (events t)" "energy_violation row"
    by (simp_all add: receipt_row_def energy_violation_def)
  then show ?thesis unfolding startup_checks_iff by blast
qed

definition bad_note :: action where
  "bad_note = root_note\<lparr>act_payload := json_obj [(''_hold_reserved_cost'', json_i64 (-5))]\<rparr>"

theorem negative_cost_blocks_restart_witness:
  "\<exists>r t. submit_action demo_env 0 bad_note fresh_db = (Inr r, t) \<and> sr_settled_cost r = -5
     \<and> \<not> is_ok (run_startup_integrity_checks t)"
proof -
  have "case fst (submit_action demo_env 0 bad_note fresh_db) of Inl _ \<Rightarrow> False
      | Inr r \<Rightarrow> sr_settled_cost r = -5"
    by code_simp
  then obtain r t where t: "submit_action demo_env 0 bad_note fresh_db = (Inr r, t)" "sr_settled_cost r = -5"
    by (cases "submit_action demo_env 0 bad_note fresh_db") (auto split: sum.splits)
  from negative_cost_blocks_restart [OF t(1)] t show ?thesis by auto
qed

section \<open>Energy production\<close>



end
