(* ===== verification/Cli.thy ===== *)
theory Cli
  imports Json
begin

text \<open>
  \<open>bins/punkgo-cli/src/main.rs\<close>: the command line client. A request builder takes the
  arguments after the command and returns the request or the message of its error. The JSON
  library, the transport and the random request identifier are parameters; \<open>print_usage\<close>
  is an outcome; its text is in the theory \<open>Usage\<close>.
\<close>

record cli_ext =
  cx_from_str :: "string \<Rightarrow> json option"
  cx_to_string :: "json \<Rightarrow> string option"
  cx_to_string_pretty :: "json \<Rightarrow> string option"
  cx_send_request :: "string \<Rightarrow> string \<Rightarrow> string + string"
  cx_request_id :: string

text \<open>\<open>str::parse::<i64>()\<close>: an optional sign, at least one digit, no overflow.\<close>

definition parse_i64 :: "string \<Rightarrow> i64 option" where
  "parse_i64 s =
     (let neg = (case s of c # _ \<Rightarrow> c = CHR ''-'' | [] \<Rightarrow> False);
          ds = (case s of c # cs \<Rightarrow> if c = CHR ''+'' \<or> c = CHR ''-'' then cs else s | [] \<Rightarrow> [])
      in if ds = [] then None
         else (case parse_digits 0 ds of
                 None \<Rightarrow> None
               | Some n \<Rightarrow> (let i = (if neg then - int n else int n)
                           in if in_i64 i then Some i else None)))"

definition request_json :: "string \<Rightarrow> string \<Rightarrow> json \<Rightarrow> json" where
  "request_json uid ty payload =
     json_obj [(''request_id'', JString uid), (''type'', JString ty), (''payload'', payload)]"

text \<open>The usage messages; \<open>quoted\<close> puts a text in single quotes.\<close>

definition quoted :: "string \<Rightarrow> string" where
  "quoted t = [CHR 0x27] @ t @ [CHR 0x27]"

definition newline :: string where
  "newline = [CHR 10]"

definition usage_error :: "string \<Rightarrow> string" where
  "usage_error rest = ''usage: punkgo-cli '' @ rest"

definition default_endpoint :: string where
  "default_endpoint = ''punkgo-kernel''"

text \<open>The endpoint and the arguments that remain.\<close>

definition parse_endpoint :: "string list \<Rightarrow> string \<times> string list" where
  "parse_endpoint args =
     (case args of
        o1 # v # rest \<Rightarrow>
          if o1 = ''--endpoint'' \<or> o1 = ''-e'' then (v, rest) else (default_endpoint, args)
      | _ \<Rightarrow> (default_endpoint, args))"

section \<open>read\<close>

record read_opts =
  ro_actor_id :: "string option"
  ro_limit :: "i64 option"
  ro_log_index :: "i64 option"
  ro_tree_size :: "i64 option"
  ro_old_size :: "i64 option"

definition no_opts :: read_opts where
  "no_opts = \<lparr>ro_actor_id = None, ro_limit = None, ro_log_index = None, ro_tree_size = None,
     ro_old_size = None\<rparr>"

definition read_flags :: "string list" where
  "read_flags = [''--actor-id'', ''--limit'', ''--log-index'', ''--tree-size'', ''--old-size'']"

definition parse_flag :: "string \<Rightarrow> string \<Rightarrow> string + i64" where
  "parse_flag flag v =
     (case parse_i64 v of
        Some n \<Rightarrow> Inr n
      | None \<Rightarrow> Inl (''invalid '' @ flag @ '' value: '' @ v))"

text \<open>One option with its value.\<close>

definition set_read_opt :: "string \<Rightarrow> string \<Rightarrow> read_opts \<Rightarrow> string + read_opts" where
  "set_read_opt flag v o1 =
     (if flag = ''--actor-id'' then Inr (o1\<lparr>ro_actor_id := Some v\<rparr>)
      else and_then (parse_flag flag v) (\<lambda>n.
        if flag = ''--limit'' then Inr (o1\<lparr>ro_limit := Some n\<rparr>)
        else if flag = ''--log-index'' then Inr (o1\<lparr>ro_log_index := Some n\<rparr>)
        else if flag = ''--tree-size'' then Inr (o1\<lparr>ro_tree_size := Some n\<rparr>)
        else Inr (o1\<lparr>ro_old_size := Some n\<rparr>)))"

fun parse_read_opts :: "string list \<Rightarrow> read_opts \<Rightarrow> string + read_opts" where
  "parse_read_opts [] o1 = Inr o1"
| "parse_read_opts [flag] o1 =
     Inl (if flag \<in> set read_flags then flag @ '' requires a value''
          else ''unknown read option: '' @ flag)"
| "parse_read_opts (flag # v # rest) o1 =
     (if flag \<in> set read_flags
      then and_then (set_read_opt flag v o1) (parse_read_opts rest)
      else Inl (''unknown read option: '' @ flag))"

definition opt_entry :: "string \<Rightarrow> ('a \<Rightarrow> json) \<Rightarrow> 'a option \<Rightarrow> (string \<times> json) list" where
  "opt_entry k f v = (case v of Some a \<Rightarrow> [(k, f a)] | None \<Rightarrow> [])"

definition read_payload :: "string \<Rightarrow> read_opts \<Rightarrow> json" where
  "read_payload kind o1 =
     json_obj ([(''kind'', JString kind)]
       @ opt_entry ''actor_id'' JString (ro_actor_id o1)
       @ opt_entry ''limit'' json_i64 (ro_limit o1)
       @ opt_entry ''log_index'' json_i64 (ro_log_index o1)
       @ opt_entry ''tree_size'' json_i64 (ro_tree_size o1)
       @ opt_entry ''old_size'' json_i64 (ro_old_size o1))"

definition build_read_request :: "string \<Rightarrow> string list \<Rightarrow> string + json" where
  "build_read_request uid args =
     (case args of
        [] \<Rightarrow> Inl (usage_error (''read <kind> [--actor-id <id>] [--limit <n>] ''
               @ ''[--log-index <n>] [--tree-size <n>] [--old-size <n>]''))
      | kind # rest \<Rightarrow>
          and_then (parse_read_opts rest no_opts) (\<lambda>o1.
            Inr (request_json uid ''read'' (read_payload kind o1))))"

section \<open>audit\<close>

fun parse_proof_opts :: "string list \<Rightarrow> i64 option \<Rightarrow> string + i64 option" where
  "parse_proof_opts [] ts = Inr ts"
| "parse_proof_opts [flag] ts =
     Inl (if flag = ''--tree-size'' then ''--tree-size requires a value''
          else ''unknown option: '' @ flag)"
| "parse_proof_opts (flag # v # rest) ts =
     (if flag = ''--tree-size''
      then (case parse_i64 v of
              None \<Rightarrow> Inl (''invalid --tree-size: '' @ v)
            | Some n \<Rightarrow> parse_proof_opts rest (Some n))
      else Inl (''unknown option: '' @ flag))"

definition parse_size :: "string \<Rightarrow> string \<Rightarrow> string + i64" where
  "parse_size what v =
     (case parse_i64 v of Some n \<Rightarrow> Inr n | None \<Rightarrow> Inl (''invalid '' @ what @ '': '' @ v))"

definition build_audit_request :: "string \<Rightarrow> string list \<Rightarrow> string + json" where
  "build_audit_request uid args =
     (case args of
        [] \<Rightarrow> Inl (usage_error (''audit <subcommand>'' @ newline @ ''subcommands:'' @ newline
               @ ''  checkpoint'' @ newline @ ''  proof <log-index> [--tree-size <n>]'' @ newline
               @ ''  consistency <old-size> <new-size>''))
      | sub # rest \<Rightarrow>
          if sub = ''checkpoint''
          then Inr (request_json uid ''read'' (json_obj [(''kind'', JString ''audit_checkpoint'')]))
          else if sub = ''proof''
          then (case rest of
                  [] \<Rightarrow> Inl (usage_error ''audit proof <log-index> [--tree-size <n>]'')
                | i # opts \<Rightarrow>
                    and_then (parse_size ''log-index'' i) (\<lambda>log_index.
                    and_then (parse_proof_opts opts None) (\<lambda>tree_size.
                      Inr (request_json uid ''read'' (json_obj
                        ([(''kind'', JString ''audit_inclusion_proof''),
                          (''log_index'', json_i64 log_index)]
                         @ opt_entry ''tree_size'' json_i64 tree_size))))))
          else if sub = ''consistency''
          then (case rest of
                  m # n # _ \<Rightarrow>
                    and_then (parse_size ''old-size'' m) (\<lambda>old_size.
                    and_then (parse_size ''new-size'' n) (\<lambda>new_size.
                      Inr (request_json uid ''read'' (json_obj
                        [(''kind'', JString ''audit_consistency_proof''),
                         (''old_size'', json_i64 old_size), (''tree_size'', json_i64 new_size)]))))
                | _ \<Rightarrow> Inl (usage_error ''audit consistency <old-size> <new-size>''))
          else Inl (''unknown audit subcommand: '' @ sub))"

section \<open>quote, submit, send\<close>

definition build_action_request :: "cli_ext \<Rightarrow> string \<Rightarrow> string list \<Rightarrow> string + json" where
  "build_action_request cx request_type args =
     (case args of
        [text] \<Rightarrow>
          (case cx_from_str cx text of
             None \<Rightarrow> Inl (''invalid action JSON: '' @ text)
           | Some payload \<Rightarrow> Inr (request_json (cx_request_id cx) request_type payload))
      | _ \<Rightarrow> Inl (usage_error (request_type @ '' '' @ quoted ''<action-json>'')))"

definition build_send_request :: "cli_ext \<Rightarrow> string list \<Rightarrow> string + json" where
  "build_send_request cx args =
     (case args of
        [request_type, text] \<Rightarrow>
          if request_type \<notin> {''quote'', ''submit'', ''read''}
          then Inl (''invalid request type: '' @ request_type)
          else (case cx_from_str cx text of
                  None \<Rightarrow> Inl (''invalid payload JSON: '' @ text)
                | Some payload \<Rightarrow> Inr (request_json (cx_request_id cx) request_type payload))
      | _ \<Rightarrow> Inl (usage_error (''send <quote|submit|read> '' @ quoted ''<payload-json>'')))"

section \<open>seed-actor\<close>

text \<open>Energy balance and operator, from their defaults.\<close>

fun parse_seed_opts :: "string list \<Rightarrow> i64 \<Rightarrow> string \<Rightarrow> string + i64 \<times> string" where
  "parse_seed_opts [] energy operator = Inr (energy, operator)"
| "parse_seed_opts [flag] energy operator =
     Inl (if flag = ''--energy'' \<or> flag = ''--as'' then flag @ '' requires a value''
          else ''unknown seed-actor option: '' @ flag)"
| "parse_seed_opts (flag # v # rest) energy operator =
     (if flag = ''--energy''
      then and_then (parse_flag ''--energy'' v) (\<lambda>n.
             if n < 0 then Inl ''--energy must be >= 0'' else parse_seed_opts rest n operator)
      else if flag = ''--as'' then parse_seed_opts rest energy v
      else Inl (''unknown seed-actor option: '' @ flag))"

definition seed_action :: "string \<Rightarrow> string \<Rightarrow> i64 \<Rightarrow> json" where
  "seed_action operator new_actor_id energy =
     json_obj
       [(''actor_id'', JString operator), (''action_type'', JString ''create''),
        (''target'', JString ''ledger/actor''),
        (''payload'', json_obj [(''actor_id'', JString new_actor_id),
                               (''energy_balance'', json_i64 energy)])]"

definition build_seed_actor_request :: "string \<Rightarrow> string list \<Rightarrow> string + json" where
  "build_seed_actor_request uid args =
     (case args of
        [] \<Rightarrow> Inl (usage_error ''seed-actor <new-actor-id> [--energy <n>] [--as <operator-actor>]'')
      | new_actor_id # rest \<Rightarrow>
          if is_blank new_actor_id then Inl ''new actor id cannot be empty''
          else and_then (parse_seed_opts rest 1000 ''root'') (\<lambda>(energy, operator).
                 Inr (request_json uid ''submit'' (seed_action operator new_actor_id energy))))"

section \<open>raw\<close>

definition has_key :: "string \<Rightarrow> (string \<times> json) list \<Rightarrow> bool" where
  "has_key k obj \<longleftrightarrow> map_of obj k \<noteq> None"

definition build_raw_request :: "cli_ext \<Rightarrow> string list \<Rightarrow> string + json" where
  "build_raw_request cx args =
     (case args of
        [text] \<Rightarrow>
          (case cx_from_str cx text of
             None \<Rightarrow> Inl (''invalid request JSON: '' @ text)
           | Some request \<Rightarrow>
               (case as_object request of
                  None \<Rightarrow> Inl ''request JSON must be an object''
                | Some obj \<Rightarrow>
                    (let obj1 = (if has_key ''request_id'' obj then obj
                                 else obj_insert ''request_id'' (JString (cx_request_id cx)) obj)
                     in if \<not> has_key ''type'' obj1
                        then Inl ''raw request missing required field: type''
                        else if has_key ''payload'' obj1 then Inr (JObject obj1)
                        else Inr (JObject (obj_insert ''payload'' (JObject []) obj1)))))
      | _ \<Rightarrow> Inl (usage_error (''raw '' @ quoted ''<request-json>'')))"

section \<open>main\<close>

definition build_request :: "cli_ext \<Rightarrow> string \<Rightarrow> string list \<Rightarrow> string + json" where
  "build_request cx command args =
     (if command = ''read'' then build_read_request (cx_request_id cx) args
      else if command = ''quote'' then build_action_request cx ''quote'' args
      else if command = ''submit'' then build_action_request cx ''submit'' args
      else if command = ''seed-actor'' then build_seed_actor_request (cx_request_id cx) args
      else if command = ''audit'' then build_audit_request (cx_request_id cx) args
      else if command = ''send'' then build_send_request cx args
      else if command = ''raw'' then build_raw_request cx args
      else Inl (''unknown command: '' @ command))"

datatype cli_outcome = PrintUsage | Failed string | Printed string

definition cli_main :: "cli_ext \<Rightarrow> string list \<Rightarrow> cli_outcome" where
  "cli_main cx args =
     (case snd (parse_endpoint args) of
        [] \<Rightarrow> PrintUsage
      | command # rest \<Rightarrow>
          if command \<in> {''help'', ''-h'', ''--help''} then PrintUsage
          else (case build_request cx command rest of
                  Inl e \<Rightarrow> Failed e
                | Inr request \<Rightarrow>
                    (case cx_to_string cx request of
                       None \<Rightarrow> Failed ''serialization error''
                     | Some line \<Rightarrow>
                         (case cx_send_request cx (fst (parse_endpoint args)) line of
                            Inl e \<Rightarrow> Failed e
                          | Inr response \<Rightarrow>
                              (case cx_from_str cx response of
                                 None \<Rightarrow> Failed (''invalid JSON response: '' @ response)
                               | Some v \<Rightarrow>
                                   (case cx_to_string_pretty cx v of
                                      None \<Rightarrow> Failed ''serialization error''
                                    | Some text \<Rightarrow> Printed text))))))"

section \<open>Facts\<close>

lemma parse_i64_in_i64: "parse_i64 s = Some n \<Longrightarrow> in_i64 n"
  by (auto simp: parse_i64_def Let_def split: option.splits if_splits)

text \<open>Numbers printed in decimal are read back.\<close>

lemma parse_i64_fmt:
  assumes "in_i64 i"
  shows "parse_i64 (fmt_int i) = Some i"
proof -
  have first: "\<exists>c cs. dec_of_nat n = c # cs \<and> c \<noteq> CHR ''+'' \<and> c \<noteq> CHR ''-''" for n
    using dec_of_nat_hd [of n] by (auto simp: is_digit_def)
  show ?thesis
  proof (cases "i < 0")
    case True
    obtain c cs where "dec_of_nat (nat (- i)) = c # cs" using first by blast
    then show ?thesis
      using True assms parse_digits_dec [of "nat (- i)"] by (simp add: parse_i64_def fmt_int_def)
  next
    case False
    obtain c cs where "dec_of_nat (nat i) = c # cs" "c \<noteq> CHR ''+''" "c \<noteq> CHR ''-''" using first by blast
    then show ?thesis
      using False assms parse_digits_dec [of "nat i"] by (simp add: parse_i64_def fmt_int_def)
  qed
qed

lemma seed_opts_energy:
  "parse_seed_opts opts e op0 = Inr (energy, operator) \<Longrightarrow> 0 \<le> e \<Longrightarrow> in_i64 e \<Longrightarrow>
     0 \<le> energy \<and> in_i64 energy"
proof (induction opts e op0 rule: parse_seed_opts.induct)
  case (3 flag v rest e op0)
  then show ?case
    by (auto simp: parse_flag_def parse_i64_in_i64 split: if_splits option.splits)
qed auto

text \<open>Every builder but \<open>raw\<close> makes a request of one of the three types.\<close>

definition cli_shape :: "string \<Rightarrow> string + json \<Rightarrow> bool" where
  "cli_shape uid r \<longleftrightarrow>
     (\<forall>req. r = Inr req \<longrightarrow>
        (\<exists>ty p. req = request_json uid ty p \<and> ty \<in> {''quote'', ''submit'', ''read''}))"

lemma shape_rules:
  "cli_shape uid (Inl e)"
  "ty = ''quote'' \<or> ty = ''submit'' \<or> ty = ''read'' \<Longrightarrow> cli_shape uid (Inr (request_json uid ty p))"
  "(\<And>a. cli_shape uid (f a)) \<Longrightarrow> cli_shape uid (and_then r f)"
  "(b \<Longrightarrow> cli_shape uid r1) \<Longrightarrow> (\<not> b \<Longrightarrow> cli_shape uid r2) \<Longrightarrow> cli_shape uid (if b then r1 else r2)"
  by (auto simp: cli_shape_def)

lemma shape_cases:
  "cli_shape uid f \<Longrightarrow> (\<And>y ys. cli_shape uid (g y ys)) \<Longrightarrow>
     cli_shape uid (case l of [] \<Rightarrow> f | y # ys \<Rightarrow> g y ys)"
  "cli_shape uid f \<Longrightarrow> (\<And>v. cli_shape uid (h v)) \<Longrightarrow>
     cli_shape uid (case q of None \<Rightarrow> f | Some v \<Rightarrow> h v)"
  "(\<And>a b. cli_shape uid (g' a b)) \<Longrightarrow> cli_shape uid (case p of (a, b) \<Rightarrow> g' a b)"
  by (auto split: list.split option.split prod.split)

lemma read_shape: "cli_shape uid (build_read_request uid args)"
  unfolding build_read_request_def by (intro shape_rules shape_cases) simp

lemma audit_shape: "cli_shape uid (build_audit_request uid args)"
  unfolding build_audit_request_def by (intro shape_rules shape_cases) simp_all

lemma seed_shape: "cli_shape uid (build_seed_actor_request uid args)"
  unfolding build_seed_actor_request_def by (intro shape_rules shape_cases) simp

lemma action_shape:
  "ty = ''quote'' \<or> ty = ''submit'' \<Longrightarrow> cli_shape (cx_request_id cx) (build_action_request cx ty args)"
  unfolding build_action_request_def by (intro shape_rules shape_cases) auto

lemma send_shape: "cli_shape (cx_request_id cx) (build_send_request cx args)"
  unfolding build_send_request_def by (intro shape_rules shape_cases) simp_all

lemma build_request_shape:
  "command \<noteq> ''raw'' \<Longrightarrow> cli_shape (cx_request_id cx) (build_request cx command args)"
  unfolding build_request_def
  by (intro shape_rules(1,4) read_shape audit_shape seed_shape action_shape send_shape) simp_all

end
