(* ===== verification/Daemon.thy ===== *)
theory Daemon
  imports Ipc Cli
begin

text \<open>
  \<open>daemon/main.rs\<close> with the configuration defaults of \<open>runtime/kernel.rs\<close> and the loop of
  \<open>runtime/energy_producer.rs\<close>: where the daemon lives, the files it leaves, how it replaces an
  older instance, and the background producer. The file lock, the liveness of processes and
  the environment variables are arguments; messages to other processes are effects.
\<close>

section \<open>Configuration\<close>

type_synonym env_vars = "string \<Rightarrow> string option"

text \<open>\<open>PathBuf::push\<close> on Unix: an absolute path replaces.\<close>

definition path_push :: "string \<Rightarrow> string \<Rightarrow> string" where
  "path_push p q = (if prefix ''/'' q then q else path_join p q)"

definition home_dir :: "env_vars \<Rightarrow> string option" where
  "home_dir getenv =
     (case getenv ''HOME'' of
        Some home \<Rightarrow> Some home
      | None \<Rightarrow>
          (case getenv ''USERPROFILE'' of
             Some profile \<Rightarrow> Some profile
           | None \<Rightarrow>
               Option.bind (getenv ''HOMEDRIVE'') (\<lambda>drive.
               Option.bind (getenv ''HOMEPATH'') (\<lambda>path. Some (path_push drive path)))))"

definition default_state_dir :: "env_vars \<Rightarrow> string" where
  "default_state_dir getenv =
     (case home_dir getenv of
        Some home \<Rightarrow> path_join (path_join home ''.punkgo'') ''state''
      | None \<Rightarrow> ''state'')"

definition config_state_dir :: "env_vars \<Rightarrow> string" where
  "config_state_dir getenv =
     (case getenv ''PUNKGO_STATE_DIR'' of Some d \<Rightarrow> d | None \<Rightarrow> default_state_dir getenv)"

definition socket_name :: "nat \<Rightarrow> string" where
  "socket_name pid = ''daemon-'' @ dec_of_nat pid @ ''.sock''"

definition default_ipc_endpoint :: "bool \<Rightarrow> env_vars \<Rightarrow> nat \<Rightarrow> string" where
  "default_ipc_endpoint windows getenv pid =
     (if windows
      then [CHR 0x5C, CHR 0x5C, CHR ''.'', CHR 0x5C] @ ''pipe'' @ [CHR 0x5C] @ ''punkgo-kernel-''
           @ dec_of_nat pid
      else path_join (config_state_dir getenv) (socket_name pid))"

record kernel_config =
  kc_state_dir :: string
  kc_ipc_endpoint :: string

definition kernel_config_default :: "bool \<Rightarrow> env_vars \<Rightarrow> nat \<Rightarrow> kernel_config" where
  "kernel_config_default windows getenv pid =
     \<lparr>kc_state_dir = config_state_dir getenv,
      kc_ipc_endpoint =
        (case getenv ''PUNKGO_IPC_ENDPOINT'' of
           Some e \<Rightarrow> e
         | None \<Rightarrow> default_ipc_endpoint windows getenv pid)\<rparr>"

section \<open>The address file\<close>

text \<open>\<open>str::lines\<close>: no empty line after a final newline, and \<open>\r\<close> before \<open>\n\<close> is dropped.\<close>

definition drop_cr :: "string \<Rightarrow> string" where
  "drop_cr l = (if l \<noteq> [] \<and> last l = CHR 13 then butlast l else l)"

fun split_lines :: "string \<Rightarrow> string \<Rightarrow> string list" where
  "split_lines acc [] = (if acc = [] then [] else [rev acc])"
| "split_lines acc (c # cs) =
     (if c = CHR 10 then drop_cr (rev acc) # split_lines [] cs else split_lines (c # acc) cs)"

abbreviation str_lines :: "string \<Rightarrow> string list" where
  "str_lines s \<equiv> split_lines [] s"

text \<open>\<open>str::trim\<close>, from both ends.\<close>

function strip_any :: "string list \<Rightarrow> string \<Rightarrow> string" where
  "strip_any ws s =
     (case find (\<lambda>w. w \<noteq> [] \<and> prefix w s) ws of
        None \<Rightarrow> s
      | Some w \<Rightarrow> strip_any ws (drop (length w) s))"
  by pat_completeness auto
termination
  by (relation "measure (\<lambda>(ws, s). length s)") (auto simp: find_Some_iff prefix_def)

declare strip_any.simps [simp del]

definition trim :: "string \<Rightarrow> string" where
  "trim s = rev (strip_any (map rev white_space) (rev (strip_any white_space s)))"

definition parse_u32 :: "string \<Rightarrow> nat option" where
  "parse_u32 s =
     Option.bind (parse_u64 s) (\<lambda>n. if uint n < 4294967296 then Some (unat n) else None)"

fun find_field :: "string \<Rightarrow> string list \<Rightarrow> string option" where
  "find_field key [] = None"
| "find_field key (line # lines) =
     (case strip_prefix key line of Some val \<Rightarrow> Some val | None \<Rightarrow> find_field key lines)"

definition parse_pid :: "string \<Rightarrow> nat option" where
  "parse_pid content =
     (case find_field ''pid='' (str_lines content) of
        Some val \<Rightarrow> parse_u32 (trim val)
      | None \<Rightarrow> None)"

definition parse_addr :: "string \<Rightarrow> string option" where
  "parse_addr content = map_option trim (find_field ''addr='' (str_lines content))"

definition addr_text :: "nat \<Rightarrow> string \<Rightarrow> string" where
  "addr_text pid endpoint = ''pid='' @ dec_of_nat pid @ [CHR 10] @ ''addr='' @ endpoint"

section \<open>Files\<close>

type_synonym disk = "string \<Rightarrow> string option"

definition addr_path :: "string \<Rightarrow> string" where
  "addr_path state_dir = path_join state_dir ''daemon.addr''"

definition is_daemon_socket :: "string \<Rightarrow> bool" where
  "is_daemon_socket name \<longleftrightarrow> prefix ''daemon-'' name \<and> suffix ''.sock'' name"

text \<open>The entries of a directory are the paths below it without a further separator.\<close>

definition entry_name :: "string \<Rightarrow> string \<Rightarrow> string option" where
  "entry_name dir path =
     Option.bind (strip_prefix (path_join dir []) path)
       (\<lambda>name. if CHR ''/'' \<in> set name then None else Some name)"

definition cleanup_old_sockets :: "string \<Rightarrow> disk \<Rightarrow> disk" where
  "cleanup_old_sockets state_dir fs =
     (\<lambda>path. case entry_name state_dir path of
        Some name \<Rightarrow> if is_daemon_socket name then None else fs path
      | None \<Rightarrow> fs path)"

section \<open>Replacing an older daemon\<close>

datatype daemon_effect = SendShutdown string | KillProcess nat

text \<open>Up to \<open>n\<close> polls of the old process; \<open>alive i\<close> is the answer to the \<open>i\<close>-th.\<close>

fun wait_exit :: "(nat \<Rightarrow> bool) \<Rightarrow> nat \<Rightarrow> nat \<Rightarrow> bool" where
  "wait_exit alive i 0 = False"
| "wait_exit alive i (Suc n) = (if \<not> alive i then True else wait_exit alive (Suc i) n)"

definition replace_old_daemon :: "(nat \<Rightarrow> bool) \<Rightarrow> string \<Rightarrow> daemon_effect list" where
  "replace_old_daemon alive content =
     (let old_pid = unwrap_or 0 (parse_pid content)
      in (case parse_addr content of Some addr \<Rightarrow> [SendShutdown addr] | None \<Rightarrow> [])
         @ (if old_pid > 0 \<and> \<not> wait_exit alive 0 30 then [KillProcess old_pid] else []))"

definition shutdown_request :: json where
  "shutdown_request =
     request_json ''shutdown-replace'' ''read'' (json_obj [(''kind'', JString ''shutdown'')])"

section \<open>Start and exit\<close>

datatype start_outcome = AlreadyRunning nat | Started "daemon_effect list"

text \<open>
  The start of the daemon up to the bootstrap of the kernel. \<open>locked\<close> tells that another
  process holds the lock, \<open>replace\<close> that \<open>--replace\<close> was given; \<open>fs\<close> are the files at the
  start and \<open>fs'\<close> those found once the lock is held.
\<close>

definition daemon_start ::
  "bool \<Rightarrow> bool \<Rightarrow> (nat \<Rightarrow> bool) \<Rightarrow> nat \<Rightarrow> kernel_config \<Rightarrow> disk \<Rightarrow> disk \<Rightarrow> start_outcome \<times> disk" where
  "daemon_start locked replace alive pid config fs fs' =
     (let addr = addr_path (kc_state_dir config);
          content = unwrap_or [] (fs addr)
      in if locked \<and> \<not> replace then (AlreadyRunning (unwrap_or 0 (parse_pid content)), fs)
         else (Started (if locked then replace_old_daemon alive content else []),
               (cleanup_old_sockets (kc_state_dir config) fs')
                 (addr \<mapsto> addr_text pid (kc_ipc_endpoint config))))"

definition daemon_exit :: "kernel_config \<Rightarrow> disk \<Rightarrow> disk" where
  "daemon_exit config fs =
     (fs(kc_ipc_endpoint config := None))(addr_path (kc_state_dir config) \<mapsto> [])"

section \<open>The energy producer\<close>

datatype producer_signal = Elapsed | ShutdownChanged

text \<open>
  The loop of the producer over what wakes it: after every interval one tick, whose error is
  only logged, until the shutdown channel changes. The second component tells that it returned.
\<close>

fun producer_run ::
  "(nat \<Rightarrow> nat \<Rightarrow> string) \<Rightarrow> stellar_config \<Rightarrow> nat \<Rightarrow> producer_signal list \<Rightarrow> db \<Rightarrow> db \<times> bool" where
  "producer_run ck config i [] s = (s, False)"
| "producer_run ck config i (Elapsed # sigs) s =
     producer_run ck config (Suc i) sigs (snd (produce_tick (ck i) (effective_energy_per_tick config) s))"
| "producer_run ck config i (ShutdownChanged # sigs) s = (s, True)"

section \<open>Facts\<close>

lemma split_lines_append:
  "CHR 10 \<notin> set l \<Longrightarrow> split_lines acc (l @ CHR 10 # rest) = drop_cr (rev acc @ l) # split_lines [] rest"
  by (induction l arbitrary: acc) auto

lemma split_lines_last:
  "CHR 10 \<notin> set l \<Longrightarrow> split_lines acc l = (if acc = [] \<and> l = [] then [] else [rev acc @ l])"
  by (induction l arbitrary: acc) auto

lemma dec_digits: "c \<in> set (dec_of_nat n) \<Longrightarrow> is_digit c"
proof (induction n rule: dec_of_nat.induct)
  case (1 n)
  have "is_digit (digit_char d)" if "d < 10" for d
    using that by (auto simp: is_digit_def digit_char_def)
  with 1 show ?case
    by (cases "n < 10") (auto simp: dec_of_nat.simps [of n])
qed

lemma dec_not_special:
  "CHR 10 \<notin> set (dec_of_nat n)" "CHR 13 \<notin> set (dec_of_nat n)" "CHR ''/'' \<notin> set (dec_of_nat n)"
  using dec_digits [of _ n] by (fastforce simp: is_digit_def)+

lemma strip_any_id:
  assumes "s = [] \<or> hd s \<notin> hd ` set ws"
  shows "strip_any ws s = s"
proof -
  have "find (\<lambda>w. w \<noteq> [] \<and> prefix w s) ws = None"
    using assms unfolding find_None_iff by (auto simp: prefix_def)
  then show ?thesis by (simp add: strip_any.simps)
qed

lemma digit_not_space:
  assumes "is_digit c"
  shows "c \<notin> hd ` set white_space" "c \<notin> hd ` set (map rev white_space)"
proof -
  have "list_all (\<lambda>w. \<not> is_digit (hd w) \<and> \<not> is_digit (hd (rev w))) white_space"
    by code_simp
  with assms show "c \<notin> hd ` set white_space" "c \<notin> hd ` set (map rev white_space)"
    by (auto simp: list_all_iff)
qed

lemma trim_dec [simp]: "trim (dec_of_nat n) = dec_of_nat n"
proof -
  obtain c cs where c: "dec_of_nat n = c # cs" using dec_of_nat_hd [of n] by blast
  have ne: "dec_of_nat n \<noteq> []" by (simp add: c)
  then have "is_digit (hd (dec_of_nat n))" "is_digit (hd (rev (dec_of_nat n)))"
    using dec_digits list.set_sel(1) last_in_set by (auto simp: hd_rev)
  then have "strip_any white_space (dec_of_nat n) = dec_of_nat n"
    "strip_any (map rev white_space) (rev (dec_of_nat n)) = rev (dec_of_nat n)"
    using strip_any_id digit_not_space by blast+
  then show ?thesis by (simp only: trim_def rev_rev_ident)
qed

lemma parse_u32_dec: "n < 2 ^ 32 \<Longrightarrow> parse_u32 (dec_of_nat n) = Some n"
proof -
  assume n: "n < 2 ^ 32"
  then have lt: "n < 2 ^ 64" by simp
  then have u: "parse_u64 (dec_of_nat n) = Some (of_nat n)" "unat (of_nat n :: u64) = n"
    by (simp_all add: parse_u64_dec unat_of_nat)
  then have "uint (of_nat n :: u64) = int n" by (metis uint_nat)
  with n u show ?thesis by (simp only: parse_u32_def bind.simps) simp
qed

text \<open>The address file tells its daemon's process and endpoint.\<close>

lemma addr_file_lines:
  assumes "CHR 10 \<notin> set endpoint"
  shows "str_lines (addr_text pid endpoint) = [''pid='' @ dec_of_nat pid, ''addr='' @ endpoint]"
proof -
  have "addr_text pid endpoint = (''pid='' @ dec_of_nat pid) @ CHR 10 # (''addr='' @ endpoint)"
    by (simp add: addr_text_def)
  moreover have "drop_cr (''pid='' @ dec_of_nat pid) = ''pid='' @ dec_of_nat pid"
    using dec_not_special(2) [of pid] dec_of_nat_hd [of pid]
    by (auto simp: drop_cr_def dest: last_in_set)
  moreover have "CHR 10 \<notin> set (''pid='' @ dec_of_nat pid)" "CHR 10 \<notin> set (''addr='' @ endpoint)"
    using dec_not_special(1) [of pid] assms by simp_all
  ultimately show ?thesis by (simp add: split_lines_append split_lines_last)
qed

lemma addr_file_fields:
  assumes "CHR 10 \<notin> set endpoint"
  shows "pid < 2 ^ 32 \<Longrightarrow> parse_pid (addr_text pid endpoint) = Some pid"
    and "parse_addr (addr_text pid endpoint) = Some (trim endpoint)"
  unfolding parse_pid_def parse_addr_def addr_file_lines [OF assms]
  by (simp_all add: parse_u32_dec strip_prefix_def)

lemma socket_is_stale: "is_daemon_socket (socket_name pid)"
  by (simp add: is_daemon_socket_def socket_name_def suffix_def)

lemma socket_entry:
  "path_join dir (socket_name pid) = path_join dir [] @ socket_name pid"
  "entry_name dir (path_join dir (socket_name pid)) = Some (socket_name pid)"
proof -
  show eq: "path_join dir (socket_name pid) = path_join dir [] @ socket_name pid"
    by (simp add: path_join_def)
  have "CHR ''/'' \<notin> set (socket_name pid)" using dec_not_special(3) [of pid] by (simp add: socket_name_def)
  then show "entry_name dir (path_join dir (socket_name pid)) = Some (socket_name pid)"
    unfolding eq by (simp add: entry_name_def)
qed

lemma wait_exit_iff: "wait_exit alive i n \<longleftrightarrow> (\<exists>j < n. \<not> alive (i + j))"
proof (induction n arbitrary: i)
  case (Suc n)
  have "(\<exists>j < Suc n. \<not> alive (i + j)) \<longleftrightarrow> \<not> alive i \<or> (\<exists>j < n. \<not> alive (Suc i + j))"
    by (simp add: Ex_less_Suc2)
  with Suc show ?case by simp
qed simp

lemma producer_reachable:
  "reachable x s \<Longrightarrow> reachable x (fst (producer_run ck config i sigs s))"
proof (induction ck config i sigs s rule: producer_run.induct)
  case (2 ck config i sigs s)
  obtain k :: kernel_env where k: "k_ext k = x" by (metis kernel_env.select_convs(1))
  have "reachable x (snd (produce_tick (ck i) (effective_energy_per_tick config) s))"
    using reachable_steps [of k] produce_tick_steps [of k] 2(2) k by blast
  with 2 show ?case by simp
qed simp_all

end
