(* ===== verification/Request_Guarantees.thy ===== *)
theory Request_Guarantees
  imports State_Guarantees Daemon
begin

text \<open>
  Guarantees from the outside: queries, connections, the command line client and the daemon.
\<close>

section \<open>Queries\<close>

text \<open>
  C32: Reading and quoting change nothing: a request that is not a submission leaves every
  table as it was, except that a query may store checkpoints of the audit tree.
\<close>

theorem queries_change_nothing:
  assumes "rq_request_type req \<noteq> Submit"
  shows "\<exists>cs. snd (handle_request kn req s) = s\<lparr>audit_checkpoints := cs\<rparr>"
  using quote_read_only [OF assms] by (simp add: only_checkpoints_def)

definition demo_query :: ReadQuery where
  "demo_query =
     \<lparr>q_kind = ''audit_checkpoint'', q_actor_id = None, q_hold_id = None, q_limit = None,
      q_log_index = None, q_tree_size = None, q_old_size = None, q_before_index = None,
      q_after_index = None, q_requester_id = None\<rparr>"

definition demo_kernel :: kernel where
  "demo_kernel =
     \<lparr>kn_env = demo_env, kn_de_query = (\<lambda>_. Some demo_query), kn_paths = paths_of ''/s'',
      kn_audit_log = \<lparr>al_origin = ''punkgo/kernel'', al_signing_key = None\<rparr>,
      kn_stellar_config = stellar_default, kn_signing_key = replicate 32 0\<rparr>"

definition demo_request :: request_envelope where
  "demo_request = \<lparr>rq_request_id = ''r1'', rq_request_type = Read, rq_payload = JNull\<rparr>"

theorem queries_change_nothing_witness:
  "\<exists>cs. snd (handle_request demo_kernel demo_request noted_db) = noted_db\<lparr>audit_checkpoints := cs\<rparr>"
  using queries_change_nothing [of demo_request] by (simp add: demo_request_def)

text \<open>
  C33: Paging is complete: on a log that satisfies the log invariant, a full page of events
  followed by the page that starts before its cursor (the index of its last event) is exactly
  the longer page, so following the cursor misses no event and repeats none.
\<close>

theorem paging_is_complete:
  assumes "log_ok x s" "0 < n" "0 \<le> m" "int (length (query_events x a b c n s)) = n"
  shows "query_events x a b c n s
      @ query_events x a (Some (ev_log_index (last (query_events x a b c n s)))) c m s
    = query_events x a b c (n + m) s"
  by (rule page_then_next [OF assms])

theorem paging_is_complete_witness:
  "query_events demo_ext None None None 1 noted_db
     @ query_events demo_ext None
         (Some (ev_log_index (last (query_events demo_ext None None None 1 noted_db)))) None 5 noted_db
   = query_events demo_ext None None None 6 noted_db"
proof -
  have "length (query_events demo_ext None None None 1 noted_db) = 1" by code_simp
  then have full: "int (length (query_events demo_ext None None None 1 noted_db)) = 1" by simp
  have pos: "0 < (1 :: int)" "0 \<le> (5 :: int)" by simp_all
  from paging_is_complete [OF reachable_log [OF noted_reachable] pos full] show ?thesis by simp
qed

section \<open>Connections\<close>

definition seeded :: "string \<Rightarrow> string \<Rightarrow> i64 \<Rightarrow> action" where
  "seeded operator aid energy =
     \<lparr>act_actor_id = operator, act_type = Create, act_target = ''ledger/actor'',
      act_payload = json_obj [(''actor_id'', JString aid), (''energy_balance'', json_i64 energy)],
      act_timestamp = None\<rparr>"

text \<open>
  Every line a client sends is answered. With a printer that does not fail, a connection
  without a shutdown command reads all its lines and writes exactly one response line for each
  line that is not blank, whether the line is malformed, refused or served.
\<close>

theorem every_line_answered:
  assumes "\<And>j v. json_text (k_ext (kn_env (kns j))) v \<noteq> None"
    and "list_all (\<lambda>l. \<forall>req. decode l = Inr req \<longrightarrow> \<not> is_shutdown req) lines"
  shows "cn_end (handle_connection kns decode i lines s) = Eof
    \<and> length (cn_written (handle_connection kns decode i lines s))
      = length (filter (\<lambda>l. \<not> is_blank l) lines)"
proof -
  have "cn_end (handle_connection kns decode i lines s) \<noteq> WriteError"
    by (rule no_write_error [OF assms(1)])
  moreover have "cn_end (handle_connection kns decode i lines s) \<noteq> Shutdown"
    using ends_by_shutdown [OF assms(1)] assms(2) by (auto simp: list_all_iff)
  ultimately have "cn_end (handle_connection kns decode i lines s) = Eof"
    by (cases "cn_end (handle_connection kns decode i lines s)") simp_all
  with all_answered [OF this] show ?thesis by simp
qed

definition demo_decode :: "string \<Rightarrow> string + request_envelope" where
  "demo_decode line = (if line = ''q'' then Inr demo_request else Inl ''expected value'')"

theorem every_line_answered_witness:
  "length (cn_written (handle_connection (\<lambda>_. demo_kernel) demo_decode 0 [''q'', [], ''x''] noted_db)) = 2"
proof -
  have "json_text (k_ext (kn_env demo_kernel)) v \<noteq> None" for v
    by (simp add: demo_kernel_def demo_ext_def)
  moreover have "list_all (\<lambda>l. \<forall>req. demo_decode l = Inr req \<longrightarrow> \<not> is_shutdown req) [''q'', [], ''x'']"
    by (simp add: demo_decode_def demo_request_def is_shutdown_def get_str_def)
  moreover have "length (filter (\<lambda>l. \<not> is_blank l) [''q'', [], ''x'']) = 2" by code_simp
  ultimately show ?thesis
    using every_line_answered [of "\<lambda>_. demo_kernel" demo_decode "[''q'', [], ''x'']" 0 noted_db] by simp
qed

section \<open>The command line client\<close>

fun request_type_str :: "request_type \<Rightarrow> string" where
  "request_type_str Quote = ''quote''"
| "request_type_str Submit = ''submit''"
| "request_type_str Read = ''read''"

lemma request_json_fields:
  "vget (request_json uid ty p) ''request_id'' = Some (JString uid)"
  "vget (request_json uid ty p) ''type'' = Some (JString ty)"
  "vget (request_json uid ty p) ''payload'' = Some p"
  by (simp_all add: request_json_def vget_json_obj)

lemma request_json_inj:
  "request_json u t p = request_json v t' q \<longleftrightarrow> u = v \<and> t = t' \<and> p = q"
  using request_json_fields [of u t p] request_json_fields [of v t' q] by auto

text \<open>
  What serde's derived decoder of the request envelope promises of the text of a request: the
  fields are read back.
\<close>

definition decodes :: "(string \<Rightarrow> string + request_envelope) \<Rightarrow> string \<Rightarrow> json \<Rightarrow> bool" where
  "decodes decode line req \<longleftrightarrow>
     (\<forall>uid ty p. req = request_json uid (request_type_str ty) p \<longrightarrow>
        decode line = Inr \<lparr>rq_request_id = uid, rq_request_type = ty, rq_payload = p\<rparr>)"

lemma as_object_json_obj: "\<exists>kvs. as_object (json_obj l) = Some kvs"
  by (simp add: as_object_def json_obj_def)

lemma served_line:
  assumes "decode line = Inr r" "\<not> is_blank line" "\<not> is_shutdown r"
  shows "cn_db (handle_connection kns decode i [line] s) = snd (handle_request (kns i) r s)"
  using assms by (auto simp: Let_def split: option.splits prod.splits)


definition demo_cli :: cli_ext where
  "demo_cli =
     \<lparr>cx_from_str = (\<lambda>_. None), cx_to_string = (\<lambda>_. Some ''q''), cx_to_string_pretty = (\<lambda>_. None),
      cx_send_request = (\<lambda>_ _. Inl ''offline''), cx_request_id = ''r1''\<rparr>"

definition health_request :: request_envelope where
  "health_request = \<lparr>rq_request_id = ''r1'', rq_request_type = Read,
     rq_payload = read_payload ''health'' no_opts\<rparr>"


text \<open>
  \<open>seed-actor\<close> creates what it says. The request it builds for a new identifier is a
  submission whose action, read by a kernel in which the operator is a human, specifies an agent
  with this identifier and the given non-negative energy, created by the operator, with the
  operator as its lineage. It has no writable target.
\<close>

theorem seed_actor_creates_agent:
  assumes "build_seed_actor_request uid (aid # opts) = Inr req"
  shows "\<exists>operator energy. req = request_json uid ''submit'' (seed_action operator aid energy)
    \<and> 0 \<le> energy \<and>
    (\<forall>x s c. actor_get x operator s = Inr (Some c) \<and> ar_actor_type c = Human \<longrightarrow>
       parse_create_actor_spec x (seeded operator aid energy) s = Inr (Some
         \<lparr>cs_actor_id = aid, cs_actor_type = Agent, cs_creator_id = operator, cs_lineage = [operator],
          cs_purpose = Some ''legacy'', cs_writable_targets = [], cs_energy_balance = energy,
          cs_energy_share = Fin 0, cs_reduction_policy = ''none''\<rparr>))"
proof -
  obtain energy operator where o1: "parse_seed_opts opts 1000 ''root'' = Inr (energy, operator)"
    and req: "req = request_json uid ''submit'' (seed_action operator aid energy)"
    using assms by (auto simp: build_seed_actor_request_def split: if_splits)
  have e: "0 \<le> energy" "in_i64 energy"
    using seed_opts_energy [OF o1] by (simp_all add: in_i64_def)
  have "parse_create_actor_spec x (seeded operator aid energy) s = Inr (Some
         \<lparr>cs_actor_id = aid, cs_actor_type = Agent, cs_creator_id = operator, cs_lineage = [operator],
          cs_purpose = Some ''legacy'', cs_writable_targets = [], cs_energy_balance = energy,
          cs_energy_share = Fin 0, cs_reduction_policy = ''none''\<rparr>)"
    if "actor_get x operator s = Inr (Some c)" "ar_actor_type c = Human" for x s c
    using that e(2) as_object_json_obj [of "[(''actor_id'', JString aid), (''energy_balance'', json_i64 energy)]"]
    by (auto simp: parse_create_actor_spec_def seeded_def get_str_def get_i64_def vget_json_obj
        new_actor_id_def creator_info_def new_actor_targets_def check_new_targets_def build_lineage_def
        actor_type_parse_def)
  with req e(1) show ?thesis by blast
qed

theorem seed_actor_creates_agent_witness:
  "\<exists>req operator energy. build_seed_actor_request ''r1'' [''alice'', ''--energy'', ''50''] = Inr req
     \<and> req = request_json ''r1'' ''submit'' (seed_action operator ''alice'' energy) \<and> 0 \<le> energy"
proof -
  have b: "build_seed_actor_request ''r1'' [''alice'', ''--energy'', ''50'']
      = Inr (request_json ''r1'' ''submit'' (seed_action ''root'' ''alice'' 50))"
    by code_simp
  from seed_actor_creates_agent [OF b] b show ?thesis by blast
qed

section \<open>The daemon\<close>

text \<open>The request that a replacing daemon sends is the shutdown command of the one it replaces.\<close>

definition stop_request :: request_envelope where
  "stop_request = \<lparr>rq_request_id = ''shutdown-replace'', rq_request_type = Read,
     rq_payload = json_obj [(''kind'', JString ''shutdown'')]\<rparr>"

lemma stop_is_shutdown: "is_shutdown stop_request"
  by (simp add: stop_request_def is_shutdown_def get_str_def vget_json_obj)

lemma decodes_stop: "decodes decode line shutdown_request \<longleftrightarrow> decode line = Inr stop_request"
proof -
  have "''read'' = request_type_str ty \<longleftrightarrow> ty = Read" for ty by (cases ty) auto
  then show ?thesis
    unfolding decodes_def shutdown_request_def request_json_inj stop_request_def by auto
qed

text \<open>
  C39: Service discovery works: whatever files it found, a daemon that starts leaves an address
  file from which \<open>parse_pid\<close> and \<open>parse_addr\<close> read its own process identifier and endpoint, and
  after its clean exit neither is found any more.
\<close>

theorem started_daemon_is_discoverable:
  assumes "daemon_start locked replace alive pid config fs fs' = (Started effects, fs1)"
    and "pid < 2 ^ 32" "CHR 10 \<notin> set (kc_ipc_endpoint config)"
    and "trim (kc_ipc_endpoint config) = kc_ipc_endpoint config"
  shows "\<exists>content. fs1 (addr_path (kc_state_dir config)) = Some content
    \<and> parse_pid content = Some pid \<and> parse_addr content = Some (kc_ipc_endpoint config)
    \<and> daemon_exit config fs1 (addr_path (kc_state_dir config)) = Some []
    \<and> parse_pid [] = None \<and> parse_addr [] = None"
proof -
  have "fs1 (addr_path (kc_state_dir config)) = Some (addr_text pid (kc_ipc_endpoint config))"
    using assms(1) by (auto simp: daemon_start_def Let_def split: if_splits)
  then show ?thesis
    using addr_file_fields [OF assms(3)] assms(2,4)
    by (simp add: daemon_exit_def parse_pid_def parse_addr_def)
qed

definition demo_config :: kernel_config where
  "demo_config = kernel_config_default False (\<lambda>v. if v = ''HOME'' then Some ''/h'' else None) 7"

theorem started_daemon_is_discoverable_witness:
  "\<exists>content. snd (daemon_start False False (\<lambda>_. False) 7 demo_config Map.empty Map.empty)
       (addr_path (kc_state_dir demo_config)) = Some content
     \<and> parse_pid content = Some 7 \<and> parse_addr content = Some ''/h/.punkgo/state/daemon-7.sock''"
proof -
  have e: "kc_ipc_endpoint demo_config = ''/h/.punkgo/state/daemon-7.sock''"
    "trim (kc_ipc_endpoint demo_config) = kc_ipc_endpoint demo_config"
    "CHR 10 \<notin> set (kc_ipc_endpoint demo_config)"
    by code_simp+
  obtain effects fs1 where
    s: "daemon_start False False (\<lambda>_. False) 7 demo_config Map.empty Map.empty = (Started effects, fs1)"
    by (simp add: daemon_start_def Let_def)
  have p: "(7 :: nat) < 2 ^ 32" by simp
  from started_daemon_is_discoverable [OF s p e(3) e(2)] s e(1) show ?thesis by auto
qed

text \<open>
  C40: Starting a daemon removes the default socket of every earlier daemon of the same state
  directory, so a crashed one leaves nothing behind; and an old daemon is killed only if its
  identifier is in the address file and it survived all thirty polls.
\<close>

theorem start_cleans_up_after_crashes:
  "(fst (daemon_start locked replace alive pid config fs fs') = Started effects \<longrightarrow>
      snd (daemon_start locked replace alive pid config fs fs')
        (path_join (kc_state_dir config) (socket_name old)) = None)
   \<and> (KillProcess p \<in> set (replace_old_daemon alive content) \<longrightarrow>
        parse_pid content = Some p \<and> list_all alive [0..<30])"
proof (intro conjI impI)
  let ?dir = "kc_state_dir config"
  assume "fst (daemon_start locked replace alive pid config fs fs') = Started effects"
  then have fs1: "snd (daemon_start locked replace alive pid config fs fs')
      = (cleanup_old_sockets ?dir fs')(addr_path ?dir \<mapsto> addr_text pid (kc_ipc_endpoint config))"
    by (auto simp: daemon_start_def Let_def split: if_splits)
  have "path_join ?dir (socket_name old) \<noteq> addr_path ?dir"
    by (simp add: addr_path_def socket_name_def path_join_def)
  then show "snd (daemon_start locked replace alive pid config fs fs')
      (path_join ?dir (socket_name old)) = None"
    unfolding fs1 by (simp add: cleanup_old_sockets_def socket_entry(2) socket_is_stale)
next
  assume "KillProcess p \<in> set (replace_old_daemon alive content)"
  then have *: "p = unwrap_or 0 (parse_pid content)" "0 < p" "\<forall>i < 30. alive i"
    by (auto simp: replace_old_daemon_def Let_def wait_exit_iff split: if_splits option.splits)
  then show "parse_pid content = Some p" by (cases "parse_pid content") auto
  show "list_all alive [0..<30]" using *(3) by (simp add: list_all_iff)
qed

theorem start_cleans_up_after_crashes_witness:
  "snd (daemon_start False False (\<lambda>_. False) 7 demo_config Map.empty
      [path_join (kc_state_dir demo_config) (socket_name 3) \<mapsto> []])
    (path_join (kc_state_dir demo_config) (socket_name 3)) = None"
proof -
  have "fst (daemon_start False False (\<lambda>_. False) 7 demo_config Map.empty
      [path_join (kc_state_dir demo_config) (socket_name 3) \<mapsto> []]) = Started []"
    by (simp add: daemon_start_def Let_def)
  then show ?thesis using start_cleans_up_after_crashes by blast
qed

text \<open>The default endpoint of the client is never the default endpoint of a daemon.\<close>

lemma client_default_endpoint_differs: "default_endpoint \<noteq> default_ipc_endpoint windows getenv pid"
proof -
  have "last (default_ipc_endpoint False getenv pid) = CHR ''k''"
    by (simp add: default_ipc_endpoint_def path_join_def socket_name_def)
  moreover have "hd (default_ipc_endpoint True getenv pid) = CHR 0x5C"
    by (simp add: default_ipc_endpoint_def)
  moreover have "last default_endpoint = CHR ''l''" "hd default_endpoint = CHR ''p''"
    by (simp_all add: default_endpoint_def)
  ultimately have "last default_endpoint \<noteq> last (default_ipc_endpoint False getenv pid)"
    "hd default_endpoint \<noteq> hd (default_ipc_endpoint True getenv pid)"
    by simp_all
  then show ?thesis by (cases windows) auto
qed

end
