(* ===== verification/Startup.thy ===== *)
theory Startup
  imports Kernel_Read Kernel_Reach
begin

text \<open>
  \<open>StateStore::bootstrap\<close> up to the open connection, and the start of the kernel on an existing
  database: seeding changes nothing in a database that was seeded before, so a restart goes on
  where the last run ended.
\<close>

section \<open>Opening the store\<close>

text \<open>
  \<open>mkdir\<close> is \<open>fs::create_dir_all\<close> and \<open>connect\<close> opens the database file with a pool of the given
  size: each gives an error or nothing. \<open>cpus\<close> is the answer of \<open>available_parallelism\<close>.
\<close>

definition store_dirs :: "string \<Rightarrow> string list" where
  "store_dirs root_dir = map (path_join root_dir) [''workspaces'', ''quarantine'', ''event_log'', ''blobs'']"

fun create_dirs :: "(string \<Rightarrow> string option) \<Rightarrow> string list \<Rightarrow> unit kernel_result" where
  "create_dirs mkdir [] = Inr ()"
| "create_dirs mkdir (d # ds) =
     (case mkdir d of Some e \<Rightarrow> Inl (Io e) | None \<Rightarrow> create_dirs mkdir ds)"

definition max_connections :: "nat option \<Rightarrow> 32 word" where
  "max_connections cpus = max (case cpus of Some n \<Rightarrow> of_nat n | None \<Rightarrow> 8) 8"

definition open_store ::
  "(string \<Rightarrow> string option) \<Rightarrow> (string \<Rightarrow> 32 word \<Rightarrow> string option) \<Rightarrow> nat option \<Rightarrow> string \<Rightarrow>
   unit kernel_result" where
  "open_store mkdir connect cpus root_dir =
     (case create_dirs mkdir (store_dirs root_dir) of
        Inl e \<Rightarrow> Inl e
      | Inr _ \<Rightarrow>
          (case connect (path_join root_dir ''punkgo.db'') (max_connections cpus) of
             Some e \<Rightarrow> Inl (Db e)
           | None \<Rightarrow> Inr ()))"

text \<open>What \<open>Kernel::bootstrap\<close> reads besides the state directory.\<close>

record boot_env =
  bo_mkdir :: "string \<Rightarrow> string option"
  bo_connect :: "string \<Rightarrow> 32 word \<Rightarrow> string option"
  bo_cpus :: "nat option"
  bo_kernel_env :: kernel_env
  bo_de_query :: "json \<Rightarrow> ReadQuery option"
  bo_seed :: "byte list"
  bo_toml_file :: "(string + string) option"
  bo_toml :: "string \<Rightarrow> string + stellar_config"
  bo_show_f64 :: "f64 \<Rightarrow> string"

text \<open>The whole of \<open>Kernel::bootstrap\<close>, on the key files and the contents of the database.\<close>

definition boot_kernel :: "boot_env \<Rightarrow> string \<Rightarrow> files \<Rightarrow> db \<Rightarrow> kernel kernel_result \<times> files \<times> db" where
  "boot_kernel b state_dir keys s =
     (case open_store (bo_mkdir b) (bo_connect b) (bo_cpus b) state_dir of
        Inl e \<Rightarrow> (Inl e, keys, s)
      | Inr _ \<Rightarrow>
          kernel_bootstrap (bo_kernel_env b) (bo_de_query b) state_dir (bo_seed b) (bo_toml_file b)
            (bo_toml b) (bo_show_f64 b) keys s)"

lemma max_connections_bound: "8 \<le> max_connections cpus"
  by (simp add: max_connections_def)

lemma create_dirs_ok: "create_dirs mkdir ds = Inr u \<longleftrightarrow> list_all (\<lambda>d. mkdir d = None) ds"
  by (induction ds) (auto split: option.splits)

section \<open>Seeded databases\<close>

definition seeded :: "db \<Rightarrow> bool" where
  "seeded s \<longleftrightarrow> ''schema_version'' \<in> fst ` set (system_meta s)
     \<and> ledger_get ''root'' s \<noteq> None \<and> actor_row_get ''root'' s \<noteq> None"

lemma seeded_iff: "seeded s \<longleftrightarrow> (\<forall>now. seed_defaults now s = s)"
proof
  assume "\<forall>now. seed_defaults now s = s"
  then have "seed_defaults [] s = s" by blast
  moreover have "seeded (seed_defaults [] s)"
    by (auto simp: seeded_def seed_defaults_def seed_actor_def seed_ledger_def seed_meta_def
        ledger_get_def actor_row_get_def table_simps)
  ultimately show "seeded s" by simp
qed (simp add: seeded_def seed_defaults_def seed_actor_def seed_ledger_def seed_meta_def)

text \<open>No step removes an entry of the metadata.\<close>

lemma set_meta_keys: "fst ` set (system_meta s) \<subseteq> fst ` set (system_meta (set_meta k v s))"
  by (force simp: set_meta_def)

interpretation meta_kept: step_laws
  "\<lambda>s t. fst ` set (system_meta s) \<subseteq> fst ` set (system_meta t)" k for k
proof unfold_locales
  show "fst ` set (system_meta s) \<subseteq> fst ` set (system_meta (set_policy_version v s))" for v s
    unfolding set_policy_version_def by (rule set_meta_keys)
qed (rule subset_refl | (erule (1) subset_trans) | (drule frames, elim exE, simp))+

lemma step_seeded:
  assumes "kstep k s t" "seeded s"
  shows "seeded t"
proof -
  have "''schema_version'' \<in> fst ` set (system_meta t)"
    using meta_kept.step_rel [OF assms(1)] assms(2) unfolding seeded_def by blast
  moreover have "ledger_get ''root'' t \<noteq> None"
    using accounts_persist.laws.step_rel [OF assms(1)] assms(2) unfolding seeded_def account_kept_def by blast
  moreover have "actor_row_get ''root'' t \<noteq> None"
    using actors_persist.laws.step_rel [OF assms(1)] assms(2) unfolding seeded_def actors_advance_def by force
  ultimately show ?thesis by (simp add: seeded_def)
qed

lemma reachable_seeded: "reachable x s \<Longrightarrow> seeded s"
proof (induction rule: reachable_induct)
  case (seed now)
  show ?case by (simp add: seeded_iff seed_defaults_idem)
qed (rule step_seeded)

text \<open>A start of the kernel, successful or not, changes no database that was in use.\<close>

lemma kernel_bootstrap_db:
  "snd (snd (kernel_bootstrap k de dir seed tf toml sf keys s)) = seed_defaults (now_millis_string k 0 31 0) s"
  by (simp add: kernel_bootstrap_def state_bootstrap_def Let_def split: sum.splits prod.splits)

lemma boot_kernel_db:
  "snd (snd (boot_kernel b dir keys s)) \<in> {s, seed_defaults (now_millis_string (bo_kernel_env b) 0 31 0) s}"
  by (simp add: boot_kernel_def kernel_bootstrap_db split: sum.splits)

lemma boot_kernel_reachable:
  assumes "s = init_schema \<or> reachable x s" "boot_kernel b dir keys s = (r, keys', t)"
  shows "t = s \<or> reachable x t"
  using assms boot_kernel_db [of b dir keys s] reachable_seed reachable_seeded seeded_iff by fastforce

text \<open>A kernel that came up runs on a seeded database that passed the startup check.\<close>

lemma boot_kernel_ok:
  assumes "boot_kernel b dir keys s = (Inr kn, keys', t)"
  shows "t = seed_defaults (now_millis_string (bo_kernel_env b) 0 31 0) s
    \<and> is_ok (run_startup_integrity_checks t) \<and> kn_env kn = bo_kernel_env b"
  using assms
  by (auto simp: boot_kernel_def kernel_bootstrap_def state_bootstrap_def Let_def
      split: sum.splits prod.splits)

lemma boot_kernel_up_reachable:
  assumes "s = init_schema \<or> reachable x s" "boot_kernel b dir keys s = (Inr kn, keys', t)"
  shows "reachable x t"
  using assms boot_kernel_ok [OF assms(2)] reachable_seed reachable_seeded seeded_iff by fastforce

end
