(* ===== verification/Server.thy ===== *)
theory Server
  imports Daemon Startup
begin

text \<open>
  \<open>daemon/ipc.rs\<close> (the accept loop) and \<open>daemon/main.rs\<close> (the supervision of the tasks): the
  running daemon as a state machine over one database. Connections, the energy producer and
  the main task take turns in any order; a turn of a connection is one line, read, handled and
  answered. What the operating system and the runtime decide (a client connects, a line
  arrives, an interval elapses, a signal comes, a task ends) is the event of a step.
\<close>

section \<open>Endpoints\<close>

text \<open>
  \<open>to_fs\<close> and \<open>to_ns\<close> are the conversions of the interprocess library. The client and the
  replacing daemon have copies of this function.
\<close>

definition endpoint_to_name ::
  "(string \<Rightarrow> 'e + 'n) \<Rightarrow> (string \<Rightarrow> 'e + 'n) \<Rightarrow> string \<Rightarrow> 'e + 'n" where
  "endpoint_to_name to_fs to_ns endpoint =
     (if CHR ''/'' \<in> set endpoint \<or> CHR 0x5C \<in> set endpoint then to_fs endpoint
      else to_ns endpoint)"

section \<open>One line of a connection\<close>

text \<open>The response to a line that is not blank, whether it ends the connection, and the database.\<close>

definition line_response ::
  "kernel \<Rightarrow> (string \<Rightarrow> string + request_envelope) \<Rightarrow> string \<Rightarrow> db \<Rightarrow>
   response_envelope \<times> conn_end option \<times> db" where
  "line_response kn decode line s =
     (case decode line of
        Inl e \<Rightarrow> (response_err ''unknown'' (''invalid request envelope: '' @ e), None, s)
      | Inr req \<Rightarrow>
          if is_shutdown req
          then (response_ok (rq_request_id req) (json_obj [(''message'', JString ''shutting down'')]),
                Some Shutdown, s)
          else (let (response, t) = handle_request kn req s in (response, None, t)))"

text \<open>One round of the loop of \<open>handle_connection\<close>.\<close>

definition serve_line ::
  "kernel \<Rightarrow> (string \<Rightarrow> string + request_envelope) \<Rightarrow> string \<Rightarrow> db \<Rightarrow>
   byte list list \<times> conn_end option \<times> db" where
  "serve_line kn decode line s =
     (if is_blank line then ([], None, s)
      else (case line_response kn decode line s of
              (response, fin, t) \<Rightarrow>
                (case write_response (k_ext (kn_env kn)) response of
                   None \<Rightarrow> ([], Some WriteError, t)
                 | Some out \<Rightarrow> ([out], fin, t))))"

lemma handle_connection_serve_line:
  "handle_connection kns decode i (line # lines) s =
     (case serve_line (kns i) decode line s of
        (out, Some e, t) \<Rightarrow> \<lparr>cn_written = out, cn_end = e, cn_db = t\<rparr>
      | (out, None, t) \<Rightarrow>
          (let c = handle_connection kns decode (if is_blank line then i else Suc i) lines t
           in c\<lparr>cn_written := out @ cn_written c\<rparr>))"
  by (auto simp: serve_line_def line_response_def Let_def wrote_def
      split: sum.splits option.splits prod.splits)

section \<open>The running daemon\<close>

text \<open>
  A client is known by the lines it sends and how many of them were read; \<open>cl_end\<close> is set when
  its task has ended.
\<close>

record client =
  cl_lines :: "string list"
  cl_read :: nat
  cl_output :: "byte list list"
  cl_end :: "conn_end option"

text \<open>
  \<open>Stopping\<close>: the shutdown branch of the main task, after the listener was aborted and until
  the producer returns. The tasks of open connections are detached and go on until the exit.
\<close>

datatype phase = Running | Stopping | Exited

record daemon =
  dm_db :: db
  dm_clients :: "client list"
  dm_shutdown :: bool
  dm_served :: nat
  dm_ticks :: nat
  dm_phase :: phase
  dm_files :: disk

datatype daemon_event =
  Accept "string list" | AcceptFails | NextLine nat | Interval | CtrlC | SignalSeen
| ProducerStops | ProducerFails

text \<open>
  What the steps of a daemon use: the kernel, with its clock and identifiers, of the \<open>i\<close>-th line
  served, and the clock of the \<open>i\<close>-th tick.
\<close>

record daemon_env =
  de_kernel :: "nat \<Rightarrow> kernel"
  de_decode :: "string \<Rightarrow> string + request_envelope"
  de_tick_clock :: "nat \<Rightarrow> nat \<Rightarrow> string"
  de_stellar :: stellar_config
  de_config :: kernel_config

definition exit_daemon :: "daemon_env \<Rightarrow> daemon \<Rightarrow> daemon" where
  "exit_daemon e m = m\<lparr>dm_phase := Exited, dm_files := daemon_exit (de_config e) (dm_files m)\<rparr>"

definition accept_client :: "string list \<Rightarrow> daemon \<Rightarrow> daemon" where
  "accept_client lines m =
     m\<lparr>dm_clients := dm_clients m @
         [\<lparr>cl_lines = lines, cl_read = 0, cl_output = [], cl_end = None\<rparr>]\<rparr>"

definition serve_client :: "daemon_env \<Rightarrow> nat \<Rightarrow> daemon \<Rightarrow> daemon" where
  "serve_client e i m =
     (let c = dm_clients m ! i
      in if cl_end c \<noteq> None then m
         else if length (cl_lines c) \<le> cl_read c
         then m\<lparr>dm_clients := (dm_clients m)[i := c\<lparr>cl_end := Some Eof\<rparr>]\<rparr>
         else (case serve_line (de_kernel e (dm_served m)) (de_decode e)
                      (cl_lines c ! cl_read c) (dm_db m) of
                 (out, fin, t) \<Rightarrow>
                   m\<lparr>dm_db := t, dm_served := Suc (dm_served m),
                     dm_shutdown := (dm_shutdown m \<or> fin = Some Shutdown),
                     dm_clients := (dm_clients m)[i :=
                       c\<lparr>cl_read := Suc (cl_read c), cl_output := cl_output c @ out, cl_end := fin\<rparr>]\<rparr>))"

definition tick_daemon :: "daemon_env \<Rightarrow> daemon \<Rightarrow> daemon" where
  "tick_daemon e m =
     m\<lparr>dm_db := snd (produce_tick (de_tick_clock e (dm_ticks m))
                       (effective_energy_per_tick (de_stellar e)) (dm_db m)),
       dm_ticks := Suc (dm_ticks m)\<rparr>"

text \<open>
  An event that the state does not allow changes nothing. Both branches of the main task that
  wait for the producer end with its return, which needs a change of the shutdown channel; a
  failed producer or listener ends the daemon at once.
\<close>

fun daemon_step :: "daemon_env \<Rightarrow> daemon_event \<Rightarrow> daemon \<Rightarrow> daemon" where
  "daemon_step e (Accept lines) m = (if dm_phase m = Running then accept_client lines m else m)"
| "daemon_step e AcceptFails m = (if dm_phase m = Running then exit_daemon e m else m)"
| "daemon_step e (NextLine i) m =
     (if dm_phase m \<noteq> Exited \<and> i < length (dm_clients m) then serve_client e i m else m)"
| "daemon_step e Interval m = (if dm_phase m \<noteq> Exited then tick_daemon e m else m)"
| "daemon_step e CtrlC m =
     (if dm_phase m = Running then m\<lparr>dm_phase := Stopping, dm_shutdown := True\<rparr> else m)"
| "daemon_step e SignalSeen m =
     (if dm_phase m = Running \<and> dm_shutdown m then m\<lparr>dm_phase := Stopping\<rparr> else m)"
| "daemon_step e ProducerStops m =
     (if dm_phase m \<noteq> Exited \<and> dm_shutdown m then exit_daemon e m else m)"
| "daemon_step e ProducerFails m = (if dm_phase m \<noteq> Exited then exit_daemon e m else m)"

definition daemon_run :: "daemon_env \<Rightarrow> daemon_event list \<Rightarrow> daemon \<Rightarrow> daemon" where
  "daemon_run e evs m = fold (daemon_step e) evs m"

text \<open>A daemon after its bootstrap.\<close>

definition daemon_init :: "disk \<Rightarrow> db \<Rightarrow> daemon" where
  "daemon_init files s =
     \<lparr>dm_db = s, dm_clients = [], dm_shutdown = False, dm_served = 0, dm_ticks = 0,
      dm_phase = Running, dm_files = files\<rparr>"

section \<open>The main function\<close>

text \<open>
  What one start of the daemon meets: its arguments, whether the lock is held, the liveness of
  the old process at each poll, the files before and after the old daemon has gone, what the
  bootstrap reads, and the events of the run. The kernels of \<open>la_env\<close> give the clocks and
  identifiers of the requests; the rest of the kernel is the one that was bootstrapped.
\<close>

record launch =
  la_args :: "string list"
  la_locked :: bool
  la_alive :: "nat \<Rightarrow> bool"
  la_pid :: nat
  la_files :: disk
  la_files_after :: disk
  la_boot :: boot_env
  la_keys :: files
  la_env :: daemon_env
  la_events :: "daemon_event list"

datatype daemon_outcome = AlreadyUp nat | BootFailed kernel_error | Ran daemon

definition with_kernel :: "kernel \<Rightarrow> daemon_env \<Rightarrow> daemon_env" where
  "with_kernel kn e =
     e\<lparr>de_kernel := (\<lambda>i. kn\<lparr>kn_env := kn_env (de_kernel e i)\<rparr>), de_stellar := kn_stellar_config kn\<rparr>"

text \<open>A failed bootstrap returns with the address file written.\<close>

definition daemon_main :: "launch \<Rightarrow> db \<Rightarrow> daemon_outcome \<times> disk \<times> files \<times> db" where
  "daemon_main l s =
     (let replace = ''--replace'' \<in> set (la_args l);
          config = de_config (la_env l)
      in case daemon_start (la_locked l) replace (la_alive l) (la_pid l) config (la_files l) (la_files_after l) of
           (AlreadyRunning old_pid, fs) \<Rightarrow> (AlreadyUp old_pid, fs, la_keys l, s)
         | (Started _, fs) \<Rightarrow>
             (case boot_kernel (la_boot l) (kc_state_dir config) (la_keys l) s of
                (Inl err, keys, t) \<Rightarrow> (BootFailed err, fs, keys, t)
              | (Inr kn, keys, t) \<Rightarrow>
                  (let m = daemon_run (with_kernel kn (la_env l)) (la_events l) (daemon_init fs t)
                   in (Ran m, dm_files m, keys, dm_db m))))"

text \<open>The database after a sequence of starts, each on what the one before it left.\<close>

definition database_after :: "launch list \<Rightarrow> db \<Rightarrow> db" where
  "database_after ls s = fold (\<lambda>l s. snd (snd (snd (daemon_main l s)))) ls s"

section \<open>Messages to an old daemon and its process\<close>

text \<open>\<open>exchange\<close> connects to a name, writes the bytes and waits for a line.\<close>

definition send_shutdown_ipc ::
  "(string \<Rightarrow> string + 'n) \<Rightarrow> (string \<Rightarrow> string + 'n) \<Rightarrow> ('n \<Rightarrow> byte list \<Rightarrow> string + unit) \<Rightarrow> ext \<Rightarrow>
   string \<Rightarrow> string + unit" where
  "send_shutdown_ipc to_fs to_ns exchange x endpoint =
     (case endpoint_to_name to_fs to_ns endpoint of
        Inl e \<Rightarrow> Inl e
      | Inr name \<Rightarrow>
          (case json_vec x shutdown_request of
             None \<Rightarrow> Inl ''serialization error''
           | Some msg \<Rightarrow> exchange name (msg @ [10])))"

record command_output =
  co_success :: bool
  co_stdout :: string

type_synonym command = "string \<times> string list"

definition alive_command :: "bool \<Rightarrow> nat \<Rightarrow> command" where
  "alive_command windows pid =
     (if windows
      then (''tasklist'', [''/FI'', ''PID eq '' @ dec_of_nat pid, ''/FO'', ''CSV'', ''/NH''])
      else (''kill'', [''-0'', dec_of_nat pid]))"

text \<open>\<open>run\<close> runs a command; it gives nothing if the command cannot be started.\<close>

definition is_process_alive :: "bool \<Rightarrow> (command \<Rightarrow> command_output option) \<Rightarrow> nat \<Rightarrow> bool" where
  "is_process_alive windows run pid =
     (case run (alive_command windows pid) of
        None \<Rightarrow> False
      | Some out \<Rightarrow>
          if windows then sublist ([CHR 34] @ dec_of_nat pid @ [CHR 34]) (co_stdout out)
          else co_success out)"

definition kill_process :: "bool \<Rightarrow> nat \<Rightarrow> command" where
  "kill_process windows pid =
     (if windows then (''taskkill'', [''/F'', ''/PID'', dec_of_nat pid])
      else (''kill'', [''-9'', dec_of_nat pid]))"

section \<open>The transport of the client\<close>

text \<open>\<open>exchange\<close> connects, writes and reads a line: nothing if the connection is refused.\<close>

definition send_request ::
  "(string \<Rightarrow> string + 'n) \<Rightarrow> (string \<Rightarrow> string + 'n) \<Rightarrow> ('n \<Rightarrow> string \<Rightarrow> (string + string) option) \<Rightarrow>
   string \<Rightarrow> string \<Rightarrow> string + string" where
  "send_request to_fs to_ns exchange endpoint request_line =
     (case endpoint_to_name to_fs to_ns endpoint of
        Inl _ \<Rightarrow> Inl (''invalid endpoint name: '' @ endpoint)
      | Inr name \<Rightarrow>
          (case exchange name (request_line @ [CHR 10]) of
             None \<Rightarrow> Inl (''connect to '' @ endpoint @ '' failed'')
           | Some (Inl e) \<Rightarrow> Inl e
           | Some (Inr resp) \<Rightarrow>
               if resp = [] then Inl ''empty response from kernel'' else Inr (trim resp)))"

section \<open>Invariants of a run\<close>

text \<open>
  What every action of the daemon keeps holds throughout a run, whatever the order of events.
\<close>

locale daemon_inv =
  fixes e :: daemon_env and I :: "daemon \<Rightarrow> bool"
  assumes i_accept: "I m \<Longrightarrow> dm_phase m = Running \<Longrightarrow> I (accept_client lines m)"
    and i_serve: "I m \<Longrightarrow> dm_phase m \<noteq> Exited \<Longrightarrow> i < length (dm_clients m) \<Longrightarrow> I (serve_client e i m)"
    and i_tick: "I m \<Longrightarrow> dm_phase m \<noteq> Exited \<Longrightarrow> I (tick_daemon e m)"
    and i_exit: "I m \<Longrightarrow> dm_phase m \<noteq> Exited \<Longrightarrow> I (exit_daemon e m)"
    and i_stop: "I m \<Longrightarrow> dm_phase m = Running \<Longrightarrow> I (m\<lparr>dm_phase := Stopping, dm_shutdown := True\<rparr>)"
begin

lemma i_seen: "I m \<Longrightarrow> dm_phase m = Running \<Longrightarrow> dm_shutdown m \<Longrightarrow> I (m\<lparr>dm_phase := Stopping\<rparr>)"
  using i_stop [of m] by (cases m) simp

lemma step_inv: "I m \<Longrightarrow> I (daemon_step e ev m)"
  by (cases ev) (auto intro: i_accept i_serve i_tick i_exit i_stop i_seen)

lemma run_inv: "I m \<Longrightarrow> I (daemon_run e evs m)"
  unfolding daemon_run_def by (induction evs arbitrary: m) (auto intro: step_inv)

end

lemma run_simps [simp]:
  "daemon_run e [] m = m" "daemon_run e (ev # evs) m = daemon_run e evs (daemon_step e ev m)"
  "daemon_run e (xs @ ys) m = daemon_run e ys (daemon_run e xs m)"
  by (simp_all add: daemon_run_def)

subsection \<open>The database\<close>

lemma serve_line_reachable:
  assumes "reachable (k_ext (kn_env kn)) s"
  shows "reachable (k_ext (kn_env kn)) (snd (snd (serve_line kn decode line s)))"
  using handle_request_reachable [OF assms] assms
  by (auto simp: serve_line_def line_response_def Let_def
      split: sum.splits option.splits prod.splits) (metis snd_conv)+

lemma serve_client_db:
  "dm_db (serve_client e i m) = dm_db m \<or>
   (\<exists>line. dm_db (serve_client e i m)
      = snd (snd (serve_line (de_kernel e (dm_served m)) (de_decode e) line (dm_db m))))"
  by (auto simp: serve_client_def Let_def split: prod.splits) (metis snd_conv)

lemma tick_reachable: "reachable x s \<Longrightarrow> reachable x (snd (produce_tick ck E s))"
proof -
  assume "reachable x s"
  moreover obtain k :: kernel_env where "k_ext k = x" by (metis kernel_env.select_convs(1))
  ultimately show ?thesis using reachable_steps [of k] produce_tick_steps [of k] by blast
qed

interpretation reach_inv: daemon_inv e
  "\<lambda>m. (\<forall>i. k_ext (kn_env (de_kernel e i)) = x) \<longrightarrow> reachable x (dm_db m)" for e x
proof
  show "(\<forall>i. k_ext (kn_env (de_kernel e i)) = x) \<longrightarrow> reachable x (dm_db (serve_client e i m))"
    if "(\<forall>i. k_ext (kn_env (de_kernel e i)) = x) \<longrightarrow> reachable x (dm_db m)" for m i
    using serve_client_db [of e i m] serve_line_reachable [of "de_kernel e (dm_served m)"] that by auto
qed (auto simp: accept_client_def tick_daemon_def exit_daemon_def tick_reachable)

text \<open>What a launch does to the database.\<close>

lemma daemon_main_reachable:
  assumes ext: "\<forall>i. k_ext (kn_env (de_kernel (la_env l) i)) = x" and s: "s = init_schema \<or> reachable x s"
  shows "snd (snd (snd (daemon_main l s))) = s \<or> reachable x (snd (snd (snd (daemon_main l s))))"
proof -
  let ?dir = "kc_state_dir (de_config (la_env l))"
  obtain r keys t where b: "boot_kernel (la_boot l) ?dir (la_keys l) s = (r, keys, t)" by (metis prod_cases3)
  have run: "reachable x (dm_db (daemon_run (with_kernel kn (la_env l)) evs (daemon_init fs t)))"
    if "r = Inr kn" for kn evs fs
    using reach_inv.run_inv [of "with_kernel kn (la_env l)" x "daemon_init fs t" evs] ext
      boot_kernel_up_reachable [OF s] b that by (simp add: with_kernel_def daemon_init_def)
  show ?thesis
    using b run boot_kernel_reachable [OF s b]
    by (auto simp: daemon_main_def Let_def split: prod.splits start_outcome.splits sum.splits)
qed

lemma database_after_reachable:
  assumes "\<forall>l \<in> set ls. \<forall>i. k_ext (kn_env (de_kernel (la_env l) i)) = x" "reachable x s"
  shows "reachable x (database_after ls s)"
  using assms
proof (induction ls arbitrary: s)
  case (Cons l ls)
  have "reachable x (snd (snd (snd (daemon_main l s))))"
    using daemon_main_reachable [of l x s] Cons.prems by auto
  from Cons.IH [OF _ this] Cons.prems(1) show ?case by (simp add: database_after_def)
qed (simp add: database_after_def)

subsection \<open>The clients\<close>

text \<open>The response to a line: it carries the identifier of the request, if the line is one.\<close>

definition line_id :: "(string \<Rightarrow> string + request_envelope) \<Rightarrow> string \<Rightarrow> string" where
  "line_id decode line = (case decode line of Inl _ \<Rightarrow> ''unknown'' | Inr req \<Rightarrow> rq_request_id req)"

definition answers :: "daemon_env \<Rightarrow> string \<Rightarrow> byte list \<Rightarrow> bool" where
  "answers e line out \<longleftrightarrow>
     (\<exists>i r. write_response (k_ext (kn_env (de_kernel e i))) r = Some out
        \<and> rs_request_id r = line_id (de_decode e) line)"

definition served_lines :: "client \<Rightarrow> string list" where
  "served_lines c = filter (\<lambda>l. \<not> is_blank l) (take (cl_read c) (cl_lines c))"

definition client_ok :: "daemon_env \<Rightarrow> client \<Rightarrow> bool" where
  "client_ok e c \<longleftrightarrow> cl_read c \<le> length (cl_lines c)
     \<and> (cl_end c \<noteq> Some WriteError \<longrightarrow> list_all2 (answers e) (served_lines c) (cl_output c))"

lemma line_response_id: "rs_request_id (fst (line_response kn decode line s)) = line_id decode line"
  by (auto simp: line_response_def line_id_def handle_request_def response_ok_def response_err_def
      response_err_structured_def split: sum.splits prod.splits)

lemma serve_line_answers:
  assumes "serve_line (de_kernel e j) (de_decode e) line s = (out, fin, t)" "fin \<noteq> Some WriteError"
  shows "list_all2 (answers e) (filter (\<lambda>l. \<not> is_blank l) [line]) out"
proof -
  have "\<exists>o1. out = [o1] \<and> write_response (k_ext (kn_env (de_kernel e j)))
      (fst (line_response (de_kernel e j) (de_decode e) line s)) = Some o1" if "\<not> is_blank line"
    using assms that by (auto simp: serve_line_def split: option.splits prod.splits)
  moreover have "out = []" if "is_blank line" using assms that by (simp add: serve_line_def)
  ultimately show ?thesis
    using line_response_id [of "de_kernel e j" "de_decode e" line s]
    by (cases "is_blank line") (auto simp: answers_def, blast)
qed

lemma client_ok_read:
  assumes "client_ok e c" "cl_end c = None" "cl_read c < length (cl_lines c)"
    and "serve_line (de_kernel e j) (de_decode e) (cl_lines c ! cl_read c) s = (out, fin, t)"
  shows "client_ok e (c\<lparr>cl_read := Suc (cl_read c), cl_output := cl_output c @ out, cl_end := fin\<rparr>)"
  using assms(1-3) serve_line_answers [OF assms(4)]
  by (simp add: client_ok_def served_lines_def take_Suc_conv_app_nth list_all2_appendI del: filter.simps)

lemma serve_client_ok:
  assumes "\<forall>c \<in> set (dm_clients m). client_ok e c" "i < length (dm_clients m)"
  shows "\<forall>c \<in> set (dm_clients (serve_client e i m)). client_ok e c"
proof -
  let ?c = "dm_clients m ! i"
  have ok: "client_ok e ?c" using assms by simp
  have "\<exists>c. dm_clients (serve_client e i m) = (dm_clients m)[i := c] \<and> client_ok e c"
  proof (cases "cl_end ?c = None \<and> cl_read ?c < length (cl_lines ?c)")
    case True
    obtain out fin t where sl: "serve_line (de_kernel e (dm_served m)) (de_decode e)
        (cl_lines ?c ! cl_read ?c) (dm_db m) = (out, fin, t)" by (metis prod_cases3)
    with True client_ok_read [OF ok _ _ sl] show ?thesis by (auto simp: serve_client_def Let_def)
  next
    case False
    with ok show ?thesis
      by (cases "cl_end ?c = None")
        (auto simp: serve_client_def Let_def client_ok_def served_lines_def intro: exI [of _ ?c])
  qed
  then show ?thesis using assms(1) set_update_subset_insert by fastforce
qed

interpretation clients_inv: daemon_inv e "\<lambda>m. \<forall>c \<in> set (dm_clients m). client_ok e c" for e
proof
  show "\<forall>c \<in> set (dm_clients (accept_client lines m)). client_ok e c"
    if "\<forall>c \<in> set (dm_clients m). client_ok e c" for m lines
    using that by (auto simp: accept_client_def client_ok_def served_lines_def)
qed (simp_all add: serve_client_ok tick_daemon_def exit_daemon_def)

subsection \<open>Shutdown\<close>

text \<open>The address file and the socket are gone exactly from the exit on.\<close>

interpretation files_inv: daemon_inv e "\<lambda>m. dm_files m
    = (if dm_phase m = Exited then daemon_exit (de_config e) files else files)" for e files
  by unfold_locales
    (auto simp: accept_client_def serve_client_def tick_daemon_def exit_daemon_def Let_def split: prod.splits)

interpretation told_inv: daemon_inv e dm_shutdown for e
  by unfold_locales
    (auto simp: accept_client_def serve_client_def tick_daemon_def exit_daemon_def Let_def split: prod.splits)

lemma exited_final: "dm_phase m = Exited \<Longrightarrow> daemon_run e evs m = m"
proof (induction evs)
  case (Cons ev evs)
  then show ?case by (cases ev) simp_all
qed simp

text \<open>Nobody told the daemon to stop: no signal, no failure, no shutdown command.\<close>

definition quiet_event :: "(string \<Rightarrow> string + request_envelope) \<Rightarrow> daemon_event \<Rightarrow> bool" where
  "quiet_event decode ev \<longleftrightarrow>
     (case ev of
        Accept lines \<Rightarrow> list_all (\<lambda>l. \<forall>req. decode l = Inr req \<longrightarrow> \<not> is_shutdown req) lines
      | AcceptFails \<Rightarrow> False | CtrlC \<Rightarrow> False | ProducerFails \<Rightarrow> False | _ \<Rightarrow> True)"

definition untold :: "(string \<Rightarrow> string + request_envelope) \<Rightarrow> daemon \<Rightarrow> bool" where
  "untold decode m \<longleftrightarrow> dm_phase m = Running \<and> \<not> dm_shutdown m
     \<and> (\<forall>c \<in> set (dm_clients m).
          list_all (\<lambda>l. \<forall>req. decode l = Inr req \<longrightarrow> \<not> is_shutdown req) (cl_lines c))"

lemma serve_line_Shutdown:
  "serve_line kn decode line s = (out, Some Shutdown, t) \<Longrightarrow> \<exists>req. decode line = Inr req \<and> is_shutdown req"
  by (auto simp: serve_line_def line_response_def Let_def
      split: if_splits sum.splits option.splits prod.splits)

lemma serve_client_untold:
  assumes "untold (de_decode e) m" "i < length (dm_clients m)"
  shows "untold (de_decode e) (serve_client e i m)"
proof -
  let ?c = "dm_clients m ! i"
  have c: "list_all (\<lambda>l. \<forall>req. de_decode e l = Inr req \<longrightarrow> \<not> is_shutdown req) (cl_lines ?c)"
    using assms by (simp add: untold_def)
  obtain out fin t where sl: "serve_line (de_kernel e (dm_served m)) (de_decode e)
      (cl_lines ?c ! cl_read ?c) (dm_db m) = (out, fin, t)" by (metis prod_cases3)
  have "fin \<noteq> Some Shutdown" if "cl_read ?c < length (cl_lines ?c)"
    using serve_line_Shutdown sl c that by (fastforce simp: list_all_length)
  with assms c sl show ?thesis
    by (auto simp: untold_def serve_client_def Let_def not_le
        dest!: set_update_subset_insert [THEN subsetD])
qed

lemma quiet_run:
  assumes "list_all (quiet_event (de_decode e)) evs" "untold (de_decode e) m"
  shows "untold (de_decode e) (daemon_run e evs m)"
  using assms
proof (induction evs arbitrary: m)
  case (Cons ev evs)
  have "untold (de_decode e) (daemon_step e ev m)"
    using Cons.prems serve_client_untold [of e m]
    by (cases ev) (auto simp: quiet_event_def untold_def accept_client_def tick_daemon_def)
  with Cons show ?case by simp
qed simp

end
