(* ===== verification/Server_Guarantees.thy ===== *)
theory Server_Guarantees
  imports Request_Guarantees Server
begin

text \<open>
  Guarantees of the running daemon, for every order in which clients connect, lines arrive,
  the producer ticks and signals come.
\<close>

definition demo_daemon_env :: daemon_env where
  "demo_daemon_env =
     \<lparr>de_kernel = (\<lambda>_. demo_kernel),
      de_decode = (\<lambda>l. if l = ''s'' then Inr stop_request else demo_decode l),
      de_tick_clock = (\<lambda>_ _. ''9''), de_stellar = stellar_default, de_config = demo_config\<rparr>"

text \<open>
  C10: Every state of the database is reachable, across requests, clients and restarts. A kernel
  that comes up on an empty database has a reachable state. From then on, launch the daemon any
  number of times; in every run let clients send what they want, in whatever order their
  requests, the ticks of the energy producer and the end of the run come, and let launches fail
  where they may: the database is in a reachable state, so all invariants of reachable states
  hold in it.
\<close>

theorem states_reachable_across_restarts:
  assumes "\<And>l i. l \<in> set launches \<Longrightarrow> k_ext (kn_env (de_kernel (la_env l) i)) = x"
  shows "(boot_kernel b dir keys init_schema = (Inr kn, keys', t) \<longrightarrow> reachable x t)
    \<and> (reachable x s \<longrightarrow> reachable x (database_after launches s))"
  using assms boot_kernel_up_reachable [of init_schema x b dir keys kn keys' t]
    database_after_reachable [of launches x s] by simp

definition demo_launch :: "daemon_event list \<Rightarrow> launch" where
  "demo_launch evs =
     \<lparr>la_args = [''punkgo-kerneld''], la_locked = False, la_alive = (\<lambda>_. False), la_pid = 7,
      la_files = Map.empty, la_files_after = Map.empty,
      la_boot = \<lparr>bo_mkdir = (\<lambda>_. None), bo_connect = (\<lambda>_ _. None), bo_cpus = Some 4,
        bo_kernel_env = demo_env, bo_de_query = (\<lambda>_. Some demo_query), bo_seed = replicate 32 1,
        bo_toml_file = None, bo_toml = (\<lambda>_. Inl []), bo_show_f64 = (\<lambda>_. [])\<rparr>,
      la_keys = Map.empty, la_env = demo_daemon_env, la_events = evs\<rparr>"

text \<open>Two runs of a daemon, the first of them with clients.\<close>

definition demo_events :: "daemon_event list" where
  "demo_events = [Accept [''q'', ''x''], Accept [[], ''x''], NextLine 1, NextLine 0, NextLine 1, ProducerFails]"

definition demo_launches :: "launch list" where
  "demo_launches = [demo_launch demo_events, demo_launch [Interval]]"

lemma demo_boot:
  "\<exists>kn keys' t. boot_kernel (la_boot (demo_launch [])) ''/s'' Map.empty init_schema = (Inr kn, keys', t)"
proof -
  have "is_ok (run_startup_integrity_checks (seed_defaults now init_schema))" for now
    by (simp add: startup_checks_iff seed_defaults_def seed_actor_def seed_ledger_def seed_meta_def
        ledger_get_def actor_row_get_def row_ok_def)
  from this [of "now_millis_string demo_env 0 31 0"]
  obtain c where "run_startup_integrity_checks (seed_defaults (now_millis_string demo_env 0 31 0) init_schema)
      = Inr c" by (cases "run_startup_integrity_checks (seed_defaults (now_millis_string demo_env 0 31 0) init_schema)")
      (auto simp: is_ok_def)
  then show ?thesis
    by (simp add: boot_kernel_def open_store_def store_dirs_def demo_launch_def kernel_bootstrap_def
        state_bootstrap_def Let_def load_or_generate_def generate_and_save_def load_stellar_config_def)
qed

theorem states_reachable_across_restarts_witness:
  "\<exists>kn keys' t. boot_kernel (la_boot (demo_launch [])) ''/s'' Map.empty init_schema = (Inr kn, keys', t)
     \<and> reachable demo_ext (database_after demo_launches t)"
proof -
  have x: "k_ext (kn_env (de_kernel (la_env l) i)) = demo_ext" if "l \<in> set demo_launches" for l i
    using that by (auto simp: demo_launches_def demo_launch_def demo_daemon_env_def demo_kernel_def)
  obtain kn keys' t where b: "boot_kernel (la_boot (demo_launch [])) ''/s'' Map.empty init_schema = (Inr kn, keys', t)"
    using demo_boot by blast
  from states_reachable_across_restarts [of demo_launches, OF x] b show ?thesis by blast
qed

text \<open>
  C30: Every client gets its own answers, in order. However the requests of concurrent clients
  interleave, what a client has received is exactly one response for each non-blank line read
  from it, in the order of its lines, each carrying the identifier of its request (\<open>unknown\<close> for
  a line that is not a request), unless a response could not be serialized.
\<close>

theorem responses_reach_their_clients:
  assumes "c \<in> set (dm_clients (daemon_run e evs (daemon_init files s)))" "cl_end c \<noteq> Some WriteError"
  shows "list_all2 (answers e) (served_lines c) (cl_output c)"
  using clients_inv.run_inv [of "daemon_init files s" e evs] assms
  by (auto simp: daemon_init_def client_ok_def)

text \<open>A line that is no request is answered with an error.\<close>

lemma demo_serve:
  assumes "cl_end (dm_clients m ! i) = None" "cl_lines (dm_clients m ! i) = xs @ line # ys"
    and "cl_read (dm_clients m ! i) = length xs" "line \<notin> {''s'', ''q''}" "\<not> is_blank line"
  shows "serve_client demo_daemon_env i m = m\<lparr>dm_served := Suc (dm_served m), dm_clients := (dm_clients m)
    [i := (dm_clients m ! i)\<lparr>cl_read := Suc (length xs),
       cl_output := cl_output (dm_clients m ! i) @ [str_bytes ''{}'' @ [10]], cl_end := None\<rparr>]\<rparr>"
proof -
  have "serve_line (de_kernel demo_daemon_env j) (de_decode demo_daemon_env) line s
      = ([str_bytes ''{}'' @ [10]], None, s)" for j s
    using assms(4,5) by (simp add: serve_line_def line_response_def write_response_def json_vec_def
        demo_kernel_def demo_ext_def demo_daemon_env_def demo_decode_def)
  with assms(1-3) show ?thesis by (simp add: serve_client_def Let_def)
qed

definition chat :: daemon where
  "chat = daemon_run demo_daemon_env [Accept [''x'', ''y''], Accept [''z''], NextLine 0, NextLine 1, NextLine 0]
     (daemon_init Map.empty fresh_db)"

lemma demo_lines: "\<not> is_blank ''x''" "\<not> is_blank ''y''" "\<not> is_blank ''z''"
  by code_simp+

lemma chat_clients: "dm_clients chat =
  [\<lparr>cl_lines = [''x'', ''y''], cl_read = 2,
    cl_output = [str_bytes ''{}'' @ [10], str_bytes ''{}'' @ [10]], cl_end = None\<rparr>,
   \<lparr>cl_lines = [''z''], cl_read = 1, cl_output = [str_bytes ''{}'' @ [10]], cl_end = None\<rparr>]"
  unfolding chat_def
  by (simp add: daemon_init_def accept_client_def demo_lines
      demo_serve [where xs = "[]" and line = "''x''" and ys = "[''y'']"]
      demo_serve [where xs = "[]" and line = "''z''" and ys = "[]"]
      demo_serve [where xs = "[''x'']" and line = "''y''" and ys = "[]"])

theorem responses_reach_their_clients_witness:
  "\<exists>c \<in> set (dm_clients chat). served_lines c = [''x'', ''y'']
     \<and> list_all2 (answers demo_daemon_env) [''x'', ''y''] (cl_output c)"
proof -
  have c: "dm_clients chat ! 0 \<in> set (dm_clients chat)" "served_lines (dm_clients chat ! 0) = [''x'', ''y'']"
    "cl_end (dm_clients chat ! 0) \<noteq> Some WriteError"
    by (simp_all add: chat_clients served_lines_def demo_lines eval_nat_numeral)
  from responses_reach_their_clients [OF c(1) [unfolded chat_def] c(3) [unfolded chat_def]] c(1,2)
  show ?thesis unfolding chat_def by metis
qed

text \<open>
  C31: A shutdown command stops the daemon. Once a client of a running daemon has sent it (as the
  daemon that replaces it does), the command is answered and leaves the database alone, and
  whatever happens in the meantime, when the producer has returned the daemon is gone: its
  address file is empty, its socket is removed and nothing it owned changes any more.
\<close>

theorem shutdown_command_stops_daemon:
  assumes "dm_phase m \<noteq> Exited" "i < length (dm_clients m)" "cl_end (dm_clients m ! i) = None"
    and "cl_read (dm_clients m ! i) < length (cl_lines (dm_clients m ! i))"
    and "cl_lines (dm_clients m ! i) ! cl_read (dm_clients m ! i) = line" "\<not> is_blank line"
    and "decodes (de_decode e) line shutdown_request"
    and "write_response (k_ext (kn_env (de_kernel e (dm_served m)))) (response_ok ''shutdown-replace''
           (json_obj [(''message'', JString ''shutting down'')])) = Some out"
  shows "dm_db (daemon_step e (NextLine i) m) = dm_db m
    \<and> cl_output (dm_clients (daemon_step e (NextLine i) m) ! i) = cl_output (dm_clients m ! i) @ [out]
    \<and> dm_phase (daemon_run e (NextLine i # evs @ [ProducerStops]) m) = Exited
    \<and> dm_files (daemon_run e (NextLine i # evs @ [ProducerStops]) m) = daemon_exit (de_config e) (dm_files m)
    \<and> daemon_run e (NextLine i # evs @ [ProducerStops] @ evs') m
      = daemon_run e (NextLine i # evs @ [ProducerStops]) m"
proof -
  let ?m1 = "daemon_step e (NextLine i) m" and ?m2 = "daemon_run e (NextLine i # evs @ [ProducerStops]) m"
  have "de_decode e line = Inr stop_request" using assms(7) by (simp add: decodes_stop)
  then have sl: "serve_line (de_kernel e (dm_served m)) (de_decode e) line (dm_db m) = ([out], Some Shutdown, dm_db m)"
    using assms(6,8) stop_is_shutdown
    by (simp add: serve_line_def line_response_def stop_request_def)
  then have 1: "dm_db ?m1 = dm_db m" "dm_shutdown ?m1" "dm_files ?m1 = dm_files m" "dm_phase ?m1 = dm_phase m"
    "cl_output (dm_clients ?m1 ! i) = cl_output (dm_clients m ! i) @ [out]"
    using assms(1-5) by (simp_all add: serve_client_def Let_def)
  have "dm_shutdown (daemon_run e evs ?m1)" using told_inv.run_inv 1(2) .
  then have exited: "dm_phase ?m2 = Exited" by (simp add: exit_daemon_def)
  have "dm_files ?m2 = (if dm_phase ?m2 = Exited then daemon_exit (de_config e) (dm_files m) else dm_files m)"
    using assms(1) by (intro files_inv.run_inv) simp
  with exited 1 exited_final [OF exited] show ?thesis by simp
qed

text \<open>A running daemon with a client that is about to send the command.\<close>

definition stop_daemon :: daemon where
  "stop_daemon = (daemon_init [addr_path (kc_state_dir demo_config) \<mapsto> ''pid=7''] noted_db)\<lparr>
     dm_clients := [\<lparr>cl_lines = [''q'', ''s''], cl_read = 1, cl_output = [], cl_end = None\<rparr>]\<rparr>"

theorem shutdown_command_stops_daemon_witness:
  "dm_phase (daemon_run demo_daemon_env (NextLine 0 # [Interval, NextLine 0] @ [ProducerStops]) stop_daemon) = Exited
   \<and> dm_files (daemon_run demo_daemon_env (NextLine 0 # [Interval, NextLine 0] @ [ProducerStops]) stop_daemon)
       (addr_path (kc_state_dir demo_config)) = Some []"
proof -
  have m: "dm_phase stop_daemon \<noteq> Exited" "0 < length (dm_clients stop_daemon)"
    "cl_end (dm_clients stop_daemon ! 0) = None"
    "cl_read (dm_clients stop_daemon ! 0) < length (cl_lines (dm_clients stop_daemon ! 0))"
    "cl_lines (dm_clients stop_daemon ! 0) ! cl_read (dm_clients stop_daemon ! 0) = ''s''"
    by (simp_all add: stop_daemon_def daemon_init_def)
  have b: "\<not> is_blank ''s''" by code_simp
  have d: "decodes (de_decode demo_daemon_env) ''s'' shutdown_request"
    by (simp add: decodes_stop demo_daemon_env_def)
  have "write_response (k_ext (kn_env (de_kernel demo_daemon_env (dm_served stop_daemon)))) r
      = Some (str_bytes ''{}'' @ [10])" for r
    by (simp add: write_response_def json_vec_def demo_kernel_def demo_ext_def demo_daemon_env_def)
  from shutdown_command_stops_daemon [OF m b d this, of "[Interval, NextLine 0]"] show ?thesis
    by (simp add: daemon_exit_def demo_daemon_env_def)
qed

end
