(* ===== verification/Usage.thy ===== *)
theory Usage
  imports Cli Kernel_Read
begin

text \<open>
  The usage screen of the client (\<open>print_usage\<close> of \<open>bins/punkgo-cli/src/main.rs\<close>), and that it
  tells the truth about the commands and the kinds of read requests it names.
\<close>

definition dq :: "string \<Rightarrow> string" where
  "dq t = [CHR 34] @ t @ [CHR 34]"

definition print_usage :: "string list" where
  "print_usage =
     [''punkgo-cli - interact with punkgo-kerneld'',
      [],
      ''Usage:'',
      ''  punkgo-cli [--endpoint <pipe-or-socket>] <command> ...'',
      [],
      ''Commands:'',
      ''  read <kind> [--actor-id <id>] [--limit <n>] [--log-index <n>] [--tree-size <n>] [--old-size <n>]'',
      ''  quote '' @ quoted ''<action-json>'',
      ''  submit '' @ quoted ''<action-json>'',
      ''  seed-actor <new-actor-id> [--energy <n>] [--as <operator-actor>]'',
      ''  audit checkpoint'',
      ''  audit proof <log-index> [--tree-size <n>]'',
      ''  audit consistency <old-size> <new-size>'',
      ''  send <quote|submit|read> '' @ quoted ''<payload-json>'',
      ''  raw '' @ quoted ''<full-request-json>'',
      [],
      ''Read kinds:'',
      ''  health, actor_energy, events, stats, snapshot, paths'',
      ''  audit_checkpoint, audit_inclusion_proof, audit_consistency_proof'',
      [],
      ''Examples:'',
      ''  punkgo-cli read health'',
      ''  punkgo-cli read actor_energy --actor-id root'',
      ''  punkgo-cli seed-actor alice --energy 5000'',
      ''  punkgo-cli audit checkpoint'',
      ''  punkgo-cli audit proof 0'',
      ''  punkgo-cli audit proof 0 --tree-size 3'',
      ''  punkgo-cli audit consistency 1 3'',
      ''  punkgo-cli read audit_inclusion_proof --log-index 0'',
      ''  punkgo-cli quote '' @ quoted (''{'' @ dq ''actor_id'' @ '':'' @ dq ''root'' @ '','' @
        dq ''action_type'' @ '':'' @ dq ''mutate'' @ '','' @ dq ''target'' @ '':'' @ dq ''workspace/a'' @ '','' @
        dq ''payload'' @ '':{'' @ dq ''k'' @ '':'' @ dq ''v'' @ ''}}''),
      ''  punkgo-cli submit '' @ quoted (''{'' @ dq ''actor_id'' @ '':'' @ dq ''root'' @ '','' @
        dq ''action_type'' @ '':'' @ dq ''execute'' @ '','' @ dq ''target'' @ '':'' @ dq ''workspace/a'' @ '','' @
        dq ''payload'' @ '':{'' @ dq ''command'' @ '':'' @ dq ''cmd'' @ '','' @ dq ''args'' @ '':['' @
        dq ''/c'' @ '','' @ dq ''echo hi'' @ '']}}'')]"

section \<open>The examples\<close>

text \<open>The words of a line, as a shell splits it when there are no quotes.\<close>

fun shell_words :: "string \<Rightarrow> string \<Rightarrow> string list" where
  "shell_words acc [] = (if acc = [] then [] else [rev acc])"
| "shell_words acc (c # cs) =
     (if c = CHR '' '' then (if acc = [] then shell_words [] cs else rev acc # shell_words [] cs)
      else shell_words (c # acc) cs)"

definition usage_examples :: "string list list" where
  "usage_examples =
     map (tl \<circ> shell_words [])
       (filter (\<lambda>l. CHR 0x27 \<notin> set l) (tl (dropWhile (\<lambda>l. l \<noteq> ''Examples:'') print_usage)))"

text \<open>Every example without a JSON argument is a command line that the client accepts.\<close>

lemma usage_examples_build:
  "length usage_examples = 8 \<and>
   list_all (\<lambda>args. \<not> isl (build_request cx (hd args) (tl args))) usage_examples"
proof -
  have words: "usage_examples =
    [[''read'', ''health''], [''read'', ''actor_energy'', ''--actor-id'', ''root''],
     [''seed-actor'', ''alice'', ''--energy'', ''5000''], [''audit'', ''checkpoint''],
     [''audit'', ''proof'', ''0''], [''audit'', ''proof'', ''0'', ''--tree-size'', ''3''],
     [''audit'', ''consistency'', ''1'', ''3''],
     [''read'', ''audit_inclusion_proof'', ''--log-index'', ''0'']]"
    by code_simp
  have numbers: "parse_i64 ''0'' = Some 0" "parse_i64 ''1'' = Some 1" "parse_i64 ''3'' = Some 3"
    "parse_i64 ''5000'' = Some 5000" "\<not> is_blank ''alice''"
    by code_simp+
  show ?thesis
    by (simp add: words numbers build_request_def build_read_request_def build_seed_actor_request_def
        build_audit_request_def parse_size_def parse_flag_def set_read_opt_def read_flags_def and_then_def)
qed

section \<open>The kinds of reads\<close>

definition usage_kinds :: "string list" where
  "usage_kinds =
     concat (map (map (filter (\<lambda>c. c \<noteq> CHR '','')) \<circ> shell_words [])
       (takeWhile (\<lambda>l. l \<noteq> []) (tl (dropWhile (\<lambda>l. l \<noteq> ''Read kinds:'') print_usage))))"

text \<open>Any answer but the one to a kind that the kernel does not know.\<close>

definition supported :: "'a kernel_result \<Rightarrow> bool" where
  "supported r \<longleftrightarrow> (\<forall>kind. r \<noteq> Inl (InvalidRequest (''unsupported read query kind: '' @ kind)))"

lemma supported_simps [simp]:
  "supported (Inr a)" "supported (Inl (ActorNotFound b))" "supported (Inl (Audit c))"
  by (simp_all add: supported_def)

lemma supported_require [simp]:
  "take 2 msg \<noteq> ''un'' \<Longrightarrow> supported (require msg v)"
  by (cases v) (auto simp: supported_def require_def)

lemma supported_audit [simp]: "supported (audit_err r)"
  by (cases r) (simp_all add: audit_err_def map_err_def)

lemma supported_bind:
  "supported (fst (m s)) \<Longrightarrow> (\<And>a t. supported (fst (f a t))) \<Longrightarrow> supported (fst (h_bind m f s))"
  by (auto simp: h_bind_def supported_def split: sum.splits prod.splits)

lemma supported_refresh: "supported (fst (refresh_checkpoint kn s))"
  using supported_audit by (auto simp: refresh_checkpoint_def run_tx_def supported_def split: sum.splits)

lemma supported_size: "supported (fst (proof_tree_size kn n s))"
  by (auto simp: proof_tree_size_def h_return_def split: option.splits
      intro!: supported_bind supported_refresh)

lemmas supported_rules = supported_bind supported_refresh supported_size

text \<open>The kernel knows every kind that the screen names.\<close>

lemma usage_kinds_supported:
  assumes "q_kind q \<in> set usage_kinds"
  shows "supported (fst (read_query_kind kn q s))"
proof -
  have kinds: "usage_kinds =
    [''health'', ''actor_energy'', ''events'', ''stats'', ''snapshot'', ''paths'', ''audit_checkpoint'',
     ''audit_inclusion_proof'', ''audit_consistency_proof'']"
    by code_simp
  have handlers: "supported (fst (read_actor_energy q s))" "supported (fst (read_events kn q s))"
    "supported (fst (read_snapshot kn s))" "supported (fst (read_checkpoint kn s))"
    "supported (fst (read_inclusion kn q s))" "supported (fst (read_consistency kn q s))"
    by (auto simp: read_actor_energy_def read_events_def read_snapshot_def read_checkpoint_def
        read_inclusion_def read_consistency_def balance_view_def h_return_def h_lift_def Let_def
        split: option.splits intro!: supported_rules)
  show ?thesis using assms handlers unfolding kinds read_query_kind_def Let_def by auto
qed

end
