(* ===== verification/Unit_Tests.thy ===== *)
theory Unit_Tests
  imports Kernel_Read Blob_Store
begin

text \<open>
  The unit tests of the sources, run on the model. Every test function is a definition that
  takes the external code it reaches as an argument; \<open>stand_in\<close> has simple functions in its
  place: a printer of JSON values, a matcher of the patterns in use (with the path separator
  literal, as the sources configure it), and a hash and signatures that keep what the tests
  tell apart. The assertions of a test are the conjuncts of its definition.
\<close>

section \<open>Stand-ins\<close>

fun comma_sep :: "string list \<Rightarrow> string" where
  "comma_sep [] = []"
| "comma_sep [s] = s"
| "comma_sep (s # ss) = s @ '','' @ comma_sep ss"

fun plain_json :: "json \<Rightarrow> string" where
  "plain_json JNull = ''null''"
| "plain_json (JBool b) = (if b then ''true'' else ''false'')"
| "plain_json (JNumber (PosInt n)) = dec_of_nat (unat n)"
| "plain_json (JNumber (NegInt i)) = fmt_int i"
| "plain_json (JNumber (Float _)) = ''0.0''"
| "plain_json (JString s) = debug_str s"
| "plain_json (JArray vs) = ''['' @ comma_sep (map plain_json vs) @ '']''"
| "plain_json (JObject kvs) =
     ''{'' @ comma_sep (map (\<lambda>(k, v). debug_str k @ '':'' @ plain_json v) kvs) @ ''}''"

definition plain_glob :: glob_compiler where
  "plain_glob pat = Some (\<lambda>t.
     if pat = ''**'' then True
     else if suffix ''/**'' pat
     then (let dir = take (length pat - 2) pat in prefix dir t \<and> t \<noteq> dir)
     else (case split_once (CHR ''*'') pat of
             None \<Rightarrow> t = pat
           | Some (p, q) \<Rightarrow>
               prefix p t \<and> suffix q t \<and> length p + length q \<le> length t
               \<and> CHR ''/'' \<notin> set (drop (length p) (take (length t - length q) t))))"

definition pad32 :: "byte list \<Rightarrow> byte list" where
  "pad32 bs = take 32 (bs @ replicate 32 0)"

definition stand_in :: ext where
  "stand_in =
     \<lparr>glob = plain_glob, json_text = (\<lambda>v. Some (plain_json v)), json_parse = (\<lambda>_. None),
      de_strings = (\<lambda>_. None), de_wts = (\<lambda>_. None), de_rules = (\<lambda>_. None), de_action = (\<lambda>_. None),
      sha256 = pad32, sql_like = (\<lambda>_ _. False), stored_hash_index = (\<lambda>_ _. 0),
      node_hash = (\<lambda>_ _. replicate 32 0), tree_hash = (\<lambda>_ _. Inr (replicate 32 0)),
      prove_record = (\<lambda>_ _ _. Inr []), prove_tree = (\<lambda>_ _ _. Inr []), hash_show = (\<lambda>_. []),
      checkpoint_bytes = (\<lambda>_ _ _ _. None), hex_encode = bytes_to_hex, hex_decode = hex_pairs,
      ed_sign = (\<lambda>sk msg. pad32 sk @ pad32 msg), ed_public = pad32, ed_key = (\<lambda>_. True),
      ed_verify = (\<lambda>pk msg sig. sig = pk @ pad32 msg)\<rparr>"

text \<open>\<open>result.unwrap_err().to_string().contains(..)\<close>.\<close>

definition err_contains :: "'a kernel_result \<Rightarrow> string \<Rightarrow> bool" where
  "err_contains r needle = (case r of Inl e \<Rightarrow> sublist needle (error_to_string e) | Inr _ \<Rightarrow> False)"

section \<open>Actions\<close>

definition make_action :: "action_type \<Rightarrow> json \<Rightarrow> action" where
  "make_action ty payload =
     \<lparr>act_actor_id = ''root'', act_type = ty, act_target = ''workspace/a'', act_payload = payload,
      act_timestamp = None\<rparr>"

definition quote_observe_scales_with_payload :: "(json \<Rightarrow> byte list option) \<Rightarrow> bool" where
  "quote_observe_scales_with_payload to_vec \<longleftrightarrow>
     quote_cost to_vec (make_action Observe (json_obj [])) = 1
     \<and> quote_cost to_vec (make_action Observe (json_obj [(''msg'', JString ''hello'')])) = 1
     \<and> quote_cost to_vec (make_action Observe
          (json_obj [(''data'', JString (replicate 2048 (CHR ''x'')))])) \<ge> 3"

definition quote_execute_uses_output_bytes :: "(json \<Rightarrow> byte list option) \<Rightarrow> bool" where
  "quote_execute_uses_output_bytes to_vec \<longleftrightarrow>
     quote_cost to_vec (make_action Execute (json_obj [])) = 26
     \<and> quote_cost to_vec (make_action Execute (json_obj [(''output_bytes'', json_i64 256)])) = 27
     \<and> quote_cost to_vec (make_action Execute (json_obj [(''output_bytes'', json_i64 2560)])) = 36"

definition payload_hash_is_deterministic :: "ext \<Rightarrow> bool" where
  "payload_hash_is_deterministic x \<longleftrightarrow>
     (let a = make_action Mutate (json_obj [(''k'', JString ''v'')]);
          h1 = payload_hash_hex (json_vec x) (sha256 x) a;
          h2 = payload_hash_hex (json_vec x) (sha256 x) a
      in is_ok h1 \<and> is_ok h2 \<and> h1 = h2)"

section \<open>Actors\<close>

definition derive_agent_id_basic :: bool where
  "derive_agent_id_basic \<longleftrightarrow> derive_agent_id ''root'' ''doc-organizer'' 1 = ''root/doc-organizer/1''"

definition derive_agent_id_second_agent :: bool where
  "derive_agent_id_second_agent \<longleftrightarrow>
     derive_agent_id ''root'' ''tiktok-downloader'' 1 = ''root/tiktok-downloader/1''"

definition derive_agent_id_sanitizes_spaces :: bool where
  "derive_agent_id_sanitizes_spaces \<longleftrightarrow>
     derive_agent_id ''root'' ''My Cool Agent'' 1 = ''root/my-cool-agent/1''"

definition build_lineage_human_creator :: bool where
  "build_lineage_human_creator \<longleftrightarrow> build_lineage Human ''root'' [] = [''root'']"

definition build_lineage_agent_creator_fallback :: bool where
  "build_lineage_agent_creator_fallback \<longleftrightarrow>
     build_lineage Agent ''root/worker/1'' [''root''] = [''root/worker/1'']"

definition actor_type_roundtrip :: bool where
  "actor_type_roundtrip \<longleftrightarrow>
     actor_type_parse ''human'' = Some Human \<and> actor_type_parse ''agent'' = Some Agent
     \<and> actor_type_parse ''unknown'' = None"

definition actor_status_roundtrip :: bool where
  "actor_status_roundtrip \<longleftrightarrow>
     actor_status_parse ''active'' = Some Active \<and> actor_status_parse ''frozen'' = Some Frozen"

section \<open>Boundaries\<close>

definition make_actor :: "string \<Rightarrow> writable_target list \<Rightarrow> actor_record" where
  "make_actor actor_id targets =
     \<lparr>ar_actor_id = actor_id, ar_actor_type = Agent, ar_creator_id = Some ''root'',
      ar_lineage = [''root''], ar_purpose = Some ''test'', ar_status = Active,
      ar_writable_targets = targets, ar_energy_share = Fin 0, ar_reduction_policy = ''none'',
      ar_created_at = ''0'', ar_updated_at = ''0''\<rparr>"

definition wt :: "string \<Rightarrow> string list \<Rightarrow> writable_target" where
  "wt target actions = \<lparr>wt_target = target, wt_actions = actions\<rparr>"

definition boundary_observe_exempt :: "glob_compiler \<Rightarrow> bool" where
  "boundary_observe_exempt g \<longleftrightarrow>
     is_ok (check_writable_boundary g (make_actor ''agent-1'' []) ''workspace/secret'' Observe)"

definition boundary_default_deny :: "glob_compiler \<Rightarrow> bool" where
  "boundary_default_deny g \<longleftrightarrow>
     (let result = check_writable_boundary g (make_actor ''agent-1'' []) ''workspace/a'' Mutate
      in \<not> is_ok result
         \<and> (err_contains result ''BoundaryViolation'' \<or> err_contains result ''no writable_target''))"

definition boundary_exact_match :: "glob_compiler \<Rightarrow> bool" where
  "boundary_exact_match g \<longleftrightarrow>
     is_ok (check_writable_boundary g (make_actor ''agent-1'' [wt ''workspace/a'' [''mutate'']])
       ''workspace/a'' Mutate)"

definition boundary_glob_star :: "glob_compiler \<Rightarrow> bool" where
  "boundary_glob_star g \<longleftrightarrow>
     (let actor = make_actor ''agent-1'' [wt ''workspace/*'' [''create'', ''mutate'']]
      in is_ok (check_writable_boundary g actor ''workspace/foo'' Create)
         \<and> \<not> is_ok (check_writable_boundary g actor ''workspace/foo/bar'' Create))"

definition boundary_glob_doublestar :: "glob_compiler \<Rightarrow> bool" where
  "boundary_glob_doublestar g \<longleftrightarrow>
     (let actor = make_actor ''agent-1'' [wt ''workspace/**'' [''create'', ''mutate'']]
      in is_ok (check_writable_boundary g actor ''workspace/foo'' Create)
         \<and> is_ok (check_writable_boundary g actor ''workspace/foo/bar/baz'' Mutate))"

definition boundary_action_mismatch :: "glob_compiler \<Rightarrow> bool" where
  "boundary_action_mismatch g \<longleftrightarrow>
     \<not> is_ok (check_writable_boundary g (make_actor ''agent-1'' [wt ''workspace/*'' [''create'']])
       ''workspace/a'' Mutate)"

definition boundary_privileged_target_denied :: "glob_compiler \<Rightarrow> bool" where
  "boundary_privileged_target_denied g \<longleftrightarrow>
     \<not> is_ok (check_writable_boundary g (make_actor ''agent-1'' [wt ''workspace/*'' [''create'']])
       ''system/config'' Create)"

definition boundary_privileged_target_root_allowed :: "glob_compiler \<Rightarrow> bool" where
  "boundary_privileged_target_root_allowed g \<longleftrightarrow>
     (let root = \<lparr>ar_actor_id = ''root'', ar_actor_type = Human, ar_creator_id = None,
            ar_lineage = [], ar_purpose = None, ar_status = Active,
            ar_writable_targets = [wt ''**'' [''create'', ''mutate'', ''execute'']],
            ar_energy_share = Fin 100, ar_reduction_policy = ''none'',
            ar_created_at = ''0'', ar_updated_at = ''0''\<rparr>
      in is_ok (check_writable_boundary g root ''system/config'' Create)
         \<and> is_ok (check_writable_boundary g root ''ledger/actor'' Create))"

definition boundary_child_subset_enforced :: "glob_compiler \<Rightarrow> bool" where
  "boundary_child_subset_enforced g \<longleftrightarrow>
     (let parent = make_actor ''root'' [wt ''workspace/*'' [''create'', ''mutate'']]
      in is_ok (validate_child_targets g parent [wt ''workspace/a'' [''create'']])
         \<and> \<not> is_ok (validate_child_targets g parent [wt ''data/secret'' [''create'']])
         \<and> \<not> is_ok (validate_child_targets g parent [wt ''workspace/a'' [''execute'']]))"

definition boundary_doublestar_parent_covers_all :: "glob_compiler \<Rightarrow> bool" where
  "boundary_doublestar_parent_covers_all g \<longleftrightarrow>
     is_ok (validate_child_targets g
       (make_actor ''root'' [wt ''**'' [''create'', ''mutate'', ''execute'']])
       [wt ''workspace/deep/nested/path'' [''create'', ''mutate'']])"

definition is_privileged_target_detection :: bool where
  "is_privileged_target_detection \<longleftrightarrow>
     is_privileged_target ''system/config'' \<and> is_privileged_target ''system/policy''
     \<and> is_privileged_target ''ledger/actor'' \<and> is_privileged_target ''ledger/energy''
     \<and> \<not> is_privileged_target ''workspace/a'' \<and> \<not> is_privileged_target ''data/file''"

definition glob_match_various_patterns :: "glob_compiler \<Rightarrow> bool" where
  "glob_match_various_patterns g \<longleftrightarrow>
     glob_match g ''**'' ''anything/at/all'' \<and> glob_match g ''workspace/*'' ''workspace/a''
     \<and> \<not> glob_match g ''workspace/*'' ''workspace/a/b''
     \<and> glob_match g ''workspace/**'' ''workspace/a/b/c''
     \<and> glob_match g ''data/*.json'' ''data/file.json''
     \<and> \<not> glob_match g ''data/*.json'' ''data/file.txt''"

section \<open>Consent\<close>

definition make_human :: "string \<Rightarrow> actor_record" where
  "make_human i =
     \<lparr>ar_actor_id = i, ar_actor_type = Human, ar_creator_id = None, ar_lineage = [],
      ar_purpose = None, ar_status = Active,
      ar_writable_targets =
        [\<lparr>wt_target = ''**'', wt_actions = [''create'', ''mutate'', ''execute'']\<rparr>],
      ar_energy_share = Fin 100, ar_reduction_policy = ''none'',
      ar_created_at = ''0'', ar_updated_at = ''0''\<rparr>"

definition make_agent :: "string \<Rightarrow> actor_record" where
  "make_agent i =
     \<lparr>ar_actor_id = i, ar_actor_type = Agent, ar_creator_id = Some ''root'', ar_lineage = [''root''],
      ar_purpose = Some ''test'', ar_status = Active,
      ar_writable_targets = [\<lparr>wt_target = ''workspace/*'', wt_actions = [''create'', ''mutate'']\<rparr>],
      ar_energy_share = Fin 0, ar_reduction_policy = ''none'',
      ar_created_at = ''0'', ar_updated_at = ''0''\<rparr>"

definition make_envelope :: "string \<Rightarrow> string \<Rightarrow> envelope_record" where
  "make_envelope i actor_id =
     \<lparr>en_envelope_id = i, en_actor_id = actor_id, en_grantor_id = ''root'',
      en_parent_envelope_id = None, en_budget = 10000, en_budget_consumed = 0,
      en_targets = [''workspace/*''], en_actions = [''create'', ''mutate''],
      en_duration_secs = None, en_report_every = None, en_hold_on = [], en_hold_timeout_secs = None,
      en_status = EnvActive, en_last_report_at = 0, en_created_at = ''0'', en_expires_at = None,
      en_updated_at = ''0''\<rparr>"

definition human_always_man_in_the_loop :: bool where
  "human_always_man_in_the_loop \<longleftrightarrow> determine_authorization_mode (make_human ''root'') = ManInTheLoop"

definition agent_is_man_on_the_loop :: bool where
  "agent_is_man_on_the_loop \<longleftrightarrow> determine_authorization_mode (make_agent ''agent-1'') = ManOnTheLoop"

definition human_authorized_without_envelope :: bool where
  "human_authorized_without_envelope \<longleftrightarrow> check_authorization (make_human ''root'') None = Inr ManInTheLoop"

definition agent_rejected_without_envelope :: bool where
  "agent_rejected_without_envelope \<longleftrightarrow>
     err_contains (check_authorization (make_agent ''agent-1'') None) ''requires an active envelope''"

definition agent_authorized_with_active_envelope :: bool where
  "agent_authorized_with_active_envelope \<longleftrightarrow>
     check_authorization (make_agent ''agent-1'') (Some (make_envelope ''env-1'' ''agent-1''))
       = Inr ManOnTheLoop"

definition envelope_covers_matching_target_and_action :: "glob_compiler \<Rightarrow> bool" where
  "envelope_covers_matching_target_and_action g \<longleftrightarrow>
     is_ok (check_envelope_covers g (make_envelope ''env-1'' ''agent-1'') ''workspace/readme'' ''create'')"

definition envelope_rejects_wrong_action :: "glob_compiler \<Rightarrow> bool" where
  "envelope_rejects_wrong_action g \<longleftrightarrow>
     err_contains (check_envelope_covers g (make_envelope ''env-1'' ''agent-1'') ''workspace/readme''
       ''execute'') ''does not permit action''"

definition envelope_rejects_wrong_target :: "glob_compiler \<Rightarrow> bool" where
  "envelope_rejects_wrong_target g \<longleftrightarrow>
     err_contains (check_envelope_covers g (make_envelope ''env-1'' ''agent-1'') ''data/secret''
       ''create'') ''does not cover target''"

definition envelope_rejects_exhausted_budget :: "glob_compiler \<Rightarrow> bool" where
  "envelope_rejects_exhausted_budget g \<longleftrightarrow>
     (let envelope = make_envelope ''env-1'' ''agent-1''
      in err_contains (check_envelope_covers g (envelope\<lparr>en_budget_consumed := en_budget envelope\<rparr>)
           ''workspace/a'' ''create'') ''budget exhausted'')"

definition checkpoint_halt_on_budget_exhaustion :: bool where
  "checkpoint_halt_on_budget_exhaustion \<longleftrightarrow>
     check_checkpoint ((make_envelope ''env-1'' ''agent-1'')\<lparr>en_budget := 100, en_budget_consumed := 90\<rparr>) 15
       = Some Halt"

definition checkpoint_report_on_threshold :: bool where
  "checkpoint_report_on_threshold \<longleftrightarrow>
     check_checkpoint ((make_envelope ''env-1'' ''agent-1'')\<lparr>en_budget := 10000, en_budget_consumed := 490,
       en_report_every := Some 500\<rparr>) 15 = Some Report"

definition checkpoint_none_when_no_threshold_crossed :: bool where
  "checkpoint_none_when_no_threshold_crossed \<longleftrightarrow>
     check_checkpoint ((make_envelope ''env-1'' ''agent-1'')\<lparr>en_budget := 10000, en_budget_consumed := 100,
       en_report_every := Some 500\<rparr>) 10 = None"

definition child_envelope :: "i64 \<Rightarrow> string list \<Rightarrow> string list \<Rightarrow> envelope_spec" where
  "child_envelope budget targets actions =
     \<lparr>es_actor_id = ''child-agent'', es_grantor_id = ''parent-agent'', es_budget = budget,
      es_targets = targets, es_actions = actions, es_duration_secs = None, es_report_every = None,
      es_hold_on = [], es_hold_timeout_secs = None\<rparr>"

definition envelope_reduction_budget_exceeds_parent :: "glob_compiler \<Rightarrow> bool" where
  "envelope_reduction_budget_exceeds_parent g \<longleftrightarrow>
     err_contains (validate_envelope_reduction g (make_envelope ''parent-env'' ''parent-agent'')
       (child_envelope 20000 [''workspace/*''] [''create''])) ''exceeds parent remaining''"

definition envelope_reduction_action_not_in_parent :: "glob_compiler \<Rightarrow> bool" where
  "envelope_reduction_action_not_in_parent g \<longleftrightarrow>
     err_contains (validate_envelope_reduction g (make_envelope ''parent-env'' ''parent-agent'')
       (child_envelope 5000 [''workspace/*''] [''execute''])) ''not in parent actions''"

definition envelope_reduction_valid_subset :: "glob_compiler \<Rightarrow> bool" where
  "envelope_reduction_valid_subset g \<longleftrightarrow>
     is_ok (validate_envelope_reduction g (make_envelope ''parent-env'' ''parent-agent'')
       (child_envelope 5000 [''workspace/docs''] [''create'']))"

definition lazy_expiry_not_expired :: bool where
  "lazy_expiry_not_expired \<longleftrightarrow> \<not> is_envelope_expired (make_envelope ''env-1'' ''agent-1'') 999999"

definition lazy_expiry_expired :: bool where
  "lazy_expiry_expired \<longleftrightarrow>
     (let envelope = (make_envelope ''env-1'' ''agent-1'')\<lparr>en_expires_at := Some ''1000''\<rparr>
      in is_envelope_expired envelope 2000 \<and> \<not> is_envelope_expired envelope 500)"

definition external_rules :: "hold_rule list" where
  "external_rules = [\<lparr>rule_target = ''external/*'', rule_actions = [''execute'']\<rparr>]"

definition hold_trigger_matches_target_and_action :: "glob_compiler \<Rightarrow> bool" where
  "hold_trigger_matches_target_and_action g \<longleftrightarrow>
     check_hold_trigger g external_rules ''external/api'' ''execute''"

definition hold_trigger_no_match_wrong_action :: "glob_compiler \<Rightarrow> bool" where
  "hold_trigger_no_match_wrong_action g \<longleftrightarrow>
     \<not> check_hold_trigger g external_rules ''external/api'' ''mutate''"

definition hold_trigger_no_match_wrong_target :: "glob_compiler \<Rightarrow> bool" where
  "hold_trigger_no_match_wrong_target g \<longleftrightarrow>
     \<not> check_hold_trigger g external_rules ''workspace/api'' ''execute''"

definition hold_trigger_empty_rules_never_triggers :: "glob_compiler \<Rightarrow> bool" where
  "hold_trigger_empty_rules_never_triggers g \<longleftrightarrow> \<not> check_hold_trigger g [] ''external/api'' ''execute''"

definition hold_trigger_multiple_rules_first_match :: "glob_compiler \<Rightarrow> bool" where
  "hold_trigger_multiple_rules_first_match g \<longleftrightarrow>
     (let rules = \<lparr>rule_target = ''system/*'', rule_actions = [''mutate'']\<rparr> # external_rules
      in check_hold_trigger g rules ''external/openai'' ''execute''
         \<and> check_hold_trigger g rules ''system/config'' ''mutate''
         \<and> \<not> check_hold_trigger g rules ''workspace/foo'' ''execute'')"

section \<open>Policy and stellar configuration\<close>

definition mutate_action :: "string \<Rightarrow> string \<Rightarrow> json \<Rightarrow> action" where
  "mutate_action actor_id target payload =
     \<lparr>act_actor_id = actor_id, act_type = Mutate, act_target = target, act_payload = payload,
      act_timestamp = None\<rparr>"

definition reject_empty_actor :: "(json \<Rightarrow> byte list option) \<Rightarrow> bool" where
  "reject_empty_actor to_vec \<longleftrightarrow> \<not> is_ok (validate_action to_vec (mutate_action [] ''t'' (json_obj [])))"

definition reject_empty_target :: "(json \<Rightarrow> byte list option) \<Rightarrow> bool" where
  "reject_empty_target to_vec \<longleftrightarrow>
     \<not> is_ok (validate_action to_vec (mutate_action ''root'' [] (json_obj [])))"

definition accept_valid_mutate :: "(json \<Rightarrow> byte list option) \<Rightarrow> bool" where
  "accept_valid_mutate to_vec \<longleftrightarrow>
     is_ok (validate_action to_vec
       (mutate_action ''root'' ''workspace/a'' (json_obj [(''name'', JString ''ok'')])))"

definition compute_energy_per_tick_with_default_tops :: bool where
  "compute_energy_per_tick_with_default_tops \<longleftrightarrow>
     (let ept = compute_energy_per_tick default_int8_tops in ept = 100 \<and> ept \<ge> min_energy_per_tick)"

definition compute_energy_per_tick_enforces_minimum :: bool where
  "compute_energy_per_tick_enforces_minimum \<longleftrightarrow>
     compute_energy_per_tick (Fin 1) = min_energy_per_tick"

definition compute_energy_per_tick_zero_tops :: bool where
  "compute_energy_per_tick_zero_tops \<longleftrightarrow> compute_energy_per_tick (Fin 0) = min_energy_per_tick"

definition compute_energy_per_tick_high_tops :: bool where
  "compute_energy_per_tick_high_tops \<longleftrightarrow> compute_energy_per_tick (Fin 500) = 500"

definition default_config_effective_energy :: bool where
  "default_config_effective_energy \<longleftrightarrow> effective_energy_per_tick stellar_default = 100"

definition config_explicit_override :: bool where
  "config_explicit_override \<longleftrightarrow>
     effective_energy_per_tick (stellar_default\<lparr>sc_energy_per_tick := Some 200\<rparr>) = 200"

definition load_missing_config_returns_default :: bool where
  "load_missing_config_returns_default \<longleftrightarrow>
     (case load_stellar_config ''/nonexistent/stellar.toml'' None (\<lambda>_. Inl []) (\<lambda>_. []) of
        Inl _ \<Rightarrow> False
      | Inr config \<Rightarrow> effective_energy_per_tick config = 100 \<and> sc_luminosity_source config = ''config'')"

section \<open>Lifecycle\<close>

definition parse_update_energy_share_op :: bool where
  "parse_update_energy_share_op \<longleftrightarrow>
     (case parse_lifecycle_op ''actor/agent-1''
             (json_obj [(''op'', JString ''update_energy_share''),
                        (''energy_share'', JNumber (Float (Fin (85 / 2))))]) of
        Some (i, UpdateEnergyShare (Fin q)) \<Rightarrow> i = ''agent-1'' \<and> \<bar>q - 85 / 2\<bar> < 1 / 2 ^ 52
      | _ \<Rightarrow> False)"

definition parse_update_energy_share_missing_value :: bool where
  "parse_update_energy_share_missing_value \<longleftrightarrow>
     parse_lifecycle_op ''actor/agent-1'' (json_obj [(''op'', JString ''update_energy_share'')]) = None"

definition parse_freeze_op :: bool where
  "parse_freeze_op \<longleftrightarrow>
     parse_lifecycle_op ''actor/agent-1''
       (json_obj [(''op'', JString ''freeze''), (''reason'', JString ''test'')])
     = Some (''agent-1'', Freeze (Some ''test''))"

definition parse_unfreeze_op :: bool where
  "parse_unfreeze_op \<longleftrightarrow>
     parse_lifecycle_op ''actor/agent-1'' (json_obj [(''op'', JString ''unfreeze'')])
     = Some (''agent-1'', Unfreeze)"

definition parse_non_lifecycle_target :: bool where
  "parse_non_lifecycle_target \<longleftrightarrow>
     parse_lifecycle_op ''workspace/a'' (json_obj [(''op'', JString ''freeze'')]) = None"

definition parse_unknown_op :: bool where
  "parse_unknown_op \<longleftrightarrow>
     parse_lifecycle_op ''actor/agent-1'' (json_obj [(''op'', JString ''destroy'')]) = None"

section \<open>Signing\<close>

text \<open>\<open>seed\<close> is the random seed of the generated key; the key file is in an empty directory.\<close>

definition generate_and_load_roundtrip :: "ext \<Rightarrow> byte list \<Rightarrow> bool" where
  "generate_and_load_roundtrip x seed \<longleftrightarrow>
     (case generate_and_save seed [''d'', ''signing_key''] Map.empty of
        (Inr sk1, fs) \<Rightarrow>
          (case load_key [''d'', ''signing_key''] fs of
             Inr sk2 \<Rightarrow> ed_public x sk1 = ed_public x sk2
           | Inl _ \<Rightarrow> False)
      | _ \<Rightarrow> False)"

definition sign_and_verify :: "ext \<Rightarrow> byte list \<Rightarrow> bool" where
  "sign_and_verify x sk \<longleftrightarrow>
     (let msg = str_bytes (''punkgo/kernel'' @ [CHR 10] @ ''42'' @ [CHR 10] @ ''hash='' @ [CHR 10])
      in verify_own x sk msg (sign x sk msg))"

definition wrong_message_fails_verify :: "ext \<Rightarrow> byte list \<Rightarrow> bool" where
  "wrong_message_fails_verify x sk \<longleftrightarrow>
     \<not> verify_own x sk (str_bytes ''wrong'') (sign x sk (str_bytes ''correct''))"

definition load_or_generate_creates_on_first_call :: "ext \<Rightarrow> byte list \<Rightarrow> bool" where
  "load_or_generate_creates_on_first_call x seed \<longleftrightarrow>
     (case load_or_generate seed [''d'', ''signing_key''] Map.empty of
        (Inr sk, fs) \<Rightarrow> fs [''d'', ''signing_key''] \<noteq> None \<and> length (public_key_hex x sk) = 64
      | _ \<Rightarrow> False)"

definition sign_checkpoint_produces_valid_extension :: "ext \<Rightarrow> byte list \<Rightarrow> bool" where
  "sign_checkpoint_produces_valid_extension x sk \<longleftrightarrow>
     (let body = str_bytes (''punkgo/kernel'' @ [CHR 10] @ ''100'' @ [CHR 10] @ ''aBcDeFgH='' @ [CHR 10]);
          line = sign_checkpoint x sk body
      in prefix ''sig/ed25519:'' line \<and> suffix [CHR 10] line
         \<and> (case parse_sig_extension line of
              Some (pubkey, sig) \<Rightarrow> verify_checkpoint_signature x pubkey body sig
            | None \<Rightarrow> False))"

definition parse_sig_extension_rejects_garbage :: bool where
  "parse_sig_extension_rejects_garbage \<longleftrightarrow>
     parse_sig_extension ''garbage'' = None \<and> parse_sig_extension ''sig/ed25519:short:short'' = None
     \<and> parse_sig_extension ''sig/rsa:abc:def'' = None"

definition verify_checkpoint_signature_rejects_wrong_key :: "ext \<Rightarrow> byte list \<Rightarrow> byte list \<Rightarrow> bool" where
  "verify_checkpoint_signature_rejects_wrong_key x sk1 sk2 \<longleftrightarrow>
     (let msg = str_bytes ''test message''
      in \<not> verify_checkpoint_signature x (public_key_hex x sk2) msg (hex_encode x (sign x sk1 msg)))"

section \<open>Blobs\<close>

text \<open>The store of \<open>temp_blob_store\<close>: an empty directory.\<close>

definition blobs_dir :: "string list" where
  "blobs_dir = [''blobs'']"

definition put_get_roundtrip :: "ext \<Rightarrow> byte list \<Rightarrow> bool" where
  "put_get_roundtrip x data \<longleftrightarrow>
     (let (oid, fs) = blob_put x blobs_dir data Map.empty
      in prefix ''sha256:'' oid \<and> blob_get blobs_dir oid fs = Inr data)"

definition deduplication :: "ext \<Rightarrow> bool" where
  "deduplication x \<longleftrightarrow>
     (let (oid1, fs) = blob_put x blobs_dir (str_bytes ''same content'') Map.empty;
          (oid2, _) = blob_put x blobs_dir (str_bytes ''same content'') fs
      in oid1 = oid2)"

definition different_content_different_oid :: "ext \<Rightarrow> bool" where
  "different_content_different_oid x \<longleftrightarrow>
     (let (oid1, fs) = blob_put x blobs_dir (str_bytes ''content A'') Map.empty;
          (oid2, _) = blob_put x blobs_dir (str_bytes ''content B'') fs
      in oid1 \<noteq> oid2)"

definition zero_oid :: string where
  "zero_oid = ''sha256:'' @ replicate 64 (CHR ''0'')"

definition exists_check :: "ext \<Rightarrow> bool" where
  "exists_check x \<longleftrightarrow>
     (let (oid, fs) = blob_put x blobs_dir (str_bytes ''test'') Map.empty
      in blob_exists blobs_dir oid fs \<and> \<not> blob_exists blobs_dir zero_oid fs)"

definition get_missing_blob_returns_error :: bool where
  "get_missing_blob_returns_error \<longleftrightarrow> \<not> is_ok (blob_get blobs_dir zero_oid Map.empty)"

definition invalid_oid_format :: bool where
  "invalid_oid_format \<longleftrightarrow>
     \<not> is_ok (blob_get blobs_dir ''md5:abc123'' Map.empty)
     \<and> \<not> is_ok (blob_get blobs_dir ''sha256:tooshort'' Map.empty)
     \<and> \<not> blob_exists blobs_dir ''bad-oid'' Map.empty"

definition binary_content :: "ext \<Rightarrow> bool" where
  "binary_content x \<longleftrightarrow> put_get_roundtrip x (map word_of_nat [0..<256])"

definition empty_content :: "ext \<Rightarrow> bool" where
  "empty_content x \<longleftrightarrow> put_get_roundtrip x []"

section \<open>The test kit\<close>

text \<open>
  \<open>testkit.rs\<close>, over the directory for temporary files and a random identifier. \<open>mkdir\<close> is
  \<open>create_dir_all\<close>; dropping a state directory removes it.
\<close>

definition test_state_dir :: "(string \<Rightarrow> string option) \<Rightarrow> string \<Rightarrow> string \<Rightarrow> string \<Rightarrow> string + string" where
  "test_state_dir mkdir temp_dir uuid prefix_name =
     (let dir = path_join temp_dir (prefix_name @ ''-'' @ uuid)
      in case mkdir dir of Some e \<Rightarrow> Inl e | None \<Rightarrow> Inr dir)"

definition test_ipc_endpoint :: "bool \<Rightarrow> string \<Rightarrow> string" where
  "test_ipc_endpoint windows uuid =
     (if windows then [CHR 0x5C, CHR 0x5C, CHR ''.'', CHR 0x5C] @ ''pipe'' @ [CHR 0x5C] @ ''punkgo-test-'' @ uuid
      else ''punkgo-test-'' @ uuid)"

definition make_request :: "string \<Rightarrow> request_type \<Rightarrow> json \<Rightarrow> request_envelope" where
  "make_request uuid request_type payload =
     \<lparr>rq_request_id = uuid, rq_request_type = request_type, rq_payload = payload\<rparr>"

text \<open>Requests with different identifiers get responses that tell them apart.\<close>

lemma make_request_answered:
  "rs_request_id (fst (handle_request kn (make_request uuid ty payload) s)) = uuid"
  by (auto simp: handle_request_def make_request_def response_ok_def response_err_structured_def
      split: prod.splits sum.splits)

section \<open>The tests pass\<close>

text \<open>Decimal texts are evaluated on binary integers.\<close>

function dec_of_int :: "int \<Rightarrow> string" where
  "dec_of_int i = (if i < 10 then [digit_char (nat i)]
     else dec_of_int (i div 10) @ [digit_char (nat (i mod 10))])"
  by pat_completeness auto
termination by (relation "measure nat") auto

declare dec_of_int.simps [simp del]

lemma dec_of_int_nat: "dec_of_int (int n) = dec_of_nat n"
proof (induction n rule: dec_of_nat.induct)
  case (1 n)
  have "nat (int n mod 10) = n mod 10" "int n div 10 = int (n div 10)"
    by (simp_all add: nat_mod_distrib zdiv_int)
  with 1 show ?case
    by (cases "n < 10")
      (simp_all add: dec_of_nat.simps [of n] dec_of_int.simps [of "int n"] del: of_nat_div)
qed

lemma fmt_int_code [code]: "fmt_int i = (if i < 0 then ''-'' @ dec_of_int (- i) else dec_of_int i)"
  using dec_of_int_nat [of "nat i"] dec_of_int_nat [of "nat (- i)"] by (auto simp: fmt_int_def)

lemma action_tests:
  "quote_execute_uses_output_bytes (json_vec stand_in)" "payload_hash_is_deterministic stand_in"
  by code_simp+

lemma observe_test: "quote_observe_scales_with_payload (json_vec stand_in)"
proof -
  have small: "quote_cost (json_vec stand_in) (make_action Observe (json_obj [])) = 1"
    "quote_cost (json_vec stand_in) (make_action Observe (json_obj [(''msg'', JString ''hello'')])) = 1"
    by code_simp+
  have "json_vec stand_in (json_obj [(''data'', JString (replicate n (CHR ''x'')))])
      = Some (str_bytes (''{'' @ debug_str ''data'' @ '':'' @ debug_str (replicate n (CHR ''x'')) @ ''}''))" for n
    by (simp add: json_vec_def stand_in_def json_obj_def)
  then have "quote_cost (json_vec stand_in) (make_action Observe
      (json_obj [(''data'', JString (replicate n (CHR ''x'')))])) = 1 + word_of_nat (n + 11) div 1024" for n
    by (simp add: quote_cost_def append_cost_def make_action_def str_bytes_def debug_str_def add.commute)
  then have "quote_cost (json_vec stand_in) (make_action Observe
      (json_obj [(''data'', JString (replicate 2048 (CHR ''x'')))])) = 3"
    by (simp only:) simp
  with small show ?thesis by (simp only: quote_observe_scales_with_payload_def) simp
qed

lemma actor_tests:
  "derive_agent_id_basic" "derive_agent_id_second_agent" "derive_agent_id_sanitizes_spaces"
  "build_lineage_human_creator" "build_lineage_agent_creator_fallback"
  "actor_type_roundtrip" "actor_status_roundtrip"
  by code_simp+

lemma boundary_tests:
  "boundary_observe_exempt plain_glob" "boundary_default_deny plain_glob"
  "boundary_exact_match plain_glob" "boundary_glob_star plain_glob"
  "boundary_glob_doublestar plain_glob" "boundary_action_mismatch plain_glob"
  "boundary_privileged_target_denied plain_glob" "boundary_privileged_target_root_allowed plain_glob"
  "boundary_child_subset_enforced plain_glob" "boundary_doublestar_parent_covers_all plain_glob"
  "is_privileged_target_detection" "glob_match_various_patterns plain_glob"
  by code_simp+

lemma consent_tests:
  "human_always_man_in_the_loop" "agent_is_man_on_the_loop" "human_authorized_without_envelope"
  "agent_rejected_without_envelope" "agent_authorized_with_active_envelope"
  "envelope_covers_matching_target_and_action plain_glob" "envelope_rejects_wrong_action plain_glob"
  "envelope_rejects_wrong_target plain_glob" "envelope_rejects_exhausted_budget plain_glob"
  "checkpoint_halt_on_budget_exhaustion" "checkpoint_report_on_threshold"
  "checkpoint_none_when_no_threshold_crossed" "envelope_reduction_budget_exceeds_parent plain_glob"
  "envelope_reduction_action_not_in_parent plain_glob" "envelope_reduction_valid_subset plain_glob"
  "lazy_expiry_not_expired" "lazy_expiry_expired"
  by code_simp+

lemma hold_trigger_tests:
  "hold_trigger_matches_target_and_action plain_glob" "hold_trigger_no_match_wrong_action plain_glob"
  "hold_trigger_no_match_wrong_target plain_glob" "hold_trigger_empty_rules_never_triggers plain_glob"
  "hold_trigger_multiple_rules_first_match plain_glob"
  by code_simp+

lemma policy_tests:
  "reject_empty_actor (json_vec stand_in)" "reject_empty_target (json_vec stand_in)"
  "accept_valid_mutate (json_vec stand_in)"
  by code_simp+

text \<open>A whole number of TOPS is computed exactly.\<close>

lemma compute_energy_whole:
  assumes "0 \<le> i" "i < 2 ^ 53"
  shows "compute_energy_per_tick (Fin (of_int i)) = max i 26"
proof -
  have "f64_round (of_int i) = Fin (of_int i)" "f64_round 1 = Fin 1"
    using f64_of_int_exact [OF assms] f64_of_int_exact [of 1] by (simp_all add: f64_of_int_def)
  moreover have "round_half_away (of_int i) = i"
  proof -
    have "\<lfloor>of_int i + 1 / 2 :: rat\<rfloor> = i" by linarith
    with assms(1) show ?thesis by (simp add: round_half_away_def)
  qed
  moreover have "sat_i64 i = i" using assms by (simp add: sat_i64_def)
  ultimately show ?thesis
    by (simp add: compute_energy_per_tick_def tops_scale_factor_def min_energy_per_tick_def
        f64_to_i64_by_def Let_def)
qed

lemma stellar_tests:
  "compute_energy_per_tick_with_default_tops" "compute_energy_per_tick_enforces_minimum"
  "compute_energy_per_tick_zero_tops" "compute_energy_per_tick_high_tops"
  "default_config_effective_energy" "config_explicit_override" "load_missing_config_returns_default"
proof -
  have "default_int8_tops = Fin (of_int 100)"
    using f64_of_int_exact [of 100] by (simp add: default_int8_tops_def f64_of_int_def)
  then show "compute_energy_per_tick_with_default_tops" "compute_energy_per_tick_enforces_minimum"
    "compute_energy_per_tick_zero_tops" "compute_energy_per_tick_high_tops"
    "default_config_effective_energy" "config_explicit_override" "load_missing_config_returns_default"
    using compute_energy_whole [of 100] compute_energy_whole [of 1] compute_energy_whole [of 0]
      compute_energy_whole [of 500]
    by (simp_all add: compute_energy_per_tick_with_default_tops_def
        compute_energy_per_tick_enforces_minimum_def compute_energy_per_tick_zero_tops_def
        compute_energy_per_tick_high_tops_def default_config_effective_energy_def
        config_explicit_override_def load_missing_config_returns_default_def load_stellar_config_def
        effective_energy_per_tick_def stellar_default_def min_energy_per_tick_def)
qed

lemma lifecycle_tests:
  "parse_update_energy_share_op" "parse_update_energy_share_missing_value" "parse_freeze_op"
  "parse_unfreeze_op" "parse_non_lifecycle_target" "parse_unknown_op"
  by code_simp+

lemma signing_tests:
  "generate_and_load_roundtrip stand_in (replicate 32 7)" "sign_and_verify stand_in (replicate 32 7)"
  "wrong_message_fails_verify stand_in (replicate 32 7)"
  "load_or_generate_creates_on_first_call stand_in (replicate 32 7)"
  "sign_checkpoint_produces_valid_extension stand_in (replicate 32 7)"
  "parse_sig_extension_rejects_garbage"
  "verify_checkpoint_signature_rejects_wrong_key stand_in (replicate 32 7) (replicate 32 8)"
  by code_simp+

lemma blob_tests:
  "put_get_roundtrip stand_in (str_bytes ''hello world'')" "deduplication stand_in"
  "different_content_different_oid stand_in" "exists_check stand_in"
  "get_missing_blob_returns_error" "invalid_oid_format" "binary_content stand_in" "empty_content stand_in"
  by code_simp+

end
