(* ===== verification/Spec2Isabelle.thy ===== *)
theory Spec2Isabelle
  imports Limit_Guarantees Component_Guarantees Server_Guarantees Usage Unit_Tests
begin

text \<open>
  A verification development of the punkgo kernel, an append-only event system with energy
  accounting, delegated authorization and a cryptographic audit log.

  \<^bold>\<open>The program and its parts.\<close> A client (\<open>bins/punkgo-cli\<close>) sends lines of JSON to the daemon
  (\<open>punkgo-kernel/src/daemon\<close>), which hands each request to the kernel
  (\<open>punkgo-kernel/src/runtime/kernel.rs\<close>). A submission passes through validation, authorization
  (boundary, lineage, envelope, hold rules), a quote, a reservation of energy, a commit
  transaction (settlement, creation of actors and envelopes, event, audit leaf) and steps after
  the commit (policy version, envelope budget, lifecycle). The state is an SQLite database with
  tables for accounts, events, actors, envelopes, holds, audit hashes and checkpoints. A
  background task credits energy to agents.

  \<^bold>\<open>Theories and sources.\<close>
  \<^item> \<open>Prelude\<close>, \<open>F64\<close>, \<open>Json\<close>: machine integers, text, keyed tables with the locales
    \<open>keyed_update\<close> and \<open>keyed_insert\<close>; binary64 arithmetic with its rounding bounds;
    \<open>serde_json::Value\<close>.
  \<^item> \<open>Errors\<close>, \<open>Action\<close>, \<open>Actor\<close>, \<open>Boundary\<close>, \<open>Consent\<close>, \<open>Policy\<close>: \<open>punkgo-core/src\<close>, one theory per
    file (\<open>stellar.rs\<close> and \<open>protocol.rs\<close> are in \<open>Policy\<close>).
  \<^item> \<open>Database\<close>: the tables as lists of rows in one record, transactions (\<open>'a tx\<close>: an error, or a
    value with the new state) and handlers (a result with the state committed so far), and the
    locale \<open>evolution\<close> of preorders on states.
  \<^item> \<open>Energy_Ledger\<close>, \<open>Event_Log\<close>, \<open>Actor_Store\<close>, \<open>Envelope_Store\<close>, \<open>Blob_Store\<close>, \<open>State_Store\<close>:
    \<open>punkgo-kernel/src/state\<close>; \<open>Signing\<close> and \<open>Audit_Log\<close>: \<open>signing.rs\<close> and \<open>audit.rs\<close>;
    \<open>Lifecycle\<close> and \<open>Energy_Producer\<close>: \<open>runtime\<close>.
  \<^item> \<open>Kernel_Parse\<close>, \<open>Kernel\<close>, \<open>Kernel_Read\<close>: \<open>runtime/kernel.rs\<close>; \<open>Ipc\<close>: \<open>daemon/ipc.rs\<close>; \<open>Daemon\<close>:
    \<open>daemon/main.rs\<close> with the configuration defaults and the producer loop; \<open>Cli\<close> and \<open>Usage\<close>:
    the client and its usage screen, whose examples and kinds of reads are shown to be understood.
  \<^item> \<open>Startup\<close>: opening of the store and the bootstrap of the kernel on an existing database
    (\<open>state/store.rs\<close>, \<open>runtime/kernel.rs\<close>). \<open>Server\<close>: the running daemon (\<open>daemon/ipc.rs\<close>, \<open>main\<close> of
    \<open>daemon/main.rs\<close>) as a state machine whose events are what the runtime and the operating
    system decide: a client connects, a line is read, an interval elapses, a signal comes, a task
    ends. The locale \<open>daemon_inv\<close> gives invariants of every run; \<open>daemon_main\<close> is a whole launch
    and \<open>database_after\<close> a sequence of launches. It also has the transport of the client.
  \<^item> \<open>Kernel_Steps\<close>, \<open>Kernel_Laws\<close>, \<open>Kernel_Reach\<close>: the kernel as a state machine. A step is one
    committed transaction (\<open>rstep\<close> of a request, \<open>kstep\<close> with the ticks of the producer), and
    every handler is a sequence of steps whatever its outcome, so what holds in every reachable
    state holds between any two transactions of concurrent requests. The
    locales \<open>step_laws\<close>, \<open>ledger_laws\<close>, \<open>log_laws\<close>, \<open>actor_laws\<close>, \<open>envelope_laws\<close> and \<open>hold_laws\<close>
    give an invariant or a preorder for all steps from laws of the operations on one table.
  \<^item> \<open>Submit_Properties\<close>, \<open>Hold_Properties\<close>, \<open>Read_Properties\<close>: lemmas on submissions, holds and
    queries. \<open>Energy_Accounting\<close>: the energy on the accounts plus the energy charged by the log,
    and what each step does to it. \<open>Demo\<close>: concrete data on which the kernel is evaluated.
  \<^item> \<open>Kernel_Guarantees\<close>, \<open>State_Guarantees\<close>, \<open>Limit_Guarantees\<close>, \<open>Component_Guarantees\<close>,
    \<open>Request_Guarantees\<close>, \<open>Server_Guarantees\<close> (and \<open>Energy_Ledger\<close>): the properties, each with a
    concrete instance where it has hypotheses.
  \<^item> \<open>Unit_Tests\<close>: the unit tests of the sources and the test kit, evaluated on the model with
    simple stand-ins for the external code.

  \<^bold>\<open>How the code is modelled.\<close> Integers keep their width where it matters: \<open>u64\<close> is a word,
  \<open>i64\<close> an integer with the casts and bounds written out, \<open>f64\<close> the rational number it denotes
  with round-to-nearest-even after every operation. Text is the list of its bytes. External code
  is a record of functions (\<open>ext\<close>): the JSON codec, glob patterns, SHA-256, SQL's LIKE, the tree
  functions of the tile library, hexadecimal coding and Ed25519. What a property needs of it is
  a named hypothesis (\<open>tlog_laws\<close>, \<open>hex_laws\<close>, \<open>ed_laws\<close>, \<open>decodes\<close>, reading back printed text).
  Clock readings and random identifiers are functions of the program point, so nothing assumes
  that time advances or that identifiers differ: a collision is an error of the database. A
  transaction that fails leaves the state unchanged. The re-submission of an approved action is
  a recursion of \<open>submit_action\<close> that terminates because each round uses up a pending hold; no
  definition needs fuel.

  \<^bold>\<open>What is shown.\<close>
  \<^item> Submissions: receipts name the last event of the log; unauthorized actions have no effect;
    costs are settled exactly; held actions are not executed, and a hold reserves, is approved as
    it was asked, or costs a fifth when it is rejected or times out; re-submission ends. A
    submission destroys no energy, and makes none except by opening an account.
  \<^item> Limits: what the separate transactions of a submission leave behind when a later one fails
    (a reservation without settlement, an overspent budget that is not consumed, an approval
    whose action is refused), and that the approval mark can be set by any caller.
  \<^item> States: energy, log, type, account and budget invariants of all reachable states; the stored
    audit hashes are the Merkle tree over the events; history, decided holds, actors and grants
    never change; what the startup check accepts, and that a negative cost, which a payload can
    name, makes the next start fail.
  \<^item> Components: the ledger refines a map of accounts; production distributes exactly; the quote
    does not wrap; delegation reduces rights; freezing reaches all descendants; expiry, execute
    payloads, signatures and blobs.
  \<^item> Requests: queries change nothing, paging is complete, what the client builds is what the
    kernel serves; the daemon is found by its address file, cleans up and replaces an older one.
  \<^item> The daemon: across clients, ticks and restarts the database stays in reachable states; each
    client gets its own responses in order; a shutdown command ends the daemon and cleans up.

  \<^bold>\<open>Bounds.\<close> The commitment cost is proved to be a fifth for reserved costs up to \<open>2 ^ 50\<close>, and the
  exact distribution of a tick for up to \<open>2 ^ 31\<close> units, \<open>2 ^ 20\<close> agents and shares between
  \<open>2 ^ -400\<close> and \<open>2 ^ 400\<close>; quotes are below \<open>2 ^ 57\<close>. The daemon polls an old process 30 times.

  \<^bold>\<open>Not modelled.\<close> What sockets, signals, file locks and commands of the operating system do is a
  parameter or an event. A turn of a connection in \<open>Server\<close> is a whole line; that requests also
  interleave between their transactions is covered by the step relation, whose invariants hold
  after every transaction. The texts of logs are left out, as are the SQLite
  engine beyond the statements the sources issue (I/O faults, busy timeouts), the
  integration tests, the benchmarks and the module files. Detail texts that external decoders
  put into error messages are left out.
\<close>

end
